(* ===== verification/Prelude.thy ===== *)
theory Prelude
  imports Main "HOL-Library.Word" "HOL-Library.State_Monad" "HOL-Library.List_Lexorder"
    "HOL-Library.Char_ord"
begin

text \<open>
  What every component of the development shares: Go's error values, panics, maps, strings,
  times and the state-passing style.

  \<^item> A Go \<open>error\<close> is a \<open>go_error\<close>: its text, and the Kubernetes status reason that
    \<open>apierrors.IsNotFound\<close> and the retry helper look at.
  \<^item> A call that can panic returns \<open>'a go\<close>: \<open>Ret\<close> of the value or \<open>Panic\<close>.
  \<^item> A Go map is \<open>('k, 'v) gomap\<close>: \<open>None\<close> is the nil map, which reads as empty and
    panics when it is written.
  \<^item> Effects are values of the library's \<open>('s, 'a) state\<close>; \<open>preserves f m\<close> says
    that running \<open>m\<close> leaves the observation \<open>f\<close> of the state as it was, and the
    collection \<open>preserve_intros\<close> proves such facts by following the shape of \<open>m\<close>.
\<close>

section \<open>Collections\<close>

named_theorems preserve_intros \<open>rules that derive what a computation leaves unchanged\<close>
named_theorems wp_simps \<open>equations that push a weakest precondition through the code\<close>
named_theorems wp_intros \<open>rules for the weakest precondition of calls with a known effect\<close>
named_theorems run_congs \<open>rules that compare the runs of two programs of the same shape\<close>
named_theorems run_simps \<open>equations that run a computation on a state\<close>

section \<open>Errors, panics and maps of Go\<close>

datatype err_kind = NotFound | Conflict | OtherError

datatype go_error = GoError (err_kind: err_kind) (err_text: string)

definition errors_new :: "string \<Rightarrow> go_error" where
  "errors_new msg = GoError OtherError msg"

definition IsNotFound :: "go_error \<Rightarrow> bool" where
  "IsNotFound e \<longleftrightarrow> err_kind e = NotFound"

definition IsConflict :: "go_error \<Rightarrow> bool" where
  "IsConflict e \<longleftrightarrow> err_kind e = Conflict"

lemma errors_new_kind [simp]:
  "\<not> IsNotFound (errors_new m)" "\<not> IsConflict (errors_new m)"
  by (simp_all add: errors_new_def IsNotFound_def IsConflict_def)

lemma not_found_no_conflict [simp]: "IsNotFound e \<Longrightarrow> \<not> IsConflict e"
  by (simp add: IsNotFound_def IsConflict_def)

datatype 'a go = Ret 'a | Panic

type_synonym ('k, 'v) gomap = "('k \<rightharpoonup> 'v) option"

definition gomap_get :: "('k, 'v) gomap \<Rightarrow> 'k \<Rightarrow> 'v option" where
  "gomap_get m k = (case m of None \<Rightarrow> None | Some f \<Rightarrow> f k)"

definition gomap_put :: "('k, 'v) gomap \<Rightarrow> 'k \<Rightarrow> 'v \<Rightarrow> ('k, 'v) gomap go" where
  "gomap_put m k v = (case m of None \<Rightarrow> Panic | Some f \<Rightarrow> Ret (Some (f(k \<mapsto> v))))"

lemma gomap_get_simps [simp]:
  "gomap_get None k = None" "gomap_get (Some f) k = f k"
  by (simp_all add: gomap_get_def)

lemma gomap_put_simps [simp]:
  "gomap_put None k v = Panic" "gomap_put (Some f) k v = Ret (Some (f(k \<mapsto> v)))"
  by (simp_all add: gomap_put_def)

section \<open>Namespaced names, ordered so that a set of them can be listed\<close>

datatype nsname = NSN (ns_of: string) (name_of: string)

instantiation nsname :: linorder
begin

definition less_eq_nsname :: "nsname \<Rightarrow> nsname \<Rightarrow> bool" where
  "less_eq_nsname a b \<longleftrightarrow> ns_of a < ns_of b \<or> (ns_of a = ns_of b \<and> name_of a \<le> name_of b)"

definition less_nsname :: "nsname \<Rightarrow> nsname \<Rightarrow> bool" where
  "less_nsname a b \<longleftrightarrow> ns_of a < ns_of b \<or> (ns_of a = ns_of b \<and> name_of a < name_of b)"

instance
  by standard
    (auto simp: less_eq_nsname_def less_nsname_def nsname.expand)

end

section \<open>Formatting: what the source uses of fmt, strconv and strings\<close>

fun show_nat :: "nat \<Rightarrow> string" where
  "show_nat n =
     (if n < 10 then [char_of (48 + n)] else show_nat (n div 10) @ [char_of (48 + n mod 10)])"

declare show_nat.simps [simp del]

text \<open>The verb \<open>%d\<close>.\<close>

definition show_int :: "int \<Rightarrow> string" where
  "show_int i = (if i < 0 then ''-'' @ show_nat (nat (- i)) else show_nat (nat i))"

definition hex_digit :: "nat \<Rightarrow> char" where
  "hex_digit n = char_of (if n < 10 then 48 + n else 87 + n)"

text \<open>
  The verb \<open>%q\<close> byte by byte: quotes, backslashes and control characters are escaped, every
  other byte is copied (a byte above 127 as part of a printable character).
\<close>

definition quote_char :: "char \<Rightarrow> string" where
  "quote_char c =
     (let n = of_char c :: nat in
      if n = 34 then [CHR 0x5C, CHR 0x22] else if n = 92 then [CHR 0x5C, CHR 0x5C]
      else if n = 7 then [CHR 0x5C, CHR ''a''] else if n = 8 then [CHR 0x5C, CHR ''b'']
      else if n = 12 then [CHR 0x5C, CHR ''f''] else if n = 10 then [CHR 0x5C, CHR ''n'']
      else if n = 13 then [CHR 0x5C, CHR ''r''] else if n = 9 then [CHR 0x5C, CHR ''t'']
      else if n = 11 then [CHR 0x5C, CHR ''v'']
      else if n < 32 \<or> n = 127
        then [CHR 0x5C, CHR ''x'', hex_digit (n div 16), hex_digit (n mod 16)]
      else [c])"

definition go_quote :: "string \<Rightarrow> string" where
  "go_quote s = [CHR 0x22] @ concat (map quote_char s) @ [CHR 0x22]"

fun strings_join :: "string \<Rightarrow> string list \<Rightarrow> string" where
  "strings_join sep [] = ''''"
| "strings_join sep [x] = x"
| "strings_join sep (x # xs) = x @ sep @ strings_join sep xs"

definition newline :: string where
  "newline = [CHR 0x0A]"

text \<open>A slice printed with \<open>%v\<close> or \<open>%s\<close>.\<close>

definition show_slice :: "string list \<Rightarrow> string" where
  "show_slice xs = ''['' @ strings_join '' '' xs @ '']''"

text \<open>\<open>types.NamespacedName.String\<close>, which the messages print.\<close>

definition show_nsname :: "nsname \<Rightarrow> string" where
  "show_nsname n = ns_of n @ ''/'' @ name_of n"

definition has_prefix :: "string \<Rightarrow> string \<Rightarrow> bool" where
  "has_prefix s p \<longleftrightarrow> take (length p) s = p"

section \<open>Times and durations in nanoseconds\<close>

text \<open>
  A \<open>time.Time\<close> has a wall clock reading (nanoseconds since the year 1, so the zero time is
  0) and, when it comes from \<open>time.Now\<close>, a monotonic one. Subtraction uses the monotonic
  readings when both times have one, and saturates at the ends of a 64-bit duration.
\<close>

datatype gotime = GoTime (wall: int) (mono: "int option")

definition zero_time :: gotime where
  "zero_time = GoTime 0 None"

definition sat_duration :: "int \<Rightarrow> int" where
  "sat_duration d = max (- (2 ^ 63)) (min (2 ^ 63 - 1) d)"

definition time_sub :: "gotime \<Rightarrow> gotime \<Rightarrow> int" where
  "time_sub a b =
     sat_duration (case (mono a, mono b) of (Some x, Some y) \<Rightarrow> x - y | _ \<Rightarrow> wall a - wall b)"

definition strip_mono :: "gotime \<Rightarrow> gotime" where
  "strip_mono t = GoTime (wall t) None"

lemma time_sub_self [simp]: "time_sub t t = 0"
  by (cases "mono t") (simp_all add: time_sub_def sat_duration_def)

lemma strip_mono_idem [simp]: "strip_mono (strip_mono t) = strip_mono t"
  by (simp add: strip_mono_def)

lemma sat_duration_mono: "a \<le> b \<Longrightarrow> sat_duration a \<le> sat_duration b"
  by (simp add: sat_duration_def)

section \<open>State passing\<close>

abbreviation ret :: "'a \<Rightarrow> ('s, 'a) state" where
  "ret \<equiv> State_Monad.return"

definition gets :: "('s \<Rightarrow> 'a) \<Rightarrow> ('s, 'a) state" where
  "gets f = State (\<lambda>s. (f s, s))"

definition modify :: "('s \<Rightarrow> 's) \<Rightarrow> ('s, unit) state" where
  "modify f = State (\<lambda>s. ((), f s))"

lemma run_state_gets [simp, run_simps]: "run_state (gets f) s = (f s, s)"
  by (simp add: gets_def)

lemma run_state_modify [simp, run_simps]: "run_state (modify f) s = ((), f s)"
  by (simp add: modify_def)

lemmas run_state_rules [run_simps] = run_state_bind run_state_return

text \<open>Two programs of the same shape run alike when their parts do.\<close>

lemma run_bind_cong [run_congs]:
  "run_state m' s = run_state m s \<Longrightarrow>
   (\<And>a t. run_state m s = (a, t) \<Longrightarrow> run_state (k' a) t = run_state (k a) t) \<Longrightarrow>
   run_state (State_Monad.bind m' k') s = run_state (State_Monad.bind m k) s"
  by (simp split: prod.splits)

lemma run_case_sum_cong [run_congs]:
  "(\<And>a. x = Inl a \<Longrightarrow> run_state (f' a) s = run_state (f a) s) \<Longrightarrow>
   (\<And>b. x = Inr b \<Longrightarrow> run_state (g' b) s = run_state (g b) s) \<Longrightarrow>
   run_state (case x of Inl a \<Rightarrow> f' a | Inr b \<Rightarrow> g' b) s = run_state (case x of Inl a \<Rightarrow> f a | Inr b \<Rightarrow> g b) s"
  by (cases x) simp_all

lemma run_case_option_cong [run_congs]:
  "(x = None \<Longrightarrow> run_state m' s = run_state m s) \<Longrightarrow>
   (\<And>a. x = Some a \<Longrightarrow> run_state (k' a) s = run_state (k a) s) \<Longrightarrow>
   run_state (case x of None \<Rightarrow> m' | Some a \<Rightarrow> k' a) s = run_state (case x of None \<Rightarrow> m | Some a \<Rightarrow> k a) s"
  by (cases x) simp_all

lemma run_case_prod_cong [run_congs]:
  "(\<And>a b. x = (a, b) \<Longrightarrow> run_state (f' a b) s = run_state (f a b) s) \<Longrightarrow>
   run_state (case x of (a, b) \<Rightarrow> f' a b) s = run_state (case x of (a, b) \<Rightarrow> f a b) s"
  by (cases x) simp_all

lemma run_case_go_cong [run_congs]:
  "(\<And>a. x = Ret a \<Longrightarrow> run_state (f' a) s = run_state (f a) s) \<Longrightarrow>
   (x = Panic \<Longrightarrow> run_state m' s = run_state m s) \<Longrightarrow>
   run_state (case x of Ret a \<Rightarrow> f' a | Panic \<Rightarrow> m') s = run_state (case x of Ret a \<Rightarrow> f a | Panic \<Rightarrow> m) s"
  by (cases x) simp_all

lemma run_if_cong [run_congs]:
  "(b \<Longrightarrow> run_state m' s = run_state m s) \<Longrightarrow> (\<not> b \<Longrightarrow> run_state n' s = run_state n s) \<Longrightarrow>
   run_state (if b then m' else n') s = run_state (if b then m else n) s"
  by simp

definition preserves :: "('s \<Rightarrow> 'b) \<Rightarrow> ('s, 'a) state \<Rightarrow> bool" where
  "preserves f m \<longleftrightarrow> (\<forall>s. f (snd (run_state m s)) = f s)"

lemma preservesD: "preserves f m \<Longrightarrow> run_state m s = (r, s') \<Longrightarrow> f s' = f s"
  unfolding preserves_def by (metis snd_conv)

lemma preserves_snd: "preserves f m \<Longrightarrow> f (snd (run_state m s)) = f s"
  by (simp add: preserves_def)

lemma preserves_ret [preserve_intros]: "preserves f (ret x)"
  by (simp add: preserves_def)

lemma preserves_gets [preserve_intros]: "preserves f (gets g)"
  by (simp add: preserves_def)

lemma preserves_modify [preserve_intros]: "(\<And>s. f (g s) = f s) \<Longrightarrow> preserves f (modify g)"
  by (simp add: preserves_def)

lemma preserves_bind [preserve_intros]:
  "preserves f m \<Longrightarrow> (\<And>a. preserves f (k a)) \<Longrightarrow> preserves f (State_Monad.bind m k)"
  by (simp add: preserves_def split: prod.splits) (metis snd_conv)

lemma preserves_if [preserve_intros]:
  "(b \<Longrightarrow> preserves f m) \<Longrightarrow> (\<not> b \<Longrightarrow> preserves f n) \<Longrightarrow> preserves f (if b then m else n)"
  by simp

lemma preserves_case_option [preserve_intros]:
  "preserves f m \<Longrightarrow> (\<And>a. preserves f (k a)) \<Longrightarrow> preserves f (case x of None \<Rightarrow> m | Some a \<Rightarrow> k a)"
  by (cases x) simp_all

lemma preserves_case_sum [preserve_intros]:
  "(\<And>a. preserves f (g a)) \<Longrightarrow> (\<And>b. preserves f (h b)) \<Longrightarrow>
   preserves f (case x of Inl a \<Rightarrow> g a | Inr b \<Rightarrow> h b)"
  by (cases x) simp_all

lemma preserves_case_prod [preserve_intros]:
  "(\<And>a b. preserves f (g a b)) \<Longrightarrow> preserves f (case x of (a, b) \<Rightarrow> g a b)"
  by (cases x) simp_all

lemma preserves_case_go [preserve_intros]:
  "(\<And>a. preserves f (g a)) \<Longrightarrow> preserves f m \<Longrightarrow> preserves f (case x of Ret a \<Rightarrow> g a | Panic \<Rightarrow> m)"
  by (cases x) simp_all

lemma preserves_Let [preserve_intros]: "preserves f (g a) \<Longrightarrow> preserves f (let x = a in g x)"
  by simp

lemma preserves_comp: "preserves f m \<Longrightarrow> preserves (\<lambda>s. g (f s)) m"
  by (simp add: preserves_def)

text \<open>
  The weakest precondition of a computation: \<open>wp m Q s\<close> says that running \<open>m\<close> from
  \<open>s\<close> ends with a result and a state that satisfy \<open>Q\<close>. The collection
  \<open>wp_simps\<close> pushes it through the code; calls with a known effect have rules
  in \<open>wp_intros\<close>.
\<close>

definition wp :: "('s, 'a) state \<Rightarrow> ('a \<Rightarrow> 's \<Rightarrow> bool) \<Rightarrow> 's \<Rightarrow> bool" where
  "wp m Q s \<longleftrightarrow> (case run_state m s of (a, t) \<Rightarrow> Q a t)"

lemma wpD: "wp m Q s \<Longrightarrow> run_state m s = (a, t) \<Longrightarrow> Q a t"
  by (simp add: wp_def)

lemma wp_mono: "wp m R s \<Longrightarrow> (\<And>a t. R a t \<Longrightarrow> Q a t) \<Longrightarrow> wp m Q s"
  by (auto simp: wp_def)

lemma wp_bind [wp_simps]: "wp (State_Monad.bind m k) Q = wp m (\<lambda>a. wp (k a) Q)"
  by (simp add: wp_def fun_eq_iff split: prod.splits)

lemma wp_ret [wp_simps]: "wp (ret x) Q = Q x"
  by (simp add: wp_def fun_eq_iff)

lemma wp_gets [wp_simps]: "wp (gets f) Q = (\<lambda>s. Q (f s) s)"
  by (simp add: wp_def fun_eq_iff)

lemma wp_modify [wp_simps]: "wp (modify f) Q = (\<lambda>s. Q () (f s))"
  by (simp add: wp_def fun_eq_iff)

lemma wp_if [wp_simps]:
  "wp (if b then m else n) Q = (\<lambda>s. (b \<longrightarrow> wp m Q s) \<and> (\<not> b \<longrightarrow> wp n Q s))"
  by simp

lemma wp_case_option [wp_simps]:
  "wp (case x of None \<Rightarrow> m | Some a \<Rightarrow> k a) Q =
     (\<lambda>s. (x = None \<longrightarrow> wp m Q s) \<and> (\<forall>a. x = Some a \<longrightarrow> wp (k a) Q s))"
  by (cases x) simp_all

lemma wp_case_sum [wp_simps]:
  "wp (case x of Inl a \<Rightarrow> g a | Inr b \<Rightarrow> h b) Q =
     (\<lambda>s. (\<forall>a. x = Inl a \<longrightarrow> wp (g a) Q s) \<and> (\<forall>b. x = Inr b \<longrightarrow> wp (h b) Q s))"
  by (cases x) simp_all

lemma wp_case_prod [wp_simps]:
  "wp (case x of (a, b) \<Rightarrow> g a b) Q = (\<lambda>s. \<forall>a b. x = (a, b) \<longrightarrow> wp (g a b) Q s)"
  by (cases x) simp_all

lemma wp_case_go [wp_simps]:
  "wp (case x of Ret a \<Rightarrow> g a | Panic \<Rightarrow> m) Q =
     (\<lambda>s. (\<forall>a. x = Ret a \<longrightarrow> wp (g a) Q s) \<and> (x = Panic \<longrightarrow> wp m Q s))"
  by (cases x) simp_all

lemma wp_case_list [wp_simps]:
  "wp (case x of [] \<Rightarrow> m | a # as \<Rightarrow> k a as) Q =
     (\<lambda>s. (x = [] \<longrightarrow> wp m Q s) \<and> (\<forall>a as. x = a # as \<longrightarrow> wp (k a as) Q s))"
  by (cases x) simp_all

lemma wp_preserves: "preserves f m \<Longrightarrow> (\<And>a t. f t = f s \<Longrightarrow> Q a t) \<Longrightarrow> wp m Q s"
  by (auto simp: wp_def preserves_def split: prod.splits) (metis snd_conv)

section \<open>Lists\<close>

text \<open>The first element that satisfies a test, as a list of at most one element.\<close>

definition first_match :: "('a \<Rightarrow> bool) \<Rightarrow> 'a list \<Rightarrow> 'a list" where
  "first_match p xs = take 1 (filter p xs)"

lemma first_match_simps [simp]:
  "first_match p [] = []"
  "first_match p (x # xs) = (if p x then [x] else first_match p xs)"
  by (simp_all add: first_match_def)

lemma first_match_length: "length (first_match p xs) \<le> 1"
  by (simp add: first_match_def)

lemma first_match_set: "x \<in> set (first_match p xs) \<Longrightarrow> x \<in> set xs \<and> p x"
  by (induction xs) (auto split: if_splits)

lemma inclusion_of_distinct_is_permutation:
  assumes "distinct xs" "length xs = length ys" "set xs \<subseteq> set ys"
  shows "set xs = set ys \<and> distinct ys"
proof -
  have "card (set xs) = length ys"
    using assms(1,2) by (simp add: distinct_card)
  moreover have "card (set xs) \<le> card (set ys)"
    using assms(3) by (simp add: card_mono)
  moreover have "card (set ys) \<le> length ys"
    by (rule card_length)
  ultimately have c: "card (set ys) = length ys" "card (set xs) = card (set ys)"
    by linarith+
  then show ?thesis
    using assms(3) by (simp add: card_subset_eq card_distinct)
qed

end
