(* ===== verification/Operator_Types.thy ===== *)
theory Operator_Types
  imports Prelude
begin

text \<open>
  The data of the operator: the constants of \<open>controllers/types\<close>, the custom resource of
  \<open>api/v1\<close>, the version string, and the fields the code reads or writes of the Kubernetes
  and OpenShift objects it handles. A field that the code only copies or compares as part of a
  whole is kept as an opaque component of the record.
\<close>

section \<open>Constants (controllers/types/names.go, defaults.go)\<close>

definition DefaultAntreaImage :: string where "DefaultAntreaImage = ''antrea/antrea-ubi:latest''"
definition DefaultManifestDir :: string where "DefaultManifestDir = ''antrea-manifest''"
definition DefaultMTU :: "64 word" where "DefaultMTU = 1450"

definition AntreaClusterOperatorName :: string where "AntreaClusterOperatorName = ''antrea''"
definition AntreaImageRenderKey :: string where "AntreaImageRenderKey = ''AntreaImage''"
definition ReleaseVersion :: string where "ReleaseVersion = ''ReleaseVersion''"
definition AntreaAgentConfigOption :: string where "AntreaAgentConfigOption = ''antrea-agent.conf''"
definition AntreaAgentConfigRenderKey :: string where
  "AntreaAgentConfigRenderKey = ''AntreaAgentConfig''"
definition AntreaCNIConfigOption :: string where "AntreaCNIConfigOption = ''antrea-cni.conflist''"
definition AntreaCNIConfigRenderKey :: string where "AntreaCNIConfigRenderKey = ''AntreaCNIConfig''"
definition AntreaControllerConfigOption :: string where
  "AntreaControllerConfigOption = ''antrea-controller.conf''"
definition AntreaControllerConfigRenderKey :: string where
  "AntreaControllerConfigRenderKey = ''AntreaControllerConfig''"
definition ServiceCIDROption :: string where "ServiceCIDROption = ''serviceCIDR''"
definition DefaultMTUOption :: string where "DefaultMTUOption = ''defaultMTU''"
definition OperatorNameSpace :: string where "OperatorNameSpace = ''antrea-operator''"
definition ClusterConfigName :: string where "ClusterConfigName = ''cluster''"
definition OperatorConfigName :: string where "OperatorConfigName = ''antrea-install''"
definition ClusterOperatorNetworkName :: string where "ClusterOperatorNetworkName = ''cluster''"
definition AntreaNamespace :: string where "AntreaNamespace = ''kube-system''"
definition AntreaAgentDaemonSetName :: string where "AntreaAgentDaemonSetName = ''antrea-agent''"
definition AntreaControllerDeploymentName :: string where
  "AntreaControllerDeploymentName = ''antrea-controller''"
definition AntreaConfigMapName :: string where "AntreaConfigMapName = ''antrea-config''"
definition CNIConfDirRenderKey :: string where "CNIConfDirRenderKey = ''CNIConfDir''"
definition CNIBinDirRenderKey :: string where "CNIBinDirRenderKey = ''CNIBinDir''"

lemmas option_key_defs = ServiceCIDROption_def DefaultMTUOption_def

lemmas render_key_defs = AntreaImageRenderKey_def ReleaseVersion_def AntreaAgentConfigRenderKey_def
  AntreaCNIConfigRenderKey_def AntreaControllerConfigRenderKey_def CNIConfDirRenderKey_def
  CNIBinDirRenderKey_def

lemma option_keys_differ [simp]:
  "DefaultMTUOption \<noteq> ServiceCIDROption" "ServiceCIDROption \<noteq> DefaultMTUOption"
  by (simp_all add: option_key_defs)

lemma default_image_not_empty [simp]: "DefaultAntreaImage \<noteq> ''''" "'''' \<noteq> DefaultAntreaImage"
  by (simp_all add: DefaultAntreaImage_def)

text \<open>The name under which the operator's custom resource is stored.\<close>

definition antrea_install_key :: nsname where
  "antrea_install_key = NSN OperatorNameSpace OperatorConfigName"

section \<open>The version string (internal/version)\<close>

definition GetVersion :: "string \<Rightarrow> string" where
  "GetVersion version = (if version = '''' then ''UNKNOWN'' else version)"

section \<open>Conditions, and the custom resource (api/v1)\<close>

record cond =
  ctype :: string
  cstatus :: string
  creason :: string
  cmessage :: string
  ctransition :: gotime

record install_spec =
  AntreaAgentConfig :: string
  AntreaCNIConfig :: string
  AntreaControllerConfig :: string
  AntreaPlatform :: string
  AntreaImage :: string

record antrea_install =
  install_name :: string
  install_spec :: install_spec
  install_conditions :: "cond list"

definition empty_install_spec :: install_spec where
  "empty_install_spec = \<lparr>AntreaAgentConfig = '''', AntreaCNIConfig = '''',
     AntreaControllerConfig = '''', AntreaPlatform = '''', AntreaImage = ''''\<rparr>"

section \<open>Objects of the cluster\<close>

record cluster_network_entry =
  entry_cidr :: string
  entry_host_prefix :: "32 word"

record network_spec =
  ClusterNetwork :: "cluster_network_entry list"
  ServiceNetwork :: "string list"
  NetworkType :: string
  spec_rest :: string

record network_status =
  st_ClusterNetwork :: "cluster_network_entry list"
  st_ServiceNetwork :: "string list"
  st_NetworkType :: string
  st_ClusterNetworkMTU :: "64 word"

record network =
  network_name :: string
  network_spec :: network_spec
  network_status :: network_status

text \<open>\<open>Network.operator.openshift.io\<close>: only the multi-network switch is read.\<close>

record op_network =
  DisableMultiNetwork :: "bool option"

record objref =
  ref_group :: string
  ref_resource :: string
  ref_namespace :: string
  ref_name :: string

record gvk =
  gvk_group :: string
  gvk_version :: string
  gvk_kind :: string

text \<open>The status of a ClusterOperator; the related objects are a slice that may be nil.\<close>

record co_status =
  cos_conditions :: "cond list"
  cos_versions :: "(string \<times> string) list"
  cos_related :: "objref list option"
  cos_extension :: string

record cluster_operator =
  co_name :: string
  co_annotations :: "(string, string) gomap"
  co_status :: co_status

definition new_cluster_operator :: "string \<Rightarrow> cluster_operator" where
  "new_cluster_operator n = \<lparr>co_name = n, co_annotations = None,
     co_status = \<lparr>cos_conditions = [], cos_versions = [], cos_related = None, cos_extension = ''''\<rparr>\<rparr>"

record daemonset_status =
  DesiredNumberScheduled :: "32 word"
  UpdatedNumberScheduled :: "32 word"
  NumberAvailable :: "32 word"
  NumberUnavailable :: "32 word"
  ds_ObservedGeneration :: "64 word"
  ds_status_rest :: string

record daemonset =
  ds_generation :: "64 word"
  ds_status :: daemonset_status

record deployment_status =
  AvailableReplicas :: "32 word"
  UnavailableReplicas :: "32 word"
  dep_ObservedGeneration :: "64 word"
  dep_status_rest :: string

record deployment =
  dep_generation :: "64 word"
  dep_status :: deployment_status
  dep_images :: "string list"

record configmap =
  cm_name :: string
  cm_data :: "(string, string) gomap"

text \<open>A rendered object; the owner references hold the names of the controlling owners.\<close>

record unstructured =
  un_group :: string
  un_version :: string
  un_kind :: string
  un_namespace :: string
  un_name :: string
  un_owners :: "string list"
  un_content :: string

definition un_key :: "unstructured \<Rightarrow> nsname" where
  "un_key u = NSN (un_namespace u) (un_name u)"

text \<open>\<open>GetAPIVersion\<close> joins group and version, leaving out an empty group.\<close>

definition un_api_version :: "unstructured \<Rightarrow> string" where
  "un_api_version u = (if un_group u = '''' then un_version u else un_group u @ ''/'' @ un_version u)"

section \<open>What the reconcilers write\<close>

text \<open>
  The successful writes of the reconcilers' client, in the vocabulary of the properties that say what a
  reconcile does to the cluster, and in which order: an object applied, the pods of a component deleted,
  a network configuration applied.
\<close>

datatype cluster_write = ObjectApplied unstructured | PodsDeleted string | NetworkApplied network

end
