(* ===== verification/Config.thy ===== *)
theory Config
  imports Operator_Types
begin

text \<open>
  \<open>controllers/config/config.go\<close>: filling defaults into the operator's configuration from the
  cluster's network configuration, validating it, rendering data for the manifests, and the tests
  for changes that decide what the reconciler applies.

  The YAML library, the address test and the constants of other packages are the fields of
  \<open>cfg_lib\<close>, an argument of the functions that use them. What the theorems assume of the YAML
  library is \<open>yaml_map_lawful\<close>: marshalling a map and reading it back keeps the keys, the
  strings and the integers.
\<close>

section \<open>Data and the libraries the code calls\<close>

datatype yval = YNull | YBool bool | YInt "64 word" | YFloat "64 word" | YStr string
  | YSeq "yval list" | YMap "(yval \<times> yval) list" | YOther string

record nodeipam =
  EnableNodeIPAM :: bool
  ClusterCIDRs :: "string list"
  ServiceCIDR :: string
  ServiceCIDRv6 :: string
  NodeCIDRMaskSizeIPv4 :: "64 word"
  NodeCIDRMaskSizeIPv6 :: "64 word"

record controller_config =
  FeatureGates :: "(string, bool) gomap"
  NodeIPAM :: nodeipam
  controller_rest :: string

type_synonym agent_config = "(string, yval) gomap"

record cfg_lib =
  yaml_unmarshal_map :: "string \<Rightarrow> go_error + agent_config"
  yaml_marshal_map :: "agent_config \<Rightarrow> go_error + string"
  yaml_unmarshal_ctl :: "string \<Rightarrow> go_error + controller_config"
  yaml_marshal_ctl :: "controller_config \<Rightarrow> go_error + string"
  is_ipv4_cidr :: "string \<Rightarrow> bool"
  nodeipam_gate :: string
  build_version :: string
  MultusCNIConfDir :: string
  SystemCNIConfDir :: string
  CNIBinDir :: string
  DefaultNetDir :: string
  DefaultCNIDir :: string

definition yaml_map_lawful :: "cfg_lib \<Rightarrow> bool" where
  "yaml_map_lawful L \<longleftrightarrow>
     (\<forall>m s. yaml_marshal_map L (Some m) = Inr s \<longrightarrow>
        (\<exists>m'. yaml_unmarshal_map L s = Inr (Some m') \<and> dom m' = dom m \<and>
           (\<forall>k v. m k = Some (YStr v) \<longrightarrow> m' k = Some (YStr v)) \<and>
           (\<forall>k n. m k = Some (YInt n) \<longrightarrow> m' k = Some (YInt n))))"

section \<open>Slices of strings\<close>

fun inSlice :: "string \<Rightarrow> string list \<Rightarrow> bool" where
  "inSlice str [] = False"
| "inSlice str (v # s) = (if str = v then True else inSlice str s)"

fun all_in_slice :: "string list \<Rightarrow> string list \<Rightarrow> bool" where
  "all_in_slice [] b = True"
| "all_in_slice (v # a) b = (if \<not> inSlice v b then False else all_in_slice a b)"

definition stringSliceEqual :: "string list \<Rightarrow> string list \<Rightarrow> bool" where
  "stringSliceEqual a b = (if length a \<noteq> length b then False else all_in_slice a b)"

lemma inSlice_iff [simp]: "inSlice s xs \<longleftrightarrow> s \<in> set xs"
  by (induction xs) auto

lemma all_in_slice_iff [simp]: "all_in_slice a b \<longleftrightarrow> set a \<subseteq> set b"
  by (induction a) auto

lemma stringSliceEqual_iff: "stringSliceEqual a b \<longleftrightarrow> length a = length b \<and> set a \<subseteq> set b"
  by (simp add: stringSliceEqual_def)

section \<open>Filling defaults\<close>

definition overwrite_service_cidr :: "network \<Rightarrow> agent_config \<Rightarrow> (go_error + agent_config) go" where
  "overwrite_service_cidr c m =
     (case ServiceNetwork (network_spec c) of
        [] \<Rightarrow> Panic
      | s # _ \<Rightarrow> (case gomap_put m ServiceCIDROption (YStr s) of
                    Panic \<Rightarrow> Panic | Ret m' \<Rightarrow> Ret (Inr m')))"

definition set_service_cidr ::
    "network option \<Rightarrow> agent_config \<Rightarrow> (go_error + agent_config) go" where
  "set_service_cidr clusterConfig m =
     (case clusterConfig of
        None \<Rightarrow>
          (case gomap_get m ServiceCIDROption of
             None \<Rightarrow> Ret (Inl (errors_new ''serviceCIDR should be specified on kubernetes.''))
           | Some _ \<Rightarrow> Ret (Inr m))
      | Some c \<Rightarrow>
          (case gomap_get m ServiceCIDROption of
             Some (YStr serviceCIDR) \<Rightarrow>
               if inSlice serviceCIDR (ServiceNetwork (network_spec c)) then Ret (Inr m)
               else overwrite_service_cidr c m
           | _ \<Rightarrow> overwrite_service_cidr c m))"

definition set_default_mtu :: "agent_config \<Rightarrow> agent_config go" where
  "set_default_mtu m =
     (case gomap_get m DefaultMTUOption of
        None \<Rightarrow> gomap_put m DefaultMTUOption (YInt DefaultMTU)
      | Some _ \<Rightarrow> Ret m)"

text \<open>
  The functions that fill change the object behind \<open>operConfig\<close>, so they return it next to
  their error.
\<close>

definition fillAgentConfig ::
    "cfg_lib \<Rightarrow> network option \<Rightarrow> antrea_install \<Rightarrow> antrea_install \<times> go_error option go" where
  "fillAgentConfig L clusterConfig operConfig =
     (case yaml_unmarshal_map L (AntreaAgentConfig (install_spec operConfig)) of
        Inl err \<Rightarrow>
          (operConfig, Ret (Some (errors_new (''failed to parse AntreaAgentConfig: '' @ err_text err))))
      | Inr m0 \<Rightarrow>
          (case set_service_cidr clusterConfig m0 of
             Panic \<Rightarrow> (operConfig, Panic)
           | Ret (Inl err) \<Rightarrow> (operConfig, Ret (Some err))
           | Ret (Inr m1) \<Rightarrow>
               (case set_default_mtu m1 of
                  Panic \<Rightarrow> (operConfig, Panic)
                | Ret m2 \<Rightarrow>
                    (case yaml_marshal_map L m2 of
                       Inl err \<Rightarrow>
                         (operConfig, Ret (Some (errors_new
                            (''failed to fill configurations in AntreaAgentConfig: '' @ err_text err))))
                     | Inr s \<Rightarrow>
                         (operConfig\<lparr>install_spec :=
                            (install_spec operConfig)\<lparr>AntreaAgentConfig := s\<rparr>\<rparr>, Ret None)))))"

fun fill_cluster_cidrs ::
    "cfg_lib \<Rightarrow> cluster_network_entry list \<Rightarrow> bool \<Rightarrow> bool \<Rightarrow> nodeipam \<Rightarrow> nodeipam" where
  "fill_cluster_cidrs L [] ip4found ip6found n = n"
| "fill_cluster_cidrs L (cidr # rest) ip4found ip6found n =
     (if is_ipv4_cidr L (entry_cidr cidr) then
        if \<not> ip4found then
          fill_cluster_cidrs L rest True ip6found
            (n\<lparr>ClusterCIDRs := ClusterCIDRs n @ [entry_cidr cidr],
               NodeCIDRMaskSizeIPv4 := ucast (entry_host_prefix cidr)\<rparr>)
        else fill_cluster_cidrs L rest ip4found ip6found n
      else
        if \<not> ip6found then
          fill_cluster_cidrs L rest ip4found True
            (n\<lparr>ClusterCIDRs := ClusterCIDRs n @ [entry_cidr cidr],
               NodeCIDRMaskSizeIPv6 := ucast (entry_host_prefix cidr)\<rparr>)
        else fill_cluster_cidrs L rest ip4found ip6found n)"

fun fill_service_cidrs :: "cfg_lib \<Rightarrow> string list \<Rightarrow> bool \<Rightarrow> bool \<Rightarrow> nodeipam \<Rightarrow> nodeipam" where
  "fill_service_cidrs L [] ip4found ip6found n = n"
| "fill_service_cidrs L (svcCIDR # rest) ip4found ip6found n =
     (if is_ipv4_cidr L svcCIDR then
        if \<not> ip4found then fill_service_cidrs L rest True ip6found (n\<lparr>ServiceCIDR := svcCIDR\<rparr>)
        else fill_service_cidrs L rest ip4found ip6found n
      else
        if \<not> ip6found then fill_service_cidrs L rest ip4found True (n\<lparr>ServiceCIDRv6 := svcCIDR\<rparr>)
        else fill_service_cidrs L rest ip4found ip6found n)"

definition fill_nodeipam :: "cfg_lib \<Rightarrow> network \<Rightarrow> nodeipam \<Rightarrow> nodeipam" where
  "fill_nodeipam L c n =
     fill_service_cidrs L (ServiceNetwork (network_spec c)) False False
       (fill_cluster_cidrs L (ClusterNetwork (network_spec c)) False False n)"

definition update_controller_config ::
    "cfg_lib \<Rightarrow> network option \<Rightarrow> controller_config \<Rightarrow> controller_config" where
  "update_controller_config L clusterConfig c0 =
     (let gates = (case FeatureGates c0 of None \<Rightarrow> Map.empty | Some g \<Rightarrow> g);
          c1 = c0\<lparr>FeatureGates := Some (gates(nodeipam_gate L \<mapsto> True)),
                  NodeIPAM := (NodeIPAM c0)\<lparr>EnableNodeIPAM := True\<rparr>\<rparr>
      in case clusterConfig of
           None \<Rightarrow> c1
         | Some c \<Rightarrow> c1\<lparr>NodeIPAM := fill_nodeipam L c (NodeIPAM c1)\<rparr>)"

definition fillControllerConfig ::
    "cfg_lib \<Rightarrow> network option \<Rightarrow> antrea_install \<Rightarrow> antrea_install \<times> go_error option go" where
  "fillControllerConfig L clusterConfig operConfig =
     (case yaml_unmarshal_ctl L (AntreaControllerConfig (install_spec operConfig)) of
        Inl err \<Rightarrow>
          (operConfig,
           Ret (Some (errors_new (''failed to parse AntreaControllerConfig: '' @ err_text err))))
      | Inr c0 \<Rightarrow>
          (case yaml_marshal_ctl L (update_controller_config L clusterConfig c0) of
             Inl err \<Rightarrow>
               (operConfig, Ret (Some (errors_new
                  (''failed to fill configurations in AntreaControllerConfig: '' @ err_text err))))
           | Inr s \<Rightarrow>
               (operConfig\<lparr>install_spec :=
                  (install_spec operConfig)\<lparr>AntreaControllerConfig := s\<rparr>\<rparr>, Ret None)))"

definition set_antrea_image :: "antrea_install \<Rightarrow> antrea_install" where
  "set_antrea_image oc =
     (if AntreaImage (install_spec oc) = '''' then
        oc\<lparr>install_spec := (install_spec oc)\<lparr>AntreaImage := DefaultAntreaImage\<rparr>\<rparr>
      else oc)"

definition fillConfig ::
    "cfg_lib \<Rightarrow> network option \<Rightarrow> antrea_install \<Rightarrow> bool \<Rightarrow> antrea_install \<times> go_error option go" where
  "fillConfig L clusterConfig operConfig isOpenShift =
     (case fillAgentConfig L clusterConfig operConfig of
        (oc1, Ret None) \<Rightarrow>
          (if isOpenShift then
             (case fillControllerConfig L clusterConfig oc1 of
                (oc2, Ret None) \<Rightarrow> (set_antrea_image oc2, Ret None)
              | r \<Rightarrow> r)
           else (set_antrea_image oc1, Ret None))
      | r \<Rightarrow> r)"

section \<open>Validation\<close>

definition invalidate :: "string list \<Rightarrow> go_error" where
  "invalidate errs = errors_new (''invalidate configuration: '' @ show_slice errs)"

definition service_cidr_errors :: "network option \<Rightarrow> agent_config \<Rightarrow> string list" where
  "service_cidr_errors clusterConfig m =
     (case clusterConfig of
        None \<Rightarrow> (case gomap_get m ServiceCIDROption of
                   None \<Rightarrow> [''serviceCIDR option can not be empty''] | Some _ \<Rightarrow> [])
      | Some c \<Rightarrow>
          (case gomap_get m ServiceCIDROption of
             Some (YStr serviceCIDR) \<Rightarrow>
               if inSlice serviceCIDR (ServiceNetwork (network_spec c)) then []
               else [''invalid serviceCIDR option: '' @ serviceCIDR @ '', available values are: '' @
                     show_slice (ServiceNetwork (network_spec c))]
           | _ \<Rightarrow> [''serviceCIDR option can not be empty'']))"

definition validateConfig :: "cfg_lib \<Rightarrow> network option \<Rightarrow> antrea_install \<Rightarrow> go_error option" where
  "validateConfig L clusterConfig operConfig =
     (let errs = (if AntreaImage (install_spec operConfig) = ''''
                  then [''antreaImage option can not be empty''] else [])
      in case yaml_unmarshal_map L (AntreaAgentConfig (install_spec operConfig)) of
           Inl err \<Rightarrow>
             Some (invalidate (errs @ [''failed to parse AntreaAgentConfig: '' @ err_text err]))
         | Inr m \<Rightarrow>
             (let errs' = errs @ service_cidr_errors clusterConfig m
              in if length errs' > 0 then Some (invalidate errs') else None))"

section \<open>Detecting changes\<close>

definition NeedApplyChange ::
    "antrea_install option \<Rightarrow> antrea_install \<Rightarrow> bool \<times> bool \<times> bool" where
  "NeedApplyChange preConfig curConfig =
     (case preConfig of
        None \<Rightarrow> (True, True, False)
      | Some pre \<Rightarrow>
          (let p = install_spec pre; c = install_spec curConfig;
               agent1 = (AntreaAgentConfig p \<noteq> AntreaAgentConfig c);
               agent2 = (if AntreaCNIConfig p \<noteq> AntreaCNIConfig c then True else agent1);
               ctl1 = (AntreaControllerConfig p \<noteq> AntreaControllerConfig c)
           in if AntreaImage p \<noteq> AntreaImage c then (True, True, True) else (agent2, ctl1, False)))"

definition HasClusterNetworkConfigChange :: "network option \<Rightarrow> network \<Rightarrow> bool" where
  "HasClusterNetworkConfigChange preConfig curConfig =
     (case preConfig of
        None \<Rightarrow> True
      | Some pre \<Rightarrow>
          (if \<not> stringSliceEqual (ServiceNetwork (network_spec pre))
                                 (ServiceNetwork (network_spec curConfig)) then True
           else
             (let preCIDRs = map entry_cidr (ClusterNetwork (network_spec pre));
                  curCIDRs = map entry_cidr (ClusterNetwork (network_spec curConfig))
              in if \<not> stringSliceEqual preCIDRs curCIDRs then True else False)))"

definition mtu_missing :: go_error where
  "mtu_missing = errors_new (DefaultMTUOption @ '' option can not be empty'')"

text \<open>
  The type assertion \<open>.(int)\<close> panics for every value that is not an integer; where it does
  not, comparing the two interface values compares their types and contents.
\<close>

definition HasDefaultMTUChange ::
    "cfg_lib \<Rightarrow> antrea_install option \<Rightarrow> antrea_install \<Rightarrow> (bool \<times> 64 word \<times> go_error option) go" where
  "HasDefaultMTUChange L preConfig curConfig =
     (case yaml_unmarshal_map L (AntreaAgentConfig (install_spec curConfig)) of
        Inl err \<Rightarrow> Ret (False, DefaultMTU, Some err)
      | Inr cur \<Rightarrow>
          (case gomap_get cur DefaultMTUOption of
             None \<Rightarrow> Ret (False, DefaultMTU, Some mtu_missing)
           | Some curDefaultMTU \<Rightarrow>
               (case preConfig of
                  None \<Rightarrow> (case curDefaultMTU of YInt n \<Rightarrow> Ret (True, n, None) | _ \<Rightarrow> Panic)
                | Some prec \<Rightarrow>
                    (case yaml_unmarshal_map L (AntreaAgentConfig (install_spec prec)) of
                       Inl err \<Rightarrow> Ret (False, DefaultMTU, Some err)
                     | Inr pre \<Rightarrow>
                         (case gomap_get pre DefaultMTUOption of
                            None \<Rightarrow> Ret (False, DefaultMTU, Some mtu_missing)
                          | Some preDefaultMTU \<Rightarrow>
                              (case curDefaultMTU of
                                 YInt n \<Rightarrow> Ret (preDefaultMTU \<noteq> curDefaultMTU, n, None)
                               | _ \<Rightarrow> Panic))))))"

definition BuildNetworkStatus :: "network \<Rightarrow> 64 word \<Rightarrow> network_status" where
  "BuildNetworkStatus clusterConfig defaultMTU =
     \<lparr>st_ClusterNetwork =
        map (\<lambda>cnet. \<lparr>entry_cidr = entry_cidr cnet, entry_host_prefix = entry_host_prefix cnet\<rparr>)
          (ClusterNetwork (network_spec clusterConfig)),
      st_ServiceNetwork = map (\<lambda>snet. snet) (ServiceNetwork (network_spec clusterConfig)),
      st_NetworkType = NetworkType (network_spec clusterConfig),
      st_ClusterNetworkMTU = defaultMTU\<rparr>"

section \<open>Data for the manifests\<close>

definition pluginCNIConfDir :: "cfg_lib \<Rightarrow> op_network \<Rightarrow> string" where
  "pluginCNIConfDir L conf =
     (case DisableMultiNetwork conf of
        None \<Rightarrow> MultusCNIConfDir L
      | Some d \<Rightarrow> if \<not> d then MultusCNIConfDir L else SystemCNIConfDir L)"

type_synonym render_data = "string \<rightharpoonup> string"

definition generateRenderData ::
    "cfg_lib \<Rightarrow> op_network option \<Rightarrow> antrea_install \<Rightarrow> render_data" where
  "generateRenderData L operatorNetwork operConfig =
     (let spec = install_spec operConfig;
          data = Map.empty
            (ReleaseVersion \<mapsto> GetVersion (build_version L),
             AntreaAgentConfigRenderKey \<mapsto> AntreaAgentConfig spec,
             AntreaCNIConfigRenderKey \<mapsto> AntreaCNIConfig spec,
             AntreaControllerConfigRenderKey \<mapsto> AntreaControllerConfig spec,
             AntreaImageRenderKey \<mapsto> AntreaImage spec)
      in case operatorNetwork of
           None \<Rightarrow> data(CNIConfDirRenderKey \<mapsto> DefaultNetDir L, CNIBinDirRenderKey \<mapsto> DefaultCNIDir L)
         | Some n \<Rightarrow>
             data(CNIConfDirRenderKey \<mapsto> pluginCNIConfDir L n, CNIBinDirRenderKey \<mapsto> CNIBinDir L))"

section \<open>The interface Config and its two implementations\<close>

record config_impl =
  FillConfigs :: "network option \<Rightarrow> antrea_install \<Rightarrow> antrea_install \<times> go_error option go"
  ValidateConfig :: "network option \<Rightarrow> antrea_install \<Rightarrow> go_error option"
  GenerateRenderData :: "op_network option \<Rightarrow> antrea_install \<Rightarrow> go_error + render_data"

definition ConfigOc :: "cfg_lib \<Rightarrow> config_impl" where
  "ConfigOc L =
     \<lparr>FillConfigs = (\<lambda>clusterConfig operConfig. fillConfig L clusterConfig operConfig True),
      ValidateConfig = (\<lambda>clusterConfig operConfig. validateConfig L clusterConfig operConfig),
      GenerateRenderData = (\<lambda>operatorNetwork operConfig.
        Inr (generateRenderData L operatorNetwork operConfig))\<rparr>"

definition ConfigK8s :: "cfg_lib \<Rightarrow> config_impl" where
  "ConfigK8s L =
     \<lparr>FillConfigs = (\<lambda>clusterConfig operConfig. fillConfig L clusterConfig operConfig False),
      ValidateConfig = (\<lambda>clusterConfig operConfig. validateConfig L clusterConfig operConfig),
      GenerateRenderData = (\<lambda>operatorNetwork operConfig.
        Inr (generateRenderData L operatorNetwork operConfig))\<rparr>"

end
