(* ===== verification/Reference_Lib.thy ===== *)
theory Reference_Lib
  imports Config
begin

text \<open>
  A concrete instance of the libraries that \<open>Config\<close> is parametric in, and sample
  configurations. It models no code: the witnesses of the properties use it to show that their
  hypotheses can hold. Its YAML codec knows the documents the examples need and refuses every other
  map, so it keeps the law \<open>yaml_map_lawful\<close>.
\<close>

definition sample_cidr :: string where "sample_cidr = ''10.96.0.0/12''"

definition agent_map :: "yval \<Rightarrow> yval \<Rightarrow> string \<rightharpoonup> yval" where
  "agent_map cidr mtu = Map.empty(ServiceCIDROption \<mapsto> cidr, DefaultMTUOption \<mapsto> mtu)"

definition ref_unmarshal_map :: "string \<Rightarrow> go_error + agent_config" where
  "ref_unmarshal_map s =
     (if s = '''' then Inr (Some Map.empty)
      else if s = ''null'' then Inr None
      else if s = ''user'' then Inr (Some (Map.empty(ServiceCIDROption \<mapsto> YStr sample_cidr)))
      else if s = ''text-mtu'' then Inr (Some (agent_map (YStr sample_cidr) (YStr ''1450'')))
      else if s = ''filled'' then Inr (Some (agent_map (YStr sample_cidr) (YInt DefaultMTU)))
      else if s = ''filled-text'' then Inr (Some (agent_map (YStr sample_cidr) (YStr ''1450'')))
      else Inl (errors_new ''yaml: cannot unmarshal''))"

definition ref_marshal_map :: "agent_config \<Rightarrow> go_error + string" where
  "ref_marshal_map m =
     (case m of
        None \<Rightarrow> Inr ''null''
      | Some f \<Rightarrow>
          (if f = agent_map (YStr sample_cidr) (YInt DefaultMTU) then Inr ''filled''
           else if f = agent_map (YStr sample_cidr) (YStr ''1450'') then Inr ''filled-text''
           else Inl (errors_new ''yaml: cannot marshal'')))"

definition ref_lib :: cfg_lib where
  "ref_lib =
     \<lparr>yaml_unmarshal_map = ref_unmarshal_map,
      yaml_marshal_map = ref_marshal_map,
      yaml_unmarshal_ctl = (\<lambda>s. Inr
        \<lparr>FeatureGates = None,
         NodeIPAM = \<lparr>EnableNodeIPAM = False, ClusterCIDRs = [], ServiceCIDR = '''', ServiceCIDRv6 = '''',
           NodeCIDRMaskSizeIPv4 = 0, NodeCIDRMaskSizeIPv6 = 0\<rparr>,
         controller_rest = s\<rparr>),
      yaml_marshal_ctl = (\<lambda>c. Inr (controller_rest c)),
      is_ipv4_cidr = (\<lambda>s. CHR ''.'' \<in> set s),
      nodeipam_gate = ''NodeIPAM'',
      build_version = '''',
      MultusCNIConfDir = ''/etc/kubernetes/cni/net.d'',
      SystemCNIConfDir = ''/etc/cni/net.d'',
      CNIBinDir = ''/var/lib/cni/bin'',
      DefaultNetDir = ''/etc/cni/net.d'',
      DefaultCNIDir = ''/opt/cni/bin''\<rparr>"

definition sample_install :: "string \<Rightarrow> antrea_install" where
  "sample_install agent =
     \<lparr>install_name = OperatorConfigName,
      install_spec = empty_install_spec\<lparr>AntreaAgentConfig := agent\<rparr>,
      install_conditions = []\<rparr>"

definition sample_network :: network where
  "sample_network =
     \<lparr>network_name = ClusterConfigName,
      network_spec =
        \<lparr>ClusterNetwork = [\<lparr>entry_cidr = ''192.168.0.0/16'', entry_host_prefix = 24\<rparr>],
         ServiceNetwork = [sample_cidr], NetworkType = ''antrea'', spec_rest = ''''\<rparr>,
      network_status =
        \<lparr>st_ClusterNetwork = [], st_ServiceNetwork = [], st_NetworkType = '''',
         st_ClusterNetworkMTU = 0\<rparr>\<rparr>"

lemma ref_lib_sel [simp]:
  "yaml_unmarshal_map ref_lib = ref_unmarshal_map" "yaml_marshal_map ref_lib = ref_marshal_map"
  "yaml_marshal_ctl ref_lib = (\<lambda>c. Inr (controller_rest c))"
  by (simp_all add: ref_lib_def)

lemma agent_map_inject [simp]: "agent_map a b = agent_map c d \<longleftrightarrow> a = c \<and> b = d"
proof
  assume eq: "agent_map a b = agent_map c d"
  have "agent_map a b ServiceCIDROption = Some a" "agent_map c d ServiceCIDROption = Some c"
    "agent_map a b DefaultMTUOption = Some b" "agent_map c d DefaultMTUOption = Some d"
    by (simp_all add: agent_map_def)
  with eq show "a = c \<and> b = d" by simp
qed simp

lemma agent_map_get [simp]:
  "agent_map a b ServiceCIDROption = Some a" "agent_map a b DefaultMTUOption = Some b"
  by (simp_all add: agent_map_def)

lemma user_map_filled:
  "Map.empty(ServiceCIDROption \<mapsto> a, DefaultMTUOption \<mapsto> b) = agent_map a b"
  by (simp add: agent_map_def)

lemma ref_lib_lawful: "yaml_map_lawful ref_lib"
  by (auto simp: yaml_map_lawful_def ref_marshal_map_def ref_unmarshal_map_def split: if_splits)

end
