(* ===== verification/Config_Correct.thy ===== *)
theory Config_Correct
  imports Reference_Lib "HOL-Library.Multiset"
begin

text \<open>
  What \<open>config.go\<close> guarantees: which inputs \<open>FillConfigs\<close> turns into which configurations,
  errors and panics; that what it fills passes \<open>ValidateConfig\<close>; the loops over the cluster's
  address ranges against a declarative choice of the first range of each family; and what the
  change tests see. The interface \<open>Config\<close> is the locale \<open>config_interface\<close>, interpreted
  on both implementations.
\<close>

section \<open>The agent configuration\<close>

text \<open>The service range the code settles on when the cluster offers \<open>offers\<close>.\<close>

definition chosen_cidr :: "string list \<Rightarrow> agent_config \<Rightarrow> string" where
  "chosen_cidr offers m =
     (case gomap_get m ServiceCIDROption of
        Some (YStr s) \<Rightarrow> if s \<in> set offers then s else hd offers
      | _ \<Rightarrow> hd offers)"

lemma chosen_cidr_offered: "offers \<noteq> [] \<Longrightarrow> chosen_cidr offers m \<in> set offers"
  by (auto simp: chosen_cidr_def split: option.splits yval.splits)

lemma overwrite_service_cidr_cases:
  "overwrite_service_cidr c m =
     (if ServiceNetwork (network_spec c) = [] \<or> m = None then Panic
      else Ret (Inr (Some ((the m)(ServiceCIDROption \<mapsto> YStr (hd (ServiceNetwork (network_spec c))))))))"
  by (cases m) (auto simp: overwrite_service_cidr_def split: list.splits)

lemma set_service_cidr_cluster:
  "set_service_cidr (Some c) m =
     (if ServiceNetwork (network_spec c) = [] \<or> m = None then Panic
      else Ret (Inr (Some ((the m)(ServiceCIDROption \<mapsto>
             YStr (chosen_cidr (ServiceNetwork (network_spec c)) m))))))"
proof (cases "\<exists>s. gomap_get m ServiceCIDROption = Some (YStr s) \<and> s \<in> set (ServiceNetwork (network_spec c))")
  case True
  then show ?thesis
    by (cases m) (auto simp: set_service_cidr_def chosen_cidr_def map_upd_triv)
next
  case False
  then show ?thesis
    by (auto simp: set_service_cidr_def chosen_cidr_def overwrite_service_cidr_cases
        split: option.splits yval.splits)
qed

lemma set_service_cidr_alone:
  "set_service_cidr None m =
     (if gomap_get m ServiceCIDROption = None
      then Ret (Inl (errors_new ''serviceCIDR should be specified on kubernetes.''))
      else Ret (Inr m))"
  by (simp add: set_service_cidr_def split: option.splits)

lemma set_default_mtu_Some:
  "set_default_mtu (Some f) =
     Ret (Some (if f DefaultMTUOption = None then f(DefaultMTUOption \<mapsto> YInt DefaultMTU) else f))"
  by (simp add: set_default_mtu_def split: option.splits)

lemmas agent_step_simps = set_service_cidr_cluster set_service_cidr_alone set_default_mtu_Some

text \<open>The map a successful fill marshals.\<close>

definition filled_agent :: "network option \<Rightarrow> (string \<rightharpoonup> yval) \<Rightarrow> (string \<rightharpoonup> yval)" where
  "filled_agent cc f =
     (let g = (case cc of None \<Rightarrow> f
               | Some c \<Rightarrow> f(ServiceCIDROption \<mapsto>
                   YStr (chosen_cidr (ServiceNetwork (network_spec c)) (Some f))))
      in if g DefaultMTUOption = None then g(DefaultMTUOption \<mapsto> YInt DefaultMTU) else g)"

lemma filled_agent_cidr:
  "filled_agent cc f ServiceCIDROption =
     (case cc of None \<Rightarrow> f ServiceCIDROption
      | Some c \<Rightarrow> Some (YStr (chosen_cidr (ServiceNetwork (network_spec c)) (Some f))))"
  by (simp add: filled_agent_def Let_def split: option.splits)

lemma filled_agent_mtu:
  "filled_agent cc f DefaultMTUOption =
     (case f DefaultMTUOption of None \<Rightarrow> Some (YInt DefaultMTU) | Some v \<Rightarrow> Some v)"
  by (auto simp: filled_agent_def split: option.splits)

lemma filled_agent_other:
  "k \<noteq> ServiceCIDROption \<Longrightarrow> k \<noteq> DefaultMTUOption \<Longrightarrow> filled_agent cc f k = f k"
  by (simp add: filled_agent_def Let_def split: option.splits)

text \<open>A successful fill of the agent configuration, taken apart.\<close>

lemma fillAgentConfig_okE:
  assumes "fillAgentConfig L cc oc = (oc', Ret None)"
  obtains f s where
    "yaml_unmarshal_map L (AntreaAgentConfig (install_spec oc)) = Inr (Some f)"
    "cc = None \<Longrightarrow> f ServiceCIDROption \<noteq> None"
    "\<And>c. cc = Some c \<Longrightarrow> ServiceNetwork (network_spec c) \<noteq> []"
    "yaml_marshal_map L (Some (filled_agent cc f)) = Inr s"
    "oc' = oc\<lparr>install_spec := (install_spec oc)\<lparr>AntreaAgentConfig := s\<rparr>\<rparr>"
proof -
  obtain m0 where m0: "yaml_unmarshal_map L (AntreaAgentConfig (install_spec oc)) = Inr m0"
    using assms by (cases "yaml_unmarshal_map L (AntreaAgentConfig (install_spec oc))")
      (auto simp: fillAgentConfig_def)
  obtain f where f: "m0 = Some f"
    using assms m0 by (cases m0; cases cc)
      (auto simp: fillAgentConfig_def agent_step_simps)
  have mtu: "set_default_mtu (Some (case cc of None \<Rightarrow> f
       | Some c \<Rightarrow> f(ServiceCIDROption \<mapsto>
           YStr (chosen_cidr (ServiceNetwork (network_spec c)) (Some f)))))
     = Ret (Some (filled_agent cc f))"
    by (simp add: set_default_mtu_Some filled_agent_def Let_def)
  show thesis
  proof (cases cc)
    case None
    then show thesis
      using assms m0 f mtu that
      by (auto simp: fillAgentConfig_def set_service_cidr_alone split: sum.splits if_splits)
  next
    case (Some c)
    then show thesis
      using assms m0 f mtu that
      by (auto simp: fillAgentConfig_def set_service_cidr_cluster split: sum.splits if_splits)
  qed
qed

lemma fillControllerConfig_okD:
  "fillControllerConfig L cc oc = (oc', r) \<Longrightarrow>
   \<exists>s. oc' = oc\<lparr>install_spec := (install_spec oc)\<lparr>AntreaControllerConfig := s\<rparr>\<rparr>"
  by (auto simp: fillControllerConfig_def split: sum.splits)
    (rule exI [where x = "AntreaControllerConfig (install_spec oc)"], simp)+

lemma fillControllerConfig_no_panic: "snd (fillControllerConfig L cc oc) \<noteq> Panic"
  by (simp add: fillControllerConfig_def split: sum.splits)

text \<open>What a successful fill leaves in the four fields it may write.\<close>

lemma fillConfig_okE:
  assumes "fillConfig L cc oc isOc = (oc', Ret None)"
  obtains oc1 s where
    "fillAgentConfig L cc oc = (oc1, Ret None)"
    "install_spec oc' = (install_spec oc1)\<lparr>AntreaControllerConfig := s,
       AntreaImage := (if AntreaImage (install_spec oc) = '''' then DefaultAntreaImage
                       else AntreaImage (install_spec oc))\<rparr>"
    "install_name oc' = install_name oc" "install_conditions oc' = install_conditions oc"
proof -
  obtain oc1 where oc1: "fillAgentConfig L cc oc = (oc1, Ret None)"
    using assms by (auto simp: fillConfig_def split: prod.splits go.splits option.splits)
  then obtain t where t: "oc1 = oc\<lparr>install_spec := (install_spec oc)\<lparr>AntreaAgentConfig := t\<rparr>\<rparr>"
    by (rule fillAgentConfig_okE) blast
  obtain oc2 where oc2: "oc' = set_antrea_image oc2"
      and step: "oc2 = oc1 \<or> fillControllerConfig L cc oc1 = (oc2, Ret None)"
    using assms oc1
    by (auto simp: fillConfig_def split: if_splits prod.splits go.splits option.splits)
  from step obtain s where "oc2 = oc1\<lparr>install_spec := (install_spec oc1)\<lparr>AntreaControllerConfig := s\<rparr>\<rparr>"
    by (metis fillControllerConfig_okD antrea_install.surjective antrea_install.update_convs(2)
        install_spec.surjective install_spec.update_convs(3))
  then show thesis
    using that [OF oc1, of s] oc2 t by (simp add: set_antrea_image_def)
qed

section \<open>The interface Config\<close>

text \<open>
  What the reconciler relies on when it calls a \<open>Config\<close>: a configuration that was filled
  without an error passes validation, filling never touches the resource's name, its conditions,
  its CNI configuration or its platform, a filled configuration names an image, and rendering
  does not fail.
\<close>

locale config_interface =
  fixes lawful :: "'l \<Rightarrow> bool"
    and impl :: "'l \<Rightarrow> config_impl"
  assumes fill_then_valid:
      "lawful L \<Longrightarrow> FillConfigs (impl L) cc oc = (oc', Ret None) \<Longrightarrow> ValidateConfig (impl L) cc oc' = None"
    and fill_frame:
      "FillConfigs (impl L) cc oc = (oc', Ret None) \<Longrightarrow>
         install_name oc' = install_name oc \<and> install_conditions oc' = install_conditions oc \<and>
         AntreaCNIConfig (install_spec oc') = AntreaCNIConfig (install_spec oc) \<and>
         AntreaPlatform (install_spec oc') = AntreaPlatform (install_spec oc)"
    and fill_image:
      "FillConfigs (impl L) cc oc = (oc', Ret None) \<Longrightarrow> AntreaImage (install_spec oc') \<noteq> ''''"
    and render_total: "\<exists>d. GenerateRenderData (impl L) on oc = Inr d"
begin

text \<open>The first three calls of \<open>applyConfig\<close> stop early only where filling does.\<close>

lemma prepare_cases:
  assumes "lawful L"
  obtains (fails) oc' err where "FillConfigs (impl L) cc oc = (oc', Ret (Some err))"
  | (panics) oc' where "FillConfigs (impl L) cc oc = (oc', Panic)"
  | (ready) oc' d where "FillConfigs (impl L) cc oc = (oc', Ret None)"
      "ValidateConfig (impl L) cc oc' = None" "GenerateRenderData (impl L) on oc' = Inr d"
      "AntreaImage (install_spec oc') \<noteq> ''''"
proof -
  obtain oc' r where r: "FillConfigs (impl L) cc oc = (oc', r)"
    by fastforce
  obtain d where "GenerateRenderData (impl L) on oc' = Inr d"
    using render_total by blast
  with r assms that show thesis
    by (cases r rule: go.exhaust; cases "case r of Ret e \<Rightarrow> e | Panic \<Rightarrow> None")
      (auto dest: fill_then_valid fill_image)
qed

end

lemma valid_iff:
  "validateConfig L cc oc = None \<longleftrightarrow>
     AntreaImage (install_spec oc) \<noteq> '''' \<and>
     (\<exists>m. yaml_unmarshal_map L (AntreaAgentConfig (install_spec oc)) = Inr m \<and>
        (case cc of None \<Rightarrow> gomap_get m ServiceCIDROption \<noteq> None
         | Some c \<Rightarrow> gomap_get m ServiceCIDROption \<in>
             Some ` YStr ` set (ServiceNetwork (network_spec c))))"
  by (auto simp: validateConfig_def service_cidr_errors_def Let_def
      split: sum.splits option.splits yval.splits if_splits)

lemma fill_then_validate:
  assumes "yaml_map_lawful L" and "fillConfig L cc oc isOc = (oc', Ret None)"
  shows "validateConfig L cc oc' = None"
proof -
  from assms(2) obtain oc1 s where oc1: "fillAgentConfig L cc oc = (oc1, Ret None)"
      and oc': "install_spec oc' = (install_spec oc1)\<lparr>AntreaControllerConfig := s,
        AntreaImage := (if AntreaImage (install_spec oc) = '''' then DefaultAntreaImage
                        else AntreaImage (install_spec oc))\<rparr>"
    by (rule fillConfig_okE)
  from oc1 obtain f t where
      some: "cc = None \<Longrightarrow> f ServiceCIDROption \<noteq> None"
      "\<And>c. cc = Some c \<Longrightarrow> ServiceNetwork (network_spec c) \<noteq> []"
      and t: "yaml_marshal_map L (Some (filled_agent cc f)) = Inr t"
      and oc1': "oc1 = oc\<lparr>install_spec := (install_spec oc)\<lparr>AntreaAgentConfig := t\<rparr>\<rparr>"
    by (rule fillAgentConfig_okE) blast
  from assms(1) t obtain m' where m': "yaml_unmarshal_map L t = Inr (Some m')"
      "dom m' = dom (filled_agent cc f)"
      "\<And>k v. filled_agent cc f k = Some (YStr v) \<Longrightarrow> m' k = Some (YStr v)"
    unfolding yaml_map_lawful_def by blast
  have "case cc of None \<Rightarrow> m' ServiceCIDROption \<noteq> None
      | Some c \<Rightarrow> m' ServiceCIDROption \<in> Some ` YStr ` set (ServiceNetwork (network_spec c))"
    using some m'(2) m'(3) [of ServiceCIDROption]
    by (auto simp: filled_agent_cidr dom_def chosen_cidr_offered split: option.splits)
  with m'(1) show ?thesis
    unfolding valid_iff by (cases cc) (auto simp: oc' oc1')
qed

lemma fill_frame_image:
  assumes "fillConfig L cc oc isOc = (oc', Ret None)"
  shows "install_name oc' = install_name oc \<and> install_conditions oc' = install_conditions oc \<and>
         AntreaCNIConfig (install_spec oc') = AntreaCNIConfig (install_spec oc) \<and>
         AntreaPlatform (install_spec oc') = AntreaPlatform (install_spec oc)"
    and "AntreaImage (install_spec oc') \<noteq> ''''"
  using assms by (auto elim!: fillConfig_okE fillAgentConfig_okE split: if_splits)

interpretation oc_config: config_interface yaml_map_lawful ConfigOc
  by unfold_locales (auto simp: ConfigOc_def dest: fill_then_validate fill_frame_image)

interpretation k8s_config: config_interface yaml_map_lawful ConfigK8s
  by unfold_locales (auto simp: ConfigK8s_def dest: fill_then_validate fill_frame_image)

section \<open>The choice of address ranges\<close>

text \<open>The elements of a list that are the first with their key.\<close>

fun first_by :: "('a \<Rightarrow> 'b) \<Rightarrow> 'a list \<Rightarrow> 'a list" where
  "first_by key [] = []"
| "first_by key (x # xs) = x # first_by key (filter (\<lambda>y. key y \<noteq> key x) xs)"

lemma first_by_constant: "\<forall>y \<in> set ys. key y = b \<Longrightarrow> length (first_by key ys) \<le> 1"
  by (cases ys) (auto simp: filter_empty_conv)

lemma first_by_bool_length: "length (first_by (key :: 'a \<Rightarrow> bool) xs) \<le> 2"
proof (cases xs)
  case (Cons x ys)
  have "length (first_by key (filter (\<lambda>y. key y \<noteq> key x) ys)) \<le> 1"
    by (rule first_by_constant [where b = "\<not> key x"]) auto
  with Cons show ?thesis by simp
qed simp

text \<open>An address range of the cluster network is of the first family when its address is.\<close>

abbreviation entry_v4 :: "cfg_lib \<Rightarrow> cluster_network_entry \<Rightarrow> bool" where
  "entry_v4 L e \<equiv> is_ipv4_cidr L (entry_cidr e)"

lemma cluster_cidrs_loop:
  "ClusterCIDRs (fill_cluster_cidrs L xs f4 f6 n) =
     ClusterCIDRs n @ map entry_cidr
       (first_by (entry_v4 L) (filter (\<lambda>e. if entry_v4 L e then \<not> f4 else \<not> f6) xs))"
proof (induction L xs f4 f6 n rule: fill_cluster_cidrs.induct)
  case (2 L cidr rest f4 f6 n)
  have "filter (\<lambda>e. entry_v4 L e \<noteq> True) (filter (\<lambda>e. if entry_v4 L e then \<not> f4 else \<not> f6) rest)
      = filter (\<lambda>e. if entry_v4 L e then \<not> True else \<not> f6) rest"
    and "filter (\<lambda>e. entry_v4 L e \<noteq> False) (filter (\<lambda>e. if entry_v4 L e then \<not> f4 else \<not> f6) rest)
      = filter (\<lambda>e. if entry_v4 L e then \<not> f4 else \<not> True) rest"
    by (induction rest) simp_all
  with 2 show ?case
    by (cases "entry_v4 L cidr"; cases f4; cases f6) (simp_all del: filter_filter)
qed simp

lemma cluster_mask4_loop:
  "NodeCIDRMaskSizeIPv4 (fill_cluster_cidrs L xs f4 f6 n) =
     (case first_match (entry_v4 L) xs of
        [] \<Rightarrow> NodeCIDRMaskSizeIPv4 n
      | e # _ \<Rightarrow> if f4 then NodeCIDRMaskSizeIPv4 n else ucast (entry_host_prefix e))"
  by (induction L xs f4 f6 n rule: fill_cluster_cidrs.induct) (auto split: list.splits)

lemma cluster_mask6_loop:
  "NodeCIDRMaskSizeIPv6 (fill_cluster_cidrs L xs f4 f6 n) =
     (case first_match (\<lambda>e. \<not> entry_v4 L e) xs of
        [] \<Rightarrow> NodeCIDRMaskSizeIPv6 n
      | e # _ \<Rightarrow> if f6 then NodeCIDRMaskSizeIPv6 n else ucast (entry_host_prefix e))"
  by (induction L xs f4 f6 n rule: fill_cluster_cidrs.induct) (auto split: list.splits)

lemma cluster_loop_frame:
  "EnableNodeIPAM (fill_cluster_cidrs L xs f4 f6 n) = EnableNodeIPAM n"
  "ServiceCIDR (fill_cluster_cidrs L xs f4 f6 n) = ServiceCIDR n"
  "ServiceCIDRv6 (fill_cluster_cidrs L xs f4 f6 n) = ServiceCIDRv6 n"
  by (induction L xs f4 f6 n rule: fill_cluster_cidrs.induct) auto

lemma service_cidr_loop:
  "ServiceCIDR (fill_service_cidrs L xs f4 f6 n) =
     (case first_match (is_ipv4_cidr L) xs of
        [] \<Rightarrow> ServiceCIDR n | s # _ \<Rightarrow> if f4 then ServiceCIDR n else s)"
  by (induction L xs f4 f6 n rule: fill_service_cidrs.induct) (auto split: list.splits)

lemma service_cidr6_loop:
  "ServiceCIDRv6 (fill_service_cidrs L xs f4 f6 n) =
     (case first_match (\<lambda>s. \<not> is_ipv4_cidr L s) xs of
        [] \<Rightarrow> ServiceCIDRv6 n | s # _ \<Rightarrow> if f6 then ServiceCIDRv6 n else s)"
  by (induction L xs f4 f6 n rule: fill_service_cidrs.induct) (auto split: list.splits)

lemma service_loop_frame:
  "EnableNodeIPAM (fill_service_cidrs L xs f4 f6 n) = EnableNodeIPAM n"
  "ClusterCIDRs (fill_service_cidrs L xs f4 f6 n) = ClusterCIDRs n"
  "NodeCIDRMaskSizeIPv4 (fill_service_cidrs L xs f4 f6 n) = NodeCIDRMaskSizeIPv4 n"
  "NodeCIDRMaskSizeIPv6 (fill_service_cidrs L xs f4 f6 n) = NodeCIDRMaskSizeIPv6 n"
  by (induction L xs f4 f6 n rule: fill_service_cidrs.induct) auto

lemmas nodeipam_loops = cluster_cidrs_loop cluster_mask4_loop cluster_mask6_loop cluster_loop_frame
  service_cidr_loop service_cidr6_loop service_loop_frame

lemma updated_cluster_cidrs:
  "ClusterCIDRs (NodeIPAM (update_controller_config L (Some c) c0)) =
     ClusterCIDRs (NodeIPAM c0) @
     map entry_cidr (first_by (entry_v4 L) (ClusterNetwork (network_spec c)))"
  by (simp add: update_controller_config_def fill_nodeipam_def nodeipam_loops Let_def)

lemma ref_fill_k8s:
  "FillConfigs (ConfigK8s ref_lib) None (sample_install ''user'') =
     ((sample_install ''filled'')\<lparr>install_spec :=
        (install_spec (sample_install ''filled''))\<lparr>AntreaImage := DefaultAntreaImage\<rparr>\<rparr>, Ret None)"
  by (simp add: ConfigK8s_def fillConfig_def fillAgentConfig_def agent_step_simps
      ref_unmarshal_map_def ref_marshal_map_def user_map_filled set_antrea_image_def
      sample_install_def empty_install_spec_def)

lemma ref_fill_oc:
  "FillConfigs (ConfigOc ref_lib) (Some sample_network) (sample_install ''user'') =
     ((sample_install ''filled'')\<lparr>install_spec :=
        (install_spec (sample_install ''filled''))\<lparr>AntreaImage := DefaultAntreaImage\<rparr>\<rparr>, Ret None)"
  by (simp add: ConfigOc_def fillConfig_def fillAgentConfig_def agent_step_simps chosen_cidr_def
      ref_unmarshal_map_def ref_marshal_map_def user_map_filled set_antrea_image_def
      fillControllerConfig_def update_controller_config_def Let_def fill_nodeipam_def
      ref_lib_def sample_install_def empty_install_spec_def sample_network_def)

end
