(* ===== verification/Config_Properties.thy ===== *)
theory Config_Properties
  imports Config_Correct
begin

text \<open>
  The properties of \<open>controllers/config/config.go\<close>, each with a witness at the sample
  configuration where it has hypotheses.
\<close>

section \<open>Filling and validating\<close>

text \<open>C6: On both platforms a configuration that FillConfigs filled without an error is accepted by
  ValidateConfig for the same cluster network, so that validation in applyConfig can only reject
  what filling did not produce.\<close>

theorem filled_configuration_validates:
  assumes "yaml_map_lawful L"
    and "impl = ConfigOc L \<or> impl = ConfigK8s L"
    and "FillConfigs impl cc oc = (oc', Ret None)"
  shows "ValidateConfig impl cc oc' = None \<and> AntreaImage (install_spec oc') \<noteq> '''' \<and>
    AntreaCNIConfig (install_spec oc') = AntreaCNIConfig (install_spec oc)"
  using assms oc_config.fill_then_valid k8s_config.fill_then_valid
    oc_config.fill_image k8s_config.fill_image oc_config.fill_frame k8s_config.fill_frame
  by metis

lemma filled_configuration_validates_witness:
  "ValidateConfig (ConfigOc ref_lib) (Some sample_network)
     ((sample_install ''filled'')\<lparr>install_spec :=
        (install_spec (sample_install ''filled''))\<lparr>AntreaImage := DefaultAntreaImage\<rparr>\<rparr>) = None"
  using filled_configuration_validates [OF ref_lib_lawful disjI1 [OF refl] ref_fill_oc] by simp

text \<open>C24: What filling does to the agent configuration on OpenShift. The stored text decodes to the
  user's map with the service range set to the user's value where the cluster offers it and to the
  first offered range otherwise, with the default MTU only where the user set none; every other
  string or integer entry is kept, no key is dropped, and nothing else of the resource changes.\<close>

theorem fill_agent_effect:
  assumes "yaml_map_lawful L" and "fillAgentConfig L (Some c) oc = (oc', Ret None)"
    and "yaml_unmarshal_map L (AntreaAgentConfig (install_spec oc)) = Inr (Some m)"
  shows "\<exists>m' s. oc' = oc\<lparr>install_spec := (install_spec oc)\<lparr>AntreaAgentConfig := s\<rparr>\<rparr> \<and>
    yaml_unmarshal_map L s = Inr (Some m') \<and>
    m' ServiceCIDROption = Some (YStr (chosen_cidr (ServiceNetwork (network_spec c)) (Some m))) \<and>
    chosen_cidr (ServiceNetwork (network_spec c)) (Some m) \<in> set (ServiceNetwork (network_spec c)) \<and>
    (m DefaultMTUOption = None \<longrightarrow> m' DefaultMTUOption = Some (YInt DefaultMTU)) \<and>
    (\<forall>k v. k \<noteq> ServiceCIDROption \<longrightarrow> m k = Some v \<longrightarrow> (\<exists>t. v = YStr t) \<or> (\<exists>n. v = YInt n) \<longrightarrow>
       m' k = Some v) \<and>
    dom m' = dom m \<union> {ServiceCIDROption, DefaultMTUOption}"
proof -
  from assms(2) obtain f s where
      f: "yaml_unmarshal_map L (AntreaAgentConfig (install_spec oc)) = Inr (Some f)"
      and some: "ServiceNetwork (network_spec c) \<noteq> []"
      and s: "yaml_marshal_map L (Some (filled_agent (Some c) f)) = Inr s"
      and oc': "oc' = oc\<lparr>install_spec := (install_spec oc)\<lparr>AntreaAgentConfig := s\<rparr>\<rparr>"
    by (rule fillAgentConfig_okE) blast
  from f assms(3) have fm: "f = m" by simp
  from assms(1) s obtain m' where m': "yaml_unmarshal_map L s = Inr (Some m')"
      "dom m' = dom (filled_agent (Some c) f)"
      "\<And>k v. filled_agent (Some c) f k = Some (YStr v) \<Longrightarrow> m' k = Some (YStr v)"
      "\<And>k n. filled_agent (Some c) f k = Some (YInt n) \<Longrightarrow> m' k = Some (YInt n)"
    unfolding yaml_map_lawful_def by blast
  have "filled_agent (Some c) m k = Some v" if "k \<noteq> ServiceCIDROption" "m k = Some v" for k v
    using that by (cases "k = DefaultMTUOption") (simp_all add: filled_agent_mtu filled_agent_other)
  then have keep: "\<forall>k v. k \<noteq> ServiceCIDROption \<longrightarrow> m k = Some v \<longrightarrow>
      (\<exists>t. v = YStr t) \<or> (\<exists>n. v = YInt n) \<longrightarrow> m' k = Some v"
    using m'(3,4) fm by blast
  have "dom (filled_agent (Some c) m) = dom m \<union> {ServiceCIDROption, DefaultMTUOption}"
    by (auto simp: filled_agent_def Let_def split: if_splits)
  with m'(2) fm have keys: "dom m' = dom m \<union> {ServiceCIDROption, DefaultMTUOption}"
    by simp
  have cidr: "m' ServiceCIDROption =
      Some (YStr (chosen_cidr (ServiceNetwork (network_spec c)) (Some m)))"
    using m'(3) [of ServiceCIDROption] fm by (simp add: filled_agent_cidr)
  have mtu: "m DefaultMTUOption = None \<longrightarrow> m' DefaultMTUOption = Some (YInt DefaultMTU)"
    using m'(4) [of DefaultMTUOption] fm by (simp add: filled_agent_mtu)
  have offered: "chosen_cidr (ServiceNetwork (network_spec c)) (Some m)
      \<in> set (ServiceNetwork (network_spec c))"
    by (rule chosen_cidr_offered [OF some])
  show ?thesis
    by (rule exI [of _ m'], rule exI [of _ s], intro conjI)
      (rule oc' m'(1) cidr offered mtu keep keys)+
qed

lemma fill_agent_effect_witness:
  "\<exists>m'. yaml_unmarshal_map ref_lib ''filled'' = Inr (Some m') \<and>
     m' DefaultMTUOption = Some (YInt DefaultMTU)"
proof -
  have h: "fillAgentConfig ref_lib (Some sample_network) (sample_install ''user'') =
      (sample_install ''filled'', Ret None)"
    by (simp add: fillAgentConfig_def agent_step_simps chosen_cidr_def ref_unmarshal_map_def
        ref_marshal_map_def user_map_filled sample_install_def sample_network_def empty_install_spec_def)
  have u: "yaml_unmarshal_map ref_lib (AntreaAgentConfig (install_spec (sample_install ''user''))) =
      Inr (Some (Map.empty(ServiceCIDROption \<mapsto> YStr sample_cidr)))"
    by (simp add: ref_unmarshal_map_def sample_install_def empty_install_spec_def)
  show ?thesis
    using fill_agent_effect [OF ref_lib_lawful h u]
    by (auto simp: sample_install_def empty_install_spec_def ref_unmarshal_map_def)
qed

text \<open>C25: Filling the agent configuration panics exactly when the configuration parses, there is a
  cluster network, and either it offers no service range (the index expression on an empty slice)
  or the text decodes to the nil map (the assignment to an entry of a nil map).\<close>

theorem fill_agent_panics_iff:
  "snd (fillAgentConfig L cc oc) = Panic \<longleftrightarrow>
     (\<exists>m c. yaml_unmarshal_map L (AntreaAgentConfig (install_spec oc)) = Inr m \<and> cc = Some c \<and>
        (ServiceNetwork (network_spec c) = [] \<or> m = None))"
proof (cases "yaml_unmarshal_map L (AntreaAgentConfig (install_spec oc))")
  case (Inr m)
  then show ?thesis
    by (cases cc; cases m)
      (auto simp: fillAgentConfig_def agent_step_simps split: sum.splits)
qed (simp add: fillAgentConfig_def)

text \<open>C26: What ValidateConfig accepts: an image, a configuration that parses, and a service range
  that is present (without a cluster network) or is one of the offered ranges as a string.\<close>

theorem validate_accepts_iff:
  "ValidateConfig (ConfigOc L) cc oc = None \<longleftrightarrow>
     AntreaImage (install_spec oc) \<noteq> '''' \<and>
     (\<exists>m. yaml_unmarshal_map L (AntreaAgentConfig (install_spec oc)) = Inr m \<and>
        (case cc of None \<Rightarrow> gomap_get m ServiceCIDROption \<noteq> None
         | Some c \<Rightarrow> gomap_get m ServiceCIDROption \<in>
             Some ` YStr ` set (ServiceNetwork (network_spec c))))"
  by (simp add: ConfigOc_def valid_iff)

section \<open>The controller configuration\<close>

text \<open>C32: The loops over the cluster's ranges choose what a declarative reading says: the first IPv4
  and the first other range of the cluster network, appended in their order to the configured ranges
  (never more than two), their prefix lengths unchanged by the conversion to a signed word, and the
  first service range of each family.\<close>

theorem controller_ranges:
  fixes L c c0
  defines "n \<equiv> NodeIPAM (update_controller_config L (Some c) c0)"
    and "nets \<equiv> ClusterNetwork (network_spec c)" and "svcs \<equiv> ServiceNetwork (network_spec c)"
  shows "ClusterCIDRs n = ClusterCIDRs (NodeIPAM c0) @ map entry_cidr (first_by (entry_v4 L) nets)
    \<and> length (ClusterCIDRs n) \<le> length (ClusterCIDRs (NodeIPAM c0)) + 2
    \<and> sint (NodeCIDRMaskSizeIPv4 n) = (case first_match (entry_v4 L) nets of
         [] \<Rightarrow> sint (NodeCIDRMaskSizeIPv4 (NodeIPAM c0)) | e # _ \<Rightarrow> uint (entry_host_prefix e))
    \<and> sint (NodeCIDRMaskSizeIPv6 n) = (case first_match (\<lambda>e. \<not> entry_v4 L e) nets of
         [] \<Rightarrow> sint (NodeCIDRMaskSizeIPv6 (NodeIPAM c0)) | e # _ \<Rightarrow> uint (entry_host_prefix e))
    \<and> ServiceCIDR n = (case first_match (is_ipv4_cidr L) svcs of
         [] \<Rightarrow> ServiceCIDR (NodeIPAM c0) | s # _ \<Rightarrow> s)
    \<and> ServiceCIDRv6 n = (case first_match (\<lambda>s. \<not> is_ipv4_cidr L s) svcs of
         [] \<Rightarrow> ServiceCIDRv6 (NodeIPAM c0) | s # _ \<Rightarrow> s)
    \<and> EnableNodeIPAM n"
proof -
  have ext: "sint (ucast w :: 64 word) = uint (w :: 32 word)" for w
    by transfer (simp add: signed_take_bit_eq_if_positive bit_simps)
  show ?thesis
    unfolding n_def nets_def svcs_def
    using first_by_bool_length [of "entry_v4 L" "ClusterNetwork (network_spec c)"]
    by (auto simp: update_controller_config_def fill_nodeipam_def nodeipam_loops Let_def ext
        split: list.splits)
qed

text \<open>Filling the controller configuration is not idempotent: with a cluster network, filling a
  filled configuration again changes it exactly when the cluster network lists a range, because the
  chosen ranges are appended a second time.\<close>

theorem controller_fill_accumulates:
  "update_controller_config L (Some c) (update_controller_config L (Some c) c0) =
     update_controller_config L (Some c) c0 \<longleftrightarrow> ClusterNetwork (network_spec c) = []"
proof
  assume same: "update_controller_config L (Some c) (update_controller_config L (Some c) c0) =
     update_controller_config L (Some c) c0"
  have "first_by (entry_v4 L) (ClusterNetwork (network_spec c)) = []"
    using arg_cong [OF same, where f = "\<lambda>x. ClusterCIDRs (NodeIPAM x)"]
    by (simp add: updated_cluster_cidrs)
  then show "ClusterNetwork (network_spec c) = []"
    by (cases "ClusterNetwork (network_spec c)") simp_all
next
  assume "ClusterNetwork (network_spec c) = []"
  then show "update_controller_config L (Some c) (update_controller_config L (Some c) c0) =
     update_controller_config L (Some c) c0"
    by (auto simp: update_controller_config_def fill_nodeipam_def nodeipam_loops Let_def
        intro!: controller_config.equality nodeipam.equality split: list.splits option.splits)
qed

section \<open>Detecting changes\<close>

text \<open>What NeedApplyChange reports for a configuration that was applied before: the agent part
  exactly when the agent, CNI or image text differs, the controller part exactly when the controller
  or image text differs, the image flag exactly when the image differs; so nothing is applied exactly
  when all four texts agree, whatever the platform field says.\<close>

theorem need_apply_change_table:
  "NeedApplyChange (Some pre) cur = (agent, controller, img) \<longleftrightarrow>
     (agent \<longleftrightarrow> (AntreaAgentConfig (install_spec pre), AntreaCNIConfig (install_spec pre), AntreaImage (install_spec pre))
        \<noteq> (AntreaAgentConfig (install_spec cur), AntreaCNIConfig (install_spec cur), AntreaImage (install_spec cur))) \<and>
     (controller \<longleftrightarrow> (AntreaControllerConfig (install_spec pre), AntreaImage (install_spec pre))
        \<noteq> (AntreaControllerConfig (install_spec cur), AntreaImage (install_spec cur))) \<and>
     (img \<longleftrightarrow> AntreaImage (install_spec pre) \<noteq> AntreaImage (install_spec cur))"
  by (auto simp: NeedApplyChange_def Let_def split: if_splits)

text \<open>C33: For an applied network whose service ranges and cluster ranges have no duplicates,
  HasClusterNetworkConfigChange reports no change exactly when the new ranges are a reordering of the
  old ones, duplicates counted.\<close>

theorem network_change_up_to_order:
  assumes "distinct (ServiceNetwork (network_spec pre))"
    and "distinct (map entry_cidr (ClusterNetwork (network_spec pre)))"
  shows "HasClusterNetworkConfigChange (Some pre) cur \<longleftrightarrow>
     mset (ServiceNetwork (network_spec pre)) \<noteq> mset (ServiceNetwork (network_spec cur)) \<or>
     mset (map entry_cidr (ClusterNetwork (network_spec pre))) \<noteq>
       mset (map entry_cidr (ClusterNetwork (network_spec cur)))"
proof -
  have eq: "stringSliceEqual a b \<longleftrightarrow> mset a = mset b" if "distinct a" for a b
  proof
    assume "stringSliceEqual a b"
    with that show "mset a = mset b"
      using inclusion_of_distinct_is_permutation [of a b]
      by (simp add: stringSliceEqual_iff) (metis set_eq_iff_mset_eq_distinct)
  next
    assume same: "mset a = mset b"
    show "stringSliceEqual a b"
      by (simp add: stringSliceEqual_iff mset_eq_length [OF same] mset_eq_setD [OF same])
  qed
  show ?thesis
    by (simp only: HasClusterNetworkConfigChange_def Let_def option.case eq [OF assms(1)] eq [OF assms(2)])
      simp
qed

lemma network_change_up_to_order_witness:
  "\<not> HasClusterNetworkConfigChange (Some sample_network) sample_network"
  using network_change_up_to_order [of sample_network sample_network]
  by (simp add: sample_network_def)

text \<open>A change of host prefixes alone is never reported: with the same ranges and any new prefixes
  h, HasClusterNetworkConfigChange sees no change, although the network status built for the new
  configuration is the old one only if no prefix changed.\<close>

theorem host_prefix_change_unnoticed:
  fixes c h
  defines "c' \<equiv> c\<lparr>network_spec := (network_spec c)\<lparr>ClusterNetwork :=
     map (\<lambda>e. e\<lparr>entry_host_prefix := h e\<rparr>) (ClusterNetwork (network_spec c))\<rparr>\<rparr>"
  shows "\<not> HasClusterNetworkConfigChange (Some c) c' \<and>
    (BuildNetworkStatus c' mtu = BuildNetworkStatus c mtu \<longleftrightarrow>
       map h (ClusterNetwork (network_spec c)) =
         map entry_host_prefix (ClusterNetwork (network_spec c)))"
  by (auto simp: HasClusterNetworkConfigChange_def c'_def stringSliceEqual_iff BuildNetworkStatus_def
      comp_def)

text \<open>The slice comparison also misses real changes of ranges when the applied configuration repeats
  one: two equal service ranges hide the replacement of one of them, while the comparison in the other
  direction sees it.\<close>

theorem duplicate_range_hides_change:
  fixes c a b
  defines "c1 \<equiv> c\<lparr>network_spec := (network_spec c)\<lparr>ServiceNetwork := [a, a]\<rparr>\<rparr>"
    and "c2 \<equiv> c\<lparr>network_spec := (network_spec c)\<lparr>ServiceNetwork := [a, b]\<rparr>\<rparr>"
  shows "\<not> HasClusterNetworkConfigChange (Some c1) c2 \<and>
    (HasClusterNetworkConfigChange (Some c2) c1 \<longleftrightarrow> a \<noteq> b)"
  by (auto simp: HasClusterNetworkConfigChange_def c1_def c2_def stringSliceEqual_iff)

text \<open>C34: After a successful fill on OpenShift, HasDefaultMTUChange on a first reconcile never reports an
  error: it returns the user's integer MTU, the default where the user gave none, and it panics (the
  type assertion to int) where the user wrote the MTU as a string, which filling and validation both
  let through.\<close>

theorem mtu_change_after_fill:
  assumes "yaml_map_lawful L" and "FillConfigs (ConfigOc L) (Some c) oc = (oc', Ret None)"
    and "yaml_unmarshal_map L (AntreaAgentConfig (install_spec oc)) = Inr (Some m)"
  shows "(m DefaultMTUOption = None \<longrightarrow> HasDefaultMTUChange L None oc' = Ret (True, DefaultMTU, None)) \<and>
    (\<forall>n. m DefaultMTUOption = Some (YInt n) \<longrightarrow> HasDefaultMTUChange L None oc' = Ret (True, n, None)) \<and>
    (\<forall>t. m DefaultMTUOption = Some (YStr t) \<longrightarrow> HasDefaultMTUChange L pre oc' = Panic \<or>
       (\<exists>p e. pre = Some p \<and> HasDefaultMTUChange L pre oc' = Ret (False, DefaultMTU, Some e)))"
proof -
  from assms(2) obtain oc1 s where oc1: "fillAgentConfig L (Some c) oc = (oc1, Ret None)"
      and "AntreaAgentConfig (install_spec oc') = AntreaAgentConfig (install_spec oc1)"
    by (auto simp: ConfigOc_def elim!: fillConfig_okE)
  moreover from oc1 assms(3) obtain t where "AntreaAgentConfig (install_spec oc1) = t"
      "yaml_marshal_map L (Some (filled_agent (Some c) m)) = Inr t"
    by (auto elim!: fillAgentConfig_okE)
  moreover from this(2) assms(1) obtain m' where m': "yaml_unmarshal_map L t = Inr (Some m')"
      "\<And>k v. filled_agent (Some c) m k = Some (YStr v) \<Longrightarrow> m' k = Some (YStr v)"
      "\<And>k n. filled_agent (Some c) m k = Some (YInt n) \<Longrightarrow> m' k = Some (YInt n)"
    unfolding yaml_map_lawful_def by blast
  ultimately have u: "yaml_unmarshal_map L (AntreaAgentConfig (install_spec oc')) = Inr (Some m')"
    by simp
  have "m DefaultMTUOption = None \<Longrightarrow> m' DefaultMTUOption = Some (YInt DefaultMTU)"
    "\<And>n. m DefaultMTUOption = Some (YInt n) \<Longrightarrow> m' DefaultMTUOption = Some (YInt n)"
    "\<And>t. m DefaultMTUOption = Some (YStr t) \<Longrightarrow> m' DefaultMTUOption = Some (YStr t)"
    by (simp_all add: m'(2,3) filled_agent_mtu)
  with u show ?thesis
    by (cases pre)
      (auto simp: HasDefaultMTUChange_def split: sum.splits option.splits)
qed

lemma mtu_change_after_fill_witness:
  "HasDefaultMTUChange ref_lib None
     (fst (FillConfigs (ConfigOc ref_lib) (Some sample_network) (sample_install ''user''))) =
     Ret (True, DefaultMTU, None)"
  using mtu_change_after_fill [OF ref_lib_lawful ref_fill_oc,
      of "Map.empty(ServiceCIDROption \<mapsto> YStr sample_cidr)" None]
  unfolding ref_fill_oc fst_conv
  by (simp add: sample_install_def empty_install_spec_def ref_unmarshal_map_def)

end
