(* ===== verification/Status_Manager.thy ===== *)
theory Status_Manager
  imports Operator_Types
begin

text \<open>
  \<open>controllers/statusmanager/status_manager.go\<close>: the conditions the operator publishes, and
  the adaptors of the two platforms that publish them.

  \<^item> The mutable fields of \<open>StatusManager\<close> are the record \<open>status_manager\<close>, next to
    the state of everything outside the program (\<open>world\<close>, of any type). The reconcilers'
    record extends it.
  \<^item> The Kubernetes client, the REST mapper, the clock, the condition helpers of library-go and
    the retry helper of client-go are the fields of \<open>sm_env\<close>.
  \<^item> The interface \<open>Adaptor\<close> is the record \<open>adaptor\<close> of its three methods.
  \<^item> A method that takes the manager's mutex runs as one atomic step, which is what the mutex
    is for; log output is not modelled.
\<close>

section \<open>State and environment\<close>

datatype StatusLevel = ClusterConfig | OperatorConfig | PodDeployment | RolloutHung | ClusterNode

text \<open>The order of the constants, which is the order of the array \<open>failing\<close>.\<close>

definition status_levels :: "StatusLevel list" where
  "status_levels = [ClusterConfig, OperatorConfig, PodDeployment, RolloutHung, ClusterNode]"

fun level_index :: "StatusLevel \<Rightarrow> nat" where
  "level_index ClusterConfig = 0"
| "level_index OperatorConfig = 1"
| "level_index PodDeployment = 2"
| "level_index RolloutHung = 3"
| "level_index ClusterNode = 4"

instantiation StatusLevel :: linorder
begin

definition less_eq_StatusLevel :: "StatusLevel \<Rightarrow> StatusLevel \<Rightarrow> bool" where
  "less_eq_StatusLevel a b \<longleftrightarrow> level_index a \<le> level_index b"

definition less_StatusLevel :: "StatusLevel \<Rightarrow> StatusLevel \<Rightarrow> bool" where
  "less_StatusLevel a b \<longleftrightarrow> level_index a < level_index b"

instance
proof
  fix a b :: StatusLevel
  assume "a \<le> b" "b \<le> a"
  then show "a = b"
    by (cases a; cases b) (simp_all add: less_eq_StatusLevel_def)
qed (auto simp: less_eq_StatusLevel_def less_StatusLevel_def)

end

record 'w status_manager =
  world :: 'w
  sm_name :: string
  failing :: "StatusLevel \<Rightarrow> cond option"
  daemonSets :: "nsname list"
  deployments :: "nsname list"
  relatedObjects :: "objref list option"

record 'st last_state =
  ls_name :: nsname
  LastSeenStatus :: 'st
  LastChangeTime :: gotime

type_synonym ds_states = "nsname \<rightharpoonup> daemonset_status last_state"
type_synonym dep_states = "nsname \<rightharpoonup> deployment_status last_state"

record pod_state =
  DaemonsetStates :: "daemonset_status last_state list"
  DeploymentStates :: "deployment_status last_state list"

record ('w, 's) sm_env =
  get_install :: "nsname \<Rightarrow> ('w, go_error + antrea_install) state"
  patch_install_status :: "antrea_install \<Rightarrow> antrea_install \<Rightarrow> ('w, go_error option) state"
  get_co :: "string \<Rightarrow> ('w, go_error + cluster_operator) state"
  create_co :: "cluster_operator \<Rightarrow> ('w, go_error option) state"
  update_co_status :: "cluster_operator \<Rightarrow> ('w, go_error + cluster_operator) state"
  patch_co :: "cluster_operator \<Rightarrow> cluster_operator \<Rightarrow> ('w, go_error option) state"
  delete_object :: "gvk \<Rightarrow> nsname \<Rightarrow> ('w, go_error option) state"
  get_daemonset :: "nsname \<Rightarrow> ('w, go_error + daemonset) state"
  get_deployment :: "nsname \<Rightarrow> ('w, go_error + deployment) state"
  kind_for :: "string \<Rightarrow> string \<Rightarrow> ('w, go_error + gvk) state"
  time_now :: "('w, gotime) state"
  FindStatusCondition :: "cond list \<Rightarrow> string \<Rightarrow> cond option"
  SetStatusCondition :: "cond list \<Rightarrow> cond \<Rightarrow> ('w, cond list) state"
  RetryOnConflict :: "('s, go_error option) state \<Rightarrow> ('s, go_error option) state"
  fmt_cond :: "cond \<Rightarrow> string"
  fmt_rfc3339 :: "gotime \<Rightarrow> string"
  json_marshal_ps :: "pod_state \<Rightarrow> go_error + string"
  json_unmarshal_ps :: "string \<Rightarrow> go_error + pod_state"
  range_keys :: "nsname set \<Rightarrow> ('w, nsname list) state"
  sm_build_version :: string

type_synonym ('w, 'z) sm = "('w, 'z) status_manager_scheme"
type_synonym ('w, 'z, 'e) env = "('w, ('w, 'z) sm, 'e) sm_env_scheme"

text \<open>A call that acts on the outside only.\<close>

definition on_world :: "('w, 'a) state \<Rightarrow> (('w, 'z) sm, 'a) state" where
  "on_world m = State (\<lambda>s. case run_state m (world s) of (a, w) \<Rightarrow> (a, s\<lparr>world := w\<rparr>))"

lemma run_state_on_world [simp, run_simps]:
  "run_state (on_world m) s = (case run_state m (world s) of (a, w) \<Rightarrow> (a, s\<lparr>world := w\<rparr>))"
  by (simp add: on_world_def)

lemma preserves_on_world [preserve_intros]:
  "(\<And>s w. f (s\<lparr>world := w\<rparr>) = f s) \<Longrightarrow> preserves f (on_world m)"
  by (simp add: preserves_def split: prod.splits)

lemma wp_on_world [wp_simps]:
  "wp (on_world m) Q = (\<lambda>s. \<forall>a w. run_state m (world s) = (a, w) \<longrightarrow> Q a (s\<lparr>world := w\<rparr>))"
  by (auto simp: wp_def fun_eq_iff split: prod.splits)

record 's adaptor =
  getLastPodState :: "('s, ds_states \<times> dep_states) state"
  setLastPodState :: "ds_states \<Rightarrow> dep_states \<Rightarrow> ('s, go_error option) state"
  set_status :: "bool \<Rightarrow> cond list \<Rightarrow> ('s, unit) state"

section \<open>Conditions\<close>

definition OperatorProgressing :: string where "OperatorProgressing = ''Progressing''"
definition OperatorAvailable :: string where "OperatorAvailable = ''Available''"
definition OperatorDegraded :: string where "OperatorDegraded = ''Degraded''"
definition OperatorUpgradeable :: string where "OperatorUpgradeable = ''Upgradeable''"
definition ConditionTrue :: string where "ConditionTrue = ''True''"
definition ConditionFalse :: string where "ConditionFalse = ''False''"

lemmas condition_type_defs = OperatorProgressing_def OperatorAvailable_def OperatorDegraded_def
  OperatorUpgradeable_def
lemmas condition_value_defs = ConditionTrue_def ConditionFalse_def

text \<open>A condition as the code builds it: the transition time is left at its zero value.\<close>

definition mk_cond :: "string \<Rightarrow> string \<Rightarrow> string \<Rightarrow> string \<Rightarrow> cond" where
  "mk_cond t st reason message =
     \<lparr>ctype = t, cstatus = st, creason = reason, cmessage = message, ctransition = zero_time\<rparr>"

lemma mk_cond_sel [simp]:
  "ctype (mk_cond t s r m) = t" "cstatus (mk_cond t s r m) = s"
  "creason (mk_cond t s r m) = r" "cmessage (mk_cond t s r m) = m"
  by (simp_all add: mk_cond_def)

fun combine_loop :: "('w, 's, 'e) sm_env_scheme \<Rightarrow> cond list \<Rightarrow> cond list \<Rightarrow> bool \<Rightarrow> string \<Rightarrow>
    ('w, cond list \<times> bool \<times> string) state" where
  "combine_loop E [] conditions changed messages = ret (conditions, changed, messages)"
| "combine_loop E (newCondition # rest) conditions changed messages =
     (case FindStatusCondition E conditions (ctype newCondition) of
        None \<Rightarrow>
          do {
            conditions' \<leftarrow> SetStatusCondition E conditions newCondition;
            combine_loop E rest conditions' True (messages @ fmt_cond E newCondition @ ''. '')
          }
      | Some existing \<Rightarrow>
          if cstatus existing \<noteq> cstatus newCondition \<or> creason existing \<noteq> creason newCondition \<or>
             cmessage existing \<noteq> cmessage newCondition then
            do {
              conditions' \<leftarrow> SetStatusCondition E conditions newCondition;
              combine_loop E rest conditions' True (messages @ fmt_cond E newCondition @ ''. '')
            }
          else combine_loop E rest conditions changed messages)"

definition CombineConditions :: "('w, 's, 'e) sm_env_scheme \<Rightarrow> cond list \<Rightarrow> cond list \<Rightarrow>
    ('w, cond list \<times> bool \<times> string) state" where
  "CombineConditions E conditions newConditions = combine_loop E newConditions conditions False ''''"

definition setClusterOperatorConditions :: "('w, 's, 'e) sm_env_scheme \<Rightarrow> cluster_operator \<Rightarrow>
    bool \<Rightarrow> cond list \<Rightarrow> ('w, cluster_operator) state" where
  "setClusterOperatorConditions E co reachedAvailableLevel conditions =
     do {
       let st = (if reachedAvailableLevel
                 then (co_status co)\<lparr>cos_versions := [(''operator'', GetVersion (sm_build_version E))]\<rparr>
                 else co_status co);
       (cs, _, _) \<leftarrow> CombineConditions E (cos_conditions st) conditions;
       let progressing = FindStatusCondition E cs OperatorProgressing;
       let available = FindStatusCondition E cs OperatorAvailable;
       cs' \<leftarrow> (if available = None \<and>
                  (case progressing of None \<Rightarrow> False | Some p \<Rightarrow> cstatus p = ConditionTrue)
               then SetStatusCondition E cs (mk_cond OperatorAvailable ConditionFalse ''Startup''
                      ''The network is starting up'')
               else ret cs);
       cs'' \<leftarrow> SetStatusCondition E cs' (mk_cond OperatorUpgradeable ConditionTrue '''' '''');
       ret (co\<lparr>co_status := st\<lparr>cos_conditions := cs''\<rparr>\<rparr>)
     }"

section \<open>Related objects\<close>

definition append_related :: "objref \<Rightarrow> ('w, 'z) sm \<Rightarrow> ('w, 'z) sm" where
  "append_related obj s =
     s\<lparr>relatedObjects := Some ((case relatedObjects s of None \<Rightarrow> [] | Some r \<Rightarrow> r) @ [obj])\<rparr>"

text \<open>The inner loop: is the object among the rendered ones?\<close>

definition is_rendered :: "objref \<Rightarrow> ('w, 'z) sm \<Rightarrow> bool" where
  "is_rendered obj s =
     (case relatedObjects s of None \<Rightarrow> False | Some r \<Rightarrow> list_ex (\<lambda>rendered. obj = rendered) r)"

definition delete_if_not_rendered :: "('w, 'z, 'e) env \<Rightarrow> objref \<Rightarrow> (('w, 'z) sm, unit) state" where
  "delete_if_not_rendered E currentObj =
     do {
       found \<leftarrow> gets (is_rendered currentObj);
       if found then ret ()
       else do {
         k \<leftarrow> on_world (kind_for E (ref_group currentObj) (ref_resource currentObj));
         case k of
           Inl err \<Rightarrow> modify (append_related currentObj)
         | Inr gvk \<Rightarrow>
             if gvk_kind gvk = ''Namespace'' \<and> gvk_group gvk = '''' then ret ()
             else do {
               err \<leftarrow> on_world (delete_object E gvk (NSN (ref_namespace currentObj) (ref_name currentObj)));
               case err of
                 None \<Rightarrow> ret ()
               | Some e \<Rightarrow> if \<not> IsNotFound e then modify (append_related currentObj) else ret ()
             }
       }
     }"

fun delete_loop :: "('w, 'z, 'e) env \<Rightarrow> objref list \<Rightarrow> (('w, 'z) sm, unit) state" where
  "delete_loop E [] = ret ()"
| "delete_loop E (currentObj # rest) =
     do { _ \<leftarrow> delete_if_not_rendered E currentObj; delete_loop E rest }"

definition deleteRelatedObjectsNotRendered ::
    "('w, 'z, 'e) env \<Rightarrow> cluster_operator \<Rightarrow> (('w, 'z) sm, unit) state" where
  "deleteRelatedObjectsNotRendered E co =
     do {
       rel \<leftarrow> gets relatedObjects;
       case rel of
         None \<Rightarrow> ret ()
       | Some _ \<Rightarrow> delete_loop E (case cos_related (co_status co) of None \<Rightarrow> [] | Some r \<Rightarrow> r)
     }"

section \<open>Publishing\<close>

definition setAntreaInstallStatus ::
    "('w, 's, 'e) sm_env_scheme \<Rightarrow> cond list \<Rightarrow> ('w, go_error option) state" where
  "setAntreaInstallStatus E conditions =
     do {
       r \<leftarrow> get_install E antrea_install_key;
       case r of
         Inl err \<Rightarrow> if IsNotFound err then ret None else ret (Some err)
       | Inr antreaInstall \<Rightarrow>
           patch_install_status E (antreaInstall\<lparr>install_conditions := conditions\<rparr>) antreaInstall
     }"

text \<open>One attempt of \<open>StatusK8s.set\<close>, the function it gives to the retry helper.\<close>

definition set_attempt_k8s ::
    "('w, 'z, 'e) env \<Rightarrow> bool \<Rightarrow> cond list \<Rightarrow> (('w, 'z) sm, go_error option) state" where
  "set_attempt_k8s E reachedAvailableLevel conditions =
     do {
       r \<leftarrow> on_world (get_install E antrea_install_key);
       case r of
         Inl err \<Rightarrow> ret (Some err)
       | Inr antreaInstall \<Rightarrow>
           do {
             nm \<leftarrow> gets sm_name;
             co \<leftarrow> on_world (setClusterOperatorConditions E (new_cluster_operator nm)
                      reachedAvailableLevel conditions);
             if install_conditions antreaInstall = cos_conditions (co_status co) then ret None
             else on_world (setAntreaInstallStatus E (cos_conditions (co_status co)))
           }
     }"

text \<open>
  One attempt of \<open>StatusOc.set\<close>: a ClusterOperator that is not found is created, and then the
  AntreaInstall resource is left alone; after an update the object holds what the server returned.
\<close>

definition publish_oc :: "('w, 'z, 'e) env \<Rightarrow> bool \<Rightarrow> cond list \<Rightarrow> cluster_operator \<Rightarrow> bool \<Rightarrow>
    (('w, 'z) sm, go_error option) state" where
  "publish_oc E reachedAvailableLevel conditions co isNotFound =
     do {
       let oldStatus = co_status co;
       _ \<leftarrow> deleteRelatedObjectsNotRendered E co;
       rel \<leftarrow> gets relatedObjects;
       let co1 = (case rel of None \<Rightarrow> co
                  | Some r \<Rightarrow> co\<lparr>co_status := (co_status co)\<lparr>cos_related := Some r\<rparr>\<rparr>);
       co2 \<leftarrow> on_world (setClusterOperatorConditions E co1 reachedAvailableLevel conditions);
       if oldStatus = co_status co2 then ret None
       else if isNotFound then on_world (create_co E co2)
       else do {
         r \<leftarrow> on_world (update_co_status E co2);
         case r of
           Inl err \<Rightarrow> ret (Some err)
         | Inr co3 \<Rightarrow> on_world (setAntreaInstallStatus E (cos_conditions (co_status co3)))
       }
     }"

definition set_attempt_oc ::
    "('w, 'z, 'e) env \<Rightarrow> bool \<Rightarrow> cond list \<Rightarrow> (('w, 'z) sm, go_error option) state" where
  "set_attempt_oc E reachedAvailableLevel conditions =
     do {
       nm \<leftarrow> gets sm_name;
       r \<leftarrow> on_world (get_co E nm);
       case r of
         Inl err \<Rightarrow>
           if \<not> IsNotFound err then ret (Some err)
           else publish_oc E reachedAvailableLevel conditions (new_cluster_operator nm) True
       | Inr co \<Rightarrow> publish_oc E reachedAvailableLevel conditions co False
     }"

text \<open>The error that is left after the retries is only logged.\<close>

definition set_k8s :: "('w, 'z, 'e) env \<Rightarrow> bool \<Rightarrow> cond list \<Rightarrow> (('w, 'z) sm, unit) state" where
  "set_k8s E reachedAvailableLevel conditions =
     do { _ \<leftarrow> RetryOnConflict E (set_attempt_k8s E reachedAvailableLevel conditions); ret () }"

definition set_oc :: "('w, 'z, 'e) env \<Rightarrow> bool \<Rightarrow> cond list \<Rightarrow> (('w, 'z) sm, unit) state" where
  "set_oc E reachedAvailableLevel conditions =
     do { _ \<leftarrow> RetryOnConflict E (set_attempt_oc E reachedAvailableLevel conditions); ret () }"

section \<open>Degraded levels\<close>

text \<open>The loop of \<open>syncDegraded\<close> over the array of failing conditions.\<close>

fun first_failing :: "(StatusLevel \<Rightarrow> cond option) \<Rightarrow> StatusLevel list \<Rightarrow> cond option" where
  "first_failing fl [] = None"
| "first_failing fl (l # ls) =
     (case fl l of Some c \<Rightarrow> Some c | None \<Rightarrow> first_failing fl ls)"

definition syncDegraded :: "('w, 'z) sm adaptor \<Rightarrow> (('w, 'z) sm, unit) state" where
  "syncDegraded A =
     do {
       f \<leftarrow> gets failing;
       case first_failing f status_levels of
         Some c \<Rightarrow> set_status A False [c]
       | None \<Rightarrow> set_status A False [mk_cond OperatorDegraded ConditionFalse '''' '''']
     }"

definition setDegraded ::
    "('w, 'z) sm adaptor \<Rightarrow> StatusLevel \<Rightarrow> string \<Rightarrow> string \<Rightarrow> (('w, 'z) sm, unit) state" where
  "setDegraded A statusLevel reason message =
     do {
       _ \<leftarrow> modify (\<lambda>s. s\<lparr>failing := (failing s)(statusLevel :=
              Some (mk_cond OperatorDegraded ConditionTrue reason message))\<rparr>);
       syncDegraded A
     }"

definition setNotDegraded :: "('w, 'z) sm adaptor \<Rightarrow> StatusLevel \<Rightarrow> (('w, 'z) sm, unit) state" where
  "setNotDegraded A statusLevel =
     do {
       f \<leftarrow> gets failing;
       _ \<leftarrow> (if f statusLevel \<noteq> None then modify (\<lambda>s. s\<lparr>failing := (failing s)(statusLevel := None)\<rparr>)
            else ret ());
       syncDegraded A
     }"

text \<open>The exported methods hold the mutex around the ones above.\<close>

definition SetDegraded ::
    "('w, 'z) sm adaptor \<Rightarrow> StatusLevel \<Rightarrow> string \<Rightarrow> string \<Rightarrow> (('w, 'z) sm, unit) state" where
  "SetDegraded A statusLevel reason message = setDegraded A statusLevel reason message"

definition SetNotDegraded :: "('w, 'z) sm adaptor \<Rightarrow> StatusLevel \<Rightarrow> (('w, 'z) sm, unit) state" where
  "SetNotDegraded A statusLevel = setNotDegraded A statusLevel"

definition SetDaemonSets :: "nsname list \<Rightarrow> (('w, 'z) sm, unit) state" where
  "SetDaemonSets dss = modify (\<lambda>s. s\<lparr>daemonSets := dss\<rparr>)"

definition SetDeployments :: "nsname list \<Rightarrow> (('w, 'z) sm, unit) state" where
  "SetDeployments deps = modify (\<lambda>s. s\<lparr>deployments := deps\<rparr>)"

definition SetRelatedObjects :: "objref list option \<Rightarrow> (('w, 'z) sm, unit) state" where
  "SetRelatedObjects objs = modify (\<lambda>s. s\<lparr>relatedObjects := objs\<rparr>)"

definition setConditions ::
    "('w, 'z) sm adaptor \<Rightarrow> string list \<Rightarrow> bool \<Rightarrow> (('w, 'z) sm, unit) state" where
  "setConditions A progressing reachedAvailableLevel =
     (let c1 = (if length progressing > 0
                then mk_cond OperatorProgressing ConditionTrue ''Deploying''
                       (strings_join newline progressing)
                else mk_cond OperatorProgressing ConditionFalse '''' '''');
          c2 = (if reachedAvailableLevel then [mk_cond OperatorAvailable ConditionTrue '''' ''''] else [])
      in set_status A reachedAvailableLevel (c1 # c2))"

text \<open>The initial manager; the platform decides the adaptor.\<close>

datatype platform = OpenShift | Kubernetes

definition invalid_platform :: go_error where
  "invalid_platform = errors_new ''invalid platform: platform should be openshift or kubernetes''"

definition parse_platform :: "string \<Rightarrow> go_error + platform" where
  "parse_platform p =
     (if p = ''openshift'' then Inr OpenShift else if p = ''kubernetes'' then Inr Kubernetes
      else Inl invalid_platform)"

definition status_New :: "'w \<Rightarrow> string \<Rightarrow> string \<Rightarrow> go_error + ('w status_manager \<times> platform)" where
  "status_New w nm plat =
     (case parse_platform plat of
        Inl err \<Rightarrow> Inl err
      | Inr p \<Rightarrow> Inr (\<lparr>world = w, sm_name = nm, failing = (\<lambda>_. None), daemonSets = [], deployments = [],
          relatedObjects = None\<rparr>, p))"

end
