(* ===== verification/Pod_Status.thy ===== *)
theory Pod_Status
  imports Status_Manager
begin

text \<open>
  \<open>controllers/statusmanager/pod_status.go\<close>: deriving the published conditions from the
  DaemonSets and Deployments, detecting rollouts that hang, and the record of what was last seen,
  kept in an annotation of the ClusterOperator.

  The two loops of \<open>SetFromPods\<close> carry the lists \<open>progressing\<close> and \<open>hung\<close> and the
  flag \<open>reachedAvailableLevel\<close> (the record \<open>pod_acc\<close>) and the map of last seen states.
  Counters are 32-bit words compared as signed numbers, generations 64-bit words.
\<close>

section \<open>One workload\<close>

text \<open>Ten minutes in nanoseconds.\<close>

definition ProgressTimeout :: int where
  "ProgressTimeout = 10 * 60 * 10 ^ 9"

definition lastSeenAnnotation :: string where
  "lastSeenAnnotation = ''network.operator.openshift.io/last-seen-state''"

record pod_acc =
  reachedAvailableLevel :: bool
  progressing :: "string list"
  hung :: "string list"

text \<open>The chain of tests on a DaemonSet: the message of the first that applies.\<close>

definition ds_progress :: "nsname \<Rightarrow> daemonset \<Rightarrow> string option" where
  "ds_progress dsName ds =
     (let st = ds_status ds; q = go_quote (show_nsname dsName) in
      if UpdatedNumberScheduled st <s DesiredNumberScheduled st then
        Some (''DaemonSet '' @ q @ '' update is rolling out ('' @ show_int (sint (UpdatedNumberScheduled st)) @
          '' out of '' @ show_int (sint (DesiredNumberScheduled st)) @ '' updated)'')
      else if 0 <s NumberUnavailable st then
        Some (''DaemonSet '' @ q @ '' is not available (awaiting '' @
          show_int (sint (NumberUnavailable st)) @ '' nodes)'')
      else if NumberAvailable st = 0 then
        Some (''DaemonSet '' @ q @ '' is not yet scheduled on any nodes'')
      else if ds_ObservedGeneration st <s ds_generation ds then
        Some (''DaemonSet '' @ q @ '' update is being processed (generation '' @
          show_int (sint (ds_generation ds)) @ '', observed generation '' @
          show_int (sint (ds_ObservedGeneration st)) @ '')'')
      else None)"

definition dep_progress :: "nsname \<Rightarrow> deployment \<Rightarrow> string option" where
  "dep_progress depName dep =
     (let st = dep_status dep; q = go_quote (show_nsname depName) in
      if 0 <s UnavailableReplicas st then
        Some (''Deployment '' @ q @ '' is not available (awaiting '' @
          show_int (sint (UnavailableReplicas st)) @ '' replicas to be ready)'')
      else if AvailableReplicas st = 0 then
        Some (''Deployment '' @ q @ '' is not yet scheduled on any nodes'')
      else if dep_ObservedGeneration st <s dep_generation dep then
        Some (''Deployment '' @ q @ '' update is being processed (generation '' @
          show_int (sint (dep_generation dep)) @ '', observed generation '' @
          show_int (sint (dep_ObservedGeneration st)) @ '')'')
      else None)"

text \<open>
  The tracking of a workload that is progressing, the same for both kinds: the last seen state is
  replaced, with the current time, where there was none or its status differs; the rollout is hung
  when there was one before and its last change is too long ago. The result is the new map and the
  time of the last change of a hung rollout. The clock is read for the second test only where the
  first operand of the conjunction holds.
\<close>

definition track_progress :: "('w, gotime) state \<Rightarrow> nsname \<Rightarrow> 'st \<Rightarrow> (nsname \<rightharpoonup> 'st last_state) \<Rightarrow>
    ('w, (nsname \<rightharpoonup> 'st last_state) \<times> gotime option) state" where
  "track_progress clock key st states =
     (case states key of
        None \<Rightarrow>
          do {
            now \<leftarrow> clock;
            ret (states(key \<mapsto> \<lparr>ls_name = NSN '''' '''', LastSeenStatus = st, LastChangeTime = now\<rparr>), None)
          }
      | Some old \<Rightarrow>
          do {
            (dsState, states') \<leftarrow>
              (if LastSeenStatus old \<noteq> st then
                 do {
                   now \<leftarrow> clock;
                   let fresh = old\<lparr>LastSeenStatus := st, LastChangeTime := now\<rparr>;
                   ret (fresh, states(key \<mapsto> fresh))
                 }
               else ret (old, states));
            now \<leftarrow> clock;
            ret (states', if time_sub now (LastChangeTime dsState) > ProgressTimeout
                          then Some (LastChangeTime dsState) else None)
          })"

definition note_progress :: "string \<Rightarrow> pod_acc \<Rightarrow> pod_acc" where
  "note_progress msg acc = acc\<lparr>progressing := progressing acc @ [msg], reachedAvailableLevel := False\<rparr>"

definition note_hung :: "('w, 's, 'e) sm_env_scheme \<Rightarrow> string \<Rightarrow> nsname \<Rightarrow> gotime option \<Rightarrow> pod_acc \<Rightarrow> pod_acc" where
  "note_hung E kind name since acc =
     (case since of
        None \<Rightarrow> acc
      | Some t \<Rightarrow> acc\<lparr>hung := hung acc @ [kind @ '' '' @ go_quote (show_nsname name) @
          '' rollout is not making progress - last change '' @ fmt_rfc3339 E t]\<rparr>)"

section \<open>The loops\<close>

fun ds_loop :: "('w, 's, 'e) sm_env_scheme \<Rightarrow> nsname list \<Rightarrow> pod_acc \<Rightarrow> ds_states \<Rightarrow>
    ('w, pod_acc \<times> ds_states) state" where
  "ds_loop E [] acc states = ret (acc, states)"
| "ds_loop E (dsName # rest) acc states =
     do {
       r \<leftarrow> get_daemonset E dsName;
       case r of
         Inl err \<Rightarrow>
           ds_loop E rest
             (note_progress (''Waiting for DaemonSet '' @ go_quote (show_nsname dsName) @ '' to be created'') acc)
             states
       | Inr ds \<Rightarrow>
           (case ds_progress dsName ds of
              None \<Rightarrow> ds_loop E rest acc (states(dsName := None))
            | Some msg \<Rightarrow>
                do {
                  (states', since) \<leftarrow> track_progress (time_now E) dsName (ds_status ds) states;
                  ds_loop E rest (note_hung E ''DaemonSet'' dsName since (note_progress msg acc)) states'
                })
     }"

fun dep_loop :: "('w, 's, 'e) sm_env_scheme \<Rightarrow> nsname list \<Rightarrow> pod_acc \<Rightarrow> dep_states \<Rightarrow>
    ('w, pod_acc \<times> dep_states) state" where
  "dep_loop E [] acc states = ret (acc, states)"
| "dep_loop E (depName # rest) acc states =
     do {
       r \<leftarrow> get_deployment E depName;
       case r of
         Inl err \<Rightarrow>
           dep_loop E rest
             (note_progress (''Waiting for Deployment '' @ go_quote (show_nsname depName) @ '' to be created'') acc)
             states
       | Inr dep \<Rightarrow>
           (case dep_progress depName dep of
              None \<Rightarrow> dep_loop E rest acc (states(depName := None))
            | Some msg \<Rightarrow>
                do {
                  (states', since) \<leftarrow> track_progress (time_now E) depName (dep_status dep) states;
                  dep_loop E rest (note_hung E ''Deployment'' depName since (note_progress msg acc)) states'
                })
     }"

text \<open>The first half of \<open>SetFromPods\<close>: what the loops find.\<close>

definition scan_pods :: "('w, 'z, 'e) env \<Rightarrow> ('w, 'z) sm adaptor \<Rightarrow>
    (('w, 'z) sm, pod_acc \<times> ds_states \<times> dep_states) state" where
  "scan_pods E A =
     do {
       dss \<leftarrow> gets daemonSets;
       deps \<leftarrow> gets deployments;
       let acc = \<lparr>reachedAvailableLevel = (length dss + length deps > 0), progressing = [], hung = []\<rparr>;
       (daemonsetStates, deploymentStates) \<leftarrow> getLastPodState A;
       (acc1, daemonsetStates') \<leftarrow> on_world (ds_loop E dss acc daemonsetStates);
       (acc2, deploymentStates') \<leftarrow> on_world (dep_loop E deps acc1 deploymentStates);
       ret (acc2, daemonsetStates', deploymentStates')
     }"

text \<open>The second half: publishing it.\<close>

definition SetFromPods :: "('w, 'z, 'e) env \<Rightarrow> ('w, 'z) sm adaptor \<Rightarrow> (('w, 'z) sm, unit) state" where
  "SetFromPods E A =
     do {
       (acc, daemonsetStates, deploymentStates) \<leftarrow> scan_pods E A;
       _ \<leftarrow> setNotDegraded A PodDeployment;
       _ \<leftarrow> setLastPodState A daemonsetStates deploymentStates;
       _ \<leftarrow> setConditions A (progressing acc) (reachedAvailableLevel acc);
       if length (hung acc) > 0
       then setDegraded A RolloutHung ''RolloutHung'' (strings_join newline (hung acc))
       else setNotDegraded A RolloutHung
     }"

section \<open>The last seen states\<close>

definition index_states :: "'st last_state list \<Rightarrow> (nsname \<rightharpoonup> 'st last_state)" where
  "index_states sts = foldl (\<lambda>m d. m(ls_name d \<mapsto> d)) Map.empty sts"

text \<open>The values of a map in the order the keys are ranged over, each with its key as its name.\<close>

fun collect_states :: "(nsname \<rightharpoonup> 'st last_state) \<Rightarrow> nsname list \<Rightarrow> 'st last_state list" where
  "collect_states m [] = []"
| "collect_states m (nsn # ks) =
     (case m nsn of None \<Rightarrow> collect_states m ks
      | Some ds \<Rightarrow> ds\<lparr>ls_name := nsn\<rparr> # collect_states m ks)"

definition getLastPodState_oc ::
    "('w, 'z, 'e) env \<Rightarrow> (('w, 'z) sm, ds_states \<times> dep_states) state" where
  "getLastPodState_oc E =
     do {
       nm \<leftarrow> gets sm_name;
       r \<leftarrow> on_world (get_co E nm);
       case r of
         Inl err \<Rightarrow> ret (Map.empty, Map.empty)
       | Inr co \<Rightarrow>
           (case gomap_get (co_annotations co) lastSeenAnnotation of
              None \<Rightarrow> ret (Map.empty, Map.empty)
            | Some lsbytes \<Rightarrow>
                if lsbytes = '''' then ret (Map.empty, Map.empty)
                else (case json_unmarshal_ps E lsbytes of
                        Inl err \<Rightarrow> ret (Map.empty, Map.empty)
                      | Inr out \<Rightarrow> ret (index_states (DaemonsetStates out),
                                       index_states (DeploymentStates out))))
     }"

definition getLastPodState_k8s :: "(('w, 'z) sm, ds_states \<times> dep_states) state" where
  "getLastPodState_k8s = ret (Map.empty, Map.empty)"

definition store_attempt ::
    "('w, 'z, 'e) env \<Rightarrow> string \<Rightarrow> (('w, 'z) sm, go_error option) state" where
  "store_attempt E lsbytes =
     do {
       nm \<leftarrow> gets sm_name;
       r \<leftarrow> on_world (get_co E nm);
       let store = (\<lambda>oldStatus.
         let ann = (case co_annotations oldStatus of None \<Rightarrow> Map.empty | Some a \<Rightarrow> a);
             newStatus = oldStatus\<lparr>co_annotations := Some (ann(lastSeenAnnotation \<mapsto> lsbytes))\<rparr>
         in on_world (patch_co E newStatus oldStatus));
       case r of
         Inl err \<Rightarrow> if \<not> IsNotFound err then ret (Some err) else store (new_cluster_operator nm)
       | Inr co \<Rightarrow> store co
     }"

definition setLastPodState_oc ::
    "('w, 'z, 'e) env \<Rightarrow> ds_states \<Rightarrow> dep_states \<Rightarrow> (('w, 'z) sm, go_error option) state" where
  "setLastPodState_oc E dss deps =
     do {
       dsKeys \<leftarrow> on_world (range_keys E (dom dss));
       depKeys \<leftarrow> on_world (range_keys E (dom deps));
       let ps = \<lparr>DaemonsetStates = collect_states dss dsKeys,
                 DeploymentStates = collect_states deps depKeys\<rparr>;
       case json_marshal_ps E ps of
         Inl err \<Rightarrow> ret (Some err)
       | Inr lsbytes \<Rightarrow> RetryOnConflict E (store_attempt E lsbytes)
     }"

definition setLastPodState_k8s ::
    "ds_states \<Rightarrow> dep_states \<Rightarrow> (('w, 'z) sm, go_error option) state" where
  "setLastPodState_k8s dss deps = ret None"

section \<open>The adaptors of the two platforms\<close>

definition StatusOc :: "('w, 'z, 'e) env \<Rightarrow> ('w, 'z) sm adaptor" where
  "StatusOc E = \<lparr>getLastPodState = getLastPodState_oc E, setLastPodState = setLastPodState_oc E,
     set_status = set_oc E\<rparr>"

definition StatusK8s :: "('w, 'z, 'e) env \<Rightarrow> ('w, 'z) sm adaptor" where
  "StatusK8s E = \<lparr>getLastPodState = getLastPodState_k8s, setLastPodState = setLastPodState_k8s,
     set_status = set_k8s E\<rparr>"

definition platform_adaptor :: "('w, 'z, 'e) env \<Rightarrow> platform \<Rightarrow> ('w, 'z) sm adaptor" where
  "platform_adaptor E p = (case p of OpenShift \<Rightarrow> StatusOc E | Kubernetes \<Rightarrow> StatusK8s E)"

end
