(* ===== verification/Status_Correct.thy ===== *)
theory Status_Correct
  imports Pod_Status
begin

text \<open>
  Lemmas on the status manager. The documented behaviour of the helpers it calls is stated as
  \<open>retry_lawful\<close> (the body runs at least once, again only after a conflict, and the last
  result is returned) and \<open>conditions_lawful\<close> (setting a condition makes it the one that is
  found for its type and leaves the other types alone). The interface \<open>Adaptor\<close> is the locale
  \<open>status_adaptor\<close>, interpreted on both platforms.
\<close>

section \<open>The retry helper\<close>

inductive attempts :: "('s, go_error option) state \<Rightarrow> 's \<Rightarrow> go_error option \<Rightarrow> 's \<Rightarrow> bool" for f where
  last_attempt: "run_state f s = (r, s') \<Longrightarrow> attempts f s r s'"
| again: "run_state f s = (Some e, s1) \<Longrightarrow> IsConflict e \<Longrightarrow> attempts f s1 r s' \<Longrightarrow> attempts f s r s'"

definition retry_lawful :: "('w, 's, 'e) sm_env_scheme \<Rightarrow> bool" where
  "retry_lawful E \<longleftrightarrow>
     (\<forall>f s. attempts f s (fst (run_state (RetryOnConflict E f) s)) (snd (run_state (RetryOnConflict E f) s)))"

lemma attempts_preserves: "attempts f s r s' \<Longrightarrow> preserves g f \<Longrightarrow> g s' = g s"
  by (induction rule: attempts.induct) (auto dest: preservesD)

lemma preserves_retry [preserve_intros]:
  assumes "retry_lawful E" and "preserves g f"
  shows "preserves g (RetryOnConflict E f)"
  unfolding preserves_def
proof
  fix s
  show "g (snd (run_state (RetryOnConflict E f) s)) = g s"
    by (rule attempts_preserves [OF _ assms(2)]) (use assms(1) in \<open>unfold retry_lawful_def, blast\<close>)
qed

text \<open>A fact that one attempt establishes whatever it returns holds after the retries.\<close>

lemma attempts_inv:
  "attempts f s r s' \<Longrightarrow> I s \<Longrightarrow>
   (\<And>s1 r1 s2. I s1 \<Longrightarrow> run_state f s1 = (r1, s2) \<Longrightarrow> I s2 \<and> Q r1 s2) \<Longrightarrow> I s' \<and> Q r s'"
proof (induction rule: attempts.induct)
  case (last_attempt s r s')
  then show ?case by blast
next
  case (again s e s1 r s')
  then show ?case by blast
qed

lemma retry_inv:
  assumes "retry_lawful E" and "run_state (RetryOnConflict E f) s = (r, s')" and "I s"
    and "\<And>s1 r1 s2. I s1 \<Longrightarrow> run_state f s1 = (r1, s2) \<Longrightarrow> I s2 \<and> Q r1 s2"
  shows "I s' \<and> Q r s'"
proof -
  have "attempts f s r s'"
    using assms(1,2) unfolding retry_lawful_def by (metis fst_conv snd_conv)
  then show ?thesis
    using assms(3,4) by (rule attempts_inv)
qed

section \<open>What publishing leaves alone\<close>

text \<open>
  The part of the manager that publishing never changes: everything but the outside and the
  related objects.
\<close>

definition books :: "('w, 'z) sm \<Rightarrow>
    string \<times> (StatusLevel \<Rightarrow> cond option) \<times> nsname list \<times> nsname list \<times> 'z" where
  "books s = (sm_name s, failing s, daemonSets s, deployments s, status_manager.more s)"

lemma books_world [simp]: "books (s\<lparr>world := w\<rparr>) = books s"
  by (simp add: books_def)

lemma books_append_related [simp]: "books (append_related obj s) = books s"
  by (simp add: books_def append_related_def)

lemma books_eq_iff:
  "books s = books t \<longleftrightarrow> sm_name s = sm_name t \<and> failing s = failing t \<and>
     daemonSets s = daemonSets t \<and> deployments s = deployments t \<and>
     status_manager.more s = status_manager.more t"
  by (auto simp: books_def)

lemma delete_if_not_rendered_books [preserve_intros]: "preserves books (delete_if_not_rendered E obj)"
  unfolding delete_if_not_rendered_def by (intro preserve_intros) simp_all

lemma delete_loop_books [preserve_intros]: "preserves books (delete_loop E objs)"
  by (induction objs) (auto intro!: preserve_intros)

lemma delete_related_books [preserve_intros]: "preserves books (deleteRelatedObjectsNotRendered E co)"
  unfolding deleteRelatedObjectsNotRendered_def by (intro preserve_intros)

lemma set_k8s_books:
  assumes "retry_lawful E" shows "preserves books (set_k8s E r cs)"
  unfolding set_k8s_def set_attempt_k8s_def by (intro preserve_intros assms) simp_all

lemma set_k8s_related:
  assumes "retry_lawful E" shows "preserves relatedObjects (set_k8s E r cs)"
  unfolding set_k8s_def set_attempt_k8s_def by (intro preserve_intros assms) simp_all

lemma set_oc_books:
  assumes "retry_lawful E" shows "preserves books (set_oc E r cs)"
  unfolding set_oc_def set_attempt_oc_def publish_oc_def by (intro preserve_intros assms) simp_all

lemma setLastPodState_oc_frame:
  assumes "retry_lawful E"
  shows "preserves (\<lambda>s. (books s, relatedObjects s)) (setLastPodState_oc E dss deps)"
  unfolding setLastPodState_oc_def store_attempt_def Let_def
  by (intro preserve_intros assms) simp_all

lemma getLastPodState_oc_frame:
  "preserves (\<lambda>s. (books s, relatedObjects s)) (getLastPodState_oc E)"
  unfolding getLastPodState_oc_def by (intro preserve_intros) simp_all

lemma setNotDegraded_sync:
  "run_state (setNotDegraded A l) s = run_state (syncDegraded A) (s\<lparr>failing := (failing s)(l := None)\<rparr>)"
proof (cases "failing s l = None")
  case True
  then have "s\<lparr>failing := (failing s)(l := None)\<rparr> = s"
    by (simp add: fun_upd_idem)
  with True show ?thesis by (simp add: setNotDegraded_def)
qed (simp add: setNotDegraded_def)

text \<open>The failing levels hold Degraded conditions, which is all that is ever stored there.\<close>

definition failing_are_degraded :: "('w, 'z) sm \<Rightarrow> bool" where
  "failing_are_degraded s \<longleftrightarrow> (\<forall>c\<in>ran (failing s). ctype c = OperatorDegraded)"

section \<open>The interface Adaptor\<close>

locale status_adaptor =
  fixes lawful :: "('w, 'z, 'e) env \<Rightarrow> bool"
    and adaptor_of :: "('w, 'z, 'e) env \<Rightarrow> ('w, 'z) sm adaptor"
  assumes set_frame: "lawful E \<Longrightarrow> preserves books (set_status (adaptor_of E) r cs)"
    and getLast_frame: "preserves (\<lambda>s. (books s, relatedObjects s)) (getLastPodState (adaptor_of E))"
    and setLast_frame:
      "lawful E \<Longrightarrow> preserves (\<lambda>s. (books s, relatedObjects s)) (setLastPodState (adaptor_of E) dss deps)"
begin

lemma syncDegraded_frame: "lawful E \<Longrightarrow> preserves books (syncDegraded (adaptor_of E))"
  unfolding syncDegraded_def by (intro preserve_intros set_frame)

lemma setConditions_frame: "lawful E \<Longrightarrow> preserves books (setConditions (adaptor_of E) p r)"
  unfolding setConditions_def Let_def by (rule set_frame)

lemma setDegraded_books:
  assumes "lawful E" and "run_state (setDegraded (adaptor_of E) l reason msg) s = (u, s')"
  shows "books s' = books (s\<lparr>failing := (failing s)(l := Some (mk_cond OperatorDegraded ConditionTrue reason msg))\<rparr>)"
  using preservesD [OF syncDegraded_frame [OF assms(1)]] assms(2)
  by (simp add: setDegraded_def)

lemma setNotDegraded_books:
  assumes "lawful E" and "run_state (setNotDegraded (adaptor_of E) l) s = (u, s')"
  shows "books s' = books (s\<lparr>failing := (failing s)(l := None)\<rparr>)"
  using preservesD [OF syncDegraded_frame [OF assms(1)]] assms(2)
  by (simp add: setNotDegraded_sync)

lemma scan_pods_frame:
  "preserves (\<lambda>s. (books s, relatedObjects s)) (scan_pods E (adaptor_of E))"
  unfolding scan_pods_def Let_def by (intro preserve_intros getLast_frame) simp_all

text \<open>
  A pass over the workloads ends by publishing the Degraded condition of a state whose books are
  those of the start but for two levels: \<open>PodDeployment\<close> is cleared and \<open>RolloutHung\<close> is set or
  cleared by what the pass found.
\<close>

lemma SetFromPods_sync:
  assumes "lawful E" and "run_state (SetFromPods E (adaptor_of E)) s = (u, s')"
    and "run_state (scan_pods E (adaptor_of E)) s = ((acc, ds, dep), s1)"
  shows "\<exists>t. books t = books (s\<lparr>failing := (failing s)(PodDeployment := None, RolloutHung :=
      (if hung acc = [] then None
       else Some (mk_cond OperatorDegraded ConditionTrue ''RolloutHung'' (strings_join newline (hung acc)))))\<rparr>)
    \<and> run_state (syncDegraded (adaptor_of E)) t = (u, s')"
proof -
  let ?h = "if hung acc = [] then None
       else Some (mk_cond OperatorDegraded ConditionTrue ''RolloutHung'' (strings_join newline (hung acc)))"
  obtain u2 s2 u3 s3 u4 s4 where
      s2: "run_state (setNotDegraded (adaptor_of E) PodDeployment) s1 = (u2, s2)"
      and s3: "run_state (setLastPodState (adaptor_of E) ds dep) s2 = (u3, s3)"
      and s4: "run_state (setConditions (adaptor_of E) (progressing acc) (reachedAvailableLevel acc)) s3 = (u4, s4)"
    by (metis surj_pair)
  have b: "books s1 = books s"
    using preservesD [OF scan_pods_frame assms(3)] by simp
  have b2: "books s2 = books (s1\<lparr>failing := (failing s1)(PodDeployment := None)\<rparr>)"
    by (rule setNotDegraded_books [OF assms(1) s2])
  have b3: "books s3 = books s2"
    using preservesD [OF setLast_frame [OF assms(1)] s3] by simp
  have b4: "books s4 = books s3"
    by (rule preservesD [OF setConditions_frame [OF assms(1)] s4])
  let ?t = "s4\<lparr>failing := (failing s4)(RolloutHung := ?h)\<rparr>"
  have "run_state (if length (hung acc) > 0
      then setDegraded (adaptor_of E) RolloutHung ''RolloutHung'' (strings_join newline (hung acc))
      else setNotDegraded (adaptor_of E) RolloutHung) s4 = (u, s')"
    using assms(2,3) s2 s3 s4 by (simp add: SetFromPods_def split: if_splits)
  moreover have "run_state (if length (hung acc) > 0
      then setDegraded (adaptor_of E) RolloutHung ''RolloutHung'' (strings_join newline (hung acc))
      else setNotDegraded (adaptor_of E) RolloutHung) s4 = run_state (syncDegraded (adaptor_of E)) ?t"
    by (simp add: setDegraded_def setNotDegraded_sync)
  moreover have "books ?t = books (s\<lparr>failing := (failing s)(PodDeployment := None, RolloutHung := ?h)\<rparr>)"
    using b b2 b3 b4 by (simp add: books_eq_iff)
  ultimately show ?thesis by metis
qed

lemma SetFromPods_books:
  assumes "lawful E" and "run_state (SetFromPods E (adaptor_of E)) s = (u, s')"
    and "run_state (scan_pods E (adaptor_of E)) s = ((acc, ds, dep), s1)"
  shows "books s' = books (s\<lparr>failing := (failing s)(PodDeployment := None, RolloutHung :=
    (if hung acc = [] then None
     else Some (mk_cond OperatorDegraded ConditionTrue ''RolloutHung'' (strings_join newline (hung acc)))))\<rparr>)"
  using SetFromPods_sync [OF assms] preservesD [OF syncDegraded_frame [OF assms(1)]] by fastforce

end

interpretation oc_status: status_adaptor retry_lawful StatusOc
  by unfold_locales
    (auto simp: StatusOc_def intro: set_oc_books getLastPodState_oc_frame setLastPodState_oc_frame)

interpretation k8s_status: status_adaptor retry_lawful StatusK8s
  by unfold_locales
    (auto simp: StatusK8s_def getLastPodState_k8s_def setLastPodState_k8s_def
      intro: set_k8s_books preserve_intros)

text \<open>Both at once, for the code that is given the adaptor of its platform.\<close>

interpretation platform_status: status_adaptor retry_lawful "\<lambda>E. platform_adaptor E p" for p
  by unfold_locales
    (cases p; simp add: platform_adaptor_def oc_status.set_frame k8s_status.set_frame
      oc_status.getLast_frame k8s_status.getLast_frame oc_status.setLast_frame k8s_status.setLast_frame)+

lemma wp_SetDegraded [wp_intros]:
  assumes "retry_lawful E"
    and "\<And>u t. books t = books (s\<lparr>failing := (failing s)(l := Some (mk_cond OperatorDegraded ConditionTrue r m))\<rparr>) \<Longrightarrow> Q u t"
  shows "wp (SetDegraded (platform_adaptor E p) l r m) Q s"
  unfolding wp_def SetDegraded_def
  using platform_status.setDegraded_books [OF assms(1)] assms(2) by (auto split: prod.splits)

lemma wp_SetNotDegraded [wp_intros]:
  assumes "retry_lawful E"
    and "\<And>u t. books t = books (s\<lparr>failing := (failing s)(l := None)\<rparr>) \<Longrightarrow> Q u t"
  shows "wp (SetNotDegraded (platform_adaptor E p) l) Q s"
  unfolding wp_def SetNotDegraded_def
  using platform_status.setNotDegraded_books [OF assms(1)] assms(2) by (auto split: prod.splits)

end
