(* ===== verification/Status_Conditions.thy ===== *)
theory Status_Conditions
  imports Status_Correct
begin

text \<open>
  Conditions as an abstract map. A list of conditions stands for the map from condition types to
  status, reason and message that \<open>FindStatusCondition\<close> reads off it (\<open>cond_view\<close>);
  \<open>CombineConditions\<close> and \<open>setClusterOperatorConditions\<close> refine updates of that map.
\<close>

section \<open>The abstract view\<close>

type_synonym cond_map = "string \<rightharpoonup> string \<times> string \<times> string"

definition cond_content :: "cond \<Rightarrow> string \<times> string \<times> string" where
  "cond_content c = (cstatus c, creason c, cmessage c)"

lemma cond_content_mk [simp]: "cond_content (mk_cond t s r m) = (s, r, m)"
  by (simp add: cond_content_def)

definition cond_view :: "('w, 's, 'e) sm_env_scheme \<Rightarrow> cond list \<Rightarrow> cond_map" where
  "cond_view E cs = (\<lambda>t. map_option cond_content (FindStatusCondition E cs t))"

text \<open>The documented behaviour of the helpers of library-go.\<close>

definition conditions_lawful :: "('w, 's, 'e) sm_env_scheme \<Rightarrow> bool" where
  "conditions_lawful E \<longleftrightarrow>
     cond_view E [] = Map.empty \<and>
     (\<forall>cs n w. cond_view E (fst (run_state (SetStatusCondition E cs n) w)) =
        (cond_view E cs)(ctype n \<mapsto> cond_content n))"

lemma conditions_lawfulD:
  "conditions_lawful E \<Longrightarrow> run_state (SetStatusCondition E cs n) w = (cs', w') \<Longrightarrow>
   cond_view E cs' = (cond_view E cs)(ctype n \<mapsto> cond_content n)"
  unfolding conditions_lawful_def by (metis fst_conv)

lemma conditions_lawful_empty: "conditions_lawful E \<Longrightarrow> cond_view E [] = Map.empty"
  by (simp add: conditions_lawful_def)

lemma find_view:
  "FindStatusCondition E cs t = None \<longleftrightarrow> cond_view E cs t = None"
  "FindStatusCondition E cs t = Some c \<Longrightarrow> cond_view E cs t = Some (cond_content c)"
  by (simp_all add: cond_view_def)

definition combine_view :: "cond_map \<Rightarrow> cond list \<Rightarrow> cond_map" where
  "combine_view m cs = foldl (\<lambda>m n. m(ctype n \<mapsto> cond_content n)) m cs"

lemma combine_view_simps [simp]:
  "combine_view m [] = m"
  "combine_view m (n # ns) = combine_view (m(ctype n \<mapsto> cond_content n)) ns"
  by (simp_all add: combine_view_def)

lemma combine_view_other: "t \<notin> ctype ` set ns \<Longrightarrow> combine_view m ns t = m t"
  by (induction ns arbitrary: m) auto

lemma combine_view_dom: "dom (combine_view m ns) = dom m \<union> ctype ` set ns"
  by (induction ns arbitrary: m) auto

text \<open>What \<open>setClusterOperatorConditions\<close> makes of the view.\<close>

definition published_view :: "cond_map \<Rightarrow> cond list \<Rightarrow> cond_map" where
  "published_view m conditions =
     (let v = combine_view m conditions;
          v' = (if v OperatorAvailable = None \<and> (\<exists>r msg. v OperatorProgressing = Some (ConditionTrue, r, msg))
                then v(OperatorAvailable \<mapsto> (ConditionFalse, ''Startup'', ''The network is starting up''))
                else v)
      in v'(OperatorUpgradeable \<mapsto> (ConditionTrue, '''', '''')))"

lemma condition_types_distinct [simp]:
  "OperatorProgressing \<noteq> OperatorAvailable" "OperatorProgressing \<noteq> OperatorDegraded"
  "OperatorProgressing \<noteq> OperatorUpgradeable" "OperatorAvailable \<noteq> OperatorProgressing"
  "OperatorAvailable \<noteq> OperatorDegraded" "OperatorAvailable \<noteq> OperatorUpgradeable"
  "OperatorDegraded \<noteq> OperatorProgressing" "OperatorDegraded \<noteq> OperatorAvailable"
  "OperatorDegraded \<noteq> OperatorUpgradeable" "OperatorUpgradeable \<noteq> OperatorProgressing"
  "OperatorUpgradeable \<noteq> OperatorAvailable" "OperatorUpgradeable \<noteq> OperatorDegraded"
  "ConditionTrue \<noteq> ConditionFalse" "ConditionFalse \<noteq> ConditionTrue"
  by (simp_all add: condition_type_defs condition_value_defs)

section \<open>Refinement\<close>

lemma combine_loop_view:
  assumes "conditions_lawful E" and "run_state (combine_loop E ns cs ch ms) w = ((cs', ch', ms'), w')"
  shows "cond_view E cs' = combine_view (cond_view E cs) ns"
  using assms(2)
proof (induction ns arbitrary: cs ch ms w)
  case Nil
  then show ?case by simp
next
  case (Cons n ns)
  show ?case
  proof (cases "cond_view E cs (ctype n) = Some (cond_content n)")
    case True
    then obtain c where "FindStatusCondition E cs (ctype n) = Some c" "cond_content c = cond_content n"
      by (auto simp: cond_view_def)
    with Cons.prems have "run_state (combine_loop E ns cs ch ms) w = ((cs', ch', ms'), w')"
      by (simp add: cond_content_def)
    from Cons.IH [OF this] True show ?thesis
      by (simp add: map_upd_triv)
  next
    case False
    obtain cs1 w1 where set: "run_state (SetStatusCondition E cs n) w = (cs1, w1)"
      by fastforce
    have "\<exists>ms1. run_state (combine_loop E ns cs1 True ms1) w1 = ((cs', ch', ms'), w')"
      using Cons.prems set False
      by (auto simp: cond_view_def cond_content_def split: option.splits if_splits)
    then show ?thesis
      using Cons.IH conditions_lawfulD [OF assms(1) set] by (auto simp del: fun_upd_apply)
  qed
qed

lemma combine_loop_changed:
  assumes "conditions_lawful E" and "run_state (combine_loop E ns cs ch ms) w = ((cs', ch', ms'), w')"
    and "distinct (map ctype ns)"
  shows "ch' \<longleftrightarrow> ch \<or> combine_view (cond_view E cs) ns \<noteq> cond_view E cs"
  using assms(2,3)
proof (induction ns arbitrary: cs ch ms w)
  case Nil
  then show ?case by simp
next
  case (Cons n ns)
  show ?case
  proof (cases "cond_view E cs (ctype n) = Some (cond_content n)")
    case True
    then obtain c where "FindStatusCondition E cs (ctype n) = Some c" "cond_content c = cond_content n"
      by (auto simp: cond_view_def)
    with Cons.prems have "run_state (combine_loop E ns cs ch ms) w = ((cs', ch', ms'), w')"
      by (simp add: cond_content_def)
    from Cons.IH [OF this] Cons.prems(2) True show ?thesis
      by (simp add: map_upd_triv)
  next
    case False
    obtain cs1 w1 where set: "run_state (SetStatusCondition E cs n) w = (cs1, w1)"
      by fastforce
    have "\<exists>ms1. run_state (combine_loop E ns cs1 True ms1) w1 = ((cs', ch', ms'), w')"
      using Cons.prems set False
      by (auto simp: cond_view_def cond_content_def split: option.splits if_splits)
    then have ch': "ch'"
      using Cons.IH Cons.prems(2) by auto
    have "combine_view (cond_view E cs) (n # ns) (ctype n) = Some (cond_content n)"
      using Cons.prems(2) by (simp add: combine_view_other)
    with False ch' show ?thesis by metis
  qed
qed

lemma setClusterOperatorConditions_view:
  assumes "conditions_lawful E"
    and "run_state (setClusterOperatorConditions E co r conditions) w = (co', w')"
  shows "cond_view E (cos_conditions (co_status co')) =
    published_view (cond_view E (cos_conditions (co_status co))) conditions"
proof -
  let ?st = "if r then (co_status co)\<lparr>cos_versions := [(''operator'', GetVersion (sm_build_version E))]\<rparr>
             else co_status co"
  obtain cs ch ms w1 where
      c: "run_state (CombineConditions E (cos_conditions (co_status co)) conditions) w = ((cs, ch, ms), w1)"
    by (metis prod_cases3 surj_pair)
  have v: "cond_view E cs = combine_view (cond_view E (cos_conditions (co_status co))) conditions"
    using combine_loop_view [OF assms(1)] c by (simp add: CombineConditions_def)
  let ?startup = "FindStatusCondition E cs OperatorAvailable = None \<and>
      (case FindStatusCondition E cs OperatorProgressing of None \<Rightarrow> False | Some p \<Rightarrow> cstatus p = ConditionTrue)"
  have startup: "?startup \<longleftrightarrow> cond_view E cs OperatorAvailable = None \<and>
      (\<exists>r msg. cond_view E cs OperatorProgressing = Some (ConditionTrue, r, msg))"
    by (auto simp: cond_view_def cond_content_def split: option.splits)
  have conds: "cos_conditions ?st = cos_conditions (co_status co)" by simp
  obtain cs1 w2 where
      s1: "run_state (if ?startup then SetStatusCondition E cs (mk_cond OperatorAvailable ConditionFalse
        ''Startup'' ''The network is starting up'') else ret cs) w1 = (cs1, w2)"
    by fastforce
  obtain cs2 w3 where
      s2: "run_state (SetStatusCondition E cs1 (mk_cond OperatorUpgradeable ConditionTrue '''' '''')) w2 = (cs2, w3)"
    by fastforce
  have v1: "cond_view E cs1 = (if ?startup
      then (cond_view E cs)(OperatorAvailable \<mapsto> (ConditionFalse, ''Startup'', ''The network is starting up''))
      else cond_view E cs)"
    using s1 conditions_lawfulD [OF assms(1)] by (auto split: if_splits)
  have "cos_conditions (co_status co') = cs2"
    using assms(2) c s1 s2 by (auto simp: setClusterOperatorConditions_def conds Let_def split: if_splits)
  with conditions_lawfulD [OF assms(1) s2] v v1 startup show ?thesis
    by (simp add: published_view_def Let_def)
qed

section \<open>The stored custom resource\<close>

text \<open>
  The documented behaviour of the API server for the custom resource, seen through the function
  \<open>stored\<close> that gives the conditions it holds: a read returns them, a successful patch stores
  the new ones (a merge patch replaces a list), a failed patch and every other call leave them.
\<close>

definition install_store :: "('w, 's, 'e) sm_env_scheme \<Rightarrow> ('w \<Rightarrow> cond list) \<Rightarrow> bool" where
  "install_store E stored \<longleftrightarrow>
     (\<forall>k w. stored (snd (run_state (get_install E k) w)) = stored w \<and>
        (\<forall>i. fst (run_state (get_install E k) w) = Inr i \<longrightarrow> install_conditions i = stored w)) \<and>
     (\<forall>new old w. stored (snd (run_state (patch_install_status E new old) w)) =
        (if fst (run_state (patch_install_status E new old) w) = None then install_conditions new
         else stored w)) \<and>
     (\<forall>cs n w. stored (snd (run_state (SetStatusCondition E cs n) w)) = stored w)"

lemma install_store_get:
  "install_store E stored \<Longrightarrow> run_state (get_install E k) w = (r, w') \<Longrightarrow>
   stored w' = stored w \<and> (\<forall>i. r = Inr i \<longrightarrow> install_conditions i = stored w)"
  unfolding install_store_def by (metis fst_conv snd_conv)

lemma install_store_patch:
  "install_store E stored \<Longrightarrow> run_state (patch_install_status E new old) w = (r, w') \<Longrightarrow>
   stored w' = (if r = None then install_conditions new else stored w)"
  unfolding install_store_def by (metis fst_conv snd_conv)

lemma install_store_preserves:
  assumes "install_store E stored"
  shows "preserves stored (SetStatusCondition E cs n)" "preserves stored (get_install E k)"
  using assms unfolding install_store_def preserves_def by blast+

lemma combine_loop_preserves:
  assumes "\<And>cs n. preserves f (SetStatusCondition E cs n)"
  shows "preserves f (combine_loop E ns cs ch ms)"
  by (induction ns arbitrary: cs ch ms) (auto intro!: preserve_intros assms split: option.splits)

lemma setClusterOperatorConditions_preserves:
  assumes "\<And>cs n. preserves f (SetStatusCondition E cs n)"
  shows "preserves f (setClusterOperatorConditions E co r cs)"
  unfolding setClusterOperatorConditions_def CombineConditions_def Let_def
  by (intro preserve_intros combine_loop_preserves assms)

lemma setAntreaInstallStatus_stored:
  assumes "install_store E stored"
    and "run_state (setAntreaInstallStatus E conditions) w = (r, w')"
  shows "stored w' = conditions \<or> stored w' = stored w"
  using assms(2) install_store_get [OF assms(1)] install_store_patch [OF assms(1)]
  by (auto simp: setAntreaInstallStatus_def split: sum.splits prod.splits if_splits)

text \<open>
  On plain Kubernetes one attempt either leaves the stored conditions or replaces all of them by
  what the conditions of this very call come to; nothing of the earlier conditions survives.
\<close>

lemma set_attempt_k8s_stored:
  assumes "install_store E stored" and "conditions_lawful E"
    and "run_state (set_attempt_k8s E r conditions) s = (res, s')"
  shows "stored (world s') = stored (world s) \<or>
     cond_view E (stored (world s')) = published_view Map.empty conditions"
proof -
  obtain g w1 where g: "run_state (get_install E antrea_install_key) (world s) = (g, w1)"
    by fastforce
  note st1 = install_store_get [OF assms(1) g]
  show ?thesis
  proof (cases g)
    case (Inl err)
    with g st1 assms(3) show ?thesis by (auto simp: set_attempt_k8s_def)
  next
    case (Inr inst)
    obtain co w2 where c: "run_state (setClusterOperatorConditions E (new_cluster_operator (sm_name s)) r conditions) w1 = (co, w2)"
      by fastforce
    have st2: "stored w2 = stored w1"
      by (rule preservesD [OF setClusterOperatorConditions_preserves
            [OF install_store_preserves(1) [OF assms(1)]] c])
    have view: "cond_view E (cos_conditions (co_status co)) = published_view Map.empty conditions"
      using setClusterOperatorConditions_view [OF assms(2) c] conditions_lawful_empty [OF assms(2)]
      by (simp add: new_cluster_operator_def)
    show ?thesis
    proof (cases "install_conditions inst = cos_conditions (co_status co)")
      case True
      with Inr g c assms(3) st1 st2 show ?thesis by (auto simp: set_attempt_k8s_def)
    next
      case False
      obtain u w3 where "run_state (setAntreaInstallStatus E (cos_conditions (co_status co))) w2 = (u, w3)"
        by fastforce
      with setAntreaInstallStatus_stored [OF assms(1) this] False Inr g c assms(3) st1 st2 view
      show ?thesis by (auto simp: set_attempt_k8s_def)
    qed
  qed
qed

end
