(* ===== verification/Reference_Cluster.thy ===== *)
theory Reference_Cluster
  imports Status_Conditions Reference_Lib
begin

text \<open>
  A concrete instance of what the status manager is parametric in: a small cluster held in a
  record, with condition helpers and a retry helper that keep the documented laws. It models no
  code of the repository; the witnesses of the properties run on it.
\<close>

record cluster =
  cl_install :: "antrea_install option"
  cl_co :: "cluster_operator option"
  cl_ds :: "nsname \<rightharpoonup> daemonset"
  cl_dep :: "nsname \<rightharpoonup> deployment"
  cl_clock :: int
  cl_deleted :: "(gvk \<times> nsname) list"
  cl_network :: "network option"
  cl_opnetwork :: "op_network option"
  cl_configmaps :: "configmap list"
  cl_writes :: "cluster_write list"

definition not_found :: go_error where
  "not_found = GoError NotFound ''not found''"

lemma not_found_is [simp]: "IsNotFound not_found" "\<not> IsConflict not_found"
  by (simp_all add: not_found_def IsNotFound_def IsConflict_def)

definition ref_read :: "('w \<Rightarrow> 'a option) \<Rightarrow> ('w, go_error + 'a) state" where
  "ref_read f = State (\<lambda>w. (case f w of None \<Rightarrow> Inl not_found | Some x \<Rightarrow> Inr x, w))"

lemma run_state_ref_read [simp]:
  "run_state (ref_read f) w = (case f w of None \<Rightarrow> Inl not_found | Some x \<Rightarrow> Inr x, w)"
  by (simp add: ref_read_def)

definition ref_clock :: "(cluster, gotime) state" where
  "ref_clock = State (\<lambda>w. (GoTime (cl_clock w) (Some (cl_clock w)), w\<lparr>cl_clock := cl_clock w + 1\<rparr>))"

lemma run_state_ref_clock [simp]:
  "run_state ref_clock w = (GoTime (cl_clock w) (Some (cl_clock w)), w\<lparr>cl_clock := cl_clock w + 1\<rparr>)"
  by (simp add: ref_clock_def)

definition ref_find :: "cond list \<Rightarrow> string \<Rightarrow> cond option" where
  "ref_find cs t = List.find (\<lambda>c. ctype c = t) cs"

fun ref_upsert :: "gotime \<Rightarrow> cond \<Rightarrow> cond list \<Rightarrow> cond list" where
  "ref_upsert now n [] = [n\<lparr>ctransition := now\<rparr>]"
| "ref_upsert now n (c # cs) =
     (if ctype c = ctype n
      then n\<lparr>ctransition := (if cstatus c = cstatus n then ctransition c else now)\<rparr> # cs
      else c # ref_upsert now n cs)"

fun ref_retry :: "nat \<Rightarrow> ('s, go_error option) state \<Rightarrow> ('s, go_error option) state" where
  "ref_retry 0 f = f"
| "ref_retry (Suc n) f =
     do {
       r \<leftarrow> f;
       case r of None \<Rightarrow> ret None
       | Some e \<Rightarrow> if IsConflict e then ref_retry n f else ret (Some e)
     }"

definition ref_co :: "string \<Rightarrow> cluster \<Rightarrow> cluster_operator option" where
  "ref_co n w = (case cl_co w of None \<Rightarrow> None | Some co \<Rightarrow> if co_name co = n then Some co else None)"

text \<open>A merge patch: the annotations that differ between the two objects are written.\<close>

definition ref_patch_co ::
    "cluster_operator \<Rightarrow> cluster_operator \<Rightarrow> (cluster, go_error option) state" where
  "ref_patch_co new old = State (\<lambda>w.
     case ref_co (co_name new) w of
       None \<Rightarrow> (Some not_found, w)
     | Some co \<Rightarrow> (None, w\<lparr>cl_co := Some (co\<lparr>co_annotations := Some (\<lambda>k.
         if gomap_get (co_annotations new) k \<noteq> gomap_get (co_annotations old) k
         then gomap_get (co_annotations new) k else gomap_get (co_annotations co) k)\<rparr>)\<rparr>))"

definition ref_annotation :: "string \<Rightarrow> string \<Rightarrow> cluster \<Rightarrow> string option" where
  "ref_annotation n k w =
     (case ref_co n w of None \<Rightarrow> None | Some co \<Rightarrow> gomap_get (co_annotations co) k)"

definition empty_ps :: pod_state where
  "empty_ps = \<lparr>DaemonsetStates = [], DeploymentStates = []\<rparr>"

definition ref_env :: "(cluster, 's) sm_env" where
  "ref_env =
     \<lparr>get_install = (\<lambda>k. ref_read (\<lambda>w. if k = antrea_install_key then cl_install w else None)),
      patch_install_status = (\<lambda>new old. State (\<lambda>w. case cl_install w of
          None \<Rightarrow> (Some not_found, w) | Some _ \<Rightarrow> (None, w\<lparr>cl_install := Some new\<rparr>))),
      get_co = (\<lambda>n. ref_read (ref_co n)),
      create_co = (\<lambda>co. State (\<lambda>w. (None, w\<lparr>cl_co := Some co\<rparr>))),
      update_co_status = (\<lambda>co. State (\<lambda>w. (Inr co, w\<lparr>cl_co := Some co\<rparr>))),
      patch_co = ref_patch_co,
      delete_object = (\<lambda>k n. State (\<lambda>w. (None, w\<lparr>cl_deleted := cl_deleted w @ [(k, n)]\<rparr>))),
      get_daemonset = (\<lambda>n. ref_read (\<lambda>w. cl_ds w n)),
      get_deployment = (\<lambda>n. ref_read (\<lambda>w. cl_dep w n)),
      kind_for = (\<lambda>g r. State (\<lambda>w. (Inr \<lparr>gvk_group = g, gvk_version = ''v1'', gvk_kind = r\<rparr>, w))),
      time_now = ref_clock,
      FindStatusCondition = ref_find,
      SetStatusCondition = (\<lambda>cs n. do { now \<leftarrow> ref_clock; ret (ref_upsert now n cs) }),
      RetryOnConflict = ref_retry 3,
      fmt_cond = (\<lambda>c. ctype c),
      fmt_rfc3339 = (\<lambda>t. show_int (wall t)),
      json_marshal_ps = (\<lambda>ps. if ps = empty_ps then Inr ''{}'' else Inl (errors_new ''json'')),
      json_unmarshal_ps = (\<lambda>s. if s = ''{}'' then Inr empty_ps else Inl (errors_new ''json'')),
      range_keys = (\<lambda>K. ret (sorted_list_of_set K)),
      sm_build_version = ''v1.9.0''\<rparr>"

lemma ref_env_sel [simp]:
  "get_install ref_env k = ref_read (\<lambda>w. if k = antrea_install_key then cl_install w else None)"
  "get_co ref_env n = ref_read (ref_co n)"
  "create_co ref_env co = State (\<lambda>w. (None, w\<lparr>cl_co := Some co\<rparr>))"
  "update_co_status ref_env co = State (\<lambda>w. (Inr co, w\<lparr>cl_co := Some co\<rparr>))"
  "patch_install_status ref_env new old = State (\<lambda>w. case cl_install w of
     None \<Rightarrow> (Some not_found, w) | Some _ \<Rightarrow> (None, w\<lparr>cl_install := Some new\<rparr>))"
  "patch_co ref_env = ref_patch_co"
  "delete_object ref_env gk n' = State (\<lambda>w. (None, w\<lparr>cl_deleted := cl_deleted w @ [(gk, n')]\<rparr>))"
  "get_daemonset ref_env n' = ref_read (\<lambda>w. cl_ds w n')"
  "get_deployment ref_env n' = ref_read (\<lambda>w. cl_dep w n')"
  "kind_for ref_env g r = State (\<lambda>w. (Inr \<lparr>gvk_group = g, gvk_version = ''v1'', gvk_kind = r\<rparr>, w))"
  "time_now ref_env = ref_clock"
  "FindStatusCondition ref_env = ref_find"
  "SetStatusCondition ref_env cs c = do { now \<leftarrow> ref_clock; ret (ref_upsert now c cs) }"
  "RetryOnConflict ref_env = ref_retry 3"
  "range_keys ref_env K = ret (sorted_list_of_set K)"
  "sm_build_version ref_env = ''v1.9.0''"
  "json_marshal_ps ref_env ps = (if ps = empty_ps then Inr ''{}'' else Inl (errors_new ''json''))"
  "json_unmarshal_ps ref_env s = (if s = ''{}'' then Inr empty_ps else Inl (errors_new ''json''))"
  by (simp_all add: ref_env_def)

lemma ref_retry_attempts:
  "attempts f s (fst (run_state (ref_retry n f) s)) (snd (run_state (ref_retry n f) s))"
proof (induction n arbitrary: s)
  case 0
  show ?case by (rule last_attempt) simp
next
  case (Suc n)
  obtain r s1 where r: "run_state f s = (r, s1)" by fastforce
  show ?case
  proof (cases "\<exists>e. r = Some e \<and> IsConflict e")
    case True
    with r Suc show ?thesis by (auto intro: again)
  next
    case False
    with r show ?thesis by (auto intro!: last_attempt split: option.splits)
  qed
qed

lemma ref_retry_lawful: "retry_lawful (ref_env :: (cluster, 's) sm_env)"
  by (simp add: retry_lawful_def ref_retry_attempts)

lemma ref_find_upsert:
  "map_option cond_content (ref_find (ref_upsert now n cs) t) =
     (if t = ctype n then Some (cond_content n) else map_option cond_content (ref_find cs t))"
  by (induction cs) (auto simp: ref_find_def cond_content_def [abs_def])

lemma ref_conditions_lawful: "conditions_lawful ref_env"
  by (auto simp: conditions_lawful_def cond_view_def ref_find_upsert)
    (simp add: ref_find_def)

definition ref_stored :: "cluster \<Rightarrow> cond list" where
  "ref_stored w = (case cl_install w of None \<Rightarrow> [] | Some i \<Rightarrow> install_conditions i)"

lemma ref_install_store: "install_store ref_env ref_stored"
  by (auto simp: install_store_def ref_stored_def split: option.splits if_splits)

text \<open>A cluster with the custom resource and nothing else.\<close>

definition sample_cluster :: cluster where
  "sample_cluster =
     \<lparr>cl_install = Some (sample_install ''user''), cl_co = None, cl_ds = Map.empty, cl_dep = Map.empty,
      cl_clock = 1000, cl_deleted = [], cl_network = Some sample_network,
      cl_opnetwork = Some \<lparr>DisableMultiNetwork = None\<rparr>, cl_configmaps = [], cl_writes = []\<rparr>"

definition sample_manager :: "cluster status_manager" where
  "sample_manager =
     \<lparr>world = sample_cluster, sm_name = AntreaClusterOperatorName, failing = (\<lambda>_. None),
      daemonSets = [NSN AntreaNamespace AntreaAgentDaemonSetName], deployments = [],
      relatedObjects = None\<rparr>"

end
