(* ===== verification/Status_Properties.thy ===== *)
theory Status_Properties
  imports Reference_Cluster
begin

text \<open>
  The properties of \<open>controllers/statusmanager/status_manager.go\<close>.
\<close>

section \<open>Degraded levels\<close>


lemma first_failing_sorted:
  "sorted ls \<Longrightarrow> first_failing f ls = Some c \<Longrightarrow>
   \<exists>k\<in>set ls. f k = Some c \<and> (\<forall>j\<in>set ls. j < k \<longrightarrow> f j = None)"
proof (induction ls)
  case (Cons l ls)
  then show ?case by (cases "f l") auto
qed simp

lemma first_failing_None: "first_failing f ls = None \<longleftrightarrow> (\<forall>l\<in>set ls. f l = None)"
  by (induction ls) (auto split: option.splits)

lemma status_levels_complete: "set status_levels = UNIV" "sorted status_levels"
  by (auto simp: status_levels_def less_eq_StatusLevel_def intro: StatusLevel.exhaust)

lemma first_failing_least:
  assumes "first_failing f status_levels = Some c"
  shows "f (LEAST k. f k \<noteq> None) = Some c"
proof -
  obtain k where k: "f k = Some c" "\<And>j. j < k \<Longrightarrow> f j = None"
    using first_failing_sorted [OF status_levels_complete(2) assms]
    by (auto simp: status_levels_complete(1))
  have "(LEAST k. f k \<noteq> None) = k"
    using k by (intro Least_equality) (auto simp: not_less [symmetric])
  with k show ?thesis by simp
qed

text \<open>C7: Setting a level degraded records exactly that level and makes exactly one publication: the
  Degraded condition of the least failing level in the order of the levels, so a failing cluster
  configuration hides every later level. Clearing a level publishes the least level that still
  fails, and Degraded=False only when none does. This holds for any adaptor.\<close>

theorem degraded_publishes_least_level:
  fixes A :: "('w, 'z) sm adaptor" and s :: "('w, 'z) sm" and l reason msg
  defines "f \<equiv> (failing s)(l := Some (mk_cond OperatorDegraded ConditionTrue reason msg))"
    and "g \<equiv> (failing s)(l := None)"
  shows "run_state (SetDegraded A l reason msg) s =
      run_state (set_status A False [the (f (LEAST k. f k \<noteq> None))]) (s\<lparr>failing := f\<rparr>)
    \<and> run_state (SetNotDegraded A l) s =
      run_state (set_status A False [if g = (\<lambda>_. None) then mk_cond OperatorDegraded ConditionFalse '''' ''''
        else the (g (LEAST k. g k \<noteq> None))]) (s\<lparr>failing := g\<rparr>)"
proof -
  have sync: "run_state (syncDegraded A) t =
      run_state (set_status A False [if failing t = (\<lambda>_. None) then mk_cond OperatorDegraded ConditionFalse '''' ''''
        else the (failing t (LEAST k. failing t k \<noteq> None))]) t" for t
    using first_failing_least [of "failing t"] first_failing_None [of "failing t" status_levels]
    by (cases "first_failing (failing t) status_levels")
      (auto simp: syncDegraded_def status_levels_complete(1) fun_eq_iff)
  have "f \<noteq> (\<lambda>_. None)"
    unfolding f_def by (metis fun_upd_same option.distinct(1))
  moreover have "run_state (SetDegraded A l reason msg) s = run_state (syncDegraded A) (s\<lparr>failing := f\<rparr>)"
    by (simp add: SetDegraded_def setDegraded_def f_def)
  moreover have "run_state (SetNotDegraded A l) s = run_state (syncDegraded A) (s\<lparr>failing := g\<rparr>)"
    by (simp add: SetNotDegraded_def setNotDegraded_sync g_def)
  ultimately show ?thesis
    using sync [of "s\<lparr>failing := f\<rparr>"] sync [of "s\<lparr>failing := g\<rparr>"] by simp
qed

section \<open>Combining and completing conditions\<close>

text \<open>C31: CombineConditions refines the update of an abstract map from condition types to status, reason
  and message: the resulting list reads as the old one with every new condition written over it, and,
  when the new conditions have different types, the returned flag says whether anything changed.\<close>

theorem combine_conditions_refines:
  assumes "conditions_lawful E"
    and "run_state (CombineConditions E cs news) w = ((cs', changed, messages), w')"
    and "distinct (map ctype news)"
  shows "cond_view E cs' = combine_view (cond_view E cs) news \<and>
    (changed \<longleftrightarrow> cond_view E cs' \<noteq> cond_view E cs)"
proof -
  have r: "run_state (combine_loop E news cs False '''') w = ((cs', changed, messages), w')"
    using assms(2) by (simp add: CombineConditions_def)
  show ?thesis
    using combine_loop_view [OF assms(1) r] combine_loop_changed [OF assms(1) r assms(3)] by simp
qed

lemma combine_conditions_refines_witness:
  "cond_view (ref_env :: (cluster, unit) sm_env)
     (fst (fst (run_state (CombineConditions (ref_env :: (cluster, unit) sm_env) []
        [mk_cond OperatorDegraded ConditionFalse '''' '''']) sample_cluster))) OperatorDegraded =
   Some (ConditionFalse, '''', '''')"
proof -
  let ?n = "mk_cond OperatorDegraded ConditionFalse '''' ''''"
  obtain cs' ch ms w' where r: "run_state (CombineConditions (ref_env :: (cluster, unit) sm_env) [] [?n])
      sample_cluster = ((cs', ch, ms), w')"
    by (metis prod_cases3 surj_pair)
  then show ?thesis
    using combine_conditions_refines [OF ref_conditions_lawful r] by simp
qed

text \<open>C17: What setClusterOperatorConditions publishes: the given conditions over the old ones, Upgradeable
  always true, and Available never missing while Progressing is true (it is added as false, with the
  reason Startup, exactly when no Available condition exists); no other type of condition appears, and
  the operand version is recorded exactly when the available level was reached.\<close>

theorem published_conditions_complete:
  assumes "conditions_lawful E"
    and "run_state (setClusterOperatorConditions E co reached conditions) w = (co', w')"
  shows "cond_view E (cos_conditions (co_status co')) =
      published_view (cond_view E (cos_conditions (co_status co))) conditions
    \<and> cond_view E (cos_conditions (co_status co')) OperatorUpgradeable = Some (ConditionTrue, '''', '''')
    \<and> (\<nexists>r m. cond_view E (cos_conditions (co_status co')) OperatorProgressing = Some (ConditionTrue, r, m)
         \<and> cond_view E (cos_conditions (co_status co')) OperatorAvailable = None)
    \<and> dom (cond_view E (cos_conditions (co_status co'))) \<subseteq>
         dom (cond_view E (cos_conditions (co_status co))) \<union> ctype ` set conditions \<union>
         {OperatorAvailable, OperatorUpgradeable}
    \<and> cos_versions (co_status co') = (if reached then [(''operator'', GetVersion (sm_build_version E))]
         else cos_versions (co_status co))"
proof -
  have v: "cond_view E (cos_conditions (co_status co')) =
      published_view (cond_view E (cos_conditions (co_status co))) conditions"
    by (rule setClusterOperatorConditions_view [OF assms])
  have vers: "cos_versions (co_status co') = (if reached then [(''operator'', GetVersion (sm_build_version E))]
         else cos_versions (co_status co))"
    using assms(2) by (auto simp: setClusterOperatorConditions_def Let_def split: prod.splits)
  let ?m = "combine_view (cond_view E (cos_conditions (co_status co))) conditions"
  have "dom ?m = dom (cond_view E (cos_conditions (co_status co))) \<union> ctype ` set conditions"
    by (rule combine_view_dom)
  then show ?thesis
    unfolding v using vers by (auto simp: published_view_def Let_def split: if_splits)
qed

lemma published_conditions_complete_witness:
  "cond_view (ref_env :: (cluster, unit) sm_env)
     (cos_conditions (co_status (fst (run_state (setClusterOperatorConditions (ref_env :: (cluster, unit) sm_env)
        (new_cluster_operator ''antrea'') False []) sample_cluster)))) OperatorUpgradeable =
   Some (ConditionTrue, '''', '''')"
proof -
  obtain co' w' where r: "run_state (setClusterOperatorConditions (ref_env :: (cluster, unit) sm_env)
      (new_cluster_operator ''antrea'') False []) sample_cluster = (co', w')"
    by fastforce
  then show ?thesis
    using published_conditions_complete [OF ref_conditions_lawful r] by (metis fst_conv)
qed

section \<open>Publishing on plain Kubernetes\<close>

text \<open>On plain Kubernetes a publication replaces: whatever the retries do, afterwards the custom
  resource holds the conditions it had, or exactly those that the conditions of this one call come to
  over an empty list; no condition of an earlier publication is merged in.\<close>

theorem k8s_publication_replaces:
  assumes "retry_lawful E" and "conditions_lawful E" and "install_store E stored"
    and "run_state (set_status (StatusK8s E) reached conditions) s = (u, s')"
  shows "stored (world s') = stored (world s) \<or>
     cond_view E (stored (world s')) = published_view Map.empty conditions"
proof -
  obtain r where r: "run_state (RetryOnConflict E (set_attempt_k8s E reached conditions)) s = (r, s')"
    using assms(4) by (auto simp: StatusK8s_def set_k8s_def split: prod.splits)
  let ?I = "\<lambda>t. stored (world t) = stored (world s) \<or>
     cond_view E (stored (world t)) = published_view Map.empty conditions"
  have "?I s' \<and> True"
    by (rule retry_inv [OF assms(1) r, of ?I "\<lambda>_ _. True"])
      (auto dest: set_attempt_k8s_stored [OF assms(3,2)])
  then show ?thesis by simp
qed

lemma k8s_publication_replaces_witness:
  "let s' = snd (run_state (set_status (StatusK8s (ref_env :: (cluster, cluster status_manager) sm_env)) False
       [mk_cond OperatorDegraded ConditionFalse '''' '''']) sample_manager)
   in ref_stored (world s') = [] \<or> cond_view (ref_env :: (cluster, cluster status_manager) sm_env)
       (ref_stored (world s')) OperatorUpgradeable = Some (ConditionTrue, '''', '''')"
proof -
  obtain u s' where r: "run_state (set_status (StatusK8s (ref_env :: (cluster, cluster status_manager) sm_env)) False
      [mk_cond OperatorDegraded ConditionFalse '''' '''']) sample_manager = (u, s')"
    by (metis surj_pair)
  have "ref_stored (world sample_manager) = []"
    by (simp add: ref_stored_def sample_manager_def sample_cluster_def sample_install_def)
  then show ?thesis
    using k8s_publication_replaces [OF ref_retry_lawful ref_conditions_lawful ref_install_store r] r
    by (auto simp: published_view_def Let_def)
qed

text \<open>Every call for the custom resource succeeds.\<close>

definition install_reachable :: "('w, 's, 'e) sm_env_scheme \<Rightarrow> bool" where
  "install_reachable E \<longleftrightarrow>
     (\<forall>w. \<not> isl (fst (run_state (get_install E antrea_install_key) w))) \<and>
     (\<forall>new old w. fst (run_state (patch_install_status E new old) w) = None)"

lemma set_attempt_k8s_succeeds:
  assumes "install_reachable E" and "conditions_lawful E" and "install_store E stored"
    and "run_state (set_attempt_k8s E reached conditions) s = (r, s')"
  shows "r = None \<and> cond_view E (stored (world s')) = published_view Map.empty conditions"
proof -
  obtain inst w1 where g: "run_state (get_install E antrea_install_key) (world s) = (Inr inst, w1)"
    using assms(1) unfolding install_reachable_def
    by (metis prod.collapse sum.collapse(2))
  obtain co w2 where c: "run_state (setClusterOperatorConditions E (new_cluster_operator (sm_name s)) reached conditions) w1 = (co, w2)"
    by fastforce
  have view: "cond_view E (cos_conditions (co_status co)) = published_view Map.empty conditions"
    using setClusterOperatorConditions_view [OF assms(2) c] conditions_lawful_empty [OF assms(2)]
    by (simp add: new_cluster_operator_def)
  have st: "stored w2 = install_conditions inst"
    using install_store_get [OF assms(3) g] preservesD [OF setClusterOperatorConditions_preserves
            [OF install_store_preserves(1) [OF assms(3)]] c] by simp
  obtain inst2 w3 where g2: "run_state (get_install E antrea_install_key) w2 = (Inr inst2, w3)"
    using assms(1) unfolding install_reachable_def
    by (metis prod.collapse sum.collapse(2))
  let ?new = "inst2\<lparr>install_conditions := cos_conditions (co_status co)\<rparr>"
  obtain w4 where p: "run_state (patch_install_status E ?new inst2) w3 = (None, w4)"
    using assms(1) unfolding install_reachable_def by (metis prod.collapse)
  have "stored w4 = cos_conditions (co_status co)"
    using install_store_patch [OF assms(3) p] by simp
  with assms(4) g c st view g2 p show ?thesis
    by (auto simp: set_attempt_k8s_def setAntreaInstallStatus_def split: if_splits)
qed

lemma published_degraded_only:
  "ctype c = OperatorDegraded \<Longrightarrow> dom (published_view Map.empty [c]) = {OperatorDegraded, OperatorUpgradeable}"
  by (auto simp: published_view_def Let_def split: if_splits)

lemma syncDegraded_k8s_published:
  assumes "retry_lawful E" "conditions_lawful E" "install_store E stored" "install_reachable E"
    and "failing_are_degraded s" and "run_state (syncDegraded (StatusK8s E)) s = (u, s')"
  shows "dom (cond_view E (stored (world s'))) = {OperatorDegraded, OperatorUpgradeable}"
proof -
  obtain c where c: "ctype c = OperatorDegraded" "run_state (set_k8s E False [c]) s = (u, s')"
  proof (cases "first_failing (failing s) status_levels")
    case None
    with assms(6) have "run_state (set_k8s E False [mk_cond OperatorDegraded ConditionFalse '''' '''']) s = (u, s')"
      by (simp add: syncDegraded_def StatusK8s_def)
    then show thesis by (rule that [rotated]) simp
  next
    case (Some d)
    then have "d \<in> ran (failing s)"
      using first_failing_least by (metis ranI)
    with assms(5) have "ctype d = OperatorDegraded"
      by (simp add: failing_are_degraded_def)
    moreover from Some assms(6) have "run_state (set_k8s E False [d]) s = (u, s')"
      by (simp add: syncDegraded_def StatusK8s_def)
    ultimately show thesis by (rule that)
  qed
  then obtain r where r: "run_state (RetryOnConflict E (set_attempt_k8s E False [c])) s = (r, s')"
    by (auto simp: set_k8s_def split: prod.splits)
  have "True \<and> (r = None \<and> cond_view E (stored (world s')) = published_view Map.empty [c])"
    by (rule retry_inv [OF assms(1) r, of "\<lambda>_. True"
          "\<lambda>r t. r = None \<and> cond_view E (stored (world t)) = published_view Map.empty [c]"])
      (auto dest: set_attempt_k8s_succeeds [OF assms(4,2,3)])
  with c(1) show ?thesis by (simp add: published_degraded_only)
qed

end

