(* ===== verification/Related_Properties.thy ===== *)
theory Related_Properties
  imports Status_Properties
begin

text \<open>
  The properties of the clean-up of related objects and of publishing on OpenShift
  (\<open>deleteRelatedObjectsNotRendered\<close> and \<open>StatusOc.set\<close> of status_manager.go).
\<close>

section \<open>The clean-up\<close>

definition objref_key :: "objref \<Rightarrow> nsname" where
  "objref_key obj = NSN (ref_namespace obj) (ref_name obj)"

definition core_namespace :: "gvk \<Rightarrow> bool" where
  "core_namespace k \<longleftrightarrow> gvk_kind k = ''Namespace'' \<and> gvk_group k = ''''"

definition rendered :: "('w, 'z) sm \<Rightarrow> objref list" where
  "rendered s = (case relatedObjects s of None \<Rightarrow> [] | Some r \<Rightarrow> r)"

lemma is_rendered_iff [simp]: "is_rendered obj s \<longleftrightarrow> obj \<in> set (rendered s)"
  by (auto simp: is_rendered_def rendered_def list_ex_iff split: option.splits)

lemma rendered_append [simp]: "rendered (append_related obj s) = rendered s @ [obj]"
  by (simp add: rendered_def append_related_def split: option.splits)

lemma rendered_world [simp]: "rendered (s\<lparr>world := w\<rparr>) = rendered s"
  by (simp add: rendered_def)

text \<open>What the mapper may resolve an object to, and what the clean-up may delete.\<close>

definition resolves :: "('w, 'z, 'e) env \<Rightarrow> objref \<Rightarrow> gvk \<Rightarrow> bool" where
  "resolves E obj k \<longleftrightarrow>
     (\<exists>w. fst (run_state (kind_for E (ref_group obj) (ref_resource obj)) w) = Inr k)"

definition stale :: "('w, 'z, 'e) env \<Rightarrow> objref list \<Rightarrow> objref list \<Rightarrow> gvk \<Rightarrow> nsname \<Rightarrow> bool" where
  "stale E recorded keep k n \<longleftrightarrow>
     (\<exists>obj\<in>set recorded - set keep. objref_key obj = n \<and> resolves E obj k \<and> \<not> core_namespace k)"

lemma delete_loop_only_stale:
  assumes "\<And>k n. stale E recorded keep k n \<Longrightarrow> d k n = delete_object E k n"
  shows "set objs \<subseteq> set recorded \<Longrightarrow> set keep \<subseteq> set (rendered s) \<Longrightarrow>
    run_state (delete_loop (E\<lparr>delete_object := d\<rparr>) objs) s = run_state (delete_loop E objs) s"
proof (induction objs arbitrary: s)
  case Nil
  then show ?case by simp
next
  case (Cons obj objs)
  have one: "run_state (delete_if_not_rendered (E\<lparr>delete_object := d\<rparr>) obj) s =
      run_state (delete_if_not_rendered E obj) s"
  proof (cases "obj \<in> set (rendered s)")
    case True
    then show ?thesis by (simp add: delete_if_not_rendered_def)
  next
    case False
    obtain k w1 where k: "run_state (kind_for E (ref_group obj) (ref_resource obj)) (world s) = (k, w1)"
      by fastforce
    have "d g (objref_key obj) = delete_object E g (objref_key obj)" if "k = Inr g" "\<not> core_namespace g" for g
    proof (rule assms)
      have "resolves E obj g"
        unfolding resolves_def using k that(1) by (metis fst_conv)
      then show "stale E recorded keep g (objref_key obj)"
        unfolding stale_def using Cons.prems False that(2) by auto
    qed
    with False k show ?thesis
      by (auto simp: delete_if_not_rendered_def objref_key_def core_namespace_def split: sum.splits)
  qed
  obtain u s1 where s1: "run_state (delete_if_not_rendered E obj) s = (u, s1)" by (metis surj_pair)
  have "set (rendered s) \<subseteq> set (rendered s1)"
    using s1 by (auto simp: delete_if_not_rendered_def split: if_splits sum.splits prod.splits option.splits)
  then have "set keep \<subseteq> set (rendered s1)"
    using Cons.prems(2) by blast
  with one s1 Cons.IH [of s1] Cons.prems(1) show ?case by simp
qed

text \<open>C13: The clean-up deletes nothing but stale objects: only an object recorded in the ClusterOperator
  that is not among the rendered ones, under the kind the mapper gives for it, and never a Namespace.
  Whatever the deletion of anything else would do, it makes no difference, since it is not called.\<close>

theorem cleanup_deletes_only_stale:
  assumes "\<And>k n. stale E (case cos_related (co_status co) of None \<Rightarrow> [] | Some r \<Rightarrow> r) (rendered s) k n \<Longrightarrow>
      d k n = delete_object E k n"
  shows "run_state (deleteRelatedObjectsNotRendered (E\<lparr>delete_object := d\<rparr>) co) s =
    run_state (deleteRelatedObjectsNotRendered E co) s"
  using delete_loop_only_stale [OF assms,
      where objs = "case cos_related (co_status co) of None \<Rightarrow> [] | Some r \<Rightarrow> r" and s = s]
  by (simp add: deleteRelatedObjectsNotRendered_def split: option.splits)

text \<open>Three recorded objects: one is no longer rendered, one still is, and one is a Namespace.\<close>

definition old_object :: objref where
  "old_object = \<lparr>ref_group = '''', ref_resource = ''ConfigMap'', ref_namespace = ''kube-system'', ref_name = ''old''\<rparr>"

definition kept_object :: objref where
  "kept_object = old_object\<lparr>ref_name := ''kept''\<rparr>"

definition namespace_object :: objref where
  "namespace_object = \<lparr>ref_group = '''', ref_resource = ''Namespace'', ref_namespace = '''', ref_name = ''antrea''\<rparr>"

definition three_recorded :: cluster_operator where
  "three_recorded = (new_cluster_operator ''antrea'')\<lparr>co_status :=
     (co_status (new_cluster_operator ''antrea''))\<lparr>cos_related := Some [namespace_object, old_object, kept_object]\<rparr>\<rparr>"

lemma cleanup_deletes_only_stale_witness:
  "let E = (ref_env :: (cluster, cluster status_manager) sm_env);
       d = (\<lambda>k n. if n = objref_key old_object then delete_object E k n else ret (Some (errors_new ''refused'')))
   in cl_deleted (world (snd (run_state (deleteRelatedObjectsNotRendered (E\<lparr>delete_object := d\<rparr>) three_recorded)
        (sample_manager\<lparr>relatedObjects := Some [kept_object]\<rparr>)))) =
      [(\<lparr>gvk_group = '''', gvk_version = ''v1'', gvk_kind = ''ConfigMap''\<rparr>, NSN ''kube-system'' ''old'')]"
proof -
  let ?E = "ref_env :: (cluster, cluster status_manager) sm_env"
  let ?s = "sample_manager\<lparr>relatedObjects := Some [kept_object]\<rparr>"
  let ?d = "\<lambda>k n. if n = objref_key old_object then delete_object ?E k n else ret (Some (errors_new ''refused''))"
  note objects = old_object_def kept_object_def namespace_object_def
  have "run_state (deleteRelatedObjectsNotRendered (?E\<lparr>delete_object := ?d\<rparr>) three_recorded) ?s =
      run_state (deleteRelatedObjectsNotRendered ?E three_recorded) ?s"
    by (rule cleanup_deletes_only_stale)
      (auto simp: stale_def three_recorded_def rendered_def resolves_def core_namespace_def objects)
  then show ?thesis
    by (simp add: Let_def deleteRelatedObjectsNotRendered_def three_recorded_def rendered_def delete_if_not_rendered_def
        objects core_namespace_def objref_key_def sample_manager_def sample_cluster_def)
qed

text \<open>The record of one object: it is kept unless it is rendered, a namespace, or gone.\<close>

definition disposed :: "('w, 'z, 'e) env \<Rightarrow> objref \<Rightarrow> bool" where
  "disposed E obj \<longleftrightarrow>
     (\<exists>w k w1. run_state (kind_for E (ref_group obj) (ref_resource obj)) w = (Inr k, w1) \<and>
        (core_namespace k \<or>
         (case fst (run_state (delete_object E k (objref_key obj)) w1) of None \<Rightarrow> True | Some e \<Rightarrow> IsNotFound e)))"

lemma delete_loop_record:
  "run_state (delete_loop E objs) s = (u, s') \<Longrightarrow>
   \<exists>kept. rendered s' = rendered s @ kept \<and> set kept \<subseteq> set objs - set (rendered s) \<and> distinct kept \<and>
     (\<forall>obj\<in>set objs. obj \<in> set (rendered s') \<or> disposed E obj)"
proof (induction objs arbitrary: s)
  case Nil
  then show ?case by simp
next
  case (Cons obj objs)
  obtain u1 s1 where s1: "run_state (delete_if_not_rendered E obj) s = (u1, s1)" by (metis surj_pair)
  have one: "(rendered s1 = rendered s \<and> (obj \<in> set (rendered s) \<or> disposed E obj)) \<or>
      (rendered s1 = rendered s @ [obj] \<and> obj \<notin> set (rendered s))"
  proof (cases "obj \<in> set (rendered s)")
    case True
    with s1 show ?thesis by (simp add: delete_if_not_rendered_def)
  next
    case False
    obtain k w1 where k: "run_state (kind_for E (ref_group obj) (ref_resource obj)) (world s) = (k, w1)"
      by fastforce
    show ?thesis
    proof (cases k)
      case (Inl e)
      with False k s1 show ?thesis by (auto simp: delete_if_not_rendered_def)
    next
      case (Inr g)
      obtain e w2 where e: "run_state (delete_object E g (objref_key obj)) w1 = (e, w2)" by fastforce
      have d: "disposed E obj" if "core_namespace g \<or> e = None \<or> (\<exists>x. e = Some x \<and> IsNotFound x)"
        unfolding disposed_def using k Inr e that by (intro exI [of _ "world s"] exI) (auto split: option.splits)
      from False k Inr s1 e show ?thesis
        using d by (auto simp: delete_if_not_rendered_def core_namespace_def objref_key_def
            split: if_splits option.splits)
    qed
  qed
  from Cons.prems s1 have "run_state (delete_loop E objs) s1 = (u, s')" by simp
  from Cons.IH [OF this] obtain kept where kept: "rendered s' = rendered s1 @ kept"
      "set kept \<subseteq> set objs - set (rendered s1)" "distinct kept"
      "\<forall>obj\<in>set objs. obj \<in> set (rendered s') \<or> disposed E obj" by blast
  from one show ?case
  proof
    assume same: "rendered s1 = rendered s \<and> (obj \<in> set (rendered s) \<or> disposed E obj)"
    with kept show ?thesis by (intro exI [of _ kept]) auto
  next
    assume app: "rendered s1 = rendered s @ [obj] \<and> obj \<notin> set (rendered s)"
    with kept show ?thesis by (intro exI [of _ "obj # kept"]) auto
  qed
qed

text \<open>C30: The clean-up loses no object: afterwards the manager's list is the rendered list followed by
  the recorded objects that could not be resolved or deleted, each once, and every recorded object is
  in it unless the mapper resolved it and it is a Namespace, was deleted, or was already gone.\<close>

theorem cleanup_keeps_undeleted:
  "let s' = snd (run_state (deleteRelatedObjectsNotRendered E co) s);
       recorded = (case cos_related (co_status co) of None \<Rightarrow> [] | Some r \<Rightarrow> r)
   in (relatedObjects s = None \<longrightarrow> s' = s) \<and>
      (relatedObjects s \<noteq> None \<longrightarrow>
        (\<exists>kept. relatedObjects s' = Some (rendered s @ kept) \<and>
           set kept \<subseteq> set recorded - set (rendered s) \<and> distinct kept \<and>
           (\<forall>obj\<in>set recorded. obj \<in> set (rendered s @ kept) \<or> disposed E obj)))"
proof (cases "relatedObjects s")
  case None
  then show ?thesis by (simp add: deleteRelatedObjectsNotRendered_def)
next
  case (Some r)
  let ?recorded = "case cos_related (co_status co) of None \<Rightarrow> [] | Some r \<Rightarrow> r"
  obtain u s' where r: "run_state (delete_loop E ?recorded) s = (u, s')" by (metis surj_pair)
  have grows: "relatedObjects t \<noteq> None \<Longrightarrow> relatedObjects (snd (run_state (delete_loop E objs) t)) \<noteq> None" for objs t
  proof (induction objs arbitrary: t)
    case (Cons obj objs)
    obtain u1 t1 where t1: "run_state (delete_if_not_rendered E obj) t = (u1, t1)" by (metis surj_pair)
    with Cons.prems have "relatedObjects t1 \<noteq> None"
      by (auto simp: delete_if_not_rendered_def append_related_def split: if_splits sum.splits prod.splits option.splits)
    with t1 Cons.IH show ?case by simp
  qed simp
  from grows [of s ?recorded] Some r obtain r' where "relatedObjects s' = Some r'" by auto
  with delete_loop_record [OF r] Some r show ?thesis
    by (auto simp: deleteRelatedObjectsNotRendered_def rendered_def Let_def)
qed

definition recorded_co :: cluster_operator where
  "recorded_co = (new_cluster_operator ''antrea'')\<lparr>co_status :=
     (co_status (new_cluster_operator ''antrea''))\<lparr>cos_related := Some
       [\<lparr>ref_group = '''', ref_resource = ''ConfigMap'', ref_namespace = ''kube-system'', ref_name = ''old''\<rparr>]\<rparr>\<rparr>"

lemma cleanup_keeps_undeleted_witness:
  "\<exists>kept. relatedObjects (snd (run_state (deleteRelatedObjectsNotRendered
     (ref_env :: (cluster, cluster status_manager) sm_env) recorded_co)
     (sample_manager\<lparr>relatedObjects := Some []\<rparr>))) = Some kept \<and> length kept \<le> 1"
proof -
  let ?s = "sample_manager\<lparr>relatedObjects := Some []\<rparr>"
  obtain kept where "relatedObjects (snd (run_state (deleteRelatedObjectsNotRendered
      (ref_env :: (cluster, cluster status_manager) sm_env) recorded_co) ?s)) = Some (rendered ?s @ kept)"
      and sub: "set kept \<subseteq> set [\<lparr>ref_group = '''', ref_resource = ''ConfigMap'', ref_namespace = ''kube-system'', ref_name = ''old''\<rparr>]"
      and "distinct kept"
    using cleanup_keeps_undeleted [of "ref_env :: (cluster, cluster status_manager) sm_env" recorded_co ?s]
    by (auto simp: recorded_co_def new_cluster_operator_def Let_def)
  moreover have "length kept \<le> 1"
    using card_mono [OF _ sub] \<open>distinct kept\<close> by (simp add: distinct_card)
  ultimately show ?thesis by (auto simp: rendered_def)
qed

section \<open>Publishing on OpenShift\<close>

text \<open>Setting a condition that is there with the same content leaves the list as it is.\<close>

definition set_idempotent :: "('w, 's, 'e) sm_env_scheme \<Rightarrow> bool" where
  "set_idempotent E \<longleftrightarrow>
     (\<forall>cs n w. cond_view E cs (ctype n) = Some (cond_content n) \<longrightarrow>
        fst (run_state (SetStatusCondition E cs n) w) = cs)"

lemma combine_loop_idle:
  "\<forall>n\<in>set ns. cond_view E cs (ctype n) = Some (cond_content n) \<Longrightarrow>
   combine_loop E ns cs ch ms = ret (cs, ch, ms)"
proof (induction ns)
  case Nil
  then show ?case by simp
next
  case (Cons n ns)
  then obtain c where "FindStatusCondition E cs (ctype n) = Some c" "cond_content c = cond_content n"
    by (auto simp: cond_view_def)
  with Cons show ?case by (simp add: cond_content_def)
qed

lemma conditions_idle:
  assumes "set_idempotent E"
    and "\<forall>n\<in>set conditions. cond_view E (cos_conditions (co_status co)) (ctype n) = Some (cond_content n)"
    and "cond_view E (cos_conditions (co_status co)) OperatorUpgradeable = Some (ConditionTrue, '''', '''')"
    and "\<nexists>r m. cond_view E (cos_conditions (co_status co)) OperatorProgressing = Some (ConditionTrue, r, m)
       \<and> cond_view E (cos_conditions (co_status co)) OperatorAvailable = None"
    and "reached \<Longrightarrow> cos_versions (co_status co) = [(''operator'', GetVersion (sm_build_version E))]"
  shows "fst (run_state (setClusterOperatorConditions E co reached conditions) w) = co"
proof -
  have up: "fst (run_state (SetStatusCondition E (cos_conditions (co_status co))
      (mk_cond OperatorUpgradeable ConditionTrue '''' '''')) v) = cos_conditions (co_status co)" for v
    using assms(1,3) by (simp add: set_idempotent_def)
  have st: "(if reached then (co_status co)\<lparr>cos_versions := [(''operator'', GetVersion (sm_build_version E))]\<rparr>
      else co_status co) = co_status co"
    using assms(5) by auto
  have startup: "(FindStatusCondition E (cos_conditions (co_status co)) OperatorAvailable = None \<and>
      (case FindStatusCondition E (cos_conditions (co_status co)) OperatorProgressing of
         None \<Rightarrow> False | Some p \<Rightarrow> cstatus p = ConditionTrue)) = False"
    using assms(4) by (auto simp: cond_view_def cond_content_def split: option.splits)
  obtain v where "run_state (SetStatusCondition E (cos_conditions (co_status co))
      (mk_cond OperatorUpgradeable ConditionTrue '''' '''')) w = (cos_conditions (co_status co), v)"
    using up by (metis prod.collapse)
  then show ?thesis
    by (simp add: setClusterOperatorConditions_def st CombineConditions_def combine_loop_idle [OF assms(2)]
        startup Let_def del: not_None_eq)
qed

lemma delete_loop_all_rendered:
  "set objs \<subseteq> set (rendered s) \<Longrightarrow> run_state (delete_loop E objs) s = ((), s)"
  by (induction objs) (simp_all add: delete_if_not_rendered_def)

lemma cleanup_idle:
  "relatedObjects s = None \<or> relatedObjects s = cos_related (co_status co) \<Longrightarrow>
   run_state (deleteRelatedObjectsNotRendered E co) s = ((), s)"
  by (cases "relatedObjects s"; cases "cos_related (co_status co)")
    (simp_all add: deleteRelatedObjectsNotRendered_def delete_loop_all_rendered rendered_def)

text \<open>C40: On OpenShift an attempt to publish what the ClusterOperator already holds writes nothing: if the
  object is one that setClusterOperatorConditions made from the same conditions (of different types)
  and its related objects are the manager's, the attempt returns without an error and calls neither
  create nor update nor the patch of the custom resource. So when the update of the ClusterOperator
  succeeds and the patch of the custom resource then fails with a conflict, the retry that reads the
  updated ClusterOperator back reports success and the custom resource keeps its old conditions.\<close>

theorem oc_repeated_publication_is_silent:
  assumes "conditions_lawful E" and "set_idempotent E"
    and "distinct (map ctype conditions)" and "OperatorUpgradeable \<notin> ctype ` set conditions"
    and "run_state (setClusterOperatorConditions E co1 reached conditions) w1 = (co, w2)"
    and "relatedObjects s = None \<or> relatedObjects s = cos_related (co_status co)"
  shows "fst (run_state (publish_oc (E\<lparr>create_co := c, update_co_status := upd, patch_install_status := p\<rparr>)
      reached conditions co notFound) s) = None
    \<and> run_state (publish_oc (E\<lparr>create_co := c, update_co_status := upd, patch_install_status := p\<rparr>)
      reached conditions co notFound) s = run_state (publish_oc E reached conditions co notFound) s"
proof -
  let ?cs = "cos_conditions (co_status co)" and ?cs1 = "cos_conditions (co_status co1)"
  have view: "cond_view E ?cs = published_view (cond_view E ?cs1) conditions"
    by (rule setClusterOperatorConditions_view [OF assms(1,5)])
  have vers: "reached \<Longrightarrow> cos_versions (co_status co) = [(''operator'', GetVersion (sm_build_version E))]"
    using assms(5) by (auto simp: setClusterOperatorConditions_def Let_def split: prod.splits)
  have written: "combine_view m conditions (ctype n) = Some (cond_content n)"
    if "n \<in> set conditions" for n m
    using that assms(3) by (induction conditions arbitrary: m) (auto simp: combine_view_other image_iff)
  have kept: "\<forall>n\<in>set conditions. cond_view E ?cs (ctype n) = Some (cond_content n)"
  proof
    fix n
    assume n: "n \<in> set conditions"
    then have "ctype n \<noteq> OperatorUpgradeable" using assms(4) by (metis imageI)
    with written [OF n, of "cond_view E ?cs1"]
    show "cond_view E ?cs (ctype n) = Some (cond_content n)"
      unfolding view published_view_def Let_def by (cases "ctype n = OperatorAvailable") simp_all
  qed
  have idle: "fst (run_state (setClusterOperatorConditions E co reached conditions) v) = co" for v
    using conditions_idle [OF assms(2) kept] vers unfolding view by (simp add: published_view_def Let_def)
  have frame: "setClusterOperatorConditions (E\<lparr>create_co := c, update_co_status := upd, patch_install_status := p\<rparr>) =
      setClusterOperatorConditions E"
  proof -
    have "combine_loop (E\<lparr>create_co := c, update_co_status := upd, patch_install_status := p\<rparr>) ns cs ch ms =
        combine_loop E ns cs ch ms" for ns cs ch ms
      by (induction ns arbitrary: cs ch ms) (simp_all cong: option.case_cong if_cong)
    then show ?thesis
      by (simp add: setClusterOperatorConditions_def CombineConditions_def fun_eq_iff Let_def cong: if_cong)
  qed
  have co1: "(case relatedObjects s of None \<Rightarrow> co | Some r \<Rightarrow> co\<lparr>co_status := (co_status co)\<lparr>cos_related := Some r\<rparr>\<rparr>) = co"
    using assms(6) by (auto split: option.splits)
  obtain w3 where "run_state (setClusterOperatorConditions E co reached conditions) (world s) = (co, w3)"
    using idle by (metis prod.collapse)
  then show ?thesis
    using assms(6) by (simp add: publish_oc_def cleanup_idle co1 frame Let_def)
qed

lemma ref_set_idempotent: "set_idempotent (ref_env :: (cluster, 's) sm_env)"
proof -
  have "map_option cond_content (ref_find cs (ctype n)) = Some (cond_content n) \<Longrightarrow> ref_upsert now n cs = cs"
    for cs n now
    by (induction cs) (auto simp: ref_find_def cond_content_def)
  then show ?thesis
    by (simp add: set_idempotent_def cond_view_def)
qed

lemma oc_repeated_publication_is_silent_witness:
  "let E = (ref_env :: (cluster, cluster status_manager) sm_env); n = mk_cond OperatorDegraded ConditionFalse '''' '''';
       co = fst (run_state (setClusterOperatorConditions E (new_cluster_operator ''antrea'') False [n]) sample_cluster)
   in fst (run_state (publish_oc (E\<lparr>create_co := create_co E, update_co_status := update_co_status E,
        patch_install_status := (\<lambda>new old. ret (Some (errors_new ''never called'')))\<rparr>) False [n] co False)
        sample_manager) = None"
proof -
  let ?n = "mk_cond OperatorDegraded ConditionFalse '''' ''''"
  obtain co w where r: "run_state (setClusterOperatorConditions (ref_env :: (cluster, cluster status_manager) sm_env)
      (new_cluster_operator ''antrea'') False [?n]) sample_cluster = (co, w)"
    by fastforce
  have "relatedObjects sample_manager = None \<or> relatedObjects sample_manager = cos_related (co_status co)"
    by (simp add: sample_manager_def)
  have types: "distinct (map ctype [?n])" "OperatorUpgradeable \<notin> ctype ` set [?n]"
    by simp_all
  show ?thesis
    unfolding Let_def r fst_conv
    by (rule conjunct1, rule oc_repeated_publication_is_silent
        [OF ref_conditions_lawful ref_set_idempotent types r \<open>_ \<or> _\<close>])
qed

end
