(* ===== verification/Pod_Correct.thy ===== *)
theory Pod_Correct
  imports Status_Correct
begin

text \<open>
  Lemmas on a pass over the workloads. The two loops of \<open>SetFromPods\<close> are shown to be
  instances of one loop, \<open>watch_loop\<close>, which is proved to implement a specification by workload
  (\<open>seen\<close>, \<open>watch_messages\<close>, \<open>tracked\<close>, \<open>stalled\<close>) whenever the cluster and
  the clock stand still during the pass (\<open>snapshot\<close>).
\<close>

section \<open>One loop for both kinds\<close>

fun watch_loop :: "('w, 's, 'e) sm_env_scheme \<Rightarrow> string \<Rightarrow> (nsname \<Rightarrow> ('w, go_error + 'o) state) \<Rightarrow>
    (nsname \<Rightarrow> 'o \<Rightarrow> string option) \<Rightarrow> ('o \<Rightarrow> 'st) \<Rightarrow> nsname list \<Rightarrow> pod_acc \<Rightarrow>
    (nsname \<rightharpoonup> 'st last_state) \<Rightarrow> ('w, pod_acc \<times> (nsname \<rightharpoonup> 'st last_state)) state" where
  "watch_loop E kind read prog status [] acc states = ret (acc, states)"
| "watch_loop E kind read prog status (n # rest) acc states =
     do {
       r \<leftarrow> read n;
       case r of
         Inl err \<Rightarrow>
           watch_loop E kind read prog status rest
             (note_progress (''Waiting for '' @ kind @ '' '' @ go_quote (show_nsname n) @ '' to be created'') acc)
             states
       | Inr obj \<Rightarrow>
           (case prog n obj of
              None \<Rightarrow> watch_loop E kind read prog status rest acc (states(n := None))
            | Some msg \<Rightarrow>
                do {
                  (states', since) \<leftarrow> track_progress (time_now E) n (status obj) states;
                  watch_loop E kind read prog status rest (note_hung E kind n since (note_progress msg acc)) states'
                })
     }"

lemma ds_loop_watch:
  "ds_loop E ns acc states =
     watch_loop E ''DaemonSet'' (get_daemonset E) ds_progress ds_status ns acc states"
  by (induction ns arbitrary: acc states) (simp_all cong: option.case_cong)

lemma dep_loop_watch:
  "dep_loop E ns acc states =
     watch_loop E ''Deployment'' (get_deployment E) dep_progress dep_status ns acc states"
  by (induction ns arbitrary: acc states) (simp_all cong: option.case_cong)

lemma note_progress_sel [simp]:
  "progressing (note_progress m acc) = progressing acc @ [m]"
  "reachedAvailableLevel (note_progress m acc) = False"
  "hung (note_progress m acc) = hung acc"
  by (simp_all add: note_progress_def)

lemma note_hung_sel [simp]:
  "progressing (note_hung E k n t acc) = progressing acc"
  "reachedAvailableLevel (note_hung E k n t acc) = reachedAvailableLevel acc"
  "note_hung E k n None acc = acc"
  by (simp_all add: note_hung_def split: option.splits)

text \<open>Whatever the reads return, the available level is kept exactly while no message is added.\<close>

lemma watch_loop_available:
  "run_state (watch_loop E kind read prog status ns acc states) w = ((acc', states'), w') \<Longrightarrow>
   \<exists>msgs. progressing acc' = progressing acc @ msgs \<and>
     (reachedAvailableLevel acc' \<longleftrightarrow> reachedAvailableLevel acc \<and> msgs = [])"
proof (induction ns arbitrary: acc states w)
  case Nil
  then show ?case by simp
next
  case (Cons n ns)
  obtain r w1 where r: "run_state (read n) w = (r, w1)" by fastforce
  show ?case
  proof (cases r)
    case (Inl err)
    with Cons.prems r show ?thesis by (auto dest!: Cons.IH)
  next
    case (Inr obj)
    show ?thesis
    proof (cases "prog n obj")
      case None
      with Inr Cons.prems r show ?thesis by (auto dest!: Cons.IH)
    next
      case (Some msg)
      obtain st since w2 where "run_state (track_progress (time_now E) n (status obj) states) w1 = ((st, since), w2)"
        by (metis prod_cases3 surj_pair)
      with Some Inr Cons.prems r show ?thesis by (auto dest!: Cons.IH)
    qed
  qed
qed

text \<open>A rollout that was not tracked before is never reported as hung.\<close>

lemma track_progress_untracked:
  assumes "states n = None" and "run_state (track_progress clock n st states) w = ((states', since), w')"
  shows "since = None \<and> (\<forall>k. k \<noteq> n \<longrightarrow> states' k = states k)"
  using assms by (auto simp: track_progress_def split: prod.splits)

lemma watch_loop_untracked:
  "run_state (watch_loop E kind read prog status ns acc states) w = ((acc', states'), w') \<Longrightarrow>
   distinct ns \<Longrightarrow> \<forall>n\<in>set ns. states n = None \<Longrightarrow> hung acc' = hung acc"
proof (induction ns arbitrary: acc states w)
  case Nil
  then show ?case by simp
next
  case (Cons n ns)
  obtain r w1 where r: "run_state (read n) w = (r, w1)" by fastforce
  show ?case
  proof (cases r)
    case (Inl err)
    with Cons.prems r Cons.IH show ?thesis by fastforce
  next
    case (Inr obj)
    show ?thesis
    proof (cases "prog n obj")
      case None
      from None Inr Cons.prems r have
        "run_state (watch_loop E kind read prog status ns acc (states(n := None))) w1 = ((acc', states'), w')"
        by simp
      from Cons.IH [OF this] Cons.prems show ?thesis by auto
    next
      case (Some msg)
      obtain st since w2 where t: "run_state (track_progress (time_now E) n (status obj) states) w1 = ((st, since), w2)"
        by (metis prod_cases3 surj_pair)
      note u = track_progress_untracked [OF _ t]
      from Some Inr Cons.prems r t u have
        "run_state (watch_loop E kind read prog status ns (note_progress msg acc) st) w2 = ((acc', states'), w')"
        by simp
      moreover have "\<forall>k\<in>set ns. st k = None"
        using u Cons.prems(2,3) by auto
      ultimately show ?thesis using Cons.IH Cons.prems(2) by auto
    qed
  qed
qed

section \<open>The specification of a pass\<close>

text \<open>What a pass sees of a workload: nothing, a healthy one, or one that is rolling out.\<close>

datatype 'st seen = Gone | Healthy | Rolling string 'st

definition seen :: "(nsname \<Rightarrow> go_error + 'o) \<Rightarrow> (nsname \<Rightarrow> 'o \<Rightarrow> string option) \<Rightarrow> ('o \<Rightarrow> 'st) \<Rightarrow>
    nsname \<Rightarrow> 'st seen" where
  "seen view prog status n =
     (case view n of
        Inl _ \<Rightarrow> Gone
      | Inr obj \<Rightarrow> (case prog n obj of None \<Rightarrow> Healthy | Some m \<Rightarrow> Rolling m (status obj)))"

lemma seen_Healthy: "seen view prog status n = Healthy \<longleftrightarrow> (\<exists>obj. view n = Inr obj \<and> prog n obj = None)"
  by (auto simp: seen_def split: sum.splits option.splits)

definition ds_seen :: "(nsname \<Rightarrow> go_error + daemonset) \<Rightarrow> nsname \<Rightarrow> daemonset_status seen" where
  "ds_seen view = seen view ds_progress ds_status"

definition dep_seen :: "(nsname \<Rightarrow> go_error + deployment) \<Rightarrow> nsname \<Rightarrow> deployment_status seen" where
  "dep_seen view = seen view dep_progress dep_status"

definition watch_messages :: "string \<Rightarrow> nsname \<Rightarrow> 'st seen \<Rightarrow> string list" where
  "watch_messages kind n sn =
     (case sn of
        Gone \<Rightarrow> [''Waiting for '' @ kind @ '' '' @ go_quote (show_nsname n) @ '' to be created'']
      | Healthy \<Rightarrow> [] | Rolling m _ \<Rightarrow> [m])"

text \<open>
  The tracked state of a workload after the pass: kept while the workload cannot be read, dropped
  when it is healthy, and while it rolls out the time of the last change is kept exactly as long as
  the status stays the same.
\<close>

definition tracked :: "gotime \<Rightarrow> 'st seen \<Rightarrow> 'st last_state option \<Rightarrow> 'st last_state option" where
  "tracked now sn old =
     (case sn of
        Gone \<Rightarrow> old | Healthy \<Rightarrow> None
      | Rolling _ st \<Rightarrow>
          Some (case old of
                  None \<Rightarrow> \<lparr>ls_name = NSN '''' '''', LastSeenStatus = st, LastChangeTime = now\<rparr>
                | Some o' \<Rightarrow> if LastSeenStatus o' = st then o'
                            else o'\<lparr>LastSeenStatus := st, LastChangeTime := now\<rparr>))"

definition stalled :: "gotime \<Rightarrow> 'st seen \<Rightarrow> 'st last_state option \<Rightarrow> bool" where
  "stalled now sn old =
     (case (sn, old) of
        (Rolling _ st, Some o') \<Rightarrow>
          LastSeenStatus o' = st \<and> time_sub now (LastChangeTime o') > ProgressTimeout
      | _ \<Rightarrow> False)"

definition hung_message :: "('w, 's, 'e) sm_env_scheme \<Rightarrow> string \<Rightarrow> nsname \<Rightarrow> gotime \<Rightarrow> string" where
  "hung_message E kind n t = kind @ '' '' @ go_quote (show_nsname n) @
     '' rollout is not making progress - last change '' @ fmt_rfc3339 E t"

text \<open>Reads return a fixed view and the clock one time, as long as \<open>I\<close> holds outside.\<close>

definition snapshot :: "('w, 's, 'e) sm_env_scheme \<Rightarrow> ('w \<Rightarrow> bool) \<Rightarrow> gotime \<Rightarrow>
    (nsname \<Rightarrow> go_error + daemonset) \<Rightarrow> (nsname \<Rightarrow> go_error + deployment) \<Rightarrow> bool" where
  "snapshot E I now dsv depv \<longleftrightarrow>
     (\<forall>w. I w \<longrightarrow>
        (\<forall>n. fst (run_state (get_daemonset E n) w) = dsv n \<and> I (snd (run_state (get_daemonset E n) w))) \<and>
        (\<forall>n. fst (run_state (get_deployment E n) w) = depv n \<and> I (snd (run_state (get_deployment E n) w))) \<and>
        fst (run_state (time_now E) w) = now \<and> I (snd (run_state (time_now E) w)))"

lemma track_progress_snapshot:
  assumes clock: "\<And>w. I w \<Longrightarrow> fst (run_state clock w) = now \<and> I (snd (run_state clock w))"
    and "I w"
  shows "\<exists>w'. I w' \<and> run_state (track_progress clock n st states) w =
     ((states(n := tracked now (Rolling m st) (states n)),
       if stalled now (Rolling m st) (states n) then Some (LastChangeTime (the (states n))) else None), w')"
proof -
  have r: "\<exists>v. run_state clock u = (now, v) \<and> I v" if "I u" for u
    using clock [OF that] by (metis prod.collapse)
  obtain w1 where w1: "run_state clock w = (now, w1)" "I w1"
    using r [OF assms(2)] by blast
  obtain w2 where w2: "run_state clock w1 = (now, w2)" "I w2"
    using r [OF w1(2)] by blast
  show ?thesis
  proof (cases "states n")
    case None
    with w1 show ?thesis by (simp add: track_progress_def tracked_def stalled_def)
  next
    case (Some old)
    then have same: "states(n \<mapsto> old) = states" by (simp add: fun_upd_idem)
    show ?thesis
    proof (cases "LastSeenStatus old = st")
      case True
      with Some w1 same show ?thesis
        by (simp add: track_progress_def tracked_def stalled_def)
    next
      case False
      with Some w1 w2 show ?thesis
        by (simp add: track_progress_def tracked_def stalled_def Let_def ProgressTimeout_def)
    qed
  qed
qed

text \<open>What one round of the loop adds to the lists of messages.\<close>

definition round_acc where
  "round_acc E kind now states n s acc =
     (case s of
        Healthy \<Rightarrow> acc
      | Gone \<Rightarrow> note_progress (''Waiting for '' @ kind @ '' '' @ go_quote (show_nsname n) @ '' to be created'') acc
      | Rolling m st \<Rightarrow> note_hung E kind n (if stalled now s (states n)
          then Some (LastChangeTime (the (states n))) else None) (note_progress m acc))"

lemma round_acc_fields:
  "progressing (round_acc E kind now states n s acc) = progressing acc @ watch_messages kind n s"
  "reachedAvailableLevel (round_acc E kind now states n s acc) \<longleftrightarrow> reachedAvailableLevel acc \<and> s = Healthy"
  "hung (round_acc E kind now states n s acc) = hung acc @ (if stalled now s (states n)
     then [hung_message E kind n (LastChangeTime (the (states n)))] else [])"
  by (auto simp: round_acc_def watch_messages_def note_hung_def hung_message_def stalled_def
      note_progress_def split: seen.splits)

lemma watch_round_snapshot:
  fixes prog :: "nsname \<Rightarrow> 'o \<Rightarrow> string option" and status :: "'o \<Rightarrow> 'st" and view
  assumes read: "\<And>w n. I w \<Longrightarrow> fst (run_state (read n) w) = view n \<and> I (snd (run_state (read n) w))"
    and clock: "\<And>w. I w \<Longrightarrow> fst (run_state (time_now E) w) = now \<and> I (snd (run_state (time_now E) w))"
    and w: "I w"
  defines "sn \<equiv> seen view prog status"
  shows "\<exists>w2. I w2 \<and> run_state (watch_loop E kind read prog status (n # ns) acc states) w =
    run_state (watch_loop E kind read prog status ns (round_acc E kind now states n (sn n) acc)
      (states(n := tracked now (sn n) (states n)))) w2"
proof -
  obtain w1 where r: "run_state (read n) w = (view n, w1)" and "I w1"
    using read [OF w] by (metis prod.collapse)
  show ?thesis
  proof (cases "view n")
    case (Inl err)
    then have "sn n = Gone" by (simp add: sn_def seen_def)
    with Inl r \<open>I w1\<close> show ?thesis by (auto simp: tracked_def round_acc_def)
  next
    case (Inr obj)
    show ?thesis
    proof (cases "prog n obj")
      case None
      with Inr have "sn n = Healthy" by (simp add: sn_def seen_def)
      with None Inr r \<open>I w1\<close> show ?thesis by (auto simp: tracked_def round_acc_def)
    next
      case (Some m)
      with Inr have s: "sn n = Rolling m (status obj)" by (simp add: sn_def seen_def)
      obtain w2 where "I w2" "run_state (track_progress (time_now E) n (status obj) states) w1 =
          ((states(n := tracked now (sn n) (states n)),
            if stalled now (sn n) (states n) then Some (LastChangeTime (the (states n))) else None), w2)"
        using track_progress_snapshot [OF clock \<open>I w1\<close>, of n "status obj" states m] s by auto
      with Some Inr r s show ?thesis by (auto simp: round_acc_def)
    qed
  qed
qed

lemma hung_elsewhere:
  assumes "n \<notin> set ns"
  shows "map (\<lambda>k. hung_message E kind k (LastChangeTime (the ((states(n := t)) k))))
      (filter (\<lambda>k. stalled now (sn k) ((states(n := t)) k)) ns) =
    map (\<lambda>k. hung_message E kind k (LastChangeTime (the (states k))))
      (filter (\<lambda>k. stalled now (sn k) (states k)) ns)"
proof -
  have old: "(states(n := t)) k = states k" if "k \<in> set ns" for k
    using that assms by auto
  then have "filter (\<lambda>k. stalled now (sn k) ((states(n := t)) k)) ns = filter (\<lambda>k. stalled now (sn k) (states k)) ns"
    by (intro filter_cong) (auto simp del: fun_upd_apply)
  with old show ?thesis
    by (intro map_cong) (auto simp del: fun_upd_apply)
qed

lemma watch_loop_snapshot:
  fixes prog :: "nsname \<Rightarrow> 'o \<Rightarrow> string option" and status :: "'o \<Rightarrow> 'st" and view
  assumes read: "\<And>w n. I w \<Longrightarrow> fst (run_state (read n) w) = view n \<and> I (snd (run_state (read n) w))"
    and clock: "\<And>w. I w \<Longrightarrow> fst (run_state (time_now E) w) = now \<and> I (snd (run_state (time_now E) w))"
  defines "sn \<equiv> seen view prog status"
  shows "I w \<Longrightarrow> distinct ns \<Longrightarrow>
    \<exists>w' acc'. I w' \<and>
      run_state (watch_loop E kind read prog status ns acc states) w =
        ((acc', \<lambda>n. if n \<in> set ns then tracked now (sn n) (states n) else states n), w') \<and>
      progressing acc' = progressing acc @ concat (map (\<lambda>n. watch_messages kind n (sn n)) ns) \<and>
      (reachedAvailableLevel acc' \<longleftrightarrow> reachedAvailableLevel acc \<and> (\<forall>n\<in>set ns. sn n = Healthy)) \<and>
      hung acc' = hung acc @ map (\<lambda>n. hung_message E kind n (LastChangeTime (the (states n))))
        (filter (\<lambda>n. stalled now (sn n) (states n)) ns)"
proof (induction ns arbitrary: acc states w)
  case Nil
  then show ?case by auto
next
  case (Cons n ns)
  from Cons.prems have dist: "distinct ns" "n \<notin> set ns" by auto
  let ?step = "states(n := tracked now (sn n) (states n))"
  let ?acc = "round_acc E kind now states n (sn n) acc"
  obtain w2 where w2: "I w2" "run_state (watch_loop E kind read prog status (n # ns) acc states) w =
      run_state (watch_loop E kind read prog status ns ?acc ?step) w2"
    using watch_round_snapshot [where I = I and read = read and view = view, OF read clock Cons.prems(1)]
    unfolding sn_def by blast
  have final: "(\<lambda>k. if k \<in> set ns then tracked now (sn k) (?step k) else ?step k) =
      (\<lambda>k. if k \<in> set (n # ns) then tracked now (sn k) (states k) else states k)"
    using dist(2) by auto
  obtain w' acc' where ih: "I w'"
      "run_state (watch_loop E kind read prog status (n # ns) acc states) w =
        ((acc', \<lambda>k. if k \<in> set (n # ns) then tracked now (sn k) (states k) else states k), w')"
      "progressing acc' = progressing ?acc @ concat (map (\<lambda>n. watch_messages kind n (sn n)) ns)"
      "reachedAvailableLevel acc' \<longleftrightarrow> reachedAvailableLevel ?acc \<and> (\<forall>n\<in>set ns. sn n = Healthy)"
      "hung acc' = hung ?acc @ map (\<lambda>k. hung_message E kind k (LastChangeTime (the (states k))))
        (filter (\<lambda>k. stalled now (sn k) (states k)) ns)"
    using Cons.IH [OF w2(1) dist(1), of ?acc ?step]
    unfolding final hung_elsewhere [OF dist(2)] w2(2) by blast
  show ?case
    by (rule exI [of _ w'], rule exI [of _ acc'], intro conjI ih(1,2))
      (simp_all only: ih(3-5) round_acc_fields, simp_all)
qed

section \<open>The annotation with the last seen states\<close>

text \<open>
  The documented behaviour of the JSON encoder (times keep their wall clock reading only), of ranging
  over a map, and of the API server for the annotation (\<open>ann\<close> gives the one that is stored): a
  read returns it, a merge patch writes it when it differs between the two objects it is given.
\<close>

definition strip_state :: "'st last_state \<Rightarrow> 'st last_state" where
  "strip_state d = d\<lparr>LastChangeTime := strip_mono (LastChangeTime d)\<rparr>"

definition json_lawful :: "('w, 's, 'e) sm_env_scheme \<Rightarrow> bool" where
  "json_lawful E \<longleftrightarrow>
     (\<forall>ps s. json_marshal_ps E ps = Inr s \<longrightarrow> s \<noteq> '''' \<and>
        json_unmarshal_ps E s = Inr \<lparr>DaemonsetStates = map strip_state (DaemonsetStates ps),
          DeploymentStates = map strip_state (DeploymentStates ps)\<rparr>)"

definition range_lawful :: "('w, 's, 'e) sm_env_scheme \<Rightarrow> bool" where
  "range_lawful E \<longleftrightarrow>
     (\<forall>K w. finite K \<longrightarrow> set (fst (run_state (range_keys E K) w)) = K)"

definition annotation_store :: "('w, 's, 'e) sm_env_scheme \<Rightarrow> string \<Rightarrow> ('w \<Rightarrow> string option) \<Rightarrow> bool" where
  "annotation_store E nm ann \<longleftrightarrow>
     (\<forall>w. ann (snd (run_state (get_co E nm) w)) = ann w) \<and>
     (\<forall>w co. fst (run_state (get_co E nm) w) = Inr co \<longrightarrow>
        co_name co = nm \<and> gomap_get (co_annotations co) lastSeenAnnotation = ann w) \<and>
     (\<forall>w new old. co_name new = nm \<longrightarrow> fst (run_state (patch_co E new old) w) = None \<longrightarrow>
        ann (snd (run_state (patch_co E new old) w)) =
          (let a = gomap_get (co_annotations new) lastSeenAnnotation
           in if a \<noteq> gomap_get (co_annotations old) lastSeenAnnotation then a else ann w))"

lemma annotation_get:
  "annotation_store E nm ann \<Longrightarrow> run_state (get_co E nm) w = (r, w') \<Longrightarrow>
   ann w' = ann w \<and> (\<forall>co. r = Inr co \<longrightarrow> co_name co = nm \<and>
     gomap_get (co_annotations co) lastSeenAnnotation = ann w)"
  unfolding annotation_store_def by (metis fst_conv snd_conv)

lemma annotation_patch:
  "annotation_store E nm ann \<Longrightarrow> run_state (patch_co E new old) w = (None, w') \<Longrightarrow> co_name new = nm \<Longrightarrow>
   ann w' = (let a = gomap_get (co_annotations new) lastSeenAnnotation
             in if a \<noteq> gomap_get (co_annotations old) lastSeenAnnotation then a else ann w)"
  unfolding annotation_store_def by (metis fst_conv snd_conv)

lemma store_attempt_stores:
  assumes "annotation_store E (sm_name s) ann" and "run_state (store_attempt E lsbytes) s = (None, s')"
  shows "ann (world s') = Some lsbytes"
proof -
  obtain r w1 where g: "run_state (get_co E (sm_name s)) (world s) = (r, w1)" by fastforce
  note law = annotation_get [OF assms(1) g]
  define old where "old = (case r of Inl _ \<Rightarrow> new_cluster_operator (sm_name s) | Inr co \<Rightarrow> co)"
  define new where "new = old\<lparr>co_annotations := Some ((case co_annotations old of None \<Rightarrow> Map.empty | Some a \<Rightarrow> a)
      (lastSeenAnnotation \<mapsto> lsbytes))\<rparr>"
  have name: "co_name new = sm_name s"
    using law by (auto simp: new_def old_def new_cluster_operator_def split: sum.splits)
  have get_new: "gomap_get (co_annotations new) lastSeenAnnotation = Some lsbytes"
    by (simp add: new_def)
  obtain w2 where "run_state (patch_co E new old) w1 = (None, w2)" and w2: "world s' = w2"
    using assms(2) g by (auto simp: store_attempt_def Let_def new_def old_def
        split: sum.splits prod.splits if_splits)
  from annotation_patch [OF assms(1) this(1) name] have
      "ann w2 = (if Some lsbytes \<noteq> gomap_get (co_annotations old) lastSeenAnnotation then Some lsbytes else ann w1)"
    by (simp add: get_new Let_def)
  moreover have "gomap_get (co_annotations old) lastSeenAnnotation = ann w1 \<or>
      gomap_get (co_annotations old) lastSeenAnnotation = None"
    using law by (auto simp: old_def new_cluster_operator_def split: sum.splits)
  ultimately show ?thesis
    using w2 by (auto split: if_splits)
qed

lemma store_attempt_name: "preserves sm_name (store_attempt E lsbytes)"
  unfolding store_attempt_def Let_def by (intro preserve_intros) simp_all

lemma index_collect:
  "index_states (map strip_state (collect_states m ks)) =
     (\<lambda>n. if n \<in> set ks then map_option (\<lambda>d. strip_state (d\<lparr>ls_name := n\<rparr>)) (m n) else None)"
proof -
  have "foldl (\<lambda>m d. m(ls_name d \<mapsto> d)) acc (map strip_state (collect_states m ks)) n =
      (if n \<in> set ks \<and> m n \<noteq> None then map_option (\<lambda>d. strip_state (d\<lparr>ls_name := n\<rparr>)) (m n) else acc n)"
    for acc n
    by (induction ks arbitrary: acc) (auto simp: strip_state_def split: option.splits)
  then show ?thesis
    by (auto simp: index_states_def fun_eq_iff)
qed

end
