(* ===== verification/Pod_Properties.thy ===== *)
theory Pod_Properties
  imports Pod_Correct Status_Properties
begin

text \<open>
  The properties of \<open>controllers/statusmanager/pod_status.go\<close>.
\<close>

section \<open>What a pass over the workloads reports\<close>

text \<open>C22: A pass reaches the available level exactly when the manager watches at least one workload
  and the pass found nothing to wait for, whatever the reads, the clock and the adaptor do.\<close>

theorem available_iff_nothing_progressing:
  "case fst (run_state (scan_pods E A) s) of (acc, _, _) \<Rightarrow>
     (reachedAvailableLevel acc \<longleftrightarrow>
        \<not> (daemonSets s = [] \<and> deployments s = []) \<and> progressing acc = [])"
proof -
  obtain ds dep s1 where g: "run_state (getLastPodState A) s = ((ds, dep), s1)"
    by (metis prod_cases3 surj_pair)
  let ?acc = "\<lparr>reachedAvailableLevel = (length (daemonSets s) + length (deployments s) > 0),
    progressing = [], hung = []\<rparr>"
  obtain acc1 ds1 w1 where d: "run_state (ds_loop E (daemonSets s) ?acc ds) (world s1) = ((acc1, ds1), w1)"
    by (metis prod_cases3 surj_pair)
  obtain acc2 dep2 w2 where p: "run_state (dep_loop E (deployments s) acc1 dep) w1 = ((acc2, dep2), w2)"
    by (metis prod_cases3 surj_pair)
  have "fst (run_state (scan_pods E A) s) = (acc2, ds1, dep2)"
    using g d p by (simp add: scan_pods_def)
  then show ?thesis
    using watch_loop_available [OF d [unfolded ds_loop_watch]]
      watch_loop_available [OF p [unfolded dep_loop_watch]] by auto
qed

text \<open>C23: When a workload counts as healthy, with the signed reading of its counters: a DaemonSet is
  rolled out on every wanted node, has no unavailable pod and some available one and its latest
  generation was observed; a Deployment likewise, except that the number of updated replicas is not
  looked at.\<close>

theorem healthy_workloads:
  "(ds_seen dsv n = Healthy \<longleftrightarrow> (\<exists>ds. dsv n = Inr ds \<and>
      sint (DesiredNumberScheduled (ds_status ds)) \<le> sint (UpdatedNumberScheduled (ds_status ds)) \<and>
      sint (NumberUnavailable (ds_status ds)) \<le> 0 \<and> sint (NumberAvailable (ds_status ds)) \<noteq> 0 \<and>
      sint (ds_generation ds) \<le> sint (ds_ObservedGeneration (ds_status ds))))
   \<and> (dep_seen depv n = Healthy \<longleftrightarrow> (\<exists>dep. depv n = Inr dep \<and>
      sint (UnavailableReplicas (dep_status dep)) \<le> 0 \<and> sint (AvailableReplicas (dep_status dep)) \<noteq> 0 \<and>
      sint (dep_generation dep) \<le> sint (dep_ObservedGeneration (dep_status dep))))"
proof -
  have nz: "x = 0 \<longleftrightarrow> sint x = 0" for x :: "'a::len word"
    by (metis signed_0 signed_word_eqI)
  have ds: "ds_progress n ds = None \<longleftrightarrow>
      sint (DesiredNumberScheduled (ds_status ds)) \<le> sint (UpdatedNumberScheduled (ds_status ds)) \<and>
      sint (NumberUnavailable (ds_status ds)) \<le> 0 \<and> sint (NumberAvailable (ds_status ds)) \<noteq> 0 \<and>
      sint (ds_generation ds) \<le> sint (ds_ObservedGeneration (ds_status ds))" for ds
    by (auto simp: ds_progress_def Let_def word_sless_alt nz)
  have dep: "dep_progress n dep = None \<longleftrightarrow>
      sint (UnavailableReplicas (dep_status dep)) \<le> 0 \<and> sint (AvailableReplicas (dep_status dep)) \<noteq> 0 \<and>
      sint (dep_generation dep) \<le> sint (dep_ObservedGeneration (dep_status dep))" for dep
    by (auto simp: dep_progress_def Let_def word_sless_alt nz)
  show ?thesis
    by (simp add: ds_seen_def dep_seen_def seen_Healthy ds dep)
qed

text \<open>C5: When the cluster and the clock stand still during the pass, the loops implement their
  specification by workload: the messages are those of the unhealthy workloads in the order they are
  watched; the available level is reached exactly when every one of them is healthy and there is
  one; the tracked states are updated workload by workload (\<open>tracked\<close>); and a rollout is
  reported as hung exactly when its status is the one tracked before and its last change is more
  than ten minutes old (\<open>stalled\<close>).\<close>

theorem scan_pods_refines:
  assumes "snapshot E I now dsv depv"
    and "run_state (getLastPodState A) s = ((dss, deps), s1)" and "I (world s1)"
    and "distinct (daemonSets s)" and "distinct (deployments s)"
  shows "\<exists>acc s'. run_state (scan_pods E A) s =
      ((acc, \<lambda>n. if n \<in> set (daemonSets s) then tracked now (ds_seen dsv n) (dss n) else dss n,
        \<lambda>n. if n \<in> set (deployments s) then tracked now (dep_seen depv n) (deps n) else deps n), s')
    \<and> progressing acc =
        concat (map (\<lambda>n. watch_messages ''DaemonSet'' n (ds_seen dsv n)) (daemonSets s)) @
        concat (map (\<lambda>n. watch_messages ''Deployment'' n (dep_seen depv n)) (deployments s))
    \<and> (reachedAvailableLevel acc \<longleftrightarrow> (daemonSets s \<noteq> [] \<or> deployments s \<noteq> []) \<and>
        (\<forall>n\<in>set (daemonSets s). ds_seen dsv n = Healthy) \<and>
        (\<forall>n\<in>set (deployments s). dep_seen depv n = Healthy))
    \<and> hung acc =
        map (\<lambda>n. hung_message E ''DaemonSet'' n (LastChangeTime (the (dss n))))
          (filter (\<lambda>n. stalled now (ds_seen dsv n) (dss n)) (daemonSets s)) @
        map (\<lambda>n. hung_message E ''Deployment'' n (LastChangeTime (the (deps n))))
          (filter (\<lambda>n. stalled now (dep_seen depv n) (deps n)) (deployments s))"
proof -
  let ?acc = "\<lparr>reachedAvailableLevel = (length (daemonSets s) + length (deployments s) > 0),
    progressing = [], hung = []\<rparr>"
  have clock: "\<And>w. I w \<Longrightarrow> fst (run_state (time_now E) w) = now \<and> I (snd (run_state (time_now E) w))"
    and dsr: "\<And>w n. I w \<Longrightarrow> fst (run_state (get_daemonset E n) w) = dsv n \<and> I (snd (run_state (get_daemonset E n) w))"
    and depr: "\<And>w n. I w \<Longrightarrow> fst (run_state (get_deployment E n) w) = depv n \<and> I (snd (run_state (get_deployment E n) w))"
    using assms(1) by (simp_all add: snapshot_def)
  note ds = watch_loop_snapshot [where read = "get_daemonset E" and view = dsv and prog = ds_progress
      and status = ds_status and kind = "''DaemonSet''", OF dsr clock assms(3,4), of ?acc dss,
      folded ds_seen_def]
  then obtain w1 acc1 where w1: "I w1" "run_state (ds_loop E (daemonSets s) ?acc dss) (world s1) =
      ((acc1, \<lambda>n. if n \<in> set (daemonSets s) then tracked now (ds_seen dsv n) (dss n) else dss n), w1)"
      "progressing acc1 = concat (map (\<lambda>n. watch_messages ''DaemonSet'' n (ds_seen dsv n)) (daemonSets s))"
      "reachedAvailableLevel acc1 \<longleftrightarrow> (daemonSets s \<noteq> [] \<or> deployments s \<noteq> []) \<and>
        (\<forall>n\<in>set (daemonSets s). ds_seen dsv n = Healthy)"
      "hung acc1 = map (\<lambda>n. hung_message E ''DaemonSet'' n (LastChangeTime (the (dss n))))
          (filter (\<lambda>n. stalled now (ds_seen dsv n) (dss n)) (daemonSets s))"
    by (auto simp: ds_loop_watch)
  note dep = watch_loop_snapshot [where read = "get_deployment E" and view = depv and prog = dep_progress
      and status = dep_status and kind = "''Deployment''", OF depr clock w1(1) assms(5), of acc1 deps,
      folded dep_seen_def]
  then obtain w2 acc2 where w2: "run_state (dep_loop E (deployments s) acc1 deps) w1 =
      ((acc2, \<lambda>n. if n \<in> set (deployments s) then tracked now (dep_seen depv n) (deps n) else deps n), w2)"
      "progressing acc2 = progressing acc1 @ concat (map (\<lambda>n. watch_messages ''Deployment'' n (dep_seen depv n)) (deployments s))"
      "reachedAvailableLevel acc2 \<longleftrightarrow> reachedAvailableLevel acc1 \<and>
        (\<forall>n\<in>set (deployments s). dep_seen depv n = Healthy)"
      "hung acc2 = hung acc1 @ map (\<lambda>n. hung_message E ''Deployment'' n (LastChangeTime (the (deps n))))
          (filter (\<lambda>n. stalled now (dep_seen depv n) (deps n)) (deployments s))"
    by (auto simp: dep_loop_watch)
  have "run_state (scan_pods E A) s =
      ((acc2, \<lambda>n. if n \<in> set (daemonSets s) then tracked now (ds_seen dsv n) (dss n) else dss n,
        \<lambda>n. if n \<in> set (deployments s) then tracked now (dep_seen depv n) (deps n) else deps n), s1\<lparr>world := w2\<rparr>)"
    using assms(2) w1(2) w2(1) by (simp add: scan_pods_def)
  with w1(3-5) w2(2-4) show ?thesis by auto
qed

text \<open>A reference cluster whose clock stands still, with one DaemonSet that is rolling out.\<close>

definition rolling_ds :: daemonset where
  "rolling_ds = \<lparr>ds_generation = 1, ds_status = \<lparr>DesiredNumberScheduled = 3,
     UpdatedNumberScheduled = 1, NumberAvailable = 3, NumberUnavailable = 0,
     ds_ObservedGeneration = 1, ds_status_rest = ''''\<rparr>\<rparr>"

definition agent_key :: nsname where
  "agent_key = NSN AntreaNamespace AntreaAgentDaemonSetName"

definition rolling_cluster :: cluster where
  "rolling_cluster = sample_cluster\<lparr>cl_ds := [agent_key \<mapsto> rolling_ds]\<rparr>"

definition frozen_env :: "(cluster, cluster status_manager) sm_env" where
  "frozen_env = ref_env\<lparr>time_now := gets (\<lambda>w. GoTime (cl_clock w) (Some (cl_clock w)))\<rparr>"

lemma frozen_snapshot:
  "snapshot frozen_env (\<lambda>w. w = rolling_cluster) (GoTime 1000 (Some 1000))
     (\<lambda>n. if n = agent_key then Inr rolling_ds else Inl not_found) (\<lambda>n. Inl not_found)"
  by (auto simp: snapshot_def frozen_env_def rolling_cluster_def sample_cluster_def)

lemma scan_pods_refines_witness:
  "case fst (run_state (scan_pods frozen_env (StatusK8s frozen_env)) (sample_manager\<lparr>world := rolling_cluster\<rparr>)) of
     (acc, dss, deps) \<Rightarrow> length (progressing acc) = 1 \<and> \<not> reachedAvailableLevel acc \<and> hung acc = [] \<and>
       map_option LastChangeTime (dss agent_key) = Some (GoTime 1000 (Some 1000))"
proof -
  let ?s = "sample_manager\<lparr>world := rolling_cluster\<rparr>"
  have "ds_seen (\<lambda>n. if n = agent_key then Inr rolling_ds else Inl not_found) agent_key \<noteq> Healthy"
    "ds_seen (\<lambda>n. if n = agent_key then Inr rolling_ds else Inl not_found) agent_key \<noteq> Gone"
    by (simp_all add: ds_seen_def seen_def ds_progress_def rolling_ds_def Let_def word_sless_alt)
  then obtain m st where
      roll: "ds_seen (\<lambda>n. if n = agent_key then Inr rolling_ds else Inl not_found) agent_key = Rolling m st"
    by (meson seen.exhaust)
  have "run_state (getLastPodState (StatusK8s frozen_env)) ?s = ((Map.empty, Map.empty), ?s)"
    by (simp add: StatusK8s_def getLastPodState_k8s_def)
  from scan_pods_refines [OF frozen_snapshot this] show ?thesis
    by (auto simp: sample_manager_def agent_key_def [symmetric] roll watch_messages_def tracked_def stalled_def)
qed

section \<open>What a pass changes\<close>

text \<open>C19: On both platforms a pass settles exactly two degraded levels: PodDeployment is cleared, and
  RolloutHung holds the hung rollouts the pass found or is cleared when it found none; the other
  levels, the watched workloads and the fields of the enclosing reconciler state are unchanged.\<close>

theorem pods_settle_two_levels:
  assumes "retry_lawful E"
    and "run_state (SetFromPods E (platform_adaptor E p)) s = (u, s')"
    and "run_state (scan_pods E (platform_adaptor E p)) s = ((acc, ds, dep), s1)"
  shows "failing s' = (failing s)(PodDeployment := None, RolloutHung :=
      (if hung acc = [] then None
       else Some (mk_cond OperatorDegraded ConditionTrue ''RolloutHung'' (strings_join newline (hung acc)))))
    \<and> daemonSets s' = daemonSets s \<and> deployments s' = deployments s \<and> sm_name s' = sm_name s
    \<and> status_manager.more s' = status_manager.more s"
proof (cases p)
  case OpenShift
  with oc_status.SetFromPods_books [OF assms(1)] assms(2,3) show ?thesis
    by (simp add: platform_adaptor_def books_eq_iff)
next
  case Kubernetes
  with k8s_status.SetFromPods_books [OF assms(1)] assms(2,3) show ?thesis
    by (simp add: platform_adaptor_def books_eq_iff)
qed

lemma pods_settle_two_levels_witness:
  "failing (snd (run_state (SetFromPods (ref_env :: (cluster, cluster status_manager) sm_env)
     (platform_adaptor ref_env OpenShift))
     (sample_manager\<lparr>failing := (\<lambda>_. Some (mk_cond OperatorDegraded ConditionTrue '''' ''''))\<rparr>))) PodDeployment = None"
proof -
  let ?s = "sample_manager\<lparr>failing := (\<lambda>_. Some (mk_cond OperatorDegraded ConditionTrue '''' ''''))\<rparr>"
  obtain u s' where r: "run_state (SetFromPods (ref_env :: (cluster, cluster status_manager) sm_env)
      (platform_adaptor ref_env OpenShift)) ?s = (u, s')"
    by (metis surj_pair)
  obtain acc ds dep s1 where "run_state (scan_pods (ref_env :: (cluster, cluster status_manager) sm_env)
      (platform_adaptor ref_env OpenShift)) ?s = ((acc, ds, dep), s1)"
    by (metis prod_cases3 surj_pair)
  from pods_settle_two_levels [OF ref_retry_lawful r this] r show ?thesis by simp
qed

section \<open>Plain Kubernetes\<close>

text \<open>C39: On plain Kubernetes no rollout is ever reported as hung, however long it stands still: the
  adaptor keeps no last seen states, so for lists of different workloads a pass finds no hung rollout
  and clears the RolloutHung level.\<close>

theorem k8s_never_reports_hung:
  assumes "retry_lawful E" and "distinct (daemonSets s)" and "distinct (deployments s)"
    and "run_state (SetFromPods E (StatusK8s E)) s = (u, s')"
  shows "failing s' = (failing s)(PodDeployment := None, RolloutHung := None)"
proof -
  have k: "run_state (getLastPodState (StatusK8s E)) s = ((Map.empty, Map.empty), s)"
    by (simp add: StatusK8s_def getLastPodState_k8s_def)
  let ?acc = "\<lparr>reachedAvailableLevel = (length (daemonSets s) + length (deployments s) > 0),
    progressing = [], hung = []\<rparr>"
  obtain acc1 ds1 w1 where d: "run_state (ds_loop E (daemonSets s) ?acc Map.empty) (world s) = ((acc1, ds1), w1)"
    by (metis prod_cases3 surj_pair)
  obtain acc2 dep2 w2 where p: "run_state (dep_loop E (deployments s) acc1 Map.empty) w1 = ((acc2, dep2), w2)"
    by (metis prod_cases3 surj_pair)
  have "run_state (scan_pods E (StatusK8s E)) s = ((acc2, ds1, dep2), s\<lparr>world := w2\<rparr>)"
    using k d p by (simp add: scan_pods_def)
  moreover have "hung acc2 = []"
    using watch_loop_untracked [OF d [unfolded ds_loop_watch]] assms(2,3)
      watch_loop_untracked [OF p [unfolded dep_loop_watch]] by simp
  ultimately show ?thesis
    using k8s_status.SetFromPods_books [OF assms(1,4)] by (simp add: books_eq_iff)
qed

lemma k8s_never_reports_hung_witness:
  "failing (snd (run_state (SetFromPods (ref_env :: (cluster, cluster status_manager) sm_env) (StatusK8s ref_env))
     sample_manager)) = (\<lambda>_. None)"
proof -
  obtain u s' where r: "run_state (SetFromPods (ref_env :: (cluster, cluster status_manager) sm_env)
      (StatusK8s ref_env)) sample_manager = (u, s')"
    by (metis surj_pair)
  have "failing s' = (failing sample_manager)(PodDeployment := None, RolloutHung := None)"
    by (rule k8s_never_reports_hung [OF ref_retry_lawful _ _ r]) (simp_all add: sample_manager_def)
  with r show ?thesis by (simp add: sample_manager_def fun_eq_iff)
qed

text \<open>C38: On plain Kubernetes the outcome of a pass does not stay published: when every call for the
  custom resource succeeds, the conditions it holds after the pass are Degraded and Upgradeable only,
  because the publications for the degraded levels that follow replace the Progressing and Available
  conditions just published.\<close>

theorem k8s_pass_outcome_not_kept:
  assumes "retry_lawful E" and "conditions_lawful E" and "install_store E stored"
    and "install_reachable E" and "failing_are_degraded s"
    and "run_state (SetFromPods E (StatusK8s E)) s = (u, s')"
  shows "dom (cond_view E (stored (world s'))) = {OperatorDegraded, OperatorUpgradeable}"
proof -
  obtain acc ds dep s1 where "run_state (scan_pods E (StatusK8s E)) s = ((acc, ds, dep), s1)"
    by (metis prod_cases3 surj_pair)
  from k8s_status.SetFromPods_sync [OF assms(1,6) this] obtain t where
      t: "failing t = (failing s)(PodDeployment := None, RolloutHung :=
        (if hung acc = [] then None
         else Some (mk_cond OperatorDegraded ConditionTrue ''RolloutHung'' (strings_join newline (hung acc)))))"
      "run_state (syncDegraded (StatusK8s E)) t = (u, s')"
    by (auto simp: books_eq_iff)
  have "failing_are_degraded t"
    using assms(5) unfolding failing_are_degraded_def t(1)
    by (auto simp: ran_def split: if_splits)
  from syncDegraded_k8s_published [OF assms(1-4) this t(2)] show ?thesis .
qed

text \<open>A reference environment whose patches of the custom resource always succeed.\<close>

definition steady_env :: "(cluster, cluster status_manager) sm_env" where
  "steady_env = ref_env
     \<lparr>get_install := (\<lambda>k. State (\<lambda>w. (Inr (case cl_install w of None \<Rightarrow> (sample_install ''user'')
         | Some i \<Rightarrow> i), w))),
      patch_install_status := (\<lambda>new old. State (\<lambda>w. (None, w\<lparr>cl_install := Some new\<rparr>)))\<rparr>"

lemma steady_env_lawful:
  "retry_lawful steady_env" "conditions_lawful steady_env" "install_store steady_env ref_stored"
  "install_reachable steady_env"
proof -
  show "retry_lawful steady_env"
    by (simp add: retry_lawful_def steady_env_def ref_retry_attempts)
  show "conditions_lawful steady_env"
    using ref_conditions_lawful
    by (simp add: conditions_lawful_def cond_view_def steady_env_def)
  show "install_store steady_env ref_stored"
    by (auto simp: install_store_def steady_env_def ref_stored_def sample_install_def split: option.splits)
  show "install_reachable steady_env"
    by (simp add: install_reachable_def steady_env_def)
qed

lemma k8s_pass_outcome_not_kept_witness:
  "cond_view steady_env (ref_stored (world (snd (run_state (SetFromPods steady_env (StatusK8s steady_env))
     sample_manager)))) OperatorProgressing = None"
proof -
  obtain u s' where r: "run_state (SetFromPods steady_env (StatusK8s steady_env)) sample_manager = (u, s')"
    by (metis surj_pair)
  have "failing_are_degraded sample_manager"
    by (simp add: failing_are_degraded_def sample_manager_def)
  from k8s_pass_outcome_not_kept [OF steady_env_lawful this r]
  have "OperatorProgressing \<notin> dom (cond_view steady_env (ref_stored (world s')))" by simp
  with r show ?thesis by auto
qed

section \<open>The last seen states on OpenShift\<close>

text \<open>C21: The last seen states survive the annotation: when storing them succeeds, reading them back
  gives, for every workload, the stored status and time of last change, the time without its
  monotonic reading and the workload's own name, and nothing for a workload that was not stored.\<close>

theorem last_pod_state_roundtrip:
  assumes "retry_lawful E" and "json_lawful E" and "range_lawful E"
    and "annotation_store E (sm_name s) ann" and "finite (dom dss)" and "finite (dom deps)"
    and "run_state (setLastPodState (StatusOc E) dss deps) s = (None, s')"
    and "run_state (get_co E (sm_name s)) (world s') = (Inr co, w)"
  shows "fst (run_state (getLastPodState (StatusOc E)) s') =
     (\<lambda>n. map_option (\<lambda>d. strip_state (d\<lparr>ls_name := n\<rparr>)) (dss n),
      \<lambda>n. map_option (\<lambda>d. strip_state (d\<lparr>ls_name := n\<rparr>)) (deps n))"
proof -
  obtain dk w1 where dk: "run_state (range_keys E (dom dss)) (world s) = (dk, w1)" by fastforce
  obtain pk w2 where pk: "run_state (range_keys E (dom deps)) w1 = (pk, w2)" by fastforce
  have keys: "set dk = dom dss" "set pk = dom deps"
    using assms(3,5,6) dk pk unfolding range_lawful_def by (metis fst_conv)+
  let ?ps = "\<lparr>DaemonsetStates = collect_states dss dk, DeploymentStates = collect_states deps pk\<rparr>"
  from assms(7) dk pk obtain ls where ls: "json_marshal_ps E ?ps = Inr ls"
      "run_state (RetryOnConflict E (store_attempt E ls)) (s\<lparr>world := w2\<rparr>) = (None, s')"
    by (auto simp: StatusOc_def setLastPodState_oc_def split: sum.splits)
  have step: "sm_name t2 = sm_name s \<and> (r = None \<longrightarrow> ann (world t2) = Some ls)"
    if "sm_name t1 = sm_name s" "run_state (store_attempt E ls) t1 = (r, t2)" for t1 r t2
    using preservesD [OF store_attempt_name that(2)] store_attempt_stores [of E t1 ann ls t2] assms(4) that
    by auto
  have "sm_name s' = sm_name s \<and> ((None :: go_error option) = None \<longrightarrow> ann (world s') = Some ls)"
    by (rule retry_inv [OF assms(1) ls(2), of "\<lambda>t. sm_name t = sm_name s"
          "\<lambda>r t. r = None \<longrightarrow> ann (world t) = Some ls"]) (simp, rule step)
  then have "ann (world s') = Some ls" "sm_name s' = sm_name s" by auto
  moreover from this(1) have "gomap_get (co_annotations co) lastSeenAnnotation = Some ls"
    using annotation_get [OF assms(4,8)] by simp
  ultimately have "fst (run_state (getLastPodState (StatusOc E)) s') =
      (index_states (map strip_state (collect_states dss dk)), index_states (map strip_state (collect_states deps pk)))"
    using assms(2,8) ls(1) by (auto simp: StatusOc_def getLastPodState_oc_def json_lawful_def)
  then show ?thesis
    by (auto simp: index_collect keys fun_eq_iff)
qed

text \<open>A reference environment that can encode one tracked DaemonSet.\<close>

definition tracked_ds :: "daemonset_status last_state" where
  "tracked_ds = \<lparr>ls_name = agent_key, LastSeenStatus = ds_status rolling_ds, LastChangeTime = GoTime 7 (Some 3)\<rparr>"

definition codec_env :: "(cluster, cluster status_manager) sm_env" where
  "codec_env = ref_env
     \<lparr>json_marshal_ps := (\<lambda>ps. if ps = \<lparr>DaemonsetStates = [tracked_ds], DeploymentStates = []\<rparr>
        then Inr ''one'' else Inl (errors_new ''json'')),
      json_unmarshal_ps := (\<lambda>s. if s = ''one''
        then Inr \<lparr>DaemonsetStates = [strip_state tracked_ds], DeploymentStates = []\<rparr>
        else Inl (errors_new ''json''))\<rparr>"

lemma last_pod_state_roundtrip_witness:
  "let s = sample_manager\<lparr>world := sample_cluster\<lparr>cl_co := Some (new_cluster_operator AntreaClusterOperatorName)\<rparr>\<rparr>;
       s' = snd (run_state (setLastPodState (StatusOc codec_env) [agent_key \<mapsto> tracked_ds] Map.empty) s)
   in fst (fst (run_state (getLastPodState (StatusOc codec_env)) s')) agent_key = Some (strip_state tracked_ds)"
proof -
  let ?s = "sample_manager\<lparr>world := sample_cluster\<lparr>cl_co := Some (new_cluster_operator AntreaClusterOperatorName)\<rparr>\<rparr>"
  have laws: "retry_lawful codec_env" "json_lawful codec_env" "range_lawful codec_env"
    by (auto simp: retry_lawful_def codec_env_def ref_retry_attempts json_lawful_def range_lawful_def
        split: if_splits)
  have store: "annotation_store codec_env (sm_name ?s) (ref_annotation (sm_name ?s) lastSeenAnnotation)"
    by (auto simp: annotation_store_def codec_env_def ref_annotation_def ref_patch_co_def ref_co_def Let_def
        split: option.splits if_splits)
  obtain r s' where r: "run_state (setLastPodState (StatusOc codec_env) [agent_key \<mapsto> tracked_ds] Map.empty) ?s = (r, s')"
    by (metis surj_pair)
  have "r = None \<and> (\<exists>co. run_state (get_co codec_env (sm_name ?s)) (world s') = (Inr co, world s'))"
    using r
    by (auto simp: codec_env_def StatusOc_def setLastPodState_oc_def store_attempt_def ref_co_def tracked_ds_def
        sample_manager_def new_cluster_operator_def ref_patch_co_def numeral_3_eq_3 Let_def)
  with last_pod_state_roundtrip [OF laws store _ _ _, of "[agent_key \<mapsto> tracked_ds]" Map.empty s'] r
  show ?thesis by (auto simp: tracked_ds_def)
qed

end
