(* ===== verification/Publication_Bounds.thy ===== *)
theory Publication_Bounds
  imports Pod_Properties Related_Properties
begin

text \<open>
  What the status manager publishes is well formed and bounded: on plain Kubernetes the stored
  conditions stay within the four condition types and the two values that the code knows, and a pass
  over the workloads gives at most one message for each of them and tracks no other.
\<close>

section \<open>Well-formed conditions\<close>

definition condition_types :: "string set" where
  "condition_types = {OperatorProgressing, OperatorAvailable, OperatorDegraded, OperatorUpgradeable}"

definition typed_cond :: "cond \<Rightarrow> bool" where
  "typed_cond c \<longleftrightarrow> ctype c \<in> condition_types \<and> cstatus c \<in> {ConditionTrue, ConditionFalse}"

definition typed_view :: "cond_map \<Rightarrow> bool" where
  "typed_view m \<longleftrightarrow> (\<forall>t st r msg. m t = Some (st, r, msg) \<longrightarrow>
     t \<in> condition_types \<and> st \<in> {ConditionTrue, ConditionFalse})"

definition status_typed :: "('w, 'z, 'e) env \<Rightarrow> ('w \<Rightarrow> cond list) \<Rightarrow> ('w, 'z) sm \<Rightarrow> bool" where
  "status_typed E stored s \<longleftrightarrow>
     (\<forall>l c. failing s l = Some c \<longrightarrow> typed_cond c) \<and> typed_view (cond_view E (stored (world s)))"

lemma typed_mk [simp]: "typed_cond (mk_cond t st r m) \<longleftrightarrow> t \<in> condition_types \<and> st \<in> {ConditionTrue, ConditionFalse}"
  by (simp add: typed_cond_def)

lemma known_types [simp]:
  "OperatorProgressing \<in> condition_types" "OperatorAvailable \<in> condition_types"
  "OperatorDegraded \<in> condition_types" "OperatorUpgradeable \<in> condition_types"
  by (simp_all add: condition_types_def)

lemma typed_upd:
  "typed_view m \<Longrightarrow> t \<in> condition_types \<Longrightarrow> st \<in> {ConditionTrue, ConditionFalse} \<Longrightarrow>
   typed_view (m(t \<mapsto> (st, r, msg)))"
  by (simp add: typed_view_def)

lemma typed_combine: "typed_view m \<Longrightarrow> \<forall>c\<in>set cs. typed_cond c \<Longrightarrow> typed_view (combine_view m cs)"
  by (induction cs arbitrary: m) (simp_all add: typed_upd typed_cond_def cond_content_def)

lemma typed_published: "typed_view m \<Longrightarrow> \<forall>c\<in>set cs. typed_cond c \<Longrightarrow> typed_view (published_view m cs)"
  by (simp add: published_view_def Let_def typed_upd typed_combine)

lemma typed_empty [simp]: "typed_view Map.empty"
  by (simp add: typed_view_def)

lemma typed_at_most_four:
  assumes "typed_view m" shows "finite (dom m) \<and> card (dom m) \<le> 4"
proof -
  have sub: "dom m \<subseteq> condition_types" using assms by (auto simp: typed_view_def)
  have fin: "finite condition_types" "card condition_types \<le> 4"
    by (simp_all add: condition_types_def card_insert_if)
  show ?thesis
    using finite_subset [OF sub fin(1)] card_mono [OF fin(1) sub] fin(2) by linarith
qed

section \<open>The publications of the status manager on plain Kubernetes\<close>

lemma set_k8s_typed:
  assumes "retry_lawful E" "conditions_lawful E" "install_store E stored"
    and "\<forall>c\<in>set cs. typed_cond c" and "status_typed E stored s" and "run_state (set_k8s E r cs) s = (u, s')"
  shows "status_typed E stored s'"
proof -
  obtain e where e: "run_state (RetryOnConflict E (set_attempt_k8s E r cs)) s = (e, s')"
    using assms(6) by (auto simp: set_k8s_def split: prod.splits)
  have "typed_view (cond_view E (stored (world s'))) \<and> True"
  proof (rule retry_inv [OF assms(1) e, where I = "\<lambda>t. typed_view (cond_view E (stored (world t)))" and Q = "\<lambda>_ _. True"])
    show "typed_view (cond_view E (stored (world s)))"
      using assms(5) by (simp add: status_typed_def)
    show "typed_view (cond_view E (stored (world s2))) \<and> True"
      if "typed_view (cond_view E (stored (world s1)))" "run_state (set_attempt_k8s E r cs) s1 = (r1, s2)" for s1 r1 s2
      using set_attempt_k8s_stored [OF assms(3,2) that(2)] that(1) typed_published [OF typed_empty assms(4)] by auto
  qed
  moreover have "failing s' = failing s"
    using preservesD [OF set_k8s_books [OF assms(1)] assms(6)] by (simp add: books_eq_iff)
  ultimately show ?thesis using assms(5) by (simp add: status_typed_def)
qed

lemma sync_typed:
  assumes "retry_lawful E" "conditions_lawful E" "install_store E stored"
    and "status_typed E stored s" and "run_state (syncDegraded (StatusK8s E)) s = (u, s')"
  shows "status_typed E stored s'"
proof -
  obtain c where c: "typed_cond c" "run_state (set_k8s E False [c]) s = (u, s')"
  proof (cases "first_failing (failing s) status_levels")
    case None
    with assms(5) show thesis
      by (intro that [of "mk_cond OperatorDegraded ConditionFalse '''' ''''"]) (simp_all add: syncDegraded_def StatusK8s_def)
  next
    case (Some d)
    then obtain l where "failing s l = Some d" using first_failing_least by metis
    with assms(4,5) Some show thesis
      by (intro that [of d]) (auto simp: syncDegraded_def StatusK8s_def status_typed_def)
  qed
  show ?thesis by (rule set_k8s_typed [OF assms(1-3) _ assms(4) c(2)]) (simp add: c(1))
qed

lemma set_levels_typed:
  assumes "retry_lawful E" "conditions_lawful E" "install_store E stored" and "status_typed E stored s"
  shows "run_state (setDegraded (StatusK8s E) l r m) s = (u, t) \<Longrightarrow> status_typed E stored t"
    and "run_state (setNotDegraded (StatusK8s E) l) s = (u, t) \<Longrightarrow> status_typed E stored t"
    and "run_state (setConditions (StatusK8s E) ps a) s = (u, t) \<Longrightarrow> status_typed E stored t"
proof -
  have upd: "status_typed E stored (s\<lparr>failing := (failing s)(l := c)\<rparr>)" if "\<forall>d. c = Some d \<longrightarrow> typed_cond d" for c
    using assms(4) that by (simp add: status_typed_def)
  show "status_typed E stored t" if "run_state (setDegraded (StatusK8s E) l r m) s = (u, t)"
    by (rule sync_typed [OF assms(1-3) upd [of "Some (mk_cond OperatorDegraded ConditionTrue r m)"]])
      (use that in \<open>simp_all add: setDegraded_def\<close>)
  show "status_typed E stored t" if "run_state (setNotDegraded (StatusK8s E) l) s = (u, t)"
    by (rule sync_typed [OF assms(1-3) upd [of None]]) (use that in \<open>simp_all add: setNotDegraded_sync\<close>)
  show "status_typed E stored t" if run: "run_state (setConditions (StatusK8s E) ps a) s = (u, t)"
  proof -
    obtain cs where "run_state (set_k8s E a cs) s = (u, t)" "\<forall>c\<in>set cs. typed_cond c"
      using run by (auto simp: setConditions_def StatusK8s_def Let_def split: if_splits)
    from set_k8s_typed [OF assms(1-3) this(2) assms(4) this(1)] show ?thesis .
  qed
qed

text \<open>Reading the workloads and the clock does not change the custom resource.\<close>

definition reads_keep :: "('w, 's, 'e) sm_env_scheme \<Rightarrow> ('w \<Rightarrow> cond list) \<Rightarrow> bool" where
  "reads_keep E stored \<longleftrightarrow>
     (\<forall>n. preserves stored (get_daemonset E n) \<and> preserves stored (get_deployment E n)) \<and> preserves stored (time_now E)"

lemma track_keeps: "preserves f clock \<Longrightarrow> preserves f (track_progress clock k st states)"
  unfolding track_progress_def Let_def by (intro preserve_intros)

lemma loops_keep:
  assumes "reads_keep E stored"
  shows "preserves stored (ds_loop E dss acc sts)" and "preserves stored (dep_loop E deps acc sts')"
proof -
  have r: "preserves stored (get_daemonset E n)" "preserves stored (get_deployment E n)" "preserves stored (time_now E)" for n
    using assms by (simp_all add: reads_keep_def)
  show "preserves stored (ds_loop E dss acc sts)"
    by (induction dss arbitrary: acc sts) (auto intro!: preserve_intros track_keeps r split: sum.splits option.splits)
  show "preserves stored (dep_loop E deps acc sts')"
    by (induction deps arbitrary: acc sts') (auto intro!: preserve_intros track_keeps r split: sum.splits option.splits)
qed

lemma scan_typed:
  assumes "reads_keep E stored" and "status_typed E stored s" and "run_state (scan_pods E (StatusK8s E)) s = (x, t)"
  shows "status_typed E stored t"
proof -
  obtain acc1 m1 w1 where 1: "run_state (ds_loop E (daemonSets s) \<lparr>reachedAvailableLevel =
      (length (daemonSets s) + length (deployments s) > 0), progressing = [], hung = []\<rparr> Map.empty) (world s) = ((acc1, m1), w1)"
    by (metis surj_pair)
  obtain acc2 m2 w2 where 2: "run_state (dep_loop E (deployments s) acc1 Map.empty) w1 = ((acc2, m2), w2)"
    by (metis surj_pair)
  have "t = s\<lparr>world := w2\<rparr>"
    using assms(3) 1 2 by (simp add: scan_pods_def StatusK8s_def getLastPodState_k8s_def Let_def)
  moreover have "stored w2 = stored (world s)"
    using preservesD [OF loops_keep(1) [OF assms(1)] 1] preservesD [OF loops_keep(2) [OF assms(1)] 2] by simp
  ultimately show ?thesis using assms(2) by (simp add: status_typed_def)
qed

text \<open>C18: On plain Kubernetes every publication keeps the status well formed: if the recorded levels and
  the conditions that the custom resource holds have one of the four types and the value True or False, so
  have those after setting a level, clearing a level and a pass over the workloads; so the resource never
  holds more than four conditions.\<close>

theorem published_conditions_typed:
  assumes "retry_lawful E" "conditions_lawful E" "install_store E stored" "reads_keep E stored"
    and "status_typed E stored s"
    and "m \<in> {SetDegraded (StatusK8s E) l r msg, SetNotDegraded (StatusK8s E) l, SetFromPods E (StatusK8s E)}"
    and "run_state m s = (u, t)"
  shows "status_typed E stored t \<and> card (dom (cond_view E (stored (world t)))) \<le> 4"
proof -
  note levels = set_levels_typed [OF assms(1-3)]
  have setLastPodState_is: "setLastPodState (StatusK8s E) ds dep = ret None" for ds dep
    by (simp add: StatusK8s_def setLastPodState_k8s_def)
  have "status_typed E stored t"
    using assms(6)
  proof (elim insertE)
    assume pods: "m = SetFromPods E (StatusK8s E)"
    obtain acc ds dep s1 where s1: "run_state (scan_pods E (StatusK8s E)) s = ((acc, ds, dep), s1)"
      by (metis prod_cases3 surj_pair)
    obtain s2 where s2: "run_state (setNotDegraded (StatusK8s E) PodDeployment) s1 = ((), s2)"
      by (metis old.unit.exhaust surj_pair)
    obtain s3 where s3: "run_state (setConditions (StatusK8s E) (progressing acc) (reachedAvailableLevel acc)) s2 = ((), s3)"
      by (metis old.unit.exhaust surj_pair)
    have s3_typed: "status_typed E stored s3"
      by (rule levels(3) [OF levels(2) [OF scan_typed [OF assms(4,5) s1] s2] s3])
    have "run_state (if length (hung acc) > 0
        then setDegraded (StatusK8s E) RolloutHung ''RolloutHung'' (strings_join newline (hung acc))
        else setNotDegraded (StatusK8s E) RolloutHung) s3 = (u, t)"
      using assms(7) pods s1 s2 s3 setLastPodState_is by (simp add: SetFromPods_def split del: if_split)
    then show ?thesis
      by (cases "length (hung acc) > 0") (auto intro: levels(1,2) [OF s3_typed])
  next
    assume "m = SetDegraded (StatusK8s E) l r msg"
    with assms(7) show ?thesis by (auto simp: SetDegraded_def intro: levels(1) [OF assms(5)])
  next
    assume "m = SetNotDegraded (StatusK8s E) l"
    with assms(7) show ?thesis by (auto simp: SetNotDegraded_def intro: levels(2) [OF assms(5)])
  qed simp
  then show ?thesis using typed_at_most_four by (auto simp: status_typed_def)
qed

lemma published_conditions_typed_witness:
  "card (dom (cond_view (ref_env :: (cluster, cluster status_manager) sm_env) (ref_stored (world (snd (run_state
     (SetFromPods ref_env (StatusK8s ref_env)) sample_manager)))))) \<le> 4"
proof -
  let ?E = "ref_env :: (cluster, cluster status_manager) sm_env"
  obtain t where t: "run_state (SetFromPods ?E (StatusK8s ?E)) sample_manager = ((), t)"
    by (metis old.unit.exhaust surj_pair)
  have keep: "reads_keep ?E ref_stored"
    by (auto simp: reads_keep_def preserves_def ref_stored_def ref_read_def ref_clock_def split: option.splits)
  have typed: "status_typed ?E ref_stored sample_manager"
    by (simp add: status_typed_def sample_manager_def sample_cluster_def ref_stored_def sample_install_def cond_view_def
        typed_view_def ref_env_def ref_find_def)
  show ?thesis
    using published_conditions_typed [OF ref_retry_lawful ref_conditions_lawful ref_install_store keep typed _ t] t by simp
qed

section \<open>The size of a pass\<close>

definition acc_bound :: "nat \<Rightarrow> pod_acc \<Rightarrow> bool" where
  "acc_bound n acc \<longleftrightarrow> length (hung acc) \<le> length (progressing acc) \<and> length (progressing acc) \<le> n"

lemma track_other:
  "run_state (track_progress clock k st sts) w = ((sts', since), w') \<Longrightarrow> k' \<noteq> k \<Longrightarrow> sts' k' = sts k'"
  by (auto simp: track_progress_def Let_def split: option.splits prod.splits if_splits)

lemma acc_bound_step:
  "acc_bound n acc \<Longrightarrow> acc_bound (Suc n) acc"
  "acc_bound n acc \<Longrightarrow> acc_bound (Suc n) (note_progress msg acc)"
  "acc_bound n acc \<Longrightarrow> acc_bound (Suc n) (note_hung E kind name since (note_progress msg acc))"
  by (auto simp: acc_bound_def note_progress_def note_hung_def split: option.splits)

text \<open>One round of a loop: the message of a workload, and what is tracked of it.\<close>

lemma ds_loop_bound:
  "run_state (ds_loop E dss acc sts) w = ((acc', sts'), w') \<Longrightarrow> acc_bound n acc \<Longrightarrow>
   acc_bound (n + length dss) acc' \<and> (k \<notin> set dss \<longrightarrow> sts' k = sts k)"
proof (induction dss arbitrary: acc sts w n)
  case (Cons d dss)
  obtain acc1 sts1 w1 where 1: "run_state (ds_loop E dss acc1 sts1) w1 = ((acc', sts'), w')"
      "acc_bound (Suc n) acc1" "k \<noteq> d \<longrightarrow> sts1 k = sts k"
    using Cons.prems
    by (auto split: sum.splits option.splits prod.splits dest: track_other [where k' = k])
      (force intro: acc_bound_step dest: track_other [where k' = k])+
  from Cons.IH [OF 1(1,2)] 1(3) show ?case by auto
qed simp

lemma dep_loop_bound:
  "run_state (dep_loop E deps acc sts) w = ((acc', sts'), w') \<Longrightarrow> acc_bound n acc \<Longrightarrow>
   acc_bound (n + length deps) acc' \<and> (k \<notin> set deps \<longrightarrow> sts' k = sts k)"
proof (induction deps arbitrary: acc sts w n)
  case (Cons d deps)
  obtain acc1 sts1 w1 where 1: "run_state (dep_loop E deps acc1 sts1) w1 = ((acc', sts'), w')"
      "acc_bound (Suc n) acc1" "k \<noteq> d \<longrightarrow> sts1 k = sts k"
    using Cons.prems
    by (auto split: sum.splits option.splits prod.splits dest: track_other [where k' = k])
      (force intro: acc_bound_step dest: track_other [where k' = k])+
  from Cons.IH [OF 1(1,2)] 1(3) show ?case by auto
qed simp

text \<open>C20: A pass over the workloads is bounded by what is watched: it gives at most one Progressing message
  for each watched workload and calls a rollout hung only with such a message; what it
  tracks changes for watched workloads only, so the state of a workload that is no longer watched is
  kept for ever.\<close>

theorem pass_bounded_by_watched:
  assumes "run_state (scan_pods E A) s = ((acc, dss, deps), t)"
    and "run_state (getLastPodState A) s = ((dss0, deps0), s1)"
  shows "length (hung acc) \<le> length (progressing acc) \<and>
    length (progressing acc) \<le> length (daemonSets s) + length (deployments s) \<and>
    (\<forall>n. n \<notin> set (daemonSets s) \<longrightarrow> dss n = dss0 n) \<and>
    (\<forall>n. n \<notin> set (deployments s) \<longrightarrow> deps n = deps0 n)"
proof -
  let ?acc = "\<lparr>reachedAvailableLevel = (length (daemonSets s) + length (deployments s) > 0), progressing = [], hung = []\<rparr>"
  obtain acc1 m1 w1 where 1: "run_state (ds_loop E (daemonSets s) ?acc dss0) (world s1) = ((acc1, m1), w1)"
    by (metis surj_pair)
  obtain acc2 m2 w2 where 2: "run_state (dep_loop E (deployments s) acc1 deps0) w1 = ((acc2, m2), w2)"
    by (metis surj_pair)
  have "acc_bound 0 ?acc" by (simp add: acc_bound_def)
  note b1 = ds_loop_bound [OF 1 this]
  note b2 = dep_loop_bound [OF 2 conjunct1 [OF b1]]
  have "acc = acc2" "dss = m1" "deps = m2"
    using assms 1 2 by (simp_all add: scan_pods_def Let_def)
  with b1 b2 show ?thesis by (simp add: acc_bound_def)
qed

lemma pass_bounded_by_watched_witness:
  "length (progressing (fst (fst (run_state (scan_pods (ref_env :: (cluster, cluster status_manager) sm_env)
     (StatusK8s ref_env)) sample_manager)))) \<le> 1"
proof -
  let ?E = "ref_env :: (cluster, cluster status_manager) sm_env"
  obtain acc dss deps t where run: "run_state (scan_pods ?E (StatusK8s ?E)) sample_manager = ((acc, dss, deps), t)"
    by (metis prod_cases3 surj_pair)
  have "run_state (getLastPodState (StatusK8s ?E)) sample_manager = ((Map.empty, Map.empty), sample_manager)"
    by (simp add: StatusK8s_def getLastPodState_k8s_def)
  from pass_bounded_by_watched [OF run this] run show ?thesis by (simp add: sample_manager_def)
qed

end
