(* ===== verification/Controller.thy ===== *)
theory Controller
  imports Config Pod_Status
begin

text \<open>
  \<open>controllers/antreainstall_controller.go\<close> and \<open>controllers/sharedinfo\<close>: the
  reconciler of the AntreaInstall resource and, on OpenShift, of the cluster's network
  configuration.

  \<^item> The state of a running operator is the record \<open>reconciler\<close>: the status manager, the
    \<open>SharedInfo\<close> and the two \<open>Applied\<close> fields of \<open>AntreaInstallReconciler\<close>.
  \<^item> The client of the reconcilers (it is another one than the status manager's), the renderer
    and \<open>apply.ApplyObject\<close> of the cluster network operator, the REST mapper and
    \<open>SetControllerReference\<close> are the fields of \<open>ctl_env\<close>.
  \<^item> Fetched objects that the code changes in place (\<open>operConfig\<close>, \<open>clusterConfig\<close>,
    the rendered objects) are returned updated.
  \<^item> A reconcile returns a \<open>reconcile.Result\<close> and an error, or panics.
\<close>

section \<open>State and environment\<close>

record shared_info =
  info_platform :: string
  AntreaAgentDaemonSetSpec :: "unstructured option"
  AntreaControllerDeploymentSpec :: "unstructured option"

record 'w reconciler = "'w status_manager" +
  SharedInfo :: shared_info
  AppliedClusterConfig :: "network option"
  AppliedOperConfig :: "antrea_install option"

record ('w, 's) ctl_env = "('w, 's) sm_env" +
  api_get_install :: "nsname \<Rightarrow> ('w, go_error + antrea_install) state"
  cr_get_install :: "nsname \<Rightarrow> ('w, go_error + antrea_install) state"
  cr_get_network :: "string \<Rightarrow> ('w, go_error + network) state"
  cr_get_opnetwork :: "string \<Rightarrow> ('w, go_error + op_network) state"
  cr_list_configmaps :: "string \<Rightarrow> string \<times> string \<Rightarrow> ('w, go_error + configmap list) state"
  cr_get_daemonset :: "nsname \<Rightarrow> ('w, go_error + daemonset) state"
  cr_get_deployment :: "nsname \<Rightarrow> ('w, go_error + deployment) state"
  cr_delete_pods :: "string \<Rightarrow> string \<times> string \<Rightarrow> ('w, go_error option) state"
  apply_object :: "unstructured \<Rightarrow> ('w, go_error option) state"
  apply_network :: "network \<Rightarrow> ('w, go_error option) state"
  rest_mapping :: "string \<Rightarrow> string \<Rightarrow> ('w, go_error + string) state"
  set_controller_ref :: "network \<Rightarrow> unstructured \<Rightarrow> go_error + unstructured"
  render_dir :: "string \<Rightarrow> render_data \<Rightarrow> ('w, go_error + unstructured list) state"
  new_cno_client :: "('w, go_error option) state"

type_synonym ('w, 'e) cenv = "('w, 'w reconciler, 'e) ctl_env_scheme"
type_synonym 'w rc_adaptor = "'w reconciler adaptor"

record result =
  Requeue :: bool
  RequeueAfter :: int

definition no_requeue :: result where
  "no_requeue = \<lparr>Requeue = False, RequeueAfter = 0\<rparr>"

definition requeue :: result where
  "requeue = \<lparr>Requeue = True, RequeueAfter = 0\<rparr>"

type_synonym outcome = "(result \<times> go_error option) go"

section \<open>Shared information\<close>

definition sharedinfo_New :: "('w, 'e) cenv \<Rightarrow> ('w, go_error + shared_info) state" where
  "sharedinfo_New E =
     do {
       r \<leftarrow> api_get_install E antrea_install_key;
       case r of
         Inl err \<Rightarrow> ret (Inl err)
       | Inr antreaInstall \<Rightarrow>
           (let p = AntreaPlatform (install_spec antreaInstall) in
            if p = ''openshift'' \<or> p = ''kubernetes'' then
              ret (Inr \<lparr>info_platform = p, AntreaAgentDaemonSetSpec = None,
                       AntreaControllerDeploymentSpec = None\<rparr>)
            else ret (Inl invalid_platform))
     }"

section \<open>Requests and the custom resource\<close>

definition isOperatorRequest :: "nsname \<Rightarrow> bool" where
  "isOperatorRequest request =
     (if ns_of request = '''' \<and> name_of request = ClusterConfigName then True
      else if ns_of request = OperatorNameSpace \<and> name_of request = OperatorConfigName then True
      else False)"

text \<open>The four results: the resource, the error, whether it was found and whether it changed.\<close>

definition fetchAntreaInstall :: "('w, 'e) cenv \<Rightarrow> 'w rc_adaptor \<Rightarrow> nsname \<Rightarrow>
    ('w reconciler, antrea_install option \<times> go_error option \<times> bool \<times> bool) state" where
  "fetchAntreaInstall E A request =
     do {
       r \<leftarrow> on_world (cr_get_install E antrea_install_key);
       case r of
         Inl err \<Rightarrow>
           if IsNotFound err then
             do {
               _ \<leftarrow> SetDegraded A ClusterConfig ''NoAntreaInstallCR'' (OperatorConfigName @ '' CR not found'');
               ret (None, Some err, False, False)
             }
           else
             do {
               _ \<leftarrow> SetDegraded A OperatorConfig ''InvalidAntreaInstallCR''
                      (''Failed to get operator CR: '' @ err_text err);
               ret (None, Some err, True, False)
             }
       | Inr operConfig \<Rightarrow>
           do {
             applied \<leftarrow> gets AppliedOperConfig;
             ret (Some operConfig, None, True,
               (case applied of
                  None \<Rightarrow> True
                | Some a \<Rightarrow>
                    if name_of request = install_name operConfig
                    then \<not> (install_spec operConfig = install_spec a) else True))
           }
     }"

text \<open>
  The configuration applied before: the remembered one, or what the config map and the controller
  deployment of the cluster say. The index of the first container panics when there is none.
\<close>

definition getAppliedOperConfig ::
    "('w, 'e) cenv \<Rightarrow> ('w reconciler, (go_error + antrea_install option) go) state" where
  "getAppliedOperConfig E =
     do {
       applied \<leftarrow> gets AppliedOperConfig;
       case applied of
         Some a \<Rightarrow> ret (Ret (Inr (Some a)))
       | None \<Rightarrow>
           do {
             l \<leftarrow> on_world (cr_list_configmaps E AntreaNamespace (''app'', ''antrea''));
             case l of
               Inl err \<Rightarrow> if IsNotFound err then ret (Ret (Inr None)) else ret (Ret (Inl err))
             | Inr items \<Rightarrow>
                 (case List.find (\<lambda>c. has_prefix (cm_name c) AntreaConfigMapName) items of
                    None \<Rightarrow> ret (Ret (Inr None))
                  | Some antreaConfig \<Rightarrow>
                      do {
                        d \<leftarrow> on_world (cr_get_deployment E (NSN AntreaNamespace AntreaControllerDeploymentName));
                        case d of
                          Inl err \<Rightarrow> if IsNotFound err then ret (Ret (Inr None)) else ret (Ret (Inl err))
                        | Inr dep \<Rightarrow>
                            (case dep_images dep of
                               [] \<Rightarrow> ret Panic
                             | img # _ \<Rightarrow>
                                 (let data = (\<lambda>k. case gomap_get (cm_data antreaConfig) k of None \<Rightarrow> '''' | Some v \<Rightarrow> v)
                                  in ret (Ret (Inr (Some
                                    \<lparr>install_name = '''',
                                     install_spec =
                                       \<lparr>AntreaAgentConfig = data AntreaAgentConfigOption,
                                        AntreaCNIConfig = data AntreaCNIConfigOption,
                                        AntreaControllerConfig = data AntreaControllerConfigOption,
                                        AntreaPlatform = '''', AntreaImage = img\<rparr>,
                                     install_conditions = []\<rparr>)))))
                      })
           }
     }"

section \<open>The rendered objects\<close>

text \<open>The local variables of \<open>updateStatusManagerAndSharedInfo\<close>, and the objects seen so far.\<close>

record manifest_scan =
  sc_daemonSets :: "nsname list"
  sc_deployments :: "nsname list"
  sc_related :: "objref list option"
  sc_daemonSet :: "unstructured option"
  sc_deployment :: "unstructured option"
  sc_objs :: "unstructured list"

definition empty_scan :: manifest_scan where
  "empty_scan = \<lparr>sc_daemonSets = [], sc_deployments = [], sc_related = None, sc_daemonSet = None,
     sc_deployment = None, sc_objs = []\<rparr>"

definition is_daemonset :: "unstructured \<Rightarrow> bool" where
  "is_daemonset obj \<longleftrightarrow> un_api_version obj = ''apps/v1'' \<and> un_kind obj = ''DaemonSet''"

definition is_deployment :: "unstructured \<Rightarrow> bool" where
  "is_deployment obj \<longleftrightarrow> un_api_version obj = ''apps/v1'' \<and> un_kind obj = ''Deployment''"

text \<open>
  What an iteration leaves in the variables, given the object as it is at its start and at its
  end: the variables hold pointers, so a reference set on the object shows through them.
\<close>

definition note_object :: "unstructured \<Rightarrow> unstructured \<Rightarrow> manifest_scan \<Rightarrow> manifest_scan" where
  "note_object obj obj' sc =
     (if is_daemonset obj then
        sc\<lparr>sc_daemonSets := sc_daemonSets sc @ [un_key obj], sc_daemonSet := Some obj',
           sc_objs := sc_objs sc @ [obj']\<rparr>
      else if is_deployment obj then
        sc\<lparr>sc_deployments := sc_deployments sc @ [un_key obj], sc_deployment := Some obj',
           sc_objs := sc_objs sc @ [obj']\<rparr>
      else sc\<lparr>sc_objs := sc_objs sc @ [obj']\<rparr>)"

definition note_related :: "unstructured \<Rightarrow> string \<Rightarrow> manifest_scan \<Rightarrow> manifest_scan" where
  "note_related obj resource sc =
     sc\<lparr>sc_related := Some ((case sc_related sc of None \<Rightarrow> [] | Some r \<Rightarrow> r) @
       [\<lparr>ref_group = un_group obj, ref_resource = resource, ref_namespace = un_namespace obj,
         ref_name = un_name obj\<rparr>])\<rparr>"

fun manifest_loop :: "('w, 'e) cenv \<Rightarrow> 'w rc_adaptor \<Rightarrow> network option \<Rightarrow> unstructured list \<Rightarrow>
    manifest_scan \<Rightarrow> ('w reconciler, go_error + manifest_scan) state" where
  "manifest_loop E A clusterConfig [] sc = ret (Inr sc)"
| "manifest_loop E A clusterConfig (obj # rest) sc =
     do {
       m \<leftarrow> on_world (rest_mapping E (un_group obj) (un_kind obj));
       case m of
         Inl err \<Rightarrow> manifest_loop E A clusterConfig rest (note_object obj obj sc)
       | Inr resource \<Rightarrow>
           (case clusterConfig of
              None \<Rightarrow> manifest_loop E A clusterConfig rest (note_related obj resource (note_object obj obj sc))
            | Some c \<Rightarrow>
                (case set_controller_ref E c obj of
                   Inl err \<Rightarrow>
                     do {
                       _ \<leftarrow> SetDegraded A OperatorConfig ''ApplyObjectsError''
                              (''Failed to set owner reference: '' @ err_text err);
                       ret (Inl err)
                     }
                 | Inr obj' \<Rightarrow>
                     manifest_loop E A clusterConfig rest (note_related obj resource (note_object obj obj' sc))))
     }"

definition missing_resources :: "manifest_scan \<Rightarrow> go_error" where
  "missing_resources sc =
     errors_new (''configuration of resources '' @
       show_slice ((if sc_daemonSet sc = None then [''DaemonSet: '' @ AntreaAgentDaemonSetName] else []) @
                   (if sc_deployment sc = None then [''Deployment: '' @ AntreaControllerDeploymentName] else [])) @
       '' is missing'')"

text \<open>The objects are returned as the loop left them: the caller applies those.\<close>

definition updateStatusManagerAndSharedInfo :: "('w, 'e) cenv \<Rightarrow> 'w rc_adaptor \<Rightarrow> unstructured list \<Rightarrow>
    network option \<Rightarrow> ('w reconciler, go_error + unstructured list) state" where
  "updateStatusManagerAndSharedInfo E A objs clusterConfig =
     do {
       r \<leftarrow> manifest_loop E A clusterConfig objs empty_scan;
       case r of
         Inl err \<Rightarrow> ret (Inl err)
       | Inr sc \<Rightarrow>
           if sc_daemonSet sc = None \<or> sc_deployment sc = None then
             do {
               let err = missing_resources sc;
               _ \<leftarrow> SetDegraded A OperatorConfig ''ApplyObjectsError'' (err_text err);
               ret (Inl err)
             }
           else
             do {
               _ \<leftarrow> SetDaemonSets (sc_daemonSets sc);
               _ \<leftarrow> SetDeployments (sc_deployments sc);
               _ \<leftarrow> SetRelatedObjects (sc_related sc);
               _ \<leftarrow> modify (\<lambda>s. s\<lparr>SharedInfo := (SharedInfo s)
                      \<lparr>AntreaAgentDaemonSetSpec := sc_daemonSet sc,
                       AntreaControllerDeploymentSpec := sc_deployment sc\<rparr>\<rparr>);
               ret (Inr (sc_objs sc))
             }
     }"

section \<open>Applying a configuration\<close>

text \<open>
  The deletion is by label in the namespace of Antrea, with background propagation and no grace
  period; its error is returned as it is.
\<close>

definition deleteExistingPods :: "('w, 'e) cenv \<Rightarrow> string \<Rightarrow> ('w reconciler, go_error option) state" where
  "deleteExistingPods E component = on_world (cr_delete_pods E AntreaNamespace (''component'', component))"

fun apply_loop :: "('w, 'e) cenv \<Rightarrow> 'w rc_adaptor \<Rightarrow> unstructured list \<Rightarrow>
    ('w reconciler, go_error option) state" where
  "apply_loop E A [] = ret None"
| "apply_loop E A (obj # rest) =
     do {
       e \<leftarrow> on_world (apply_object E obj);
       case e of
         Some err \<Rightarrow>
           do {
             _ \<leftarrow> SetDegraded A OperatorConfig ''ApplyObjectsError''
                    (''Failed to apply operator configurations: '' @ err_text err);
             ret (Some err)
           }
       | None \<Rightarrow> apply_loop E A rest
     }"

text \<open>One of the two restarts: pods are deleted unless the image changed or nothing was applied yet.\<close>

definition restart_pods :: "('w, 'e) cenv \<Rightarrow> 'w rc_adaptor \<Rightarrow> string \<Rightarrow> string \<Rightarrow> bool \<Rightarrow> bool \<Rightarrow>
    ('w reconciler, go_error option) state" where
  "restart_pods E A kind component needChange imageChange =
     do {
       applied \<leftarrow> gets AppliedOperConfig;
       if applied \<noteq> None \<and> needChange \<and> \<not> imageChange then
         do {
           e \<leftarrow> deleteExistingPods E component;
           case e of
             None \<Rightarrow> ret None
           | Some err \<Rightarrow>
               do {
                 _ \<leftarrow> SetDegraded A OperatorConfig ''DeleteOldPodsError''
                        (kind @ '' '' @ component @
                         '' is not using the latest configuration updates because: '' @ err_text err);
                 ret (Some err)
               }
         }
       else ret None
     }"

definition apply_changes :: "('w, 'e) cenv \<Rightarrow> 'w rc_adaptor \<Rightarrow> network option \<Rightarrow> render_data \<Rightarrow>
    bool \<Rightarrow> bool \<Rightarrow> bool \<Rightarrow> ('w reconciler, result \<times> go_error option) state" where
  "apply_changes E A clusterConfig renderData agentNeedChange controllerNeedChange imageChange =
     do {
       r \<leftarrow> on_world (render_dir E DefaultManifestDir renderData);
       case r of
         Inl err \<Rightarrow>
           do {
             _ \<leftarrow> SetDegraded A OperatorConfig ''RenderConfigError''
                    (''Failed to render operator configurations: '' @ err_text err);
             ret (requeue, Some err)
           }
       | Inr objs \<Rightarrow>
           do {
             u \<leftarrow> updateStatusManagerAndSharedInfo E A objs clusterConfig;
             case u of
               Inl err \<Rightarrow> ret (requeue, Some err)
             | Inr objs' \<Rightarrow>
                 do {
                   e \<leftarrow> apply_loop E A objs';
                   case e of
                     Some err \<Rightarrow> ret (requeue, Some err)
                   | None \<Rightarrow>
                       do {
                         e1 \<leftarrow> restart_pods E A ''DaemonSet'' AntreaAgentDaemonSetName agentNeedChange imageChange;
                         case e1 of
                           Some err \<Rightarrow> ret (requeue, Some err)
                         | None \<Rightarrow>
                             do {
                               e2 \<leftarrow> restart_pods E A ''Deployment'' AntreaControllerDeploymentName
                                      controllerNeedChange imageChange;
                               case e2 of
                                 Some err \<Rightarrow> ret (requeue, Some err)
                               | None \<Rightarrow> ret (no_requeue, None)
                             }
                       }
                 }
           }
     }"

definition applyConfig :: "('w, 'e) cenv \<Rightarrow> config_impl \<Rightarrow> 'w rc_adaptor \<Rightarrow> network option \<Rightarrow>
    antrea_install \<Rightarrow> op_network option \<Rightarrow> ('w reconciler, antrea_install \<times> outcome) state" where
  "applyConfig E config A clusterConfig operConfig0 operatorNetwork =
     (case FillConfigs config clusterConfig operConfig0 of
        (operConfig, Panic) \<Rightarrow> ret (operConfig, Panic)
      | (operConfig, Ret (Some err)) \<Rightarrow>
          do {
            _ \<leftarrow> SetDegraded A OperatorConfig ''FillConfigurationsError''
                   (''Failed to fill configurations: '' @ err_text err);
            ret (operConfig, Ret (requeue, Some err))
          }
      | (operConfig, Ret None) \<Rightarrow>
          (case ValidateConfig config clusterConfig operConfig of
             Some err \<Rightarrow>
               do {
                 _ \<leftarrow> SetDegraded A OperatorConfig ''InvalidOperatorConfig''
                        (''The operator configuration is invalid: '' @ err_text err);
                 ret (operConfig, Ret (requeue, Some err))
               }
           | None \<Rightarrow>
               (case GenerateRenderData config operatorNetwork operConfig of
                  Inl err \<Rightarrow>
                    do {
                      _ \<leftarrow> SetDegraded A OperatorConfig ''RenderConfigError''
                             (''Failed to render operator configurations: '' @ err_text err);
                      ret (operConfig, Ret (requeue, Some err))
                    }
                | Inr renderData \<Rightarrow>
                    do {
                      a \<leftarrow> getAppliedOperConfig E;
                      case a of
                        Panic \<Rightarrow> ret (operConfig, Panic)
                      | Ret (Inl err) \<Rightarrow>
                          do {
                            _ \<leftarrow> SetDegraded A OperatorConfig ''InternalError''
                                   (''Failed to get current configurations: '' @ err_text err);
                            ret (operConfig, Ret (no_requeue, Some err))
                          }
                      | Ret (Inr appliedConfig) \<Rightarrow>
                          (case NeedApplyChange appliedConfig operConfig of
                             (agentNeedChange, controllerNeedChange, imageChange) \<Rightarrow>
                               if \<not> agentNeedChange \<and> \<not> controllerNeedChange
                               then ret (operConfig, Ret (no_requeue, None))
                               else do {
                                 res \<leftarrow> apply_changes E A clusterConfig renderData
                                        agentNeedChange controllerNeedChange imageChange;
                                 ret (operConfig, Ret res)
                               })
                    })))"

section \<open>Reconciling\<close>

text \<open>Both adaptors end a successful reconcile in the same way.\<close>

definition clear_levels :: "'w rc_adaptor \<Rightarrow> ('w reconciler, unit) state" where
  "clear_levels A =
     do {
       _ \<leftarrow> SetNotDegraded A ClusterConfig;
       SetNotDegraded A OperatorConfig
     }"

text \<open>The part of the Kubernetes reconcile after \<open>applyConfig\<close> has returned without an error.\<close>

definition finish_k8s :: "'w rc_adaptor \<Rightarrow> antrea_install \<Rightarrow> ('w reconciler, outcome) state" where
  "finish_k8s A operConfig =
     do {
       _ \<leftarrow> clear_levels A;
       _ \<leftarrow> modify (\<lambda>s. s\<lparr>AppliedOperConfig := Some operConfig\<rparr>);
       ret (Ret (no_requeue, None))
     }"

definition Reconcile_k8s :: "('w, 'e) cenv \<Rightarrow> cfg_lib \<Rightarrow> 'w rc_adaptor \<Rightarrow> nsname \<Rightarrow>
    ('w reconciler, outcome) state" where
  "Reconcile_k8s E L A request =
     (if \<not> isOperatorRequest request then ret (Ret (no_requeue, None))
      else do {
        (oper, err, found, change) \<leftarrow> fetchAntreaInstall E A request;
        if err \<noteq> None \<and> \<not> found then ret (Ret (no_requeue, None))
        else if err \<noteq> None then ret (Ret (requeue, err))
        else if \<not> change then ret (Ret (no_requeue, None))
        else (case oper of
          None \<Rightarrow> ret Panic
        | Some operConfig0 \<Rightarrow>
            do {
              (operConfig, r) \<leftarrow> applyConfig E (ConfigK8s L) A None operConfig0 None;
              case r of
                Panic \<Rightarrow> ret Panic
              | Ret (result, Some e) \<Rightarrow> ret (Ret (result, Some e))
              | Ret (result, None) \<Rightarrow> finish_k8s A operConfig
            })
      })"

definition updateNetworkStatus :: "('w, 'e) cenv \<Rightarrow> network \<Rightarrow> 64 word \<Rightarrow>
    ('w reconciler, network \<times> go_error option) state" where
  "updateNetworkStatus E clusterConfig0 defaultMTU =
     do {
       let clusterConfig = clusterConfig0\<lparr>network_status := BuildNetworkStatus clusterConfig0 defaultMTU\<rparr>;
       e \<leftarrow> on_world (apply_network E clusterConfig);
       ret (clusterConfig, e)
     }"

text \<open>The part of the OpenShift reconcile after \<open>applyConfig\<close> has returned without an error.\<close>

definition finish_oc :: "('w, 'e) cenv \<Rightarrow> cfg_lib \<Rightarrow> 'w rc_adaptor \<Rightarrow> network \<Rightarrow> antrea_install \<Rightarrow>
    ('w reconciler, outcome) state" where
  "finish_oc E L A clusterConfig operConfig =
     do {
       appliedCluster \<leftarrow> gets AppliedClusterConfig;
       appliedOper \<leftarrow> gets AppliedOperConfig;
       let clusterNetworkConfigChanged = HasClusterNetworkConfigChange appliedCluster clusterConfig;
       case HasDefaultMTUChange L appliedOper operConfig of
         Panic \<Rightarrow> ret Panic
       | Ret (defaultMTUChanged, curDefaultMTU, Some err) \<Rightarrow>
           do {
             _ \<leftarrow> SetDegraded A OperatorConfig ''UpdateNetworkStatusError''
                    (''failed to check default MTU configuration: '' @ err_text err);
             ret (Ret (requeue, Some err))
           }
       | Ret (defaultMTUChanged, curDefaultMTU, None) \<Rightarrow>
           do {
             (clusterConfig', e) \<leftarrow>
               (if clusterNetworkConfigChanged \<or> defaultMTUChanged
                then updateNetworkStatus E clusterConfig curDefaultMTU
                else ret (clusterConfig, None));
             case e of
               Some err \<Rightarrow>
                 do {
                   _ \<leftarrow> SetDegraded A ClusterConfig ''UpdateNetworkStatusError''
                          (''Failed to update network status: '' @ err_text err);
                   ret (Ret (requeue, Some err))
                 }
             | None \<Rightarrow>
                 do {
                   _ \<leftarrow> clear_levels A;
                   _ \<leftarrow> modify (\<lambda>s. s\<lparr>AppliedClusterConfig := Some clusterConfig',
                                     AppliedOperConfig := Some operConfig\<rparr>);
                   ret (Ret (no_requeue, None))
                 }
           }
     }"

text \<open>The part of the OpenShift reconcile that follows the two reads of network configurations.\<close>

definition install_oc :: "('w, 'e) cenv \<Rightarrow> cfg_lib \<Rightarrow> 'w rc_adaptor \<Rightarrow> nsname \<Rightarrow> network \<Rightarrow>
    op_network \<Rightarrow> ('w reconciler, outcome) state" where
  "install_oc E L A request clusterConfig operatorNetwork =
     do {
       (oper, err, found, change) \<leftarrow> fetchAntreaInstall E A request;
       if err \<noteq> None \<and> \<not> found then ret (Ret (no_requeue, None))
       else if err \<noteq> None then ret (Ret (requeue, err))
       else if \<not> change then ret (Ret (no_requeue, None))
       else (case oper of
         None \<Rightarrow> ret Panic
       | Some operConfig0 \<Rightarrow>
           do {
             (operConfig, r) \<leftarrow> applyConfig E (ConfigOc L) A (Some clusterConfig)
               operConfig0 (Some operatorNetwork);
             case r of
               Panic \<Rightarrow> ret Panic
             | Ret (result, Some e) \<Rightarrow> ret (Ret (result, Some e))
             | Ret (result, None) \<Rightarrow> finish_oc E L A clusterConfig operConfig
           })
     }"

definition Reconcile_oc :: "('w, 'e) cenv \<Rightarrow> cfg_lib \<Rightarrow> 'w rc_adaptor \<Rightarrow> nsname \<Rightarrow>
    ('w reconciler, outcome) state" where
  "Reconcile_oc E L A request =
     (if \<not> isOperatorRequest request then ret (Ret (no_requeue, None))
      else do {
        n \<leftarrow> on_world (cr_get_network E ClusterConfigName);
        case n of
          Inl err \<Rightarrow>
            if IsNotFound err then
              do {
                _ \<leftarrow> SetDegraded A ClusterConfig ''NoClusterConfig'' ''Cluster Network CR not found'';
                ret (Ret (no_requeue, None))
              }
            else
              do {
                _ \<leftarrow> SetDegraded A ClusterConfig ''InvalidClusterConfig''
                       (''Failed to get cluster network CRD: '' @ err_text err);
                ret (Ret (requeue, Some err))
              }
        | Inr clusterConfig \<Rightarrow>
            do {
              appliedCluster \<leftarrow> gets AppliedClusterConfig;
              if (case appliedCluster of None \<Rightarrow> False
                  | Some a \<Rightarrow> name_of request = network_name clusterConfig \<and>
                              network_spec clusterConfig = network_spec a)
              then ret (Ret (no_requeue, None))
              else do {
                o' \<leftarrow> on_world (cr_get_opnetwork E ClusterOperatorNetworkName);
                case o' of
                  Inl err \<Rightarrow>
                    if IsNotFound err then
                      do {
                        _ \<leftarrow> SetDegraded A OperatorConfig ''NoClusterNetworkOperatorConfig''
                               ''Cluster network operator configuration not found'';
                        ret (Ret (no_requeue, None))
                      }
                    else ret (Ret (requeue, Some err))
                | Inr operatorNetwork \<Rightarrow> install_oc E L A request clusterConfig operatorNetwork
              }
            }
      })"

definition controllers_New :: "shared_info \<Rightarrow> go_error + platform" where
  "controllers_New info = parse_platform (info_platform info)"

definition Reconcile :: "('w, 'e) cenv \<Rightarrow> cfg_lib \<Rightarrow> 'w rc_adaptor \<Rightarrow> platform \<Rightarrow> nsname \<Rightarrow>
    ('w reconciler, outcome) state" where
  "Reconcile E L A p request =
     (case p of OpenShift \<Rightarrow> Reconcile_oc E L A request | Kubernetes \<Rightarrow> Reconcile_k8s E L A request)"

end

