(* ===== verification/Pod_Controller.thy ===== *)
theory Pod_Controller
  imports Controller
begin

text \<open>
  \<open>controllers/pod_controller.go\<close>: the reconciler of the watched DaemonSets and Deployments,
  which refreshes the published status and recreates Antrea's two workloads when they are missing;
  and \<open>main.go\<close>: how the parts are put together when the operator starts.
\<close>

section \<open>The pod reconciler\<close>

text \<open>Two minutes in nanoseconds.\<close>

definition ResyncPeriod :: int where
  "ResyncPeriod = 2 * 60 * 10 ^ 9"

definition matches :: "nsname \<Rightarrow> unstructured \<Rightarrow> bool" where
  "matches request obj \<longleftrightarrow> name_of request = un_name obj \<and> ns_of request = un_namespace obj"

definition isAntreaResource :: "shared_info \<Rightarrow> nsname \<Rightarrow> bool" where
  "isAntreaResource info request =
     (if (case AntreaAgentDaemonSetSpec info of None \<Rightarrow> False | Some ds \<Rightarrow> matches request ds) then True
      else if (case AntreaControllerDeploymentSpec info of None \<Rightarrow> False | Some dep \<Rightarrow> matches request dep)
      then True else False)"

text \<open>
  Reading the name of a nil DaemonSet panics, as does applying a nil Deployment; the copy of a nil
  Deployment is nil. Of the object that is fetched only the error counts.
\<close>

definition recreateResourceIfNotExist :: "('w, 'e) cenv \<Rightarrow> 'w rc_adaptor \<Rightarrow> nsname \<Rightarrow>
    ('w reconciler, go_error option go) state" where
  "recreateResourceIfNotExist E A request =
     do {
       info \<leftarrow> gets SharedInfo;
       case AntreaAgentDaemonSetSpec info of
         None \<Rightarrow> ret Panic
       | Some ds \<Rightarrow>
           do {
             let isDaemonSet = matches request ds;
             let objectSpec = (if isDaemonSet then Some ds else AntreaControllerDeploymentSpec info);
             err \<leftarrow> (if isDaemonSet
                     then do { r \<leftarrow> on_world (cr_get_daemonset E request);
                               ret (case r of Inl e \<Rightarrow> Some e | Inr _ \<Rightarrow> None) }
                     else do { r \<leftarrow> on_world (cr_get_deployment E request);
                               ret (case r of Inl e \<Rightarrow> Some e | Inr _ \<Rightarrow> None) });
             case err of
               None \<Rightarrow> ret (Ret None)
             | Some e \<Rightarrow>
                 if IsNotFound e then
                   (case objectSpec of
                      None \<Rightarrow> ret Panic
                    | Some obj \<Rightarrow>
                        do {
                          a \<leftarrow> on_world (apply_object E obj);
                          case a of
                            None \<Rightarrow> ret (Ret None)
                          | Some e' \<Rightarrow>
                              do {
                                _ \<leftarrow> SetDegraded A OperatorConfig ''ApplyOperatorConfig''
                                       (''Failed to apply operator configuration: '' @ err_text e');
                                ret (Ret (Some e'))
                              }
                        })
                 else
                   do {
                     _ \<leftarrow> SetDegraded A OperatorConfig ''ApplyObjectsError''
                            (''Failed to apply objects: '' @ err_text e);
                     ret (Ret (Some e))
                   }
           }
     }"

definition pod_Reconcile :: "('w, 'e) cenv \<Rightarrow> 'w rc_adaptor \<Rightarrow> nsname \<Rightarrow> ('w reconciler, outcome) state" where
  "pod_Reconcile E A request =
     do {
       info \<leftarrow> gets SharedInfo;
       if \<not> isAntreaResource info request then ret (Ret (no_requeue, None))
       else do {
         _ \<leftarrow> SetFromPods E A;
         r \<leftarrow> recreateResourceIfNotExist E A request;
         case r of
           Panic \<Rightarrow> ret Panic
         | Ret (Some err) \<Rightarrow> ret (Ret (requeue, Some err))
         | Ret None \<Rightarrow> ret (Ret (\<lparr>Requeue = False, RequeueAfter = ResyncPeriod\<rparr>, None))
       }
     }"

section \<open>Starting the operator\<close>

text \<open>
  \<open>main\<close>: the shared information, the status manager, the client of the cluster network operator and
  the reconciler are made in this order; the first error ends the program, and is returned with the
  message it is logged under. Both adaptors are chosen from the same platform. The flags, the manager and
  the registration of the controllers with it are in \<open>Startup\<close>.
\<close>

definition operator_start ::
    "('w, 'e) cenv \<Rightarrow> ('w, (string \<times> go_error) + ('w reconciler \<times> platform \<times> platform)) state" where
  "operator_start E =
     do {
       i \<leftarrow> sharedinfo_New E;
       case i of
         Inl err \<Rightarrow> ret (Inl (''unable to get shareinfo'', err))
       | Inr info \<Rightarrow> do {
           w \<leftarrow> State_Monad.get;
           case status_New w AntreaClusterOperatorName (info_platform info) of
             Inl err \<Rightarrow> ret (Inl (''unable to get status manager'', err))
           | Inr (sm, sp) \<Rightarrow> do {
               e \<leftarrow> new_cno_client E;
               case e of
                 Some err \<Rightarrow> ret (Inl (''fail to create client'', err))
               | None \<Rightarrow>
                   (case controllers_New info of
                      Inl err \<Rightarrow> ret (Inl (''unable to get controller'', err))
                    | Inr cp \<Rightarrow> do {
                        w' \<leftarrow> State_Monad.get;
                        ret (Inr (status_manager.extend (sm\<lparr>world := w'\<rparr>)
                               (reconciler.fields info None None), sp, cp))
                      })
             }
         }
     }"

end
