(* ===== verification/Controller_Correct.thy ===== *)
theory Controller_Correct
  imports Pod_Controller Status_Correct Config_Correct
begin

text \<open>
  Lemmas on the reconcilers, as weakest preconditions. \<open>step_ok s e t\<close> collects what every part
  of applying a configuration guarantees when it goes from \<open>s\<close> to \<open>t\<close> with the error
  \<open>e\<close>: the remembered configurations are kept, the two workloads of the shared information are
  set together, and an error is recorded in the level \<open>OperatorConfig\<close>.
\<close>

section \<open>Fields of the reconciler's state\<close>

lemma books_reconciler:
  "books s = books (t :: 'w reconciler) \<Longrightarrow>
   SharedInfo s = SharedInfo t \<and> AppliedClusterConfig s = AppliedClusterConfig t \<and>
   AppliedOperConfig s = AppliedOperConfig t \<and> failing s = failing t \<and> sm_name s = sm_name t \<and>
   daemonSets s = daemonSets t \<and> deployments s = deployments t"
  by (cases s; cases t) (simp add: books_def)

definition paired :: "shared_info \<Rightarrow> bool" where
  "paired info \<longleftrightarrow> (AntreaAgentDaemonSetSpec info = None \<longleftrightarrow> AntreaControllerDeploymentSpec info = None)"

definition step_ok :: "'w reconciler \<Rightarrow> go_error option \<Rightarrow> 'w reconciler \<Rightarrow> bool" where
  "step_ok s e t \<longleftrightarrow>
     AppliedClusterConfig t = AppliedClusterConfig s \<and> AppliedOperConfig t = AppliedOperConfig s \<and>
     sm_name t = sm_name s \<and>
     (SharedInfo t = SharedInfo s \<or>
      AntreaAgentDaemonSetSpec (SharedInfo t) \<noteq> None \<and> AntreaControllerDeploymentSpec (SharedInfo t) \<noteq> None) \<and>
     (\<forall>l. l \<noteq> OperatorConfig \<longrightarrow> failing t l = failing s l) \<and>
     (case e of None \<Rightarrow> failing t = failing s
      | Some _ \<Rightarrow> \<exists>r m. failing t OperatorConfig = Some (mk_cond OperatorDegraded ConditionTrue r m))"

lemma step_ok_trans: "step_ok s None t \<Longrightarrow> step_ok t e u \<Longrightarrow> step_ok s e u"
  by (auto simp: step_ok_def split: option.splits)

lemma step_ok_refl: "step_ok s None s"
  by (simp add: step_ok_def)

lemma step_ok_books: "books t = books s \<Longrightarrow> step_ok s None t"
  by (drule books_reconciler) (simp add: step_ok_def)

lemma step_ok_world [simp]: "step_ok s None (s\<lparr>world := w\<rparr>)"
  by (simp add: step_ok_def)

lemma step_ok_degraded:
  "books t = books (s\<lparr>failing := (failing s)(OperatorConfig := Some (mk_cond OperatorDegraded ConditionTrue r m))\<rparr>) \<Longrightarrow>
   step_ok s (Some e) t"
  by (drule books_reconciler) (auto simp: step_ok_def)

lemma step_ok_from_world: "step_ok (s\<lparr>world := w\<rparr>) e t \<Longrightarrow> step_ok s e t"
  by (rule step_ok_trans [OF step_ok_world])

lemma step_ok_paired: "step_ok s e t \<Longrightarrow> paired (SharedInfo s) \<Longrightarrow> paired (SharedInfo t)"
  by (auto simp: step_ok_def paired_def)

lemma wp_degraded_step:
  "retry_lawful E \<Longrightarrow> step_ok s None s' \<Longrightarrow> (\<And>t. step_ok s (Some e) t \<Longrightarrow> Q t) \<Longrightarrow>
   wp (SetDegraded (platform_adaptor E p) OperatorConfig r m) (\<lambda>_. Q) s'"
  by (rule wp_SetDegraded) (auto intro: step_ok_trans dest: step_ok_degraded)

section \<open>Parts of applying a configuration\<close>

lemma wp_apply_loop:
  assumes "retry_lawful E"
  shows "wp (apply_loop E (platform_adaptor E p) objs) (step_ok s) s"
proof -
  have "step_ok s None s' \<Longrightarrow> wp (apply_loop E (platform_adaptor E p) objs) (step_ok s) s'" for s'
  proof (induction objs arbitrary: s')
    case Nil
    then show ?case by (simp add: wp_simps)
  next
    case (Cons obj objs)
    have "step_ok s None (s'\<lparr>world := w\<rparr>)" for w
      by (rule step_ok_trans [OF Cons.prems step_ok_world])
    then show ?case
      by (auto simp: wp_simps intro: Cons.IH wp_degraded_step [OF assms])
  qed
  then show ?thesis by (simp add: step_ok_refl)
qed

lemma wp_restart_pods:
  assumes "retry_lawful E"
  shows "wp (restart_pods E (platform_adaptor E p) k c need img) (step_ok s) s"
  by (auto simp: restart_pods_def deleteExistingPods_def wp_simps step_ok_refl
      intro: wp_degraded_step [OF assms] step_ok_world)

definition info_set :: "shared_info \<Rightarrow> bool" where
  "info_set info \<longleftrightarrow> AntreaAgentDaemonSetSpec info \<noteq> None \<and> AntreaControllerDeploymentSpec info \<noteq> None"

lemma step_ok_publish_info:
  "step_ok s None t \<Longrightarrow> info_set info \<Longrightarrow>
   step_ok s None (t\<lparr>daemonSets := a, deployments := b, relatedObjects := c, SharedInfo := info\<rparr>)"
  by (simp add: step_ok_def info_set_def)

lemma step_ok_info_set: "step_ok s e t \<Longrightarrow> info_set (SharedInfo s) \<Longrightarrow> info_set (SharedInfo t)"
  by (auto simp: step_ok_def info_set_def)

lemma wp_then:
  assumes "wp m (step_ok t) t" and "step_ok s None t" and "info_set (SharedInfo t)"
    and "\<And>u. step_ok s None u \<Longrightarrow> info_set (SharedInfo u) \<Longrightarrow> wp (k None) Q u"
    and "\<And>e u. step_ok s (Some e) u \<Longrightarrow> wp (k (Some e)) Q u"
  shows "wp (State_Monad.bind m k) Q t"
  unfolding wp_bind
proof (rule wp_mono [OF assms(1)])
  fix e u
  assume "step_ok t e u"
  then have "step_ok s e u" "info_set (SharedInfo u)"
    using assms(2,3) by (blast intro: step_ok_trans step_ok_info_set)+
  with assms(4,5) show "wp (k e) Q u" by (cases e) auto
qed

lemma wp_manifest_loop:
  assumes "retry_lawful E" and "step_ok s None s'"
  shows "wp (manifest_loop E (platform_adaptor E p) cc objs sc)
     (\<lambda>r t. (case r of Inl e \<Rightarrow> step_ok s (Some e) t | Inr _ \<Rightarrow> step_ok s None t) \<and>
        SharedInfo t = SharedInfo s' \<and> daemonSets t = daemonSets s' \<and> deployments t = deployments s') s'"
  using assms(2)
proof (induction objs arbitrary: s' sc)
  case Nil
  then show ?case by (simp add: wp_simps)
next
  case (Cons obj objs)
  have st: "step_ok s None (s'\<lparr>world := w\<rparr>)" for w
    by (rule step_ok_trans [OF Cons.prems step_ok_world])
  have deg: "wp (SetDegraded (platform_adaptor E p) OperatorConfig r m)
      (\<lambda>_ t. step_ok s (Some e) t \<and> SharedInfo t = SharedInfo s' \<and> daemonSets t = daemonSets s' \<and>
         deployments t = deployments s') (s'\<lparr>world := w\<rparr>)" for r m e w
    by (rule wp_SetDegraded [OF assms(1)], intro conjI, rule step_ok_trans [OF st], erule step_ok_degraded)
      (auto dest: books_reconciler)
  show ?case
    using Cons.IH [OF st] deg by (auto simp: wp_simps)
qed

text \<open>
  The shared information and the watched workloads change only when the update succeeds; then both
  workloads are set.
\<close>

lemma wp_update:
  assumes "retry_lawful E"
  shows "wp (updateStatusManagerAndSharedInfo E (platform_adaptor E p) objs cc)
     (\<lambda>r t. case r of
        Inl e \<Rightarrow> step_ok s (Some e) t \<and> SharedInfo t = SharedInfo s \<and> daemonSets t = daemonSets s \<and>
          deployments t = deployments s
      | Inr _ \<Rightarrow> step_ok s None t \<and> info_set (SharedInfo t)) s"
proof -
  have deg: "wp (SetDegraded (platform_adaptor E p) OperatorConfig r m)
      (\<lambda>_ t. step_ok s (Some e) t \<and> SharedInfo t = SharedInfo s \<and> daemonSets t = daemonSets s \<and>
         deployments t = deployments s) t"
    if "step_ok s None t" "SharedInfo t = SharedInfo s" "daemonSets t = daemonSets s" "deployments t = deployments s"
    for r m e t
    by (rule wp_SetDegraded [OF assms(1)], intro conjI, rule step_ok_trans [OF that(1)], erule step_ok_degraded)
      (auto dest: books_reconciler simp: that)
  show ?thesis
    unfolding updateStatusManagerAndSharedInfo_def wp_bind
    by (rule wp_mono [OF wp_manifest_loop [OF assms step_ok_refl]])
      (auto simp: wp_simps SetDaemonSets_def SetDeployments_def SetRelatedObjects_def Let_def info_set_def
        intro: deg step_ok_publish_info [unfolded info_set_def])
qed

lemma wp_update_then:
  assumes "retry_lawful E"
    and "\<And>e t. step_ok s (Some e) t \<Longrightarrow> wp (k (Inl e)) Q t"
      "\<And>objs t. step_ok s None t \<Longrightarrow> info_set (SharedInfo t) \<Longrightarrow> wp (k (Inr objs)) Q t"
  shows "wp (State_Monad.bind (updateStatusManagerAndSharedInfo E (platform_adaptor E p) objs cc) k) Q (s\<lparr>world := w\<rparr>)"
  unfolding wp_bind
  by (rule wp_mono [OF wp_update [OF assms(1)]]) (auto split: sum.splits intro: assms(2,3) step_ok_from_world)

lemma wp_apply_changes:
  assumes "retry_lawful E"
  shows "wp (apply_changes E (platform_adaptor E p) cc rd a c i)
     (\<lambda>r t. step_ok s (snd r) t \<and>
        (snd r = None \<longrightarrow> fst r = no_requeue \<and> info_set (SharedInfo t))) s"
proof -
  let ?Q = "\<lambda>(r :: result \<times> go_error option) t.
    step_ok s (snd r) t \<and> (snd r = None \<longrightarrow> fst r = no_requeue \<and> info_set (SharedInfo t))"
  show ?thesis
    unfolding apply_changes_def wp_bind [of "on_world _"] wp_on_world
  proof (intro allI impI)
    fix r w
    show "wp (case r of
        Inl err \<Rightarrow> do {
          _ \<leftarrow> SetDegraded (platform_adaptor E p) OperatorConfig ''RenderConfigError''
            (''Failed to render operator configurations: '' @ err_text err);
          ret (requeue, Some err)
        }
      | Inr objs \<Rightarrow> do {
          u \<leftarrow> updateStatusManagerAndSharedInfo E (platform_adaptor E p) objs cc;
          case u of
            Inl err \<Rightarrow> ret (requeue, Some err)
          | Inr objs' \<Rightarrow> do {
              e \<leftarrow> apply_loop E (platform_adaptor E p) objs';
              case e of
                Some err \<Rightarrow> ret (requeue, Some err)
              | None \<Rightarrow> do {
                  e1 \<leftarrow> restart_pods E (platform_adaptor E p) ''DaemonSet'' AntreaAgentDaemonSetName a i;
                  case e1 of
                    Some err \<Rightarrow> ret (requeue, Some err)
                  | None \<Rightarrow> do {
                      e2 \<leftarrow> restart_pods E (platform_adaptor E p) ''Deployment'' AntreaControllerDeploymentName c i;
                      case e2 of
                        Some err \<Rightarrow> ret (requeue, Some err)
                      | None \<Rightarrow> ret (no_requeue, None)
                    }
                }
            }
        }) ?Q (s\<lparr>world := w\<rparr>)"
    proof (cases r)
      case (Inl err)
      then show ?thesis
        by (simp add: wp_bind wp_ret) (rule wp_degraded_step [OF assms step_ok_world], simp)
    next
      case (Inr objs)
      then show ?thesis
        by (simp only: sum.case)
          (rule wp_update_then [OF assms] wp_then [OF wp_apply_loop [OF assms]] wp_then [OF wp_restart_pods [OF assms]]
            | assumption | simp add: wp_ret)+
    qed
  qed
qed

lemma wp_getApplied:
  "wp (getAppliedOperConfig E) (\<lambda>r t. \<exists>w. t = s\<lparr>world := w\<rparr>) s"
proof -
  have "\<exists>w. s = s\<lparr>world := w\<rparr>" by (rule exI [of _ "world s"]) simp
  then show ?thesis
    by (auto simp: getAppliedOperConfig_def wp_simps Let_def)
qed

lemma wp_applyConfig:
  assumes "retry_lawful E"
  shows "wp (applyConfig E config (platform_adaptor E p) cc oc0 net)
     (\<lambda>r t. case r of (oc, Panic) \<Rightarrow> step_ok s None t
        | (oc, Ret (res, e)) \<Rightarrow> step_ok s e t \<and> (e = None \<longrightarrow> res = no_requeue \<and>
            FillConfigs config cc oc0 = (oc, Ret None) \<and> ValidateConfig config cc oc = None)) s"
proof -
  obtain oc g where f: "FillConfigs config cc oc0 = (oc, g)" by fastforce
  note deg = wp_degraded_step [OF assms step_ok_refl]
  show ?thesis
  proof (cases "g = Ret None \<and> ValidateConfig config cc oc = None \<and>
      (\<exists>rd. GenerateRenderData config net oc = Inr rd)")
    case False
    with f deg show ?thesis
      by (auto simp: applyConfig_def wp_simps step_ok_refl split: go.splits option.splits sum.splits)
  next
    case True
    then obtain rd where ok: "FillConfigs config cc oc0 = (oc, Ret None)"
        "ValidateConfig config cc oc = None" "GenerateRenderData config net oc = Inr rd"
      using f by blast
    have changes: "wp (apply_changes E (platform_adaptor E p) cc rd a c i)
        (\<lambda>r t. case r of (res, e) \<Rightarrow> step_ok s e t \<and> (e = None \<longrightarrow> res = no_requeue)) (s\<lparr>world := w\<rparr>)" for a c i w
      by (rule wp_mono [OF wp_apply_changes [OF assms]]) (auto intro: step_ok_from_world)
    show ?thesis
      unfolding applyConfig_def ok prod.case go.case option.case sum.case wp_bind
      by (rule wp_mono [OF wp_getApplied])
        (auto simp: wp_simps ok wp_bind intro!: wp_mono [OF changes] wp_degraded_step [OF assms]
          split: go.splits sum.splits prod.splits)
  qed
qed

section \<open>Reconciling\<close>

text \<open>The configuration component that goes with a platform.\<close>

definition config_of :: "platform \<Rightarrow> cfg_lib \<Rightarrow> config_impl" where
  "config_of p L = (case p of OpenShift \<Rightarrow> ConfigOc L | Kubernetes \<Rightarrow> ConfigK8s L)"

text \<open>
  A remembered resource is one that the platform's component filled and accepted, for the network
  that is remembered with it.
\<close>

definition filled_for :: "cfg_lib \<Rightarrow> platform \<Rightarrow> 'w reconciler \<Rightarrow> antrea_install \<Rightarrow> bool" where
  "filled_for L p t oc \<longleftrightarrow>
     (\<exists>oc0 cc. FillConfigs (config_of p L) cc oc0 = (oc, Ret None) \<and> ValidateConfig (config_of p L) cc oc = None \<and>
        (p = OpenShift \<longrightarrow> (\<exists>c c'. cc = Some c \<and> AppliedClusterConfig t = Some c' \<and> network_spec c' = network_spec c)))"

text \<open>What a reconcile has done when it has applied and remembered a configuration.\<close>

definition committed :: "cfg_lib \<Rightarrow> platform \<Rightarrow> outcome \<Rightarrow> 'w reconciler \<Rightarrow> bool" where
  "committed L p r t \<longleftrightarrow>
     r = Ret (no_requeue, None) \<and> failing t ClusterConfig = None \<and> failing t OperatorConfig = None \<and>
     (\<exists>oc. AppliedOperConfig t = Some oc \<and> filled_for L p t oc)"

definition reconcile_post ::
    "('w, 'e) cenv \<Rightarrow> cfg_lib \<Rightarrow> platform \<Rightarrow> 'w reconciler \<Rightarrow> outcome \<Rightarrow> 'w reconciler \<Rightarrow> bool" where
  "reconcile_post E L p s r t \<longleftrightarrow>
     (SharedInfo t = SharedInfo s \<or> info_set (SharedInfo t)) \<and>
     (\<forall>l. l \<noteq> ClusterConfig \<longrightarrow> l \<noteq> OperatorConfig \<longrightarrow> failing t l = failing s l) \<and>
     (failing_are_degraded s \<longrightarrow> failing_are_degraded t) \<and>
     ((AppliedOperConfig t = AppliedOperConfig s \<and> AppliedClusterConfig t = AppliedClusterConfig s) \<or>
      committed L p r t) \<and>
     (\<forall>res e. r = Ret (res, Some e) \<longrightarrow>
        failing t OperatorConfig \<noteq> None \<or> failing t ClusterConfig \<noteq> None \<or>
        (p = OpenShift \<and> \<not> IsNotFound e \<and>
         (\<exists>w. fst (run_state (cr_get_opnetwork E ClusterOperatorNetworkName) w) = Inl e))) \<and>
     (\<forall>res. r = Ret (res, None) \<longrightarrow> res = no_requeue)"

lemma step_ok_failing_degraded:
  "step_ok s e t \<Longrightarrow> failing_are_degraded s \<Longrightarrow> failing_are_degraded t"
proof -
  assume st: "step_ok s e t" and deg: "failing_are_degraded s"
  have "ctype c = OperatorDegraded" if "failing t l = Some c" for l c
  proof (cases "l = OperatorConfig \<and> e \<noteq> None")
    case True
    with st that show ?thesis by (auto simp: step_ok_def)
  next
    case False
    with st that have "failing s l = Some c"
      by (cases e) (auto simp: step_ok_def)
    with deg show ?thesis by (auto simp: failing_are_degraded_def intro: ranI)
  qed
  then show "failing_are_degraded t"
    by (auto simp: failing_are_degraded_def ran_def)
qed

lemma post_error: "step_ok s (Some e) t \<Longrightarrow> reconcile_post E L p s (Ret (res, Some e)) t"
  using step_ok_failing_degraded [of s "Some e" t]
  by (auto simp: reconcile_post_def step_ok_def info_set_def)

lemma post_quiet:
  "step_ok s e t \<Longrightarrow> r = Panic \<or> r = Ret (no_requeue, None) \<Longrightarrow> reconcile_post E L p s r t"
  using step_ok_failing_degraded [of s e t]
  by (auto simp: reconcile_post_def step_ok_def info_set_def)

lemma failing_are_degraded_upd:
  "failing_are_degraded s \<Longrightarrow> c = None \<or> (\<exists>st r m. c = Some (mk_cond OperatorDegraded st r m)) \<Longrightarrow>
   failing t = (failing s)(l := c) \<Longrightarrow> failing_are_degraded t"
  unfolding failing_are_degraded_def by (fastforce simp: ran_def split: if_splits)

lemma post_cluster:
  assumes "step_ok s None s'"
    and "books t = books (s'\<lparr>failing := (failing s')(ClusterConfig := Some (mk_cond OperatorDegraded ConditionTrue r m))\<rparr>)"
  shows "reconcile_post E L p s (Ret (if e = None then no_requeue else res, e)) t"
proof -
  note f = books_reconciler [OF assms(2)]
  have "failing_are_degraded t" if "failing_are_degraded s"
    by (rule failing_are_degraded_upd [OF step_ok_failing_degraded [OF assms(1) that],
          of "Some (mk_cond OperatorDegraded ConditionTrue r m)" t ClusterConfig]) (use f in auto)
  with f assms(1) show ?thesis
    by (auto simp: reconcile_post_def step_ok_def info_set_def)
qed

lemma wp_fetch:
  assumes "retry_lawful E" and "step_ok s None s'"
    and "\<And>e t r m. IsNotFound e \<Longrightarrow>
      books t = books (s'\<lparr>failing := (failing s')(ClusterConfig := Some (mk_cond OperatorDegraded ConditionTrue r m))\<rparr>) \<Longrightarrow>
      Q (None, Some e, False, False) t"
    and "\<And>e t. step_ok s (Some e) t \<Longrightarrow> Q (None, Some e, True, False) t"
    and "\<And>oc t b. step_ok s None t \<Longrightarrow> Q (Some oc, None, True, b) t"
  shows "wp (fetchAntreaInstall E (platform_adaptor E p) request) Q s'"
proof -
  have w: "step_ok s None (s'\<lparr>world := w\<rparr>)" for w
    by (rule step_ok_trans [OF assms(2) step_ok_world])
  have nf: "wp (SetDegraded (platform_adaptor E p) ClusterConfig r m) (\<lambda>_. Q (None, Some e, False, False)) (s'\<lparr>world := w\<rparr>)"
    if "IsNotFound e" for e w r m
    by (rule wp_SetDegraded [OF assms(1)]) (rule assms(3) [OF that], simp add: books_def)
  have other: "wp (SetDegraded (platform_adaptor E p) OperatorConfig r m) (\<lambda>_. Q (None, Some e, True, False)) (s'\<lparr>world := w\<rparr>)"
    for e w r m
    by (rule wp_degraded_step [OF assms(1) w assms(4)])
  show ?thesis
    using nf other assms(5) [OF w] by (auto simp: fetchAntreaInstall_def wp_simps)
qed

lemma wp_clear_levels:
  fixes s s' :: "'w reconciler"
  assumes "retry_lawful E" and "step_ok s None s'"
    and "\<And>t. step_ok (s\<lparr>failing := (failing s)(ClusterConfig := None, OperatorConfig := None)\<rparr>) None t \<Longrightarrow> Q () t"
  shows "wp (clear_levels (platform_adaptor E p)) Q s'"
  unfolding clear_levels_def wp_bind
proof (rule wp_SetNotDegraded [OF assms(1)], rule wp_SetNotDegraded [OF assms(1)])
  fix u u' and t t' :: "'w reconciler"
  assume "books t = books (s'\<lparr>failing := (failing s')(ClusterConfig := None)\<rparr>)"
    and "books t' = books (t\<lparr>failing := (failing t)(OperatorConfig := None)\<rparr>)"
  then have "step_ok (s\<lparr>failing := (failing s)(ClusterConfig := None, OperatorConfig := None)\<rparr>) None t'"
    using assms(2) by (auto simp: step_ok_def dest!: books_reconciler)
  with assms(3) show "Q u' t'" by simp
qed

lemma post_commit:
  assumes "step_ok (s\<lparr>failing := (failing s)(ClusterConfig := None, OperatorConfig := None)\<rparr>) None t"
    and "FillConfigs (config_of p L) cc oc0 = (oc, Ret None)" "ValidateConfig (config_of p L) cc oc = None"
    and "p = OpenShift \<Longrightarrow> \<exists>c c'. cc = Some c \<and> AppliedClusterConfig u = Some c' \<and> network_spec c' = network_spec c"
    and "AppliedOperConfig u = Some oc" "SharedInfo u = SharedInfo t" "failing u = failing t"
  shows "reconcile_post E L p s (Ret (no_requeue, None)) u"
proof -
  have "failing_are_degraded u" if "failing_are_degraded s"
  proof -
    have "failing_are_degraded (s\<lparr>failing := (failing s)(ClusterConfig := None, OperatorConfig := None)\<rparr>)"
      using that unfolding failing_are_degraded_def by (auto simp: ran_def)
    from step_ok_failing_degraded [OF assms(1) this] show ?thesis
      by (simp add: failing_are_degraded_def assms(7))
  qed
  moreover have "committed L p (Ret (no_requeue, None)) u"
    unfolding committed_def filled_for_def using assms by (auto simp: step_ok_def) blast+
  ultimately show ?thesis
    using assms(1,6,7) by (auto simp: reconcile_post_def step_ok_def info_set_def)
qed

lemma wp_apply_then:
  assumes "retry_lawful E" and "step_ok s None s'"
    and "\<And>oc t. step_ok s None t \<Longrightarrow> FillConfigs config cc oc0 = (oc, Ret None) \<Longrightarrow>
      ValidateConfig config cc oc = None \<Longrightarrow> wp (k oc) (reconcile_post E L q s) t"
  shows "wp (State_Monad.bind (applyConfig E config (platform_adaptor E p) cc oc0 net)
     (\<lambda>(oc, r). case r of Panic \<Rightarrow> ret Panic
        | Ret (result, Some e) \<Rightarrow> ret (Ret (result, Some e))
        | Ret (result, None) \<Rightarrow> k oc)) (reconcile_post E L q s) s'"
  unfolding wp_bind
proof (rule wp_mono [OF wp_applyConfig [OF assms(1)]], safe)
  fix oc g t
  assume post: "case g of Panic \<Rightarrow> step_ok s' None t
      | Ret (res, e) \<Rightarrow> step_ok s' e t \<and> (e = None \<longrightarrow> res = no_requeue \<and>
          FillConfigs config cc oc0 = (oc, Ret None) \<and> ValidateConfig config cc oc = None)"
  then show "wp (case g of Panic \<Rightarrow> ret Panic
        | Ret (result, Some e) \<Rightarrow> ret (Ret (result, Some e))
        | Ret (result, None) \<Rightarrow> k oc) (reconcile_post E L q s) t"
    using step_ok_trans [OF assms(2)]
    by (auto simp: wp_ret intro: post_quiet post_error assms(3) split: go.splits option.splits)
qed

lemma wp_fetch_then:
  assumes "retry_lawful E" and "step_ok s None s'"
    and "\<And>oc t. step_ok s None t \<Longrightarrow> wp (k oc) (reconcile_post E L q s) t"
  shows "wp (State_Monad.bind (fetchAntreaInstall E (platform_adaptor E p) request)
     (\<lambda>(oper, err, found, change).
        if err \<noteq> None \<and> \<not> found then ret (Ret (no_requeue, None))
        else if err \<noteq> None then ret (Ret (requeue, err))
        else if \<not> change then ret (Ret (no_requeue, None))
        else (case oper of None \<Rightarrow> ret Panic | Some oc \<Rightarrow> k oc))) (reconcile_post E L q s) s'"
  unfolding wp_bind
  by (rule wp_fetch [OF assms(1,2)])
    (auto simp: wp_simps intro: post_error post_quiet assms(3)
      dest: post_cluster [OF assms(2), where e = None, simplified])

lemma wp_finish_k8s:
  assumes "retry_lawful E" and "step_ok s None t"
    and "FillConfigs (ConfigK8s L) None oc0 = (oc, Ret None)" "ValidateConfig (ConfigK8s L) None oc = None"
  shows "wp (finish_k8s (platform_adaptor E p) oc) (reconcile_post E L Kubernetes s) t"
  unfolding finish_k8s_def wp_bind
  by (rule wp_clear_levels [OF assms(1,2)], simp add: wp_simps, rule post_commit [of _ _ _ _ None oc0 oc])
    (simp_all add: config_of_def assms(3,4))

lemma wp_Reconcile_k8s:
  assumes "retry_lawful E"
  shows "wp (Reconcile_k8s E L (platform_adaptor E p) request) (reconcile_post E L Kubernetes s) s"
proof (cases "isOperatorRequest request")
  case False
  then show ?thesis by (simp add: Reconcile_k8s_def wp_ret post_quiet [OF step_ok_refl])
next
  case True
  show ?thesis
    unfolding Reconcile_k8s_def
    by (subst if_not_P, simp add: True)
      (intro wp_fetch_then wp_apply_then wp_finish_k8s assms step_ok_refl)
qed

lemma wp_finish_oc:
  assumes "retry_lawful E" and "step_ok s None t"
    and "FillConfigs (ConfigOc L) (Some c) oc0 = (oc, Ret None)" "ValidateConfig (ConfigOc L) (Some c) oc = None"
  shows "wp (finish_oc E L (platform_adaptor E p) c oc) (reconcile_post E L OpenShift s) t"
proof -
  have commit: "wp (clear_levels (platform_adaptor E p))
        (\<lambda>_. wp (modify (\<lambda>s. s\<lparr>AppliedClusterConfig := Some c', AppliedOperConfig := Some oc\<rparr>))
          (\<lambda>_. reconcile_post E L OpenShift s (Ret (no_requeue, None)))) u"
    if "step_ok s None u" "network_spec c' = network_spec c" for u c'
    by (rule wp_clear_levels [OF assms(1) that(1)], simp add: wp_simps,
        rule post_commit [of _ _ _ _ "Some c" oc0 oc])
      (simp_all add: config_of_def assms(3,4) that(2))
  have network: "wp (SetDegraded (platform_adaptor E p) ClusterConfig r m)
      (\<lambda>_. wp (ret (Ret (requeue, Some e))) (reconcile_post E L OpenShift s)) u"
    if "step_ok s None u" for u r m e
    by (rule wp_SetDegraded [OF assms(1)])
      (use post_cluster [OF that, where e = "Some e" and res = requeue] in \<open>simp add: wp_ret\<close>)
  have w: "step_ok s None (t\<lparr>world := w\<rparr>)" for w
    by (rule step_ok_trans [OF assms(2) step_ok_world])
  show ?thesis
    unfolding finish_oc_def updateNetworkStatus_def Let_def
    by (auto simp: wp_bind wp_gets wp_if wp_case_go wp_case_prod wp_case_option wp_on_world wp_ret
        intro: post_quiet [OF assms(2)] wp_degraded_step [OF assms(1,2)] post_error
          commit [OF w] commit [OF assms(2)]
          network [OF w, unfolded wp_ret] network [OF assms(2), unfolded wp_ret])
qed

lemma wp_Reconcile_oc:
  assumes "retry_lawful E"
  shows "wp (Reconcile_oc E L (platform_adaptor E p) request) (reconcile_post E L OpenShift s) s"
proof (cases "isOperatorRequest request")
  case False
  then show ?thesis by (simp add: Reconcile_oc_def wp_ret post_quiet [OF step_ok_refl])
next
  case True
  have w: "step_ok s None (s\<lparr>world := w\<rparr>)" "step_ok s None (s\<lparr>world := w, world := w'\<rparr>)" for w w'
    by (simp_all add: step_ok_def)
  have missing: "wp (SetDegraded (platform_adaptor E p) ClusterConfig r m)
      (\<lambda>_. reconcile_post E L OpenShift s (Ret (if e = None then no_requeue else requeue, e))) (s\<lparr>world := w\<rparr>)"
    for r m e w
    by (rule wp_SetDegraded [OF assms]) (rule post_cluster [OF w(1)])
  have nonet: "reconcile_post E L OpenShift s (Ret (no_requeue, None)) t" if "step_ok s (Some e) t" for e t
    by (rule post_quiet [OF that]) simp
  have unread: "reconcile_post E L OpenShift s (Ret (requeue, Some e)) (s\<lparr>world := v\<rparr>)"
    if "run_state (cr_get_opnetwork E ClusterOperatorNetworkName) w = (Inl e, v)" "\<not> IsNotFound e" for e w v
  proof -
    have "fst (run_state (cr_get_opnetwork E ClusterOperatorNetworkName) w) = Inl e"
      using that(1) by simp
    with post_quiet [OF w(1) [of v], of "Ret (no_requeue, None)" E L OpenShift] that(2) show ?thesis
      by (auto simp: reconcile_post_def committed_def)
  qed
  have install: "wp (install_oc E L (platform_adaptor E p) request c n) (reconcile_post E L OpenShift s) (s\<lparr>world := w\<rparr>)"
    for c n w
    unfolding install_oc_def by (intro wp_fetch_then wp_apply_then wp_finish_oc assms w)
  show ?thesis
    unfolding Reconcile_oc_def
    by (auto simp: True wp_simps intro: install post_quiet [OF w(1)] unread nonet
        missing [where e = None, simplified] missing [where e = "Some _", simplified]
        wp_degraded_step [OF assms w(1)])
qed

end
