(* ===== verification/Reference_Operator.thy ===== *)
theory Reference_Operator
  imports Reference_Cluster Pod_Controller
begin

text \<open>
  A concrete instance of what the reconcilers are parametric in, on top of the reference cluster:
  manifests with one config map, one DaemonSet and one Deployment. It models no code of the
  repository; the witnesses of the properties run on it.
\<close>

definition ref_config_map :: unstructured where
  "ref_config_map = \<lparr>un_group = '''', un_version = ''v1'', un_kind = ''ConfigMap'',
     un_namespace = AntreaNamespace, un_name = AntreaConfigMapName, un_owners = [], un_content = ''''\<rparr>"

definition ref_daemonset :: unstructured where
  "ref_daemonset = \<lparr>un_group = ''apps'', un_version = ''v1'', un_kind = ''DaemonSet'',
     un_namespace = AntreaNamespace, un_name = AntreaAgentDaemonSetName, un_owners = [], un_content = ''''\<rparr>"

definition ref_deployment :: unstructured where
  "ref_deployment = \<lparr>un_group = ''apps'', un_version = ''v1'', un_kind = ''Deployment'',
     un_namespace = AntreaNamespace, un_name = AntreaControllerDeploymentName, un_owners = [], un_content = ''''\<rparr>"

definition ref_manifests :: "unstructured list" where
  "ref_manifests = [ref_config_map, ref_deployment, ref_daemonset]"

lemmas ref_objects = ref_manifests_def ref_config_map_def ref_daemonset_def ref_deployment_def

definition ref_ctl :: "(cluster, cluster reconciler) ctl_env" where
  "ref_ctl = sm_env.extend ref_env
     (ctl_env.fields
       (\<lambda>k. ref_read (\<lambda>w. if k = antrea_install_key then cl_install w else None))
       (\<lambda>k. ref_read (\<lambda>w. if k = antrea_install_key then cl_install w else None))
       (\<lambda>n. ref_read cl_network)
       (\<lambda>n. ref_read cl_opnetwork)
       (\<lambda>ns label. State (\<lambda>w. (Inr (cl_configmaps w), w)))
       (\<lambda>n. ref_read (\<lambda>w. cl_ds w n))
       (\<lambda>n. ref_read (\<lambda>w. cl_dep w n))
       (\<lambda>ns label. State (\<lambda>w. (None, w\<lparr>cl_writes := cl_writes w @ [PodsDeleted (snd label)]\<rparr>)))
       (\<lambda>obj. State (\<lambda>w. (None, w\<lparr>cl_writes := cl_writes w @ [ObjectApplied obj]\<rparr>)))
       (\<lambda>net. State (\<lambda>w. (None, w\<lparr>cl_network := Some net, cl_writes := cl_writes w @ [NetworkApplied net]\<rparr>)))
       (\<lambda>g k. ret (Inr k))
       (\<lambda>net obj. Inr (obj\<lparr>un_owners := [network_name net]\<rparr>))
       (\<lambda>dir data. ret (Inr ref_manifests))
       (ret None))"

lemma ref_ctl_sel [simp]:
  "api_get_install ref_ctl k = ref_read (\<lambda>w. if k = antrea_install_key then cl_install w else None)"
  "cr_get_install ref_ctl k = ref_read (\<lambda>w. if k = antrea_install_key then cl_install w else None)"
  "cr_get_network ref_ctl n = ref_read cl_network"
  "cr_get_opnetwork ref_ctl n = ref_read cl_opnetwork"
  "cr_list_configmaps ref_ctl ns label = State (\<lambda>w. (Inr (cl_configmaps w), w))"
  "cr_get_daemonset ref_ctl m = ref_read (\<lambda>w. cl_ds w m)"
  "cr_get_deployment ref_ctl m = ref_read (\<lambda>w. cl_dep w m)"
  "cr_delete_pods ref_ctl ns label = State (\<lambda>w. (None, w\<lparr>cl_writes := cl_writes w @ [PodsDeleted (snd label)]\<rparr>))"
  "apply_object ref_ctl obj = State (\<lambda>w. (None, w\<lparr>cl_writes := cl_writes w @ [ObjectApplied obj]\<rparr>))"
  "apply_network ref_ctl net = State (\<lambda>w. (None, w\<lparr>cl_network := Some net, cl_writes := cl_writes w @ [NetworkApplied net]\<rparr>))"
  "rest_mapping ref_ctl g kd = ret (Inr kd)"
  "set_controller_ref ref_ctl net obj = Inr (obj\<lparr>un_owners := [network_name net]\<rparr>)"
  "render_dir ref_ctl dir data = ret (Inr ref_manifests)"
  "new_cno_client ref_ctl = ret None"
  by (simp_all add: ref_ctl_def sm_env.defs ctl_env.defs)

lemma ref_ctl_retry_lawful: "retry_lawful ref_ctl"
  by (simp add: retry_lawful_def ref_ctl_def sm_env.defs ref_retry_attempts)

text \<open>The state of a freshly started operator over a given cluster.\<close>

definition fresh_reconciler :: "string \<Rightarrow> cluster \<Rightarrow> cluster reconciler" where
  "fresh_reconciler plat w =
     \<lparr>world = w, sm_name = AntreaClusterOperatorName, failing = (\<lambda>_. None), daemonSets = [],
      deployments = [], relatedObjects = None,
      SharedInfo = \<lparr>info_platform = plat, AntreaAgentDaemonSetSpec = None, AntreaControllerDeploymentSpec = None\<rparr>,
      AppliedClusterConfig = None, AppliedOperConfig = None\<rparr>"

lemma fresh_reconciler_sel [simp]:
  "world (fresh_reconciler plat w) = w" "failing (fresh_reconciler plat w) = (\<lambda>_. None)"
  "daemonSets (fresh_reconciler plat w) = []" "deployments (fresh_reconciler plat w) = []"
  "relatedObjects (fresh_reconciler plat w) = None"
  "SharedInfo (fresh_reconciler plat w) =
     \<lparr>info_platform = plat, AntreaAgentDaemonSetSpec = None, AntreaControllerDeploymentSpec = None\<rparr>"
  "AppliedClusterConfig (fresh_reconciler plat w) = None" "AppliedOperConfig (fresh_reconciler plat w) = None"
  by (simp_all add: fresh_reconciler_def)

text \<open>A cluster on which the filled sample configuration has been applied.\<close>

definition filled_spec :: install_spec where
  "filled_spec = empty_install_spec\<lparr>AntreaAgentConfig := ''filled'', AntreaImage := DefaultAntreaImage\<rparr>"

definition applied_cluster :: cluster where
  "applied_cluster = sample_cluster
     \<lparr>cl_configmaps := [\<lparr>cm_name = ''antrea-config-1'', cm_data = Some
        [AntreaAgentConfigOption \<mapsto> ''filled'', AntreaCNIConfigOption \<mapsto> '''', AntreaControllerConfigOption \<mapsto> '''']\<rparr>],
      cl_dep := [NSN AntreaNamespace AntreaControllerDeploymentName \<mapsto>
        \<lparr>dep_generation = 1, dep_status = \<lparr>AvailableReplicas = 1, UnavailableReplicas = 0,
          dep_ObservedGeneration = 1, dep_status_rest = ''''\<rparr>, dep_images = [DefaultAntreaImage]\<rparr>]\<rparr>"

end
