(* ===== verification/Controller_Properties.thy ===== *)
theory Controller_Properties
  imports Controller_Correct Reference_Operator
begin

text \<open>
  The properties of \<open>controllers/antreainstall_controller.go\<close> and
  \<open>controllers/pod_controller.go\<close>, one call at a time.
\<close>

section \<open>Requests\<close>

text \<open>Only two requests do anything: the cluster-wide object named cluster and the custom resource of
  the operator. Every other request is answered at once, with no error and no requeue, and leaves the
  whole state as it was, on both platforms and for any adaptor.\<close>

theorem foreign_requests_ignored:
  assumes "request \<noteq> NSN '''' ClusterConfigName" and "request \<noteq> antrea_install_key"
  shows "run_state (Reconcile E L A p request) s = (Ret (no_requeue, None), s)"
proof -
  have "\<not> isOperatorRequest request"
    using assms by (cases request) (auto simp: isOperatorRequest_def antrea_install_key_def)
  then show ?thesis
    by (cases p) (simp_all add: Reconcile_def Reconcile_k8s_def Reconcile_oc_def)
qed

lemma foreign_requests_ignored_witness:
  "run_state (Reconcile ref_ctl ref_lib (platform_adaptor ref_ctl Kubernetes) Kubernetes
     (NSN ''default'' ''antrea-install'')) (fresh_reconciler ''kubernetes'' sample_cluster) =
   (Ret (no_requeue, None), fresh_reconciler ''kubernetes'' sample_cluster)"
  by (rule foreign_requests_ignored) (simp_all add: antrea_install_key_def OperatorNameSpace_def)

section \<open>What a reconcile guarantees\<close>

lemma wp_Reconcile:
  "retry_lawful E \<Longrightarrow> wp (Reconcile E L (platform_adaptor E q) p request) (reconcile_post E L p s) s"
  by (cases p) (simp_all add: Reconcile_def wp_Reconcile_k8s wp_Reconcile_oc)

lemma Reconcile_post:
  "retry_lawful E \<Longrightarrow> run_state (Reconcile E L (platform_adaptor E q) p request) s = (r, t) \<Longrightarrow>
   reconcile_post E L p s r t"
  by (rule wpD [OF wp_Reconcile])

text \<open>C2: A reconcile remembers a configuration only when it succeeded with it. Either both remembered
  configurations are as before, or the reconcile returned without an error and without a requeue, both
  configuration levels are clear, the remembered resource is one that the platform's FillConfigs
  filled and its ValidateConfig accepts, and on OpenShift the remembered network has the
  specification it was filled from.\<close>

theorem remembered_only_after_success:
  assumes "retry_lawful E"
    and "run_state (Reconcile E L (platform_adaptor E q) p request) s = (r, t)"
  shows "AppliedOperConfig t = AppliedOperConfig s \<and> AppliedClusterConfig t = AppliedClusterConfig s \<or>
    committed L p r t"
  using Reconcile_post [OF assms] by (simp add: reconcile_post_def)

lemma remembered_only_after_success_witness:
  "let s = fresh_reconciler ''kubernetes'' applied_cluster;
       (r, t) = run_state (Reconcile ref_ctl ref_lib (platform_adaptor ref_ctl Kubernetes) Kubernetes antrea_install_key) s
   in AppliedOperConfig t = None \<and> AppliedClusterConfig t = None \<or> committed ref_lib Kubernetes r t"
proof -
  let ?s = "fresh_reconciler ''kubernetes'' applied_cluster"
  obtain r t where r: "run_state (Reconcile ref_ctl ref_lib (platform_adaptor ref_ctl Kubernetes)
      Kubernetes antrea_install_key) ?s = (r, t)" by fastforce
  show ?thesis
    using remembered_only_after_success [OF ref_ctl_retry_lawful r] r by (auto simp: Let_def)
qed

text \<open>C3: A reconcile that returns an error has recorded it: one of the two configuration levels is
  degraded afterwards. The one exception is on OpenShift, when the operator network configuration
  cannot be read for another reason than that it does not exist; that error is returned unreported.\<close>

theorem errors_are_reported:
  assumes "retry_lawful E"
    and "run_state (Reconcile E L (platform_adaptor E q) p request) s = (Ret (res, Some e), t)"
  shows "failing t OperatorConfig \<noteq> None \<or> failing t ClusterConfig \<noteq> None \<or>
    (p = OpenShift \<and> \<not> IsNotFound e \<and>
     (\<exists>w. fst (run_state (cr_get_opnetwork E ClusterOperatorNetworkName) w) = Inl e))"
  using Reconcile_post [OF assms] by (simp add: reconcile_post_def)

text \<open>A reference environment whose configuration component meets a document it cannot parse.\<close>

definition broken_cluster :: cluster where
  "broken_cluster = sample_cluster\<lparr>cl_install := Some (sample_install ''broken'')\<rparr>"

lemma broken_fill:
  "FillConfigs (ConfigK8s ref_lib) None (sample_install ''broken'') =
     (sample_install ''broken'', Ret (Some (errors_new (''failed to parse AntreaAgentConfig: '' @
       ''yaml: cannot unmarshal''))))"
  by (simp add: ConfigK8s_def fillConfig_def fillAgentConfig_def ref_unmarshal_map_def sample_install_def
      empty_install_spec_def errors_new_def)

lemma broken_outcome:
  "fst (run_state (Reconcile ref_ctl ref_lib A Kubernetes antrea_install_key)
     (fresh_reconciler ''kubernetes'' broken_cluster)) =
   Ret (requeue, Some (errors_new (''failed to parse AntreaAgentConfig: '' @ ''yaml: cannot unmarshal'')))"
  using broken_fill
  by (simp add: Reconcile_def Reconcile_k8s_def isOperatorRequest_def antrea_install_key_def
      fetchAntreaInstall_def applyConfig_def broken_cluster_def split: prod.splits)

lemma errors_are_reported_witness:
  "let t = snd (run_state (Reconcile ref_ctl ref_lib (platform_adaptor ref_ctl Kubernetes) Kubernetes
     antrea_install_key) (fresh_reconciler ''kubernetes'' broken_cluster))
   in failing t OperatorConfig \<noteq> None \<or> failing t ClusterConfig \<noteq> None"
proof -
  obtain e t where r: "run_state (Reconcile ref_ctl ref_lib (platform_adaptor ref_ctl Kubernetes) Kubernetes
      antrea_install_key) (fresh_reconciler ''kubernetes'' broken_cluster) = (Ret (requeue, Some e), t)"
    using broken_outcome by (metis prod.collapse)
  from errors_are_reported [OF ref_ctl_retry_lawful r] r show ?thesis by simp
qed

section \<open>Applying the rendered objects\<close>

text \<open>What applying objects one after the other makes of the outside, when each call succeeds.\<close>

fun applied_world :: "('w, 'e) cenv \<Rightarrow> unstructured list \<Rightarrow> 'w \<Rightarrow> 'w option" where
  "applied_world E [] w = Some w"
| "applied_world E (obj # objs) w =
     (case run_state (apply_object E obj) w of
        (None, w') \<Rightarrow> applied_world E objs w'
      | (Some _, w') \<Rightarrow> None)"

text \<open>C11: The rendered objects are applied in their order, each once, and nothing follows a failure: when
  the loop returns no error every object was applied and only the outside changed; otherwise the
  objects are a prefix that was applied, the one whose error is returned, and a rest that was not
  touched, and after that one call only the failure is reported.\<close>

theorem objects_applied_in_order:
  "case run_state (apply_loop E A objs) s of
     (None, t) \<Rightarrow> \<exists>w. applied_world E objs (world s) = Some w \<and> t = s\<lparr>world := w\<rparr>
   | (Some err, t) \<Rightarrow> \<exists>pre obj post w w'. objs = pre @ obj # post \<and>
       applied_world E pre (world s) = Some w \<and> run_state (apply_object E obj) w = (Some err, w') \<and>
       t = snd (run_state (SetDegraded A OperatorConfig ''ApplyObjectsError''
         (''Failed to apply operator configurations: '' @ err_text err)) (s\<lparr>world := w'\<rparr>))"
proof (induction objs arbitrary: s)
  case Nil
  then show ?case by (auto intro: exI [of _ "world s"])
next
  case (Cons obj objs)
  obtain e w where e: "run_state (apply_object E obj) (world s) = (e, w)" by fastforce
  show ?case
  proof (cases e)
    case None
    obtain r t where r: "run_state (apply_loop E A objs) (s\<lparr>world := w\<rparr>) = (r, t)" by fastforce
    show ?thesis
    proof (cases r)
      case None
      with Cons.IH [of "s\<lparr>world := w\<rparr>"] r e \<open>e = None\<close> show ?thesis by auto
    next
      case (Some err)
      with Cons.IH [of "s\<lparr>world := w\<rparr>"] r obtain pre ob post v v' where
          "objs = pre @ ob # post" "applied_world E pre w = Some v"
          "run_state (apply_object E ob) v = (Some err, v')"
          "t = snd (run_state (SetDegraded A OperatorConfig ''ApplyObjectsError''
             (''Failed to apply operator configurations: '' @ err_text err)) (s\<lparr>world := v'\<rparr>))"
        by auto
      with e None r Some show ?thesis
        by (auto intro!: exI [of _ "obj # pre"])
    qed
  next
    case (Some err)
    with e show ?thesis
      by (auto intro!: exI [of _ "[]"] split: prod.splits)
  qed
qed

text \<open>The object that a variable assigned in the loop holds at its end.\<close>

definition last_kept ::
    "(unstructured \<Rightarrow> bool) \<Rightarrow> unstructured option \<Rightarrow> (unstructured \<times> unstructured) list \<Rightarrow> unstructured option" where
  "last_kept P d xys = foldl (\<lambda>acc (x, y). if P x then Some y else acc) d xys"

lemma last_kept_simps [simp]:
  "last_kept P d [] = d"
  "last_kept P d ((x, y) # xys) = last_kept P (if P x then Some y else d) xys"
  by (simp_all add: last_kept_def)

lemma last_kept_eq:
  "last_kept P d xys = (case map snd (filter (P \<circ> fst) xys) of [] \<Rightarrow> d | ys \<Rightarrow> Some (last ys))"
  by (induction xys arbitrary: d) (auto split: list.splits)

lemma last_kept_Some:
  "last_kept P None xys \<noteq> None \<Longrightarrow>
   (\<exists>(x, y)\<in>set xys. P x) \<and> last_kept P None xys = Some (last (map snd (filter (P \<circ> fst) xys)))"
  unfolding last_kept_eq by (cases "filter (P \<circ> fst) xys") (auto simp: filter_eq_Cons_iff)

lemma manifest_loop_result:
  "run_state (manifest_loop E A cc objs sc) s = (Inr sc', t) \<Longrightarrow>
   \<exists>objs'. sc_objs sc' = sc_objs sc @ objs' \<and>
     list_all2 (\<lambda>x x'. x' = x \<or> (\<exists>c. cc = Some c \<and> set_controller_ref E c x = Inr x')) objs objs' \<and>
     sc_daemonSets sc' = sc_daemonSets sc @ map un_key (filter is_daemonset objs) \<and>
     sc_deployments sc' = sc_deployments sc @ map un_key (filter (\<lambda>x. is_deployment x) objs) \<and>
     sc_daemonSet sc' = last_kept is_daemonset (sc_daemonSet sc) (zip objs objs') \<and>
     sc_deployment sc' = last_kept is_deployment (sc_deployment sc) (zip objs objs') \<and>
     (\<exists>w. t = s\<lparr>world := w\<rparr>)"
proof (induction objs arbitrary: sc s)
  case Nil
  then show ?case by (auto intro: exI [of _ "world s"])
next
  case (Cons obj objs)
  have excl: "\<not> (is_daemonset x \<and> is_deployment x)" for x
    by (auto simp: is_daemonset_def is_deployment_def)
  from Cons.prems obtain obj' sc1 w where one:
      "obj' = obj \<or> (\<exists>c. cc = Some c \<and> set_controller_ref E c obj = Inr obj')"
      "run_state (manifest_loop E A cc objs sc1) (s\<lparr>world := w\<rparr>) = (Inr sc', t)"
      "\<exists>res. sc1 = note_object obj obj' sc \<or> sc1 = note_related obj res (note_object obj obj' sc)"
    by (auto split: prod.splits sum.splits option.splits)
  have sc1: "sc_objs sc1 = sc_objs sc @ [obj']"
      "sc_daemonSets sc1 = sc_daemonSets sc @ map un_key (filter is_daemonset [obj])"
      "sc_deployments sc1 = sc_deployments sc @ map un_key (filter is_deployment [obj])"
      "sc_daemonSet sc1 = (if is_daemonset obj then Some obj' else sc_daemonSet sc)"
      "sc_deployment sc1 = (if is_deployment obj then Some obj' else sc_deployment sc)"
    using one(3) excl by (auto simp: note_object_def note_related_def)
  from Cons.IH [OF one(2)] obtain objs' w' where ih: "sc_objs sc' = sc_objs sc1 @ objs'"
      "list_all2 (\<lambda>x x'. x' = x \<or> (\<exists>c. cc = Some c \<and> set_controller_ref E c x = Inr x')) objs objs'"
      "sc_daemonSets sc' = sc_daemonSets sc1 @ map un_key (filter is_daemonset objs)"
      "sc_deployments sc' = sc_deployments sc1 @ map un_key (filter (\<lambda>x. is_deployment x) objs)"
      "sc_daemonSet sc' = last_kept is_daemonset (sc_daemonSet sc1) (zip objs objs')"
      "sc_deployment sc' = last_kept is_deployment (sc_deployment sc1) (zip objs objs')"
      "t = s\<lparr>world := w'\<rparr>" by auto
  then show ?case
    using one(1) sc1 by (intro exI [of _ "obj' # objs'"]) auto
qed

text \<open>C14: What a successful update records: the watched DaemonSets and Deployments are the rendered ones, in
  their order; the two workloads kept for recreation are the last of each kind, as they are after the
  owner references were set; and the objects that go on to be applied are the rendered ones, each
  unchanged or with its owner reference set. Nothing else of the status manager but the related
  objects changes.\<close>

theorem update_records_workloads:
  assumes "run_state (updateStatusManagerAndSharedInfo E A objs cc) s = (Inr objs', t)"
  shows "list_all2 (\<lambda>x x'. x' = x \<or> (\<exists>c. cc = Some c \<and> set_controller_ref E c x = Inr x')) objs objs'
    \<and> daemonSets t = map un_key (filter is_daemonset objs)
    \<and> deployments t = map un_key (filter is_deployment objs)
    \<and> daemonSets t \<noteq> [] \<and> deployments t \<noteq> []
    \<and> AntreaAgentDaemonSetSpec (SharedInfo t) =
        Some (last (map snd (filter (is_daemonset \<circ> fst) (zip objs objs'))))
    \<and> AntreaControllerDeploymentSpec (SharedInfo t) =
        Some (last (map snd (filter (is_deployment \<circ> fst) (zip objs objs'))))
    \<and> failing t = failing s \<and> AppliedOperConfig t = AppliedOperConfig s"
proof -
  from assms obtain sc s1 where r: "run_state (manifest_loop E A cc objs empty_scan) s = (Inr sc, s1)"
      and some: "sc_daemonSet sc \<noteq> None" "sc_deployment sc \<noteq> None"
      and t: "objs' = sc_objs sc" "t = s1\<lparr>daemonSets := sc_daemonSets sc, deployments := sc_deployments sc,
        relatedObjects := sc_related sc, SharedInfo := (SharedInfo s1)
          \<lparr>AntreaAgentDaemonSetSpec := sc_daemonSet sc, AntreaControllerDeploymentSpec := sc_deployment sc\<rparr>\<rparr>"
    by (auto simp: updateStatusManagerAndSharedInfo_def SetDaemonSets_def SetDeployments_def
        SetRelatedObjects_def Let_def split: prod.splits sum.splits if_splits)
  from manifest_loop_result [OF r] obtain w where m:
      "list_all2 (\<lambda>x x'. x' = x \<or> (\<exists>c. cc = Some c \<and> set_controller_ref E c x = Inr x')) objs objs'"
      "sc_daemonSets sc = map un_key (filter is_daemonset objs)"
      "sc_deployments sc = map un_key (filter is_deployment objs)"
      "sc_daemonSet sc = last_kept is_daemonset None (zip objs objs')"
      "sc_deployment sc = last_kept is_deployment None (zip objs objs')"
      "s1 = s\<lparr>world := w\<rparr>"
    by (auto simp: empty_scan_def t(1))
  have found: "filter P objs \<noteq> [] \<and> last_kept P None (zip objs objs') =
      Some (last (map snd (filter (P \<circ> fst) (zip objs objs'))))"
    if "last_kept P None (zip objs objs') \<noteq> None" for P
    using last_kept_Some [OF that] by (auto simp: filter_empty_conv dest: set_zip_leftD)
  show ?thesis
    using m t(2) some found [of is_daemonset] found [of is_deployment] by auto
qed

lemma update_records_workloads_witness:
  "let t = snd (run_state (updateStatusManagerAndSharedInfo ref_ctl (platform_adaptor ref_ctl Kubernetes)
     ref_manifests None) (fresh_reconciler ''kubernetes'' sample_cluster))
   in daemonSets t = [NSN AntreaNamespace AntreaAgentDaemonSetName] \<and>
      AntreaControllerDeploymentSpec (SharedInfo t) = Some ref_deployment"
proof -
  obtain objs' t where r: "run_state (updateStatusManagerAndSharedInfo ref_ctl (platform_adaptor ref_ctl Kubernetes)
      ref_manifests None) (fresh_reconciler ''kubernetes'' sample_cluster) = (Inr objs', t)"
    by (simp add: updateStatusManagerAndSharedInfo_def ref_objects note_object_def note_related_def
        is_daemonset_def is_deployment_def un_api_version_def empty_scan_def SetDaemonSets_def
        SetDeployments_def SetRelatedObjects_def)
  from update_records_workloads [OF r] r show ?thesis
    by (auto simp: ref_objects is_daemonset_def is_deployment_def un_api_version_def un_key_def
        list_all2_Cons1)
qed

section \<open>Restarting pods\<close>

text \<open>
  Two environments that differ only in the deletion of pods run alike as long as they agree on the
  deletions the code asks for.
\<close>

lemma manifest_loop_frame:
  "manifest_loop (E\<lparr>cr_delete_pods := d\<rparr>) A cc objs sc = manifest_loop E A cc objs sc"
  by (cases cc; induction objs arbitrary: sc) (simp_all cong: sum.case_cong)

lemma update_frame:
  "updateStatusManagerAndSharedInfo (E\<lparr>cr_delete_pods := d\<rparr>) A objs cc = updateStatusManagerAndSharedInfo E A objs cc"
  by (simp add: updateStatusManagerAndSharedInfo_def manifest_loop_frame)

lemma apply_loop_frame: "apply_loop (E\<lparr>cr_delete_pods := d\<rparr>) A objs = apply_loop E A objs"
  by (induction objs) (simp_all cong: option.case_cong)

lemma restart_pods_agree:
  assumes "AppliedOperConfig s \<noteq> None \<Longrightarrow> need \<Longrightarrow> \<not> img \<Longrightarrow>
      d AntreaNamespace (''component'', c) = cr_delete_pods E AntreaNamespace (''component'', c)"
  shows "run_state (restart_pods (E\<lparr>cr_delete_pods := d\<rparr>) A k c need img) s =
    run_state (restart_pods E A k c need img) s"
  using assms by (cases "AppliedOperConfig s") (auto simp: restart_pods_def deleteExistingPods_def)

lemma apply_changes_restarts:
  assumes "retry_lawful E"
    and "AppliedOperConfig s \<noteq> None \<Longrightarrow> a \<Longrightarrow> \<not> i \<Longrightarrow>
      d AntreaNamespace (''component'', AntreaAgentDaemonSetName) =
      cr_delete_pods E AntreaNamespace (''component'', AntreaAgentDaemonSetName)"
    and "AppliedOperConfig s \<noteq> None \<Longrightarrow> c \<Longrightarrow> \<not> i \<Longrightarrow>
      d AntreaNamespace (''component'', AntreaControllerDeploymentName) =
      cr_delete_pods E AntreaNamespace (''component'', AntreaControllerDeploymentName)"
  shows "run_state (apply_changes (E\<lparr>cr_delete_pods := d\<rparr>) (platform_adaptor E p) cc rd a c i) s =
    run_state (apply_changes E (platform_adaptor E p) cc rd a c i) s"
proof -
  let ?A = "platform_adaptor E p"
  have kept: "AppliedOperConfig t = AppliedOperConfig s"
    if "wp m (step_ok u) u" "run_state m u = (e, t)" "AppliedOperConfig u = AppliedOperConfig s"
    for m e and t u :: "'a reconciler"
    using wpD [OF that(1,2)] that(3) by (simp add: step_ok_def)
  have upd: "AppliedOperConfig t = AppliedOperConfig s"
    if "run_state (updateStatusManagerAndSharedInfo E ?A objs cc) u = (r, t)" "AppliedOperConfig u = AppliedOperConfig s"
    for r objs and t u :: "'a reconciler"
    using wpD [OF wp_update [OF assms(1)] that(1)] that(2) by (auto simp: step_ok_def split: sum.splits)
  have restart: "run_state (restart_pods (E\<lparr>cr_delete_pods := d\<rparr>) ?A k comp need i) u =
      run_state (restart_pods E ?A k comp need i) u"
    if "AppliedOperConfig u = AppliedOperConfig s"
      "comp = AntreaAgentDaemonSetName \<and> need = a \<or> comp = AntreaControllerDeploymentName \<and> need = c"
    for k comp need u
    using that assms(2,3) by (intro restart_pods_agree) auto
  show ?thesis
    unfolding apply_changes_def update_frame apply_loop_frame
    by (intro run_congs restart) (auto dest!: upd kept [OF wp_apply_loop [OF assms(1)]]
        kept [OF wp_restart_pods [OF assms(1)]] split: prod.splits)
qed

text \<open>C8: Running pods are deleted only to make them pick up a changed configuration: an application
  deletes the agent's pods only when a configuration was remembered, the agent or CNI text differs
  from it and the image does not; the controller's pods only when the controller text differs and the
  image does not; and no other pods. What deleting pods would do in any other case does not matter.
  In particular nothing is deleted in the first application after a start.\<close>

theorem pods_deleted_only_for_changed_text:
  assumes "retry_lawful E"
    and "\<And>pre oc. AppliedOperConfig s = Some pre \<Longrightarrow> FillConfigs config cc oc0 = (oc, Ret None) \<Longrightarrow>
      AntreaImage (install_spec pre) = AntreaImage (install_spec oc) \<Longrightarrow>
      AntreaAgentConfig (install_spec pre) \<noteq> AntreaAgentConfig (install_spec oc) \<or>
      AntreaCNIConfig (install_spec pre) \<noteq> AntreaCNIConfig (install_spec oc) \<Longrightarrow>
      d AntreaNamespace (''component'', AntreaAgentDaemonSetName) =
      cr_delete_pods E AntreaNamespace (''component'', AntreaAgentDaemonSetName)"
    and "\<And>pre oc. AppliedOperConfig s = Some pre \<Longrightarrow> FillConfigs config cc oc0 = (oc, Ret None) \<Longrightarrow>
      AntreaImage (install_spec pre) = AntreaImage (install_spec oc) \<Longrightarrow>
      AntreaControllerConfig (install_spec pre) \<noteq> AntreaControllerConfig (install_spec oc) \<Longrightarrow>
      d AntreaNamespace (''component'', AntreaControllerDeploymentName) =
      cr_delete_pods E AntreaNamespace (''component'', AntreaControllerDeploymentName)"
  shows "run_state (applyConfig (E\<lparr>cr_delete_pods := d\<rparr>) config (platform_adaptor E p) cc oc0 net) s =
    run_state (applyConfig E config (platform_adaptor E p) cc oc0 net) s"
proof -
  let ?E = "E\<lparr>cr_delete_pods := d\<rparr>" and ?A = "platform_adaptor E p"
  have get: "getAppliedOperConfig ?E = getAppliedOperConfig E"
    by (simp add: getAppliedOperConfig_def cong: option.case_cong sum.case_cong)
  have same: "run_state (apply_changes ?E ?A cc rd a c i) t = run_state (apply_changes E ?A cc rd a c i) t"
    if "FillConfigs config cc oc0 = (oc, Ret None)" "run_state (getAppliedOperConfig E) s = (Ret (Inr pre), t)"
      "NeedApplyChange pre oc = (a, c, i)" for oc rd pre t a c i
  proof -
    have t: "AppliedOperConfig t = AppliedOperConfig s"
      using wpD [OF wp_getApplied that(2)] by auto
    have pre: "pre = Some x" if "AppliedOperConfig s = Some x" for x
      using \<open>run_state (getAppliedOperConfig E) s = _\<close> that by (simp add: getAppliedOperConfig_def)
    show ?thesis
      using that(1,3) pre assms(2,3) unfolding t [symmetric]
      by (intro apply_changes_restarts [OF assms(1)])
        (fastforce simp: t NeedApplyChange_def Let_def split: if_splits)+
  qed
  show ?thesis
    unfolding applyConfig_def get
    by (intro run_congs same) auto
qed

definition filled_install :: antrea_install where
  "filled_install = (sample_install ''filled'')\<lparr>install_spec := filled_spec\<rparr>"

lemma ref_fill: "FillConfigs (ConfigK8s ref_lib) None (sample_install ''user'') = (filled_install, Ret None)"
  using ref_fill_k8s by (simp add: filled_install_def filled_spec_def sample_install_def)

lemma pods_deleted_only_for_changed_text_witness:
  "let s = (fresh_reconciler ''kubernetes'' sample_cluster)\<lparr>AppliedOperConfig :=
         Some (filled_install\<lparr>install_spec := filled_spec\<lparr>AntreaAgentConfig := ''old''\<rparr>\<rparr>)\<rparr>;
       d = (\<lambda>ns label. if snd label = AntreaAgentDaemonSetName then cr_delete_pods ref_ctl ns label
              else ret (Some not_found))
   in run_state (applyConfig (ref_ctl\<lparr>cr_delete_pods := d\<rparr>) (ConfigK8s ref_lib) (platform_adaptor ref_ctl Kubernetes)
        None (sample_install ''user'') None) s =
      run_state (applyConfig ref_ctl (ConfigK8s ref_lib) (platform_adaptor ref_ctl Kubernetes)
        None (sample_install ''user'') None) s"
  unfolding Let_def
  by (rule pods_deleted_only_for_changed_text [OF ref_ctl_retry_lawful])
    (auto simp: ref_fill filled_install_def filled_spec_def empty_install_spec_def)

section \<open>Restarts of the operator\<close>

lemma read_back_run:
  assumes "AppliedOperConfig s = None"
    and "FillConfigs config cc oc0 = (oc, Ret None)" and "ValidateConfig config cc oc = None"
    and "GenerateRenderData config net oc = Inr rd"
    and "run_state (cr_list_configmaps E AntreaNamespace (''app'', ''antrea'')) (world s) = (Inr items, w1)"
    and "List.find (\<lambda>c. has_prefix (cm_name c) AntreaConfigMapName) items = Some cm"
    and "run_state (cr_get_deployment E (NSN AntreaNamespace AntreaControllerDeploymentName)) w1 = (Inr dep, w2)"
    and "dep_images dep = AntreaImage (install_spec oc) # more_images"
    and "gomap_get (cm_data cm) AntreaAgentConfigOption = Some (AntreaAgentConfig (install_spec oc))"
    and "gomap_get (cm_data cm) AntreaCNIConfigOption = Some (AntreaCNIConfig (install_spec oc))"
    and "gomap_get (cm_data cm) AntreaControllerConfigOption = Some (AntreaControllerConfig (install_spec oc))"
  shows "run_state (applyConfig E config A cc oc0 net) s = ((oc, Ret (no_requeue, None)), s\<lparr>world := w2\<rparr>)"
  using assms
  by (simp add: applyConfig_def getAppliedOperConfig_def NeedApplyChange_def Let_def)

text \<open>C36: After a restart, a configuration that the config map and the controller deployment of the cluster
  already show counts as applied, whatever else is missing from the cluster: the application succeeds
  after two reads, nothing is rendered, no object is applied, and the status manager and the shared
  information are left as they are. The config map comes first in the manifests, so an application
  that failed half way through is taken for a complete one by an operator that restarts.\<close>

theorem read_back_counts_as_applied:
  assumes "AppliedOperConfig s = None"
    and "FillConfigs config cc oc0 = (oc, Ret None)" and "ValidateConfig config cc oc = None"
    and "GenerateRenderData config net oc = Inr rd"
    and "run_state (cr_list_configmaps E AntreaNamespace (''app'', ''antrea'')) (world s) = (Inr items, w1)"
    and "List.find (\<lambda>c. has_prefix (cm_name c) AntreaConfigMapName) items = Some cm"
    and "run_state (cr_get_deployment E (NSN AntreaNamespace AntreaControllerDeploymentName)) w1 = (Inr dep, w2)"
    and "dep_images dep = AntreaImage (install_spec oc) # more_images"
    and "gomap_get (cm_data cm) AntreaAgentConfigOption = Some (AntreaAgentConfig (install_spec oc))"
    and "gomap_get (cm_data cm) AntreaCNIConfigOption = Some (AntreaCNIConfig (install_spec oc))"
    and "gomap_get (cm_data cm) AntreaControllerConfigOption = Some (AntreaControllerConfig (install_spec oc))"
  shows "run_state (applyConfig E config A cc oc0 net) s = ((oc, Ret (no_requeue, None)), s\<lparr>world := w2\<rparr>)"
  by (rule read_back_run [OF assms])

lemma applied_cluster_reads:
  "run_state (cr_list_configmaps ref_ctl AntreaNamespace (''app'', ''antrea'')) applied_cluster =
     (Inr (cl_configmaps applied_cluster), applied_cluster)"
  "List.find (\<lambda>c. has_prefix (cm_name c) AntreaConfigMapName) (cl_configmaps applied_cluster) =
     Some (hd (cl_configmaps applied_cluster))"
  "run_state (cr_get_deployment ref_ctl (NSN AntreaNamespace AntreaControllerDeploymentName)) applied_cluster =
     (Inr (the (cl_dep applied_cluster (NSN AntreaNamespace AntreaControllerDeploymentName))), applied_cluster)"
  "dep_images (the (cl_dep applied_cluster (NSN AntreaNamespace AntreaControllerDeploymentName))) =
     [AntreaImage (install_spec filled_install)]"
  "gomap_get (cm_data (hd (cl_configmaps applied_cluster))) AntreaAgentConfigOption =
     Some (AntreaAgentConfig (install_spec filled_install))"
  "gomap_get (cm_data (hd (cl_configmaps applied_cluster))) AntreaCNIConfigOption =
     Some (AntreaCNIConfig (install_spec filled_install))"
  "gomap_get (cm_data (hd (cl_configmaps applied_cluster))) AntreaControllerConfigOption =
     Some (AntreaControllerConfig (install_spec filled_install))"
  by (simp_all add: applied_cluster_def filled_install_def filled_spec_def empty_install_spec_def
      has_prefix_def AntreaConfigMapName_def AntreaAgentConfigOption_def AntreaCNIConfigOption_def
      AntreaControllerConfigOption_def)

lemma filled_validates: "ValidateConfig (ConfigK8s ref_lib) None filled_install = None"
  by (simp add: ConfigK8s_def validateConfig_def filled_install_def filled_spec_def empty_install_spec_def
      ref_unmarshal_map_def service_cidr_errors_def)

lemma ref_render: "\<exists>rd. GenerateRenderData (ConfigK8s ref_lib) net oc = Inr rd"
  by (simp add: ConfigK8s_def)

lemma read_back_counts_as_applied_witness:
  "cl_writes (world (snd (run_state (applyConfig ref_ctl (ConfigK8s ref_lib) (platform_adaptor ref_ctl Kubernetes)
     None (sample_install ''user'') None) (fresh_reconciler ''kubernetes'' applied_cluster)))) = []"
proof -
  obtain rd where rd: "GenerateRenderData (ConfigK8s ref_lib) None filled_install = Inr rd"
    using ref_render by blast
  have "run_state (applyConfig ref_ctl (ConfigK8s ref_lib) (platform_adaptor ref_ctl Kubernetes)
      None (sample_install ''user'') None) (fresh_reconciler ''kubernetes'' applied_cluster) =
    ((filled_install, Ret (no_requeue, None)),
     (fresh_reconciler ''kubernetes'' applied_cluster)\<lparr>world := applied_cluster\<rparr>)"
    by (rule read_back_counts_as_applied [OF _ ref_fill filled_validates rd _ applied_cluster_reads(2-7)])
      (simp_all add: applied_cluster_reads(1) del: ref_ctl_sel)
  then show ?thesis by (simp add: applied_cluster_def sample_cluster_def)
qed

text \<open>C37: On plain Kubernetes an operator that starts over a cluster with the same configuration succeeds
  without watching anything: the reconcile of the resource remembers the configuration but leaves the
  shared information and the watched workloads empty, and from then on the pod reconciler ignores
  every request, so deleted workloads are not recreated and their status is not published.\<close>

theorem restart_leaves_workloads_unwatched:
  assumes "retry_lawful E" and "AppliedOperConfig s = None" and "isOperatorRequest request"
    and "AntreaAgentDaemonSetSpec (SharedInfo s) = None" and "AntreaControllerDeploymentSpec (SharedInfo s) = None"
    and "run_state (cr_get_install E antrea_install_key) (world s) = (Inr oc0, w0)"
    and "FillConfigs (ConfigK8s L) None oc0 = (oc, Ret None)" and "ValidateConfig (ConfigK8s L) None oc = None"
    and "run_state (cr_list_configmaps E AntreaNamespace (''app'', ''antrea'')) w0 = (Inr items, w1)"
    and "List.find (\<lambda>c. has_prefix (cm_name c) AntreaConfigMapName) items = Some cm"
    and "run_state (cr_get_deployment E (NSN AntreaNamespace AntreaControllerDeploymentName)) w1 = (Inr dep, w2)"
    and "dep_images dep = AntreaImage (install_spec oc) # more_images"
    and "gomap_get (cm_data cm) AntreaAgentConfigOption = Some (AntreaAgentConfig (install_spec oc))"
    and "gomap_get (cm_data cm) AntreaCNIConfigOption = Some (AntreaCNIConfig (install_spec oc))"
    and "gomap_get (cm_data cm) AntreaControllerConfigOption = Some (AntreaControllerConfig (install_spec oc))"
    and "run_state (Reconcile E L (platform_adaptor E q) Kubernetes request) s = (r, t)"
  shows "r = Ret (no_requeue, None) \<and> AppliedOperConfig t = Some oc \<and> daemonSets t = daemonSets s \<and>
    deployments t = deployments s \<and> SharedInfo t = SharedInfo s \<and>
    (\<forall>req. run_state (pod_Reconcile E (platform_adaptor E q) req) t = (Ret (no_requeue, None), t))"
proof -
  let ?s = "s\<lparr>world := w0\<rparr>"
  obtain rd where "GenerateRenderData (ConfigK8s L) None oc = Inr rd" by (simp add: ConfigK8s_def)
  then have app: "run_state (applyConfig E (ConfigK8s L) (platform_adaptor E q) None oc0 None) ?s =
      ((oc, Ret (no_requeue, None)), ?s\<lparr>world := w2\<rparr>)"
    using read_back_run [of ?s "ConfigK8s L" None oc0 oc None rd E items w1 cm dep w2 more_images]
      assms(2,7-15) by simp
  have fetch: "run_state (fetchAntreaInstall E (platform_adaptor E q) request) s =
      ((Some oc0, None, True, True), ?s)"
    using assms(2,6) by (simp add: fetchAntreaInstall_def)
  have "run_state (finish_k8s (platform_adaptor E q) oc) (?s\<lparr>world := w2\<rparr>) = (r, t)"
    using assms(3,16) app fetch by (simp add: Reconcile_def Reconcile_k8s_def)
  moreover have "wp (finish_k8s (platform_adaptor E q) oc) (\<lambda>r t. r = Ret (no_requeue, None) \<and>
      AppliedOperConfig t = Some oc \<and> daemonSets t = daemonSets s \<and> deployments t = deployments s \<and>
      SharedInfo t = SharedInfo s) (?s\<lparr>world := w2\<rparr>)"
    unfolding finish_k8s_def clear_levels_def wp_bind
    by (rule wp_SetNotDegraded [OF assms(1)], rule wp_SetNotDegraded [OF assms(1)])
      (auto simp: wp_simps dest!: books_reconciler)
  ultimately show ?thesis
    using wpD assms(4,5) by (fastforce simp: pod_Reconcile_def isAntreaResource_def)
qed

lemma restart_leaves_workloads_unwatched_witness:
  "let t = snd (run_state (Reconcile ref_ctl ref_lib (platform_adaptor ref_ctl Kubernetes) Kubernetes
     antrea_install_key) (fresh_reconciler ''kubernetes'' applied_cluster))
   in AppliedOperConfig t = Some filled_install \<and> daemonSets t = []"
proof -
  let ?s = "fresh_reconciler ''kubernetes'' applied_cluster"
  obtain r t where r: "run_state (Reconcile ref_ctl ref_lib (platform_adaptor ref_ctl Kubernetes) Kubernetes
     antrea_install_key) ?s = (r, t)" by fastforce
  have req: "isOperatorRequest antrea_install_key"
    by (simp add: isOperatorRequest_def antrea_install_key_def)
  have get: "run_state (cr_get_install ref_ctl antrea_install_key) (world ?s) =
      (Inr (sample_install ''user''), applied_cluster)"
    by (simp add: applied_cluster_def sample_cluster_def)
  have none: "AppliedOperConfig ?s = None" "AntreaAgentDaemonSetSpec (SharedInfo ?s) = None"
    "AntreaControllerDeploymentSpec (SharedInfo ?s) = None" by simp_all
  from restart_leaves_workloads_unwatched [OF ref_ctl_retry_lawful none(1) req none(2,3) get ref_fill
      filled_validates applied_cluster_reads r] r
  show ?thesis by (simp add: Let_def)
qed

lemma ref_restart_remembers:
  "AppliedOperConfig (snd (run_state (Reconcile ref_ctl ref_lib (platform_adaptor ref_ctl Kubernetes) Kubernetes
     antrea_install_key) (fresh_reconciler ''kubernetes'' applied_cluster))) = Some filled_install"
proof -
  let ?s = "fresh_reconciler ''kubernetes'' applied_cluster" and ?A = "platform_adaptor ref_ctl Kubernetes"
  have app: "run_state (applyConfig ref_ctl (ConfigK8s ref_lib) ?A None (sample_install ''user'') None) ?s =
      ((filled_install, Ret (no_requeue, None)), ?s)"
    using applied_cluster_reads ref_fill filled_validates
    by (simp add: applyConfig_def getAppliedOperConfig_def NeedApplyChange_def Let_def ConfigK8s_def)
  moreover have "run_state (fetchAntreaInstall ref_ctl ?A antrea_install_key) ?s =
      ((Some (sample_install ''user''), None, True, True), ?s)"
    by (simp add: fetchAntreaInstall_def applied_cluster_def sample_cluster_def fresh_reconciler_def)
  ultimately show ?thesis
    by (simp add: Reconcile_def Reconcile_k8s_def isOperatorRequest_def antrea_install_key_def finish_k8s_def
        split: prod.splits)
qed

section \<open>Degraded levels that stay\<close>

text \<open>A reconcile that finds nothing changed clears nothing. On plain Kubernetes, when the custom
  resource of a remembered configuration was deleted (which records ClusterConfig as degraded) and is
  created again with the same specification, its reconcile only reads: every degraded level stays as it
  is, and so it stays until the specification changes.\<close>

theorem recreated_resource_stays_degraded:
  assumes "AppliedOperConfig s = Some a"
    and "run_state (cr_get_install E antrea_install_key) (world s) = (Inr oc, w)"
    and "install_name oc = OperatorConfigName" and "install_spec oc = install_spec a"
  shows "run_state (Reconcile E L A Kubernetes antrea_install_key) s = (Ret (no_requeue, None), s\<lparr>world := w\<rparr>)"
proof -
  have "name_of antrea_install_key = install_name oc" "isOperatorRequest antrea_install_key"
    using assms(3) by (simp_all add: antrea_install_key_def isOperatorRequest_def)
  with assms show ?thesis
    by (simp add: Reconcile_def Reconcile_k8s_def fetchAntreaInstall_def)
qed

lemma recreated_resource_stays_degraded_witness:
  "let s = (fresh_reconciler ''kubernetes'' (sample_cluster\<lparr>cl_install := Some filled_install\<rparr>))
         \<lparr>AppliedOperConfig := Some filled_install,
          failing := [ClusterConfig \<mapsto> mk_cond OperatorDegraded ConditionTrue ''NoAntreaInstallCR'' '''']\<rparr>
   in failing (snd (run_state (Reconcile ref_ctl ref_lib (platform_adaptor ref_ctl Kubernetes) Kubernetes
        antrea_install_key) s)) ClusterConfig \<noteq> None"
proof -
  let ?s = "(fresh_reconciler ''kubernetes'' (sample_cluster\<lparr>cl_install := Some filled_install\<rparr>))
         \<lparr>AppliedOperConfig := Some filled_install,
          failing := [ClusterConfig \<mapsto> mk_cond OperatorDegraded ConditionTrue ''NoAntreaInstallCR'' '''']\<rparr>"
  have s: "AppliedOperConfig ?s = Some filled_install" by simp
  have get: "run_state (cr_get_install ref_ctl antrea_install_key) (world ?s) = (Inr filled_install, world ?s)"
    by simp
  have "install_name filled_install = OperatorConfigName"
    by (simp add: filled_install_def sample_install_def)
  from recreated_resource_stays_degraded [OF s get this refl] show ?thesis
    by (simp add: Let_def)
qed

section \<open>The pod reconciler\<close>

text \<open>The read that decides on recreation, with its error.\<close>

definition recreate_read :: "('w, 'e) cenv \<Rightarrow> bool \<Rightarrow> nsname \<Rightarrow> 'w \<Rightarrow> go_error option \<times> 'w" where
  "recreate_read E isDaemonSet request w =
     (if isDaemonSet
      then (case run_state (cr_get_daemonset E request) w of (Inl e, w') \<Rightarrow> (Some e, w') | (Inr _, w') \<Rightarrow> (None, w'))
      else (case run_state (cr_get_deployment E request) w of (Inl e, w') \<Rightarrow> (Some e, w') | (Inr _, w') \<Rightarrow> (None, w')))"

text \<open>C12: When both workloads are known, the pod reconciler recreates exactly what was asked for and only
  when it is missing: the object it may apply is the kept one with the requested name and namespace; it
  is applied once if reading it reports that it does not exist, and nothing is written if it exists;
  any other error is recorded as degraded and returned.\<close>

theorem missing_workload_recreated:
  assumes "AntreaAgentDaemonSetSpec (SharedInfo s) = Some ds"
    and "AntreaControllerDeploymentSpec (SharedInfo s) = Some dep"
    and "isAntreaResource (SharedInfo s) request"
  defines "obj \<equiv> if matches request ds then ds else dep"
  shows "un_key obj = request \<and>
    run_state (recreateResourceIfNotExist E A request) s =
      (case recreate_read E (matches request ds) request (world s) of
         (None, w) \<Rightarrow> (Ret None, s\<lparr>world := w\<rparr>)
       | (Some e, w) \<Rightarrow>
           if IsNotFound e then
             (case run_state (apply_object E obj) w of
                (None, w') \<Rightarrow> (Ret None, s\<lparr>world := w'\<rparr>)
              | (Some e', w') \<Rightarrow> (Ret (Some e'), snd (run_state (SetDegraded A OperatorConfig ''ApplyOperatorConfig''
                  (''Failed to apply operator configuration: '' @ err_text e')) (s\<lparr>world := w'\<rparr>))))
           else (Ret (Some e), snd (run_state (SetDegraded A OperatorConfig ''ApplyObjectsError''
                  (''Failed to apply objects: '' @ err_text e)) (s\<lparr>world := w\<rparr>))))"
proof
  show "un_key obj = request"
    using assms(1-3) unfolding obj_def
    by (cases request) (auto simp: isAntreaResource_def matches_def un_key_def split: if_splits)
  show "run_state (recreateResourceIfNotExist E A request) s =
      (case recreate_read E (matches request ds) request (world s) of
         (None, w) \<Rightarrow> (Ret None, s\<lparr>world := w\<rparr>)
       | (Some e, w) \<Rightarrow>
           if IsNotFound e then
             (case run_state (apply_object E obj) w of
                (None, w') \<Rightarrow> (Ret None, s\<lparr>world := w'\<rparr>)
              | (Some e', w') \<Rightarrow> (Ret (Some e'), snd (run_state (SetDegraded A OperatorConfig ''ApplyOperatorConfig''
                  (''Failed to apply operator configuration: '' @ err_text e')) (s\<lparr>world := w'\<rparr>))))
           else (Ret (Some e), snd (run_state (SetDegraded A OperatorConfig ''ApplyObjectsError''
                  (''Failed to apply objects: '' @ err_text e)) (s\<lparr>world := w\<rparr>))))"
    using assms(1,2) unfolding obj_def
    by (cases "matches request ds")
      (auto simp: recreateResourceIfNotExist_def recreate_read_def Let_def split: prod.splits sum.splits option.splits)
qed

definition watching_reconciler :: "cluster reconciler" where
  "watching_reconciler = (fresh_reconciler ''kubernetes'' sample_cluster)
     \<lparr>SharedInfo := \<lparr>info_platform = ''kubernetes'', AntreaAgentDaemonSetSpec = Some ref_daemonset,
        AntreaControllerDeploymentSpec = Some ref_deployment\<rparr>\<rparr>"

lemma missing_workload_recreated_witness:
  "cl_writes (world (snd (run_state (recreateResourceIfNotExist ref_ctl (platform_adaptor ref_ctl Kubernetes)
     (NSN AntreaNamespace AntreaAgentDaemonSetName)) watching_reconciler))) = [ObjectApplied ref_daemonset]"
proof -
  let ?req = "NSN AntreaNamespace AntreaAgentDaemonSetName"
  have info: "AntreaAgentDaemonSetSpec (SharedInfo watching_reconciler) = Some ref_daemonset"
      "AntreaControllerDeploymentSpec (SharedInfo watching_reconciler) = Some ref_deployment"
    by (simp_all add: watching_reconciler_def)
  have m: "matches ?req ref_daemonset"
    by (simp add: matches_def ref_objects)
  then have "isAntreaResource (SharedInfo watching_reconciler) ?req"
    by (simp add: isAntreaResource_def info)
  from missing_workload_recreated [OF info this, of ref_ctl "platform_adaptor ref_ctl Kubernetes"] m
  show ?thesis
    by (simp add: recreate_read_def watching_reconciler_def sample_cluster_def)
qed

section \<open>Starting\<close>

text \<open>The operator starts exactly when the custom resource can be read and names one of the two
  platforms, and the client of the cluster network operator can be made; the only effects of starting are
  these two calls. Both adaptors are then those of that platform, no level is degraded, no workload is
  watched or known and no configuration is remembered.\<close>

lemma operator_start_run:
  "run_state (operator_start E) w =
     (case run_state (api_get_install E antrea_install_key) w of
        (Inl e, w1) \<Rightarrow> (Inl (''unable to get shareinfo'', e), w1)
      | (Inr i, w1) \<Rightarrow>
          (case parse_platform (AntreaPlatform (install_spec i)) of
             Inl e \<Rightarrow> (Inl (''unable to get shareinfo'', e), w1)
           | Inr p \<Rightarrow>
               (case run_state (new_cno_client E) w1 of
                  (Some e, w2) \<Rightarrow> (Inl (''fail to create client'', e), w2)
                | (None, w2) \<Rightarrow>
                    (Inr (\<lparr>world = w2, sm_name = AntreaClusterOperatorName, failing = (\<lambda>_. None), daemonSets = [],
                       deployments = [], relatedObjects = None,
                       SharedInfo = \<lparr>info_platform = AntreaPlatform (install_spec i), AntreaAgentDaemonSetSpec = None,
                         AntreaControllerDeploymentSpec = None\<rparr>,
                       AppliedClusterConfig = None, AppliedOperConfig = None\<rparr>, p, p), w2))))"
  by (auto simp: operator_start_def sharedinfo_New_def status_New_def controllers_New_def parse_platform_def
      Let_def status_manager.defs reconciler.defs split: prod.splits sum.splits option.splits)

end
