(* ===== verification/Operator.thy ===== *)
theory Operator
  imports Controller_Properties Pod_Properties
begin

text \<open>
  The operator as a system of steps. A state is the reconcilers' state and the point the pod
  reconciler has reached; the steps are the environment changing the outside, a reconcile of the
  AntreaInstall controller, and the three parts of a pod reconcile, which take the two locks one
  after the other, so that other steps can come between them. A panic of the pod reconciler is a
  state of its own.
\<close>

section \<open>Steps\<close>

datatype pod_phase = PodIdle | PodChecked nsname | PodUpdated nsname | PodCrashed

type_synonym 'w op_state = "'w reconciler \<times> pod_phase"

inductive op_step :: "('w, 'e) cenv \<Rightarrow> cfg_lib \<Rightarrow> platform \<Rightarrow> 'w op_state \<Rightarrow> 'w op_state \<Rightarrow> bool"
  for E L p where
  environment: "op_step E L p (s, ph) (s\<lparr>world := w\<rparr>, ph)"
| reconcile: "run_state (Reconcile E L (platform_adaptor E p) p request) s = (r, s') \<Longrightarrow>
    op_step E L p (s, ph) (s', ph)"
| pod_check: "isAntreaResource (SharedInfo s) request \<Longrightarrow>
    op_step E L p (s, PodIdle) (s, PodChecked request)"
| pod_status: "run_state (SetFromPods E (platform_adaptor E p)) s = (u, s') \<Longrightarrow>
    op_step E L p (s, PodChecked request) (s', PodUpdated request)"
| pod_recreate: "run_state (recreateResourceIfNotExist E (platform_adaptor E p) request) s = (Ret e, s') \<Longrightarrow>
    op_step E L p (s, PodUpdated request) (s', PodIdle)"
| pod_panic: "run_state (recreateResourceIfNotExist E (platform_adaptor E p) request) s = (Panic, s') \<Longrightarrow>
    op_step E L p (s, PodUpdated request) (s', PodCrashed)"

inductive_cases op_stepE: "op_step E L p (s, ph) (s', ph')"

inductive op_reachable :: "('w, 'e) cenv \<Rightarrow> cfg_lib \<Rightarrow> platform \<Rightarrow> 'w op_state \<Rightarrow> bool" for E L p where
  start: "run_state (operator_start E) w = (Inr (s, p, q), w') \<Longrightarrow> op_reachable E L p (s, PodIdle)"
| step: "op_reachable E L p st \<Longrightarrow> op_step E L p st st' \<Longrightarrow> op_reachable E L p st'"

text \<open>The three parts, run without an interruption, are the reconcile of the code.\<close>

lemma pod_Reconcile_parts:
  "run_state (pod_Reconcile E A request) s =
     (if \<not> isAntreaResource (SharedInfo s) request then (Ret (no_requeue, None), s)
      else case run_state (SetFromPods E A) s of
        (_, s1) \<Rightarrow> (case run_state (recreateResourceIfNotExist E A request) s1 of
          (Panic, s2) \<Rightarrow> (Panic, s2)
        | (Ret (Some err), s2) \<Rightarrow> (Ret (requeue, Some err), s2)
        | (Ret None, s2) \<Rightarrow> (Ret (\<lparr>Requeue = False, RequeueAfter = ResyncPeriod\<rparr>, None), s2)))"
  by (auto simp: pod_Reconcile_def split: prod.splits go.splits option.splits)

section \<open>The invariant\<close>

definition remembered_ok :: "cfg_lib \<Rightarrow> platform \<Rightarrow> 'w reconciler \<Rightarrow> bool" where
  "remembered_ok L p s \<longleftrightarrow>
     (\<forall>oc. AppliedOperConfig s = Some oc \<longrightarrow>
        AntreaImage (install_spec oc) \<noteq> '''' \<and>
        filled_for L p s oc)"

definition op_inv :: "cfg_lib \<Rightarrow> platform \<Rightarrow> 'w op_state \<Rightarrow> bool" where
  "op_inv L p st \<longleftrightarrow> (case st of (s, ph) \<Rightarrow>
     paired (SharedInfo s) \<and> (ph \<noteq> PodIdle \<longrightarrow> info_set (SharedInfo s)) \<and> ph \<noteq> PodCrashed \<and>
     failing_are_degraded s \<and> failing s PodDeployment = None \<and> failing s ClusterNode = None \<and>
     remembered_ok L p s)"

lemma paired_or_set: "paired i \<Longrightarrow> isAntreaResource i request \<Longrightarrow> info_set i"
  by (auto simp: paired_def info_set_def isAntreaResource_def split: if_splits option.splits)

lemma info_set_paired: "info_set i \<Longrightarrow> paired i"
  by (auto simp: paired_def info_set_def)

lemma filled_image:
  "FillConfigs (config_of p L) cc oc0 = (oc, Ret None) \<Longrightarrow> AntreaImage (install_spec oc) \<noteq> ''''"
  by (cases p) (auto simp: config_of_def dest: oc_config.fill_image k8s_config.fill_image)

lemma remembered_after_reconcile:
  assumes "reconcile_post E L p s r t" and "remembered_ok L p s"
  shows "remembered_ok L p t"
proof (cases "AppliedOperConfig t = AppliedOperConfig s \<and> AppliedClusterConfig t = AppliedClusterConfig s")
  case True
  with assms(2) show ?thesis by (simp add: remembered_ok_def filled_for_def)
next
  case False
  with assms(1) have "committed L p r t" by (auto simp: reconcile_post_def)
  then show ?thesis
    by (auto simp: committed_def remembered_ok_def) (auto simp: filled_for_def dest: filled_image)
qed

lemma wp_recreate:
  assumes "retry_lawful E" and "info_set (SharedInfo s)"
  shows "wp (recreateResourceIfNotExist E (platform_adaptor E p) request)
     (\<lambda>r t. \<exists>e. r = Ret e \<and> step_ok s e t) s"
proof -
  obtain ds dep where info: "AntreaAgentDaemonSetSpec (SharedInfo s) = Some ds"
      "AntreaControllerDeploymentSpec (SharedInfo s) = Some dep"
    using assms(2) by (auto simp: info_set_def)
  show ?thesis
    unfolding recreateResourceIfNotExist_def Let_def
    by (auto simp: wp_simps info step_ok_def [of s None] split: sum.splits
        intro: wp_degraded_step [OF assms(1) step_ok_world])
qed

lemma inv_reconcile:
  assumes "retry_lawful E" and "op_inv L p (s, ph)"
    and "run_state (Reconcile E L (platform_adaptor E p) p request) s = (r, s')"
  shows "op_inv L p (s', ph)"
proof -
  note post = Reconcile_post [OF assms(1,3)]
  from post assms(2) have "paired (SharedInfo s')" "info_set (SharedInfo s) \<longrightarrow> info_set (SharedInfo s')"
    by (auto simp: reconcile_post_def op_inv_def dest: info_set_paired)
  moreover from post assms(2) have "failing_are_degraded s'" "failing s' PodDeployment = None"
      "failing s' ClusterNode = None"
    by (simp_all add: reconcile_post_def op_inv_def)
  moreover have "remembered_ok L p s'"
    using remembered_after_reconcile [OF post] assms(2) by (simp add: op_inv_def)
  ultimately show ?thesis
    using assms(2) by (auto simp: op_inv_def)
qed

lemma inv_pod_status:
  assumes "retry_lawful E" and "op_inv L p (s, PodChecked request)"
    and "run_state (SetFromPods E (platform_adaptor E p)) s = (u, s')"
  shows "op_inv L p (s', PodUpdated request)"
proof -
  obtain acc ds dep s1 where "run_state (scan_pods E (platform_adaptor E p)) s = ((acc, ds, dep), s1)"
    by (metis prod_cases3 surj_pair)
  note b = books_reconciler [OF platform_status.SetFromPods_books [OF assms(1,3) this]]
  let ?c = "if hung acc = [] then None
    else Some (mk_cond OperatorDegraded ConditionTrue ''RolloutHung'' (strings_join newline (hung acc)))"
  have "failing_are_degraded (s\<lparr>failing := (failing s)(PodDeployment := None)\<rparr>)"
    using assms(2) unfolding op_inv_def failing_are_degraded_def by (auto simp: ran_def)
  then have "failing_are_degraded s'"
    by (rule failing_are_degraded_upd [where c = ?c and l = RolloutHung]) (use b in auto)
  moreover have "remembered_ok L p s'"
    using b assms(2) by (simp add: op_inv_def remembered_ok_def filled_for_def)
  ultimately show ?thesis
    using b assms(2) by (simp add: op_inv_def)
qed

lemma inv_pod_recreate:
  assumes "retry_lawful E" and "op_inv L p (s, PodUpdated request)"
    and "run_state (recreateResourceIfNotExist E (platform_adaptor E p) request) s = (r, s')"
  shows "r \<noteq> Panic \<and> op_inv L p (s', PodIdle)"
proof -
  from assms(2) have "info_set (SharedInfo s)" by (simp add: op_inv_def)
  from wpD [OF wp_recreate [OF assms(1) this] assms(3)] obtain e where e: "r = Ret e" "step_ok s e s'"
    by blast
  moreover have "remembered_ok L p s'"
    using e(2) assms(2) by (simp add: op_inv_def remembered_ok_def filled_for_def step_ok_def)
  ultimately show ?thesis
    using assms(2) step_ok_failing_degraded [OF e(2)] step_ok_paired [OF e(2)]
    by (auto simp: op_inv_def step_ok_def)
qed

lemma op_inv_step:
  assumes "retry_lawful E" and "op_step E L p st st'" and "op_inv L p st"
  shows "op_inv L p st'"
  using assms(2,3)
proof (cases rule: op_step.cases)
  case (environment s ph w)
  with assms(3) show ?thesis
    by (simp add: op_inv_def remembered_ok_def filled_for_def failing_are_degraded_def)
next
  case (pod_check s request)
  with assms(3) show ?thesis by (auto simp: op_inv_def dest: paired_or_set)
next
  case (pod_panic request s s')
  with inv_pod_recreate [OF assms(1) _ pod_panic(3)] assms(3) show ?thesis by auto
qed (use inv_reconcile [OF assms(1)] inv_pod_status [OF assms(1)] inv_pod_recreate [OF assms(1)] in blast)+

lemma op_inv_reachable:
  assumes "retry_lawful E" and "op_reachable E L p st"
  shows "op_inv L p st"
  using assms(2)
proof (induction rule: op_reachable.induct)
  case (start w s q w')
  then show ?case
    by (auto simp: operator_start_run op_inv_def paired_def failing_are_degraded_def remembered_ok_def
        split: prod.splits sum.splits option.splits)
next
  case (step st st')
  then show ?case by (blast intro: op_inv_step [OF assms(1)])
qed

section \<open>Properties of every reachable state\<close>

text \<open>The pod reconciler never dereferences a missing workload: whatever the environment does and
  however reconciles of the custom resource come between the check of a request, the publication of the
  status and the recreation, no reachable state is the one after a panic, and once a request was
  accepted both workloads stay known.\<close>

theorem pod_reconciler_never_panics:
  assumes "retry_lawful E" and "op_reachable E L p (s, ph)"
  shows "ph \<noteq> PodCrashed \<and> paired (SharedInfo s) \<and> (ph \<noteq> PodIdle \<longrightarrow> info_set (SharedInfo s))"
  using op_inv_reachable [OF assms] by (simp add: op_inv_def)

lemma ref_start:
  "op_reachable ref_ctl ref_lib Kubernetes (fresh_reconciler ''kubernetes''
     (sample_cluster\<lparr>cl_install := Some (filled_install\<lparr>install_spec := filled_spec\<lparr>AntreaPlatform := ''kubernetes''\<rparr>\<rparr>)\<rparr>), PodIdle)"
  by (rule op_reachable.start [where w = "sample_cluster\<lparr>cl_install := Some (filled_install\<lparr>install_spec :=
        filled_spec\<lparr>AntreaPlatform := ''kubernetes''\<rparr>\<rparr>)\<rparr>" and q = Kubernetes])
    (simp add: operator_start_run parse_platform_def fresh_reconciler_def)

lemma pod_reconciler_never_panics_witness:
  "paired (SharedInfo (fresh_reconciler ''kubernetes'' (sample_cluster\<lparr>cl_install := Some (filled_install
     \<lparr>install_spec := filled_spec\<lparr>AntreaPlatform := ''kubernetes''\<rparr>\<rparr>)\<rparr>)))"
  using pod_reconciler_never_panics [OF ref_ctl_retry_lawful ref_start] by simp

lemma ref_reachable: "op_reachable ref_ctl ref_lib Kubernetes (fresh_reconciler ''kubernetes'' w, PodIdle)"
proof -
  have "(fresh_reconciler ''kubernetes'' v)\<lparr>world := w\<rparr> = fresh_reconciler ''kubernetes'' w" for v
    by (simp add: fresh_reconciler_def)
  then show ?thesis
    using op_reachable.step [OF ref_start op_step.environment] by metis
qed

text \<open>In every reachable state a remembered configuration names an image and is one that the platform's
  component filled and accepted, on OpenShift for the network specification that is remembered with it;
  so nothing invalid is ever taken as the base of the next comparison.\<close>

theorem remembered_configuration_valid:
  assumes "retry_lawful E" and "op_reachable E L p (s, ph)" and "AppliedOperConfig s = Some oc"
  shows "AntreaImage (install_spec oc) \<noteq> '''' \<and> filled_for L p s oc"
  using op_inv_reachable [OF assms(1,2)] assms(3) by (simp add: op_inv_def remembered_ok_def)

lemma remembered_configuration_valid_witness:
  "let t = snd (run_state (Reconcile ref_ctl ref_lib (platform_adaptor ref_ctl Kubernetes) Kubernetes
     antrea_install_key) (fresh_reconciler ''kubernetes'' applied_cluster))
   in AppliedOperConfig t = Some filled_install \<and> filled_for ref_lib Kubernetes t filled_install"
proof -
  obtain r t where r: "run_state (Reconcile ref_ctl ref_lib (platform_adaptor ref_ctl Kubernetes) Kubernetes
     antrea_install_key) (fresh_reconciler ''kubernetes'' applied_cluster) = (r, t)" by fastforce
  have reach: "op_reachable ref_ctl ref_lib Kubernetes (t, PodIdle)"
    by (rule op_reachable.step [OF ref_reachable op_step.reconcile [OF r]])
  have some: "AppliedOperConfig t = Some filled_install"
    using ref_restart_remembers r by simp
  show ?thesis
    using remembered_configuration_valid [OF ref_ctl_retry_lawful reach some] some r by simp
qed

text \<open>The levels PodDeployment and ClusterNode are dead: no reachable state has them degraded. Only
  ClusterConfig, OperatorConfig and RolloutHung ever are, and always with a Degraded condition.\<close>

theorem dead_levels:
  assumes "retry_lawful E" and "op_reachable E L p (s, ph)"
  shows "failing s PodDeployment = None \<and> failing s ClusterNode = None \<and>
    (\<forall>l c. failing s l = Some c \<longrightarrow> l \<in> {ClusterConfig, OperatorConfig, RolloutHung} \<and> ctype c = OperatorDegraded)"
proof -
  have inv: "failing s PodDeployment = None" "failing s ClusterNode = None" "failing_are_degraded s"
    using op_inv_reachable [OF assms] by (simp_all add: op_inv_def)
  have "l \<in> {ClusterConfig, OperatorConfig, RolloutHung} \<and> ctype c = OperatorDegraded"
    if "failing s l = Some c" for l c
    using that inv by (cases l) (auto simp: failing_are_degraded_def intro: ranI)
  with inv(1,2) show ?thesis by blast
qed

lemma dead_levels_witness:
  "failing (fresh_reconciler ''kubernetes'' sample_cluster) PodDeployment = None"
  using dead_levels [OF ref_ctl_retry_lawful ref_reachable] by blast

text \<open>The shortcut for an unchanged resource never applies to a resource that leaves its image open:
  the remembered specification always names the image that filling put there, so in every reachable
  state such a resource counts as changed and is rendered data, compared and remembered again.\<close>

theorem open_image_never_unchanged:
  assumes "retry_lawful E" and "op_reachable E L p (s, ph)"
    and "run_state (fetchAntreaInstall E A request) s = ((Some oc, None, True, change), t)"
    and "AntreaImage (install_spec oc) = ''''"
  shows "change"
proof (cases "AppliedOperConfig s")
  case None
  with assms(3) show ?thesis
    by (auto simp: fetchAntreaInstall_def split: prod.splits sum.splits if_splits)
next
  case (Some a)
  then have "install_spec oc \<noteq> install_spec a"
    using op_inv_reachable [OF assms(1,2)] assms(4) by (auto simp: op_inv_def remembered_ok_def)
  with Some assms(3) show ?thesis
    by (auto simp: fetchAntreaInstall_def split: prod.splits sum.splits if_splits)
qed

lemma open_image_never_unchanged_witness:
  "\<exists>oc t. run_state (fetchAntreaInstall ref_ctl (platform_adaptor ref_ctl Kubernetes) antrea_install_key)
     (fresh_reconciler ''kubernetes'' sample_cluster) = ((Some oc, None, True, True), t)"
proof -
  let ?s = "fresh_reconciler ''kubernetes'' sample_cluster"
  obtain c t where r: "run_state (fetchAntreaInstall ref_ctl (platform_adaptor ref_ctl Kubernetes) antrea_install_key) ?s =
      ((Some (sample_install ''user''), None, True, c), t)"
    by (simp add: fetchAntreaInstall_def sample_cluster_def)
  have "c"
    by (rule open_image_never_unchanged [OF ref_ctl_retry_lawful ref_reachable r])
      (simp add: sample_install_def empty_install_spec_def)
  with r show ?thesis by auto
qed

end
