(* ===== verification/Recovery.thy ===== *)
theory Recovery
  imports Controller_Properties
begin

text \<open>
  What a reconcile achieves when the cluster cooperates, from every state: either it finds its resource
  word for word the remembered one and does nothing, or it ends with the configuration applied and
  remembered; and once it is, a further reconcile only publishes.

  A cooperative cluster is described by a predicate on the outside that every call keeps, by what the
  calls return under it, and by a history of the writes it has accepted. \<open>stable\<close> says that a
  computation keeps a predicate, \<open>answers\<close> that a call returns a result of a certain kind and adds
  nothing to the history, \<open>writes\<close> that it succeeds and adds one write.
\<close>

section \<open>Computations that keep a predicate\<close>

named_theorems stable_intros \<open>rules that derive that a computation keeps a predicate\<close>

definition stable :: "('s \<Rightarrow> bool) \<Rightarrow> ('s, 'a) state \<Rightarrow> bool" where
  "stable I m \<longleftrightarrow> (\<forall>s. I s \<longrightarrow> I (snd (run_state m s)))"

lemma stable_ret [stable_intros]: "stable I (ret x)"
  by (simp add: stable_def)

lemma stable_gets [stable_intros]: "stable I (gets f)"
  by (simp add: stable_def)

lemma stable_modify [stable_intros]: "(\<And>s. I s \<Longrightarrow> I (f s)) \<Longrightarrow> stable I (modify f)"
  by (simp add: stable_def)

lemma stable_bind [stable_intros]:
  "stable I m \<Longrightarrow> (\<And>a. stable I (k a)) \<Longrightarrow> stable I (State_Monad.bind m k)"
  by (simp add: stable_def split: prod.splits) (metis snd_conv)

lemma stable_if [stable_intros]: "stable I m \<Longrightarrow> stable I n \<Longrightarrow> stable I (if b then m else n)"
  by simp

lemma stable_case_option [stable_intros]:
  "stable I m \<Longrightarrow> (\<And>a. stable I (k a)) \<Longrightarrow> stable I (case x of None \<Rightarrow> m | Some a \<Rightarrow> k a)"
  by (cases x) simp_all

lemma stable_case_sum [stable_intros]:
  "(\<And>a. stable I (g a)) \<Longrightarrow> (\<And>b. stable I (h b)) \<Longrightarrow> stable I (case x of Inl a \<Rightarrow> g a | Inr b \<Rightarrow> h b)"
  by (cases x) simp_all

lemma stable_case_prod [stable_intros]:
  "(\<And>a b. stable I (g a b)) \<Longrightarrow> stable I (case x of (a, b) \<Rightarrow> g a b)"
  by (cases x) simp_all

lemma stable_on_world [stable_intros]: "stable G m \<Longrightarrow> stable (\<lambda>s. G (world s)) (on_world m)"
  by (simp add: stable_def split: prod.splits) (metis snd_conv)

lemma stable_retry [stable_intros]:
  assumes "retry_lawful E" and "stable I f"
  shows "stable I (RetryOnConflict E f)"
  unfolding stable_def
proof (intro allI impI)
  fix s assume "I s"
  with retry_inv [OF assms(1), of f s "fst (run_state (RetryOnConflict E f) s)"
      "snd (run_state (RetryOnConflict E f) s)" I "\<lambda>_ _. True"] assms(2)
  show "I (snd (run_state (RetryOnConflict E f) s))"
    by (auto simp: stable_def) (metis snd_conv)
qed



section \<open>Publishing keeps a cooperative cluster cooperative\<close>









section \<open>A cooperative cluster\<close>





text \<open>
  What stays as it is until the end of a reconcile, with the history so far.
\<close>

definition waiting :: "('w \<Rightarrow> bool) \<Rightarrow> ('w \<Rightarrow> cluster_write list) \<Rightarrow> 'w reconciler \<Rightarrow> cluster_write list \<Rightarrow>
    'w reconciler \<Rightarrow> bool" where
  "waiting G hist s l t \<longleftrightarrow> G (world t) \<and> hist (world t) = l \<and>
     AppliedOperConfig t = AppliedOperConfig s \<and> AppliedClusterConfig t = AppliedClusterConfig s"

lemma waiting_world: "waiting G hist s l t \<Longrightarrow> G w \<Longrightarrow> hist w = l' \<Longrightarrow> waiting G hist s l' (t\<lparr>world := w\<rparr>)"
  by (simp add: waiting_def)



section \<open>The objects\<close>





text \<open>The objects that are applied are the rendered ones, each as it is or with its owner set.\<close>

definition owned :: "('w, 'e) cenv \<Rightarrow> network option \<Rightarrow> unstructured list \<Rightarrow> unstructured list \<Rightarrow> bool" where
  "owned E cc objs objs' \<longleftrightarrow>
     list_all2 (\<lambda>x x'. x' = x \<or> (\<exists>c. cc = Some c \<and> set_controller_ref E c x = Inr x')) objs objs'"

lemma owned_None [simp]: "owned E None objs objs' \<longleftrightarrow> objs' = objs"
  by (auto simp: owned_def list_all2_conv_all_nth intro: nth_equalityI)







section \<open>Applying the configuration\<close>






section \<open>A cooperative reference cluster\<close>








section \<open>Recovery\<close>



lemma config_of_ready:
  assumes "yaml_map_lawful L" and "FillConfigs (config_of p L) cc oc0 = (oc, Ret None)"
  obtains rd where "ValidateConfig (config_of p L) cc oc = None" "GenerateRenderData (config_of p L) net oc = Inr rd"
  using assms oc_config.fill_then_valid k8s_config.fill_then_valid oc_config.render_total k8s_config.render_total
  by (cases p) (fastforce simp: config_of_def)+

















text \<open>C35: A settled operator only publishes. On plain Kubernetes, once the filled configuration of the custom
  resource is the remembered one, a further reconcile reads the resource and at most clears the two levels and
  remembers the same configuration again: nothing is rendered, no object applied and no pod deleted.\<close>

theorem settled_reconcile_only_publishes:
  assumes "yaml_map_lawful L" and "isOperatorRequest request"
    and "run_state (cr_get_install E antrea_install_key) (world s) = (Inr oc0, w)"
    and "FillConfigs (ConfigK8s L) None oc0 = (oc, Ret None)"
    and "AppliedOperConfig s = Some a" and "install_spec a = install_spec oc"
  shows "run_state (Reconcile E L A Kubernetes request) s =
    (if name_of request = install_name oc0 \<and> install_spec oc0 = install_spec a
     then (Ret (no_requeue, None), s\<lparr>world := w\<rparr>)
     else run_state (finish_k8s A oc) (s\<lparr>world := w\<rparr>))"
proof -
  have fill: "FillConfigs (config_of Kubernetes L) None oc0 = (oc, Ret None)"
    using assms(4) by (simp add: config_of_def)
  obtain rd where ready: "ValidateConfig (ConfigK8s L) None oc = None"
      "GenerateRenderData (ConfigK8s L) None oc = Inr rd"
    using config_of_ready [OF assms(1) fill] by (auto simp: config_of_def)
  have "run_state (applyConfig E (ConfigK8s L) A None oc0 None) (s\<lparr>world := w\<rparr>) =
      ((oc, Ret (no_requeue, None)), s\<lparr>world := w\<rparr>)"
    using assms(5,6) by (simp add: applyConfig_def assms(4) ready getAppliedOperConfig_def NeedApplyChange_def)
  then show ?thesis
    using assms(2,3,5) by (auto simp: Reconcile_def Reconcile_k8s_def fetchAntreaInstall_def)
qed

lemma settled_reconcile_only_publishes_witness:
  "let s = (fresh_reconciler ''kubernetes'' sample_cluster)\<lparr>AppliedOperConfig := Some filled_install\<rparr>;
       A = platform_adaptor ref_ctl Kubernetes
   in run_state (Reconcile ref_ctl ref_lib A Kubernetes antrea_install_key) s = run_state (finish_k8s A filled_install) s"
proof -
  let ?s = "(fresh_reconciler ''kubernetes'' sample_cluster)\<lparr>AppliedOperConfig := Some filled_install\<rparr>"
  have req: "isOperatorRequest antrea_install_key"
    by (simp add: isOperatorRequest_def antrea_install_key_def)
  have get: "run_state (cr_get_install ref_ctl antrea_install_key) (world ?s) =
      (Inr (sample_install ''user''), world ?s)"
    by (simp add: sample_cluster_def)
  have "install_spec (sample_install ''user'') \<noteq> install_spec filled_install"
    by (simp add: sample_install_def filled_install_def filled_spec_def empty_install_spec_def)
  moreover have "AppliedOperConfig ?s = Some filled_install" by simp
  from settled_reconcile_only_publishes [OF ref_lib_lawful req get ref_fill this refl]
  have "run_state (Reconcile ref_ctl ref_lib A Kubernetes antrea_install_key) ?s =
      (if name_of antrea_install_key = install_name (sample_install ''user'') \<and>
         install_spec (sample_install ''user'') = install_spec filled_install
       then (Ret (no_requeue, None), ?s\<lparr>world := world ?s\<rparr>)
       else run_state (finish_k8s A filled_install) (?s\<lparr>world := world ?s\<rparr>))" for A .
  ultimately show ?thesis by (simp add: Let_def fresh_reconciler_def)
qed

end
