(* ===== verification/Threads.thy ===== *)
theory Threads
  imports Pod_Status
begin

text \<open>
  Goroutines. A \<open>prog\<close> is the rest of a goroutine: it is finished with a result, or its next step
  is an atomic action on the shared state, or the acquisition or the release of a mutex. Run without
  interference it is a computation of the state monad (\<open>as_state\<close>); between its steps other
  goroutines may run.

  \<open>safe\<close> is a weakest precondition under interference: whatever happens between two steps that
  the rely \<open>R\<close> allows, every step keeps the guarantee \<open>G\<close>, every mutex protects its invariant
  \<open>I\<close>, mutexes are taken in increasing order and never twice, and the end satisfies \<open>Q\<close>. The
  laws that relate relies and guarantees are the locale \<open>interference\<close>.
\<close>

section \<open>Programs\<close>

datatype lock_id = InfoLock | StatusLock

fun lock_rank :: "lock_id \<Rightarrow> nat" where
  "lock_rank InfoLock = 0"
| "lock_rank StatusLock = 1"

instantiation lock_id :: linorder
begin

definition less_eq_lock_id :: "lock_id \<Rightarrow> lock_id \<Rightarrow> bool" where
  "less_eq_lock_id a b \<longleftrightarrow> lock_rank a \<le> lock_rank b"

definition less_lock_id :: "lock_id \<Rightarrow> lock_id \<Rightarrow> bool" where
  "less_lock_id a b \<longleftrightarrow> lock_rank a < lock_rank b"

instance
proof
  fix a b :: lock_id
  assume "a \<le> b" "b \<le> a"
  then show "a = b" by (cases a; cases b) (simp_all add: less_eq_lock_id_def)
qed (auto simp: less_eq_lock_id_def less_lock_id_def)

end

lemma lock_order [simp]: "InfoLock < StatusLock" "\<not> StatusLock < InfoLock" "\<not> l < (l :: lock_id)"
  by (simp_all add: less_lock_id_def)

datatype ('s, 'a) prog =
    Done 'a
  | Atom "'s \<Rightarrow> ('s, 'a) prog \<times> 's"
  | Acquire lock_id "('s, 'a) prog"
  | Release lock_id "('s, 'a) prog"

lemma prog_induct [case_names Done Atom Acquire Release]:
  assumes "\<And>a. P (Done a)"
    and "\<And>f. (\<And>s q s'. f s = (q, s') \<Longrightarrow> P q) \<Longrightarrow> P (Atom f)"
    and "\<And>l p. P p \<Longrightarrow> P (Acquire l p)" and "\<And>l p. P p \<Longrightarrow> P (Release l p)"
  shows "P p"
proof (induction p)
  case (Atom f)
  have "P q" if "f s = (q, s')" for s q s'
    by (rule Atom.IH [of "(q, s')"]) (use that in \<open>auto intro: rangeI [of f s, unfolded that]\<close>)
  then show ?case by (rule assms(2))
qed (rule assms; assumption?)+

primrec bnd :: "('s, 'a) prog \<Rightarrow> ('a \<Rightarrow> ('s, 'b) prog) \<Rightarrow> ('s, 'b) prog" where
  "bnd (Done a) k = k a"
| "bnd (Atom f) k = Atom (map_prod (\<lambda>p. bnd p k) id \<circ> f)"
| "bnd (Acquire l p) k = Acquire l (bnd p k)"
| "bnd (Release l p) k = Release l (bnd p k)"

definition atom :: "('s, 'a) state \<Rightarrow> ('s, 'a) prog" where
  "atom m = Atom (\<lambda>s. case run_state m s of (a, s') \<Rightarrow> (Done a, s'))"

definition locked :: "lock_id \<Rightarrow> ('s, 'a) prog \<Rightarrow> ('s, 'a) prog" where
  "locked l p = Acquire l (bnd p (\<lambda>a. Release l (Done a)))"

section \<open>Running without interference\<close>

primrec run_prog :: "('s, 'a) prog \<Rightarrow> 's \<Rightarrow> 'a \<times> 's" where
  "run_prog (Done a) = (\<lambda>s. (a, s))"
| "run_prog (Atom f) = (\<lambda>s. case map_prod run_prog id (f s) of (r, s') \<Rightarrow> r s')"
| "run_prog (Acquire l p) = run_prog p"
| "run_prog (Release l p) = run_prog p"

definition as_state :: "('s, 'a) prog \<Rightarrow> ('s, 'a) state" where
  "as_state p = State (run_prog p)"

named_theorems as_state_simps \<open>a program run without interference as a computation\<close>

lemma run_prog_bnd: "run_prog (bnd p k) s = (case run_prog p s of (a, s') \<Rightarrow> run_prog (k a) s')"
proof (induction p arbitrary: s rule: prog_induct)
  case (Atom f)
  obtain q s' where f: "f s = (q, s')" by fastforce
  have "run_prog (bnd q k) s' = (case run_prog q s' of (a, s') \<Rightarrow> run_prog (k a) s')"
    by (rule Atom.IH [OF f])
  with f show ?case by simp
qed simp_all

lemma as_state_Done [as_state_simps]: "as_state (Done a) = ret a"
  by (simp add: as_state_def State_Monad.return_def)

lemma as_state_bnd [as_state_simps]: "as_state (bnd p k) = State_Monad.bind (as_state p) (\<lambda>a. as_state (k a))"
  by (rule state.expand) (simp add: as_state_def fun_eq_iff run_prog_bnd)

lemma as_state_atom [as_state_simps]: "as_state (atom m) = m"
  by (rule state.expand) (simp add: as_state_def atom_def fun_eq_iff split: prod.splits)

lemma as_state_locked [as_state_simps]: "as_state (locked l p) = as_state p"
  by (rule state.expand) (simp add: as_state_def locked_def fun_eq_iff run_prog_bnd)

lemma as_state_cases [as_state_simps]:
  "as_state (if b then p else q) = (if b then as_state p else as_state q)"
  "as_state (case x of None \<Rightarrow> p | Some a \<Rightarrow> k a) = (case x of None \<Rightarrow> as_state p | Some a \<Rightarrow> as_state (k a))"
  "as_state (case y of Inl a \<Rightarrow> g a | Inr b \<Rightarrow> h b) = (case y of Inl a \<Rightarrow> as_state (g a) | Inr b \<Rightarrow> as_state (h b))"
  "as_state (case z of (c, d) \<Rightarrow> j c d) = (case z of (c, d) \<Rightarrow> as_state (j c d))"
  "as_state (case v of Ret e \<Rightarrow> m e | Panic \<Rightarrow> n) = (case v of Ret e \<Rightarrow> as_state (m e) | Panic \<Rightarrow> as_state n)"
  by (simp_all split: option.split sum.split prod.split go.split)

lemma as_state_case_list [as_state_simps]:
  "as_state (case xs of [] \<Rightarrow> p | a # as \<Rightarrow> k a as) = (case xs of [] \<Rightarrow> as_state p | a # as \<Rightarrow> as_state (k a as))"
  by (cases xs) simp_all

section \<open>Results\<close>

text \<open>The results a program can have, whatever state it meets at each step.\<close>

primrec leaves :: "('s, 'a) prog \<Rightarrow> 'a set" where
  "leaves (Done a) = {a}"
| "leaves (Atom f) = (\<Union>s. fst (map_prod leaves id (f s)))"
| "leaves (Acquire l p) = leaves p"
| "leaves (Release l p) = leaves p"

lemma leaves_Atom: "leaves (Atom f) = (\<Union>s. leaves (fst (f s)))"
  by simp

lemma leaves_bnd [simp]: "leaves (bnd p k) = (\<Union>a\<in>leaves p. leaves (k a))"
proof (induction p rule: prog_induct)
  case (Atom f)
  have "leaves (bnd (fst (f s)) k) = (\<Union>a\<in>leaves (fst (f s)). leaves (k a))" for s
    by (rule Atom.IH [of s _ "snd (f s)"]) simp
  then show ?case by simp
qed simp_all

lemma leaves_atom [simp]: "leaves (atom m) = range (\<lambda>s. fst (run_state m s))"
  by (auto simp: atom_def split_beta)

lemma leaves_locked [simp]: "leaves (locked l p) = leaves p"
  by (simp add: locked_def)

named_theorems result_intros \<open>rules that bound the results of a program\<close>

lemma results [result_intros]:
  "a \<in> X \<Longrightarrow> leaves (Done a) \<subseteq> X"
  "(\<And>c. leaves (k0 c) \<subseteq> X) \<Longrightarrow> leaves (bnd p0 k0) \<subseteq> X"
  "(b \<Longrightarrow> leaves p \<subseteq> X) \<Longrightarrow> (\<not> b \<Longrightarrow> leaves q \<subseteq> X) \<Longrightarrow> leaves (if b then p else q) \<subseteq> X"
  "(x = None \<Longrightarrow> leaves p \<subseteq> X) \<Longrightarrow> (\<And>a. x = Some a \<Longrightarrow> leaves (k1 a) \<subseteq> X) \<Longrightarrow>
   leaves (case x of None \<Rightarrow> p | Some a \<Rightarrow> k1 a) \<subseteq> X"
  "(\<And>a. y = Inl a \<Longrightarrow> leaves (g a) \<subseteq> X) \<Longrightarrow> (\<And>b. y = Inr b \<Longrightarrow> leaves (j b) \<subseteq> X) \<Longrightarrow>
   leaves (case y of Inl a \<Rightarrow> g a | Inr b \<Rightarrow> j b) \<subseteq> X"
  "(\<And>a b. z = (a, b) \<Longrightarrow> leaves (m a b) \<subseteq> X) \<Longrightarrow> leaves (case z of (a, b) \<Rightarrow> m a b) \<subseteq> X"
  "(\<And>a. v = Ret a \<Longrightarrow> leaves (n a) \<subseteq> X) \<Longrightarrow> (v = Panic \<Longrightarrow> leaves p \<subseteq> X) \<Longrightarrow>
   leaves (case v of Ret a \<Rightarrow> n a | Panic \<Rightarrow> p) \<subseteq> X"
  by (auto split: option.split sum.split prod.split go.split)

section \<open>Programs under interference\<close>

primrec safe :: "(lock_id set \<Rightarrow> 's \<Rightarrow> 's \<Rightarrow> bool) \<Rightarrow> (lock_id set \<Rightarrow> 's \<Rightarrow> 's \<Rightarrow> bool) \<Rightarrow>
    (lock_id \<Rightarrow> 's \<Rightarrow> bool) \<Rightarrow> ('s, 'a) prog \<Rightarrow> lock_id set \<Rightarrow> (lock_id set \<Rightarrow> 'a \<Rightarrow> 's \<Rightarrow> bool) \<Rightarrow> 's \<Rightarrow> bool" where
  "safe R G I (Done a) = (\<lambda>h Q s. \<forall>s1. R h s s1 \<longrightarrow> Q h a s1)"
| "safe R G I (Atom f) = (\<lambda>h Q s. \<forall>s1. R h s s1 \<longrightarrow> G h s1 (snd (f s1)) \<and>
     fst (map_prod (safe R G I) id (f s1)) h Q (snd (f s1)))"
| "safe R G I (Acquire l p) = (\<lambda>h Q s. l \<notin> h \<and> (\<forall>l'\<in>h. l' < l) \<and>
     (\<forall>s1. R h s s1 \<longrightarrow> I l s1 \<longrightarrow> safe R G I p (insert l h) Q s1))"
| "safe R G I (Release l p) = (\<lambda>h Q s. l \<in> h \<and>
     (\<forall>s1. R h s s1 \<longrightarrow> I l s1 \<and> safe R G I p (h - {l}) Q s1))"

lemma safe_Atom:
  "safe R G I (Atom f) h Q s \<longleftrightarrow>
     (\<forall>s1. R h s s1 \<longrightarrow> (case f s1 of (p, s2) \<Rightarrow> G h s1 s2 \<and> safe R G I p h Q s2))"
  by (simp add: split_beta)

text \<open>The laws: interference is reflexive and transitive, and what one goroutine guarantees with the
  mutexes it holds is what another one relies on with those that it holds.\<close>

locale interference =
  fixes R G :: "'t \<Rightarrow> lock_id set \<Rightarrow> 's \<Rightarrow> 's \<Rightarrow> bool"
  assumes rely_refl: "R t h s s"
    and rely_trans: "R t h s s1 \<Longrightarrow> R t h s1 s2 \<Longrightarrow> R t h s s2"
    and guar_rely: "t \<noteq> t' \<Longrightarrow> h \<inter> h' = {} \<Longrightarrow> G t h s s1 \<Longrightarrow> R t' h' s s1"
begin

lemma safe_stable:
  "safe (R t) (G t) I p h Q s \<Longrightarrow> R t h s s' \<Longrightarrow> safe (R t) (G t) I p h Q s'"
  by (cases p) (simp_all, (blast intro: rely_trans)+)

lemma safe_step:
  "safe (R t) (G t) I (Atom f) h Q s \<Longrightarrow> R t h s s1 \<Longrightarrow> f s1 = (q, s2) \<Longrightarrow>
   G t h s1 s2 \<and> safe (R t) (G t) I q h Q s2"
  unfolding safe_Atom by fastforce

lemma safe_mono:
  "safe (R t) (G t) I p h Q s \<Longrightarrow> (\<And>h a s. \<forall>s1. R t h s s1 \<longrightarrow> Q h a s1 \<Longrightarrow> Q' h a s) \<Longrightarrow>
   safe (R t) (G t) I p h Q' s"
proof (induction p arbitrary: h s rule: prog_induct)
  case (Done a)
  show ?case
    unfolding safe.simps
  proof (intro allI impI)
    fix s1 assume "R t h s s1"
    with Done.prems(1) have "\<forall>s2. R t h s1 s2 \<longrightarrow> Q h a s2" by (auto intro: rely_trans)
    then show "Q' h a s1" by (rule Done.prems(2))
  qed
next
  case (Atom f)
  have "G t h s1 s2 \<and> safe (R t) (G t) I q h Q' s2" if "R t h s s1" "f s1 = (q, s2)" for s1 q s2
    using safe_step [OF Atom.prems(1) that] Atom.IH [OF that(2)] Atom.prems(2) by blast
  then show ?case unfolding safe_Atom by auto
qed auto

lemma safe_bnd:
  "safe (R t) (G t) I p h (\<lambda>h' a s'. safe (R t) (G t) I (k a) h' Q s') s \<Longrightarrow>
   safe (R t) (G t) I (bnd p k) h Q s"
proof (induction p arbitrary: h s rule: prog_induct)
  case (Done a)
  then show ?case by (simp add: rely_refl)
next
  case (Atom f)
  have "G t h s1 s2 \<and> safe (R t) (G t) I (bnd q k) h Q s2" if "R t h s s1" "f s1 = (q, s2)" for s1 q s2
    using safe_step [OF Atom.prems that] Atom.IH [OF that(2)] by blast
  then show ?case unfolding bnd.simps safe_Atom by (auto simp: map_prod_def split: prod.splits)
qed auto

lemma safe_leaves:
  "safe (R t) (G t) I p h Q s \<Longrightarrow> safe (R t) (G t) I p h (\<lambda>h a s. Q h a s \<and> a \<in> leaves p) s"
proof (induction p arbitrary: h s rule: prog_induct)
  case (Atom f)
  have step: "G t h s1 s2 \<and> safe (R t) (G t) I q h (\<lambda>h a s. Q h a s \<and> a \<in> leaves (Atom f)) s2"
    if "R t h s s1" "f s1 = (q, s2)" for s1 q s2
  proof
    note step = safe_step [OF Atom.prems that]
    then show "G t h s1 s2" by simp
    have "leaves (fst (f s1)) \<subseteq> leaves (Atom f)" unfolding leaves_Atom by (rule UN_upper) simp
    with that(2) have "leaves q \<subseteq> leaves (Atom f)" by simp
    with Atom.IH [OF that(2) conjunct2 [OF step]]
    show "safe (R t) (G t) I q h (\<lambda>h a s. Q h a s \<and> a \<in> leaves (Atom f)) s2"
      by (elim safe_mono) (use rely_refl in blast)
  qed
  show ?case
    unfolding safe_Atom
  proof (intro allI impI)
    fix s1 assume "R t h s s1"
    from step [OF this, of "fst (f s1)" "snd (f s1)"]
    show "case f s1 of (q, s2) \<Rightarrow> G t h s1 s2 \<and> safe (R t) (G t) I q h (\<lambda>h a s. Q h a s \<and> a \<in> leaves (Atom f)) s2"
      by (simp add: split_beta del: leaves.simps)
  qed
qed auto

lemma safe_atom:
  assumes "\<And>s1 a s2. R t h s s1 \<Longrightarrow> run_state m s1 = (a, s2) \<Longrightarrow>
      G t h s1 s2 \<and> (\<forall>s3. R t h s2 s3 \<longrightarrow> Q h a s3)"
  shows "safe (R t) (G t) I (atom m) h Q s"
  using assms by (auto simp: atom_def safe_Atom split: prod.splits)

lemma safe_locked:
  assumes "l \<notin> h" and "\<forall>l'\<in>h. l' < l"
    and "\<And>s1. R t h s s1 \<Longrightarrow> I l s1 \<Longrightarrow> safe (R t) (G t) I p (insert l h)
      (\<lambda>h' a s'. h' = insert l h \<and> I l s' \<and> (\<forall>s1. R t h s' s1 \<longrightarrow> Q h a s1)) s1"
  shows "safe (R t) (G t) I (locked l p) h Q s"
  unfolding locked_def safe.simps
proof (intro conjI assms(1,2) allI impI)
  fix s1 assume "R t h s s1" "I l s1"
  from assms(3) [OF this] show "safe (R t) (G t) I (bnd p (\<lambda>a. Release l (Done a))) (insert l h) Q s1"
    using assms(1) by (intro safe_bnd) (erule safe_mono, auto intro: rely_refl)
qed

end

end
