(* ===== verification/Goroutines.thy ===== *)
theory Goroutines
  imports Threads Pod_Controller
begin

text \<open>
  The two reconcilers as goroutines: the code of \<open>antreainstall_controller.go\<close> and
  \<open>pod_controller.go\<close> again, cut at every point where another goroutine can come in. Each call of a
  client, each access to a shared field and each mutex operation is a step of its own. The methods of
  the status manager hold its mutex (\<open>StatusLock\<close>) around one step; \<open>applyConfig\<close> holds the mutex
  of the shared information (\<open>InfoLock\<close>) from before the update until it returns, and
  \<open>recreateResourceIfNotExist\<close> for its whole body, while \<open>isAntreaResource\<close> reads the shared
  information without it. The last lemmas show that without interference this is the code of
  \<open>Controller\<close> and \<open>Pod_Controller\<close>.
\<close>

section \<open>The status manager and the custom resource\<close>

abbreviation call :: "('w, 'a) state \<Rightarrow> ('w reconciler, 'a) prog" where
  "call m \<equiv> atom (on_world m)"

definition SetDegraded_go :: "'w rc_adaptor \<Rightarrow> StatusLevel \<Rightarrow> string \<Rightarrow> string \<Rightarrow> ('w reconciler, unit) prog" where
  "SetDegraded_go A l reason msg = locked StatusLock (atom (setDegraded A l reason msg))"

definition SetNotDegraded_go :: "'w rc_adaptor \<Rightarrow> StatusLevel \<Rightarrow> ('w reconciler, unit) prog" where
  "SetNotDegraded_go A l = locked StatusLock (atom (setNotDegraded A l))"

definition SetFromPods_go :: "('w, 'e) cenv \<Rightarrow> 'w rc_adaptor \<Rightarrow> ('w reconciler, unit) prog" where
  "SetFromPods_go E A = locked StatusLock (atom (SetFromPods E A))"

definition fetchAntreaInstall_go :: "('w, 'e) cenv \<Rightarrow> 'w rc_adaptor \<Rightarrow> nsname \<Rightarrow>
    ('w reconciler, antrea_install option \<times> go_error option \<times> bool \<times> bool) prog" where
  "fetchAntreaInstall_go E A request =
     bnd (call (cr_get_install E antrea_install_key)) (\<lambda>r.
       case r of
         Inl err \<Rightarrow>
           if IsNotFound err then
             bnd (SetDegraded_go A ClusterConfig ''NoAntreaInstallCR'' (OperatorConfigName @ '' CR not found''))
               (\<lambda>_. Done (None, Some err, False, False))
           else
             bnd (SetDegraded_go A OperatorConfig ''InvalidAntreaInstallCR''
                    (''Failed to get operator CR: '' @ err_text err))
               (\<lambda>_. Done (None, Some err, True, False))
       | Inr operConfig \<Rightarrow>
           bnd (atom (gets AppliedOperConfig)) (\<lambda>applied.
             Done (Some operConfig, None, True,
               (case applied of
                  None \<Rightarrow> True
                | Some a \<Rightarrow>
                    if name_of request = install_name operConfig
                    then \<not> (install_spec operConfig = install_spec a) else True))))"

definition getAppliedOperConfig_go ::
    "('w, 'e) cenv \<Rightarrow> ('w reconciler, (go_error + antrea_install option) go) prog" where
  "getAppliedOperConfig_go E =
     bnd (atom (gets AppliedOperConfig)) (\<lambda>applied.
       case applied of
         Some a \<Rightarrow> Done (Ret (Inr (Some a)))
       | None \<Rightarrow>
           bnd (call (cr_list_configmaps E AntreaNamespace (''app'', ''antrea''))) (\<lambda>l.
             case l of
               Inl err \<Rightarrow> if IsNotFound err then Done (Ret (Inr None)) else Done (Ret (Inl err))
             | Inr items \<Rightarrow>
                 (case List.find (\<lambda>c. has_prefix (cm_name c) AntreaConfigMapName) items of
                    None \<Rightarrow> Done (Ret (Inr None))
                  | Some antreaConfig \<Rightarrow>
                      bnd (call (cr_get_deployment E (NSN AntreaNamespace AntreaControllerDeploymentName))) (\<lambda>d.
                        case d of
                          Inl err \<Rightarrow> if IsNotFound err then Done (Ret (Inr None)) else Done (Ret (Inl err))
                        | Inr dep \<Rightarrow>
                            (case dep_images dep of
                               [] \<Rightarrow> Done Panic
                             | img # _ \<Rightarrow>
                                 (let data = (\<lambda>k. case gomap_get (cm_data antreaConfig) k of None \<Rightarrow> '''' | Some v \<Rightarrow> v)
                                  in Done (Ret (Inr (Some
                                    \<lparr>install_name = '''',
                                     install_spec =
                                       \<lparr>AntreaAgentConfig = data AntreaAgentConfigOption,
                                        AntreaCNIConfig = data AntreaCNIConfigOption,
                                        AntreaControllerConfig = data AntreaControllerConfigOption,
                                        AntreaPlatform = '''', AntreaImage = img\<rparr>,
                                     install_conditions = []\<rparr>)))))))))"

section \<open>Applying a configuration\<close>

fun manifest_loop_go :: "('w, 'e) cenv \<Rightarrow> 'w rc_adaptor \<Rightarrow> network option \<Rightarrow> unstructured list \<Rightarrow>
    manifest_scan \<Rightarrow> ('w reconciler, go_error + manifest_scan) prog" where
  "manifest_loop_go E A clusterConfig [] sc = Done (Inr sc)"
| "manifest_loop_go E A clusterConfig (obj # rest) sc =
     bnd (call (rest_mapping E (un_group obj) (un_kind obj))) (\<lambda>m.
       case m of
         Inl err \<Rightarrow> manifest_loop_go E A clusterConfig rest (note_object obj obj sc)
       | Inr resource \<Rightarrow>
           (case clusterConfig of
              None \<Rightarrow> manifest_loop_go E A clusterConfig rest (note_related obj resource (note_object obj obj sc))
            | Some c \<Rightarrow>
                (case set_controller_ref E c obj of
                   Inl err \<Rightarrow>
                     bnd (SetDegraded_go A OperatorConfig ''ApplyObjectsError''
                            (''Failed to set owner reference: '' @ err_text err))
                       (\<lambda>_. Done (Inl err))
                 | Inr obj' \<Rightarrow>
                     manifest_loop_go E A clusterConfig rest (note_related obj resource (note_object obj obj' sc)))))"

text \<open>The two workloads of the shared information are written one after the other.\<close>

definition updateStatusManagerAndSharedInfo_go :: "('w, 'e) cenv \<Rightarrow> 'w rc_adaptor \<Rightarrow> unstructured list \<Rightarrow>
    network option \<Rightarrow> ('w reconciler, go_error + unstructured list) prog" where
  "updateStatusManagerAndSharedInfo_go E A objs clusterConfig =
     bnd (manifest_loop_go E A clusterConfig objs empty_scan) (\<lambda>r.
       case r of
         Inl err \<Rightarrow> Done (Inl err)
       | Inr sc \<Rightarrow>
           if sc_daemonSet sc = None \<or> sc_deployment sc = None then
             bnd (SetDegraded_go A OperatorConfig ''ApplyObjectsError'' (err_text (missing_resources sc)))
               (\<lambda>_. Done (Inl (missing_resources sc)))
           else
             bnd (locked StatusLock (atom (SetDaemonSets (sc_daemonSets sc)))) (\<lambda>_.
             bnd (locked StatusLock (atom (SetDeployments (sc_deployments sc)))) (\<lambda>_.
             bnd (locked StatusLock (atom (SetRelatedObjects (sc_related sc)))) (\<lambda>_.
             bnd (atom (modify (\<lambda>s. s\<lparr>SharedInfo := (SharedInfo s)\<lparr>AntreaAgentDaemonSetSpec := sc_daemonSet sc\<rparr>\<rparr>))) (\<lambda>_.
             bnd (atom (modify (\<lambda>s. s\<lparr>SharedInfo := (SharedInfo s)\<lparr>AntreaControllerDeploymentSpec := sc_deployment sc\<rparr>\<rparr>))) (\<lambda>_.
               Done (Inr (sc_objs sc))))))))"

fun apply_loop_go :: "('w, 'e) cenv \<Rightarrow> 'w rc_adaptor \<Rightarrow> unstructured list \<Rightarrow>
    ('w reconciler, go_error option) prog" where
  "apply_loop_go E A [] = Done None"
| "apply_loop_go E A (obj # rest) =
     bnd (call (apply_object E obj)) (\<lambda>e.
       case e of
         Some err \<Rightarrow>
           bnd (SetDegraded_go A OperatorConfig ''ApplyObjectsError''
                  (''Failed to apply operator configurations: '' @ err_text err))
             (\<lambda>_. Done (Some err))
       | None \<Rightarrow> apply_loop_go E A rest)"

definition restart_pods_go :: "('w, 'e) cenv \<Rightarrow> 'w rc_adaptor \<Rightarrow> string \<Rightarrow> string \<Rightarrow> bool \<Rightarrow> bool \<Rightarrow>
    ('w reconciler, go_error option) prog" where
  "restart_pods_go E A kind component needChange imageChange =
     bnd (atom (gets AppliedOperConfig)) (\<lambda>applied.
       if applied \<noteq> None \<and> needChange \<and> \<not> imageChange then
         bnd (atom (deleteExistingPods E component)) (\<lambda>e.
           case e of
             None \<Rightarrow> Done None
           | Some err \<Rightarrow>
               bnd (SetDegraded_go A OperatorConfig ''DeleteOldPodsError''
                      (kind @ '' '' @ component @
                       '' is not using the latest configuration updates because: '' @ err_text err))
                 (\<lambda>_. Done (Some err)))
       else Done None)"

text \<open>The part of \<open>applyConfig\<close> under the mutex of the shared information.\<close>

definition apply_rendered_go :: "('w, 'e) cenv \<Rightarrow> 'w rc_adaptor \<Rightarrow> network option \<Rightarrow> unstructured list \<Rightarrow>
    bool \<Rightarrow> bool \<Rightarrow> bool \<Rightarrow> ('w reconciler, result \<times> go_error option) prog" where
  "apply_rendered_go E A clusterConfig objs agentNeedChange controllerNeedChange imageChange =
     bnd (updateStatusManagerAndSharedInfo_go E A objs clusterConfig) (\<lambda>u.
       case u of
         Inl err \<Rightarrow> Done (requeue, Some err)
       | Inr objs' \<Rightarrow>
           bnd (apply_loop_go E A objs') (\<lambda>e.
             case e of
               Some err \<Rightarrow> Done (requeue, Some err)
             | None \<Rightarrow>
                 bnd (restart_pods_go E A ''DaemonSet'' AntreaAgentDaemonSetName agentNeedChange imageChange) (\<lambda>e1.
                   case e1 of
                     Some err \<Rightarrow> Done (requeue, Some err)
                   | None \<Rightarrow>
                       bnd (restart_pods_go E A ''Deployment'' AntreaControllerDeploymentName
                              controllerNeedChange imageChange) (\<lambda>e2.
                         case e2 of
                           Some err \<Rightarrow> Done (requeue, Some err)
                         | None \<Rightarrow> Done (no_requeue, None)))))"

definition apply_changes_go :: "('w, 'e) cenv \<Rightarrow> 'w rc_adaptor \<Rightarrow> network option \<Rightarrow> render_data \<Rightarrow>
    bool \<Rightarrow> bool \<Rightarrow> bool \<Rightarrow> ('w reconciler, result \<times> go_error option) prog" where
  "apply_changes_go E A clusterConfig renderData agentNeedChange controllerNeedChange imageChange =
     bnd (call (render_dir E DefaultManifestDir renderData)) (\<lambda>r.
       case r of
         Inl err \<Rightarrow>
           bnd (SetDegraded_go A OperatorConfig ''RenderConfigError''
                  (''Failed to render operator configurations: '' @ err_text err))
             (\<lambda>_. Done (requeue, Some err))
       | Inr objs \<Rightarrow>
           locked InfoLock
             (apply_rendered_go E A clusterConfig objs agentNeedChange controllerNeedChange imageChange))"

definition applyConfig_go :: "('w, 'e) cenv \<Rightarrow> config_impl \<Rightarrow> 'w rc_adaptor \<Rightarrow> network option \<Rightarrow>
    antrea_install \<Rightarrow> op_network option \<Rightarrow> ('w reconciler, antrea_install \<times> outcome) prog" where
  "applyConfig_go E config A clusterConfig operConfig0 operatorNetwork =
     (case FillConfigs config clusterConfig operConfig0 of
        (operConfig, g) \<Rightarrow>
          (case g of
             Panic \<Rightarrow> Done (operConfig, Panic)
           | Ret fillErr \<Rightarrow>
               (case fillErr of
                  Some err \<Rightarrow>
                    bnd (SetDegraded_go A OperatorConfig ''FillConfigurationsError''
                           (''Failed to fill configurations: '' @ err_text err))
                      (\<lambda>_. Done (operConfig, Ret (requeue, Some err)))
                | None \<Rightarrow>
                    (case ValidateConfig config clusterConfig operConfig of
                       Some err \<Rightarrow>
                         bnd (SetDegraded_go A OperatorConfig ''InvalidOperatorConfig''
                                (''The operator configuration is invalid: '' @ err_text err))
                           (\<lambda>_. Done (operConfig, Ret (requeue, Some err)))
                     | None \<Rightarrow>
                         (case GenerateRenderData config operatorNetwork operConfig of
                            Inl err \<Rightarrow>
                              bnd (SetDegraded_go A OperatorConfig ''RenderConfigError''
                                     (''Failed to render operator configurations: '' @ err_text err))
                                (\<lambda>_. Done (operConfig, Ret (requeue, Some err)))
                          | Inr renderData \<Rightarrow>
                              bnd (getAppliedOperConfig_go E) (\<lambda>a.
                                case a of
                                  Panic \<Rightarrow> Done (operConfig, Panic)
                                | Ret res \<Rightarrow>
                                    (case res of
                                       Inl err \<Rightarrow>
                                         bnd (SetDegraded_go A OperatorConfig ''InternalError''
                                                (''Failed to get current configurations: '' @ err_text err))
                                           (\<lambda>_. Done (operConfig, Ret (no_requeue, Some err)))
                                     | Inr appliedConfig \<Rightarrow>
                                         (case NeedApplyChange appliedConfig operConfig of
                                            (agentNeedChange, controllerNeedChange, imageChange) \<Rightarrow>
                                              if \<not> agentNeedChange \<and> \<not> controllerNeedChange
                                              then Done (operConfig, Ret (no_requeue, None))
                                              else bnd (apply_changes_go E A clusterConfig renderData
                                                     agentNeedChange controllerNeedChange imageChange)
                                                   (\<lambda>res. Done (operConfig, Ret res))))))))))"

section \<open>The reconcilers\<close>

definition clear_levels_go :: "'w rc_adaptor \<Rightarrow> ('w reconciler, unit) prog" where
  "clear_levels_go A =
     bnd (SetNotDegraded_go A ClusterConfig) (\<lambda>_. SetNotDegraded_go A OperatorConfig)"

definition finish_k8s_go :: "'w rc_adaptor \<Rightarrow> antrea_install \<Rightarrow> ('w reconciler, outcome) prog" where
  "finish_k8s_go A operConfig =
     bnd (clear_levels_go A) (\<lambda>_.
     bnd (atom (modify (\<lambda>s. s\<lparr>AppliedOperConfig := Some operConfig\<rparr>))) (\<lambda>_.
       Done (Ret (no_requeue, None))))"

definition finish_oc_go :: "('w, 'e) cenv \<Rightarrow> cfg_lib \<Rightarrow> 'w rc_adaptor \<Rightarrow> network \<Rightarrow> antrea_install \<Rightarrow>
    ('w reconciler, outcome) prog" where
  "finish_oc_go E L A clusterConfig operConfig =
     bnd (atom (gets AppliedClusterConfig)) (\<lambda>appliedCluster.
     bnd (atom (gets AppliedOperConfig)) (\<lambda>appliedOper.
       case HasDefaultMTUChange L appliedOper operConfig of
         Panic \<Rightarrow> Done Panic
       | Ret mtu \<Rightarrow>
           (case mtu of (defaultMTUChanged, curDefaultMTU, mtuErr) \<Rightarrow>
              (case mtuErr of
                 Some err \<Rightarrow>
                   bnd (SetDegraded_go A OperatorConfig ''UpdateNetworkStatusError''
                          (''failed to check default MTU configuration: '' @ err_text err))
                     (\<lambda>_. Done (Ret (requeue, Some err)))
               | None \<Rightarrow>
                   bnd (if HasClusterNetworkConfigChange appliedCluster clusterConfig \<or> defaultMTUChanged
                        then atom (updateNetworkStatus E clusterConfig curDefaultMTU)
                        else Done (clusterConfig, None)) (\<lambda>ce.
                     case ce of (clusterConfig', e) \<Rightarrow>
                       (case e of
                          Some err \<Rightarrow>
                            bnd (SetDegraded_go A ClusterConfig ''UpdateNetworkStatusError''
                                   (''Failed to update network status: '' @ err_text err))
                              (\<lambda>_. Done (Ret (requeue, Some err)))
                        | None \<Rightarrow>
                            bnd (clear_levels_go A) (\<lambda>_.
                            bnd (atom (modify (\<lambda>s. s\<lparr>AppliedClusterConfig := Some clusterConfig'\<rparr>))) (\<lambda>_.
                            bnd (atom (modify (\<lambda>s. s\<lparr>AppliedOperConfig := Some operConfig\<rparr>))) (\<lambda>_.
                              Done (Ret (no_requeue, None)))))))))))"

text \<open>What both adaptors do with the four results of \<open>fetchAntreaInstall\<close> and with the outcome of
  \<open>applyConfig\<close>.\<close>

definition install_go :: "('w, 'e) cenv \<Rightarrow> config_impl \<Rightarrow> 'w rc_adaptor \<Rightarrow> nsname \<Rightarrow> network option \<Rightarrow>
    op_network option \<Rightarrow> (antrea_install \<Rightarrow> ('w reconciler, outcome) prog) \<Rightarrow> ('w reconciler, outcome) prog" where
  "install_go E config A request clusterConfig operatorNetwork finish =
     bnd (fetchAntreaInstall_go E A request) (\<lambda>f.
       case f of (oper, err, found, change) \<Rightarrow>
         if err \<noteq> None \<and> \<not> found then Done (Ret (no_requeue, None))
         else if err \<noteq> None then Done (Ret (requeue, err))
         else if \<not> change then Done (Ret (no_requeue, None))
         else (case oper of
           None \<Rightarrow> Done Panic
         | Some operConfig0 \<Rightarrow>
             bnd (applyConfig_go E config A clusterConfig operConfig0 operatorNetwork) (\<lambda>ar.
               case ar of (operConfig, r) \<Rightarrow>
                 (case r of
                    Panic \<Rightarrow> Done Panic
                  | Ret re \<Rightarrow>
                      (case re of (result, e) \<Rightarrow>
                         (case e of
                            Some err \<Rightarrow> Done (Ret (result, Some err))
                          | None \<Rightarrow> finish operConfig))))))"

definition Reconcile_k8s_go :: "('w, 'e) cenv \<Rightarrow> cfg_lib \<Rightarrow> 'w rc_adaptor \<Rightarrow> nsname \<Rightarrow>
    ('w reconciler, outcome) prog" where
  "Reconcile_k8s_go E L A request =
     (if \<not> isOperatorRequest request then Done (Ret (no_requeue, None))
      else install_go E (ConfigK8s L) A request None None (finish_k8s_go A))"

definition Reconcile_oc_go :: "('w, 'e) cenv \<Rightarrow> cfg_lib \<Rightarrow> 'w rc_adaptor \<Rightarrow> nsname \<Rightarrow>
    ('w reconciler, outcome) prog" where
  "Reconcile_oc_go E L A request =
     (if \<not> isOperatorRequest request then Done (Ret (no_requeue, None))
      else bnd (call (cr_get_network E ClusterConfigName)) (\<lambda>n.
        case n of
          Inl err \<Rightarrow>
            if IsNotFound err then
              bnd (SetDegraded_go A ClusterConfig ''NoClusterConfig'' ''Cluster Network CR not found'')
                (\<lambda>_. Done (Ret (no_requeue, None)))
            else
              bnd (SetDegraded_go A ClusterConfig ''InvalidClusterConfig''
                     (''Failed to get cluster network CRD: '' @ err_text err))
                (\<lambda>_. Done (Ret (requeue, Some err)))
        | Inr clusterConfig \<Rightarrow>
            bnd (atom (gets AppliedClusterConfig)) (\<lambda>appliedCluster.
              if (case appliedCluster of None \<Rightarrow> False
                  | Some a \<Rightarrow> name_of request = network_name clusterConfig \<and>
                              network_spec clusterConfig = network_spec a)
              then Done (Ret (no_requeue, None))
              else bnd (call (cr_get_opnetwork E ClusterOperatorNetworkName)) (\<lambda>o'.
                case o' of
                  Inl err \<Rightarrow>
                    if IsNotFound err then
                      bnd (SetDegraded_go A OperatorConfig ''NoClusterNetworkOperatorConfig''
                             ''Cluster network operator configuration not found'')
                        (\<lambda>_. Done (Ret (no_requeue, None)))
                    else Done (Ret (requeue, Some err))
                | Inr operatorNetwork \<Rightarrow>
                    install_go E (ConfigOc L) A request (Some clusterConfig) (Some operatorNetwork)
                      (finish_oc_go E L A clusterConfig)))))"

definition Reconcile_go :: "('w, 'e) cenv \<Rightarrow> cfg_lib \<Rightarrow> 'w rc_adaptor \<Rightarrow> platform \<Rightarrow> nsname \<Rightarrow>
    ('w reconciler, outcome) prog" where
  "Reconcile_go E L A p request =
     (case p of OpenShift \<Rightarrow> Reconcile_oc_go E L A request | Kubernetes \<Rightarrow> Reconcile_k8s_go E L A request)"

section \<open>The pod reconciler\<close>

text \<open>
  One of the two tests of \<open>isAntreaResource\<close>: the pointer is read for the comparison with nil, for the
  name and for the namespace, without the mutex; a nil pointer there is a panic.
\<close>

definition same_namespace_go :: "(shared_info \<Rightarrow> unstructured option) \<Rightarrow> nsname \<Rightarrow> ('w reconciler, bool go) prog" where
  "same_namespace_go spec request =
     bnd (atom (gets (\<lambda>s. spec (SharedInfo s)))) (\<lambda>p.
       case p of None \<Rightarrow> Done Panic | Some obj \<Rightarrow> Done (Ret (ns_of request = un_namespace obj)))"

definition same_name_go :: "(shared_info \<Rightarrow> unstructured option) \<Rightarrow> nsname \<Rightarrow> ('w reconciler, bool go) prog" where
  "same_name_go spec request =
     bnd (atom (gets (\<lambda>s. spec (SharedInfo s)))) (\<lambda>p.
       case p of
         None \<Rightarrow> Done Panic
       | Some obj \<Rightarrow>
           if name_of request \<noteq> un_name obj then Done (Ret False) else same_namespace_go spec request)"

definition matches_go :: "(shared_info \<Rightarrow> unstructured option) \<Rightarrow> nsname \<Rightarrow> ('w reconciler, bool go) prog" where
  "matches_go spec request =
     bnd (atom (gets (\<lambda>s. spec (SharedInfo s)))) (\<lambda>p.
       if p = None then Done (Ret False) else same_name_go spec request)"

definition isAntreaResource_go :: "nsname \<Rightarrow> ('w reconciler, bool go) prog" where
  "isAntreaResource_go request =
     bnd (matches_go AntreaAgentDaemonSetSpec request) (\<lambda>a.
       case a of
         Panic \<Rightarrow> Done Panic
       | Ret b \<Rightarrow> if b then Done (Ret True) else matches_go AntreaControllerDeploymentSpec request)"

text \<open>The read that decides on recreation, and what follows a read with the error \<open>e\<close>.\<close>

definition read_workload_go :: "('w, 'e) cenv \<Rightarrow> bool \<Rightarrow> nsname \<Rightarrow> ('w reconciler, go_error option) prog" where
  "read_workload_go E isDaemonSet request =
     (if isDaemonSet
      then bnd (call (cr_get_daemonset E request)) (\<lambda>r. Done (case r of Inl e \<Rightarrow> Some e | Inr _ \<Rightarrow> None))
      else bnd (call (cr_get_deployment E request)) (\<lambda>r. Done (case r of Inl e \<Rightarrow> Some e | Inr _ \<Rightarrow> None)))"

definition apply_missing_go :: "('w, 'e) cenv \<Rightarrow> 'w rc_adaptor \<Rightarrow> unstructured option \<Rightarrow> go_error \<Rightarrow>
    ('w reconciler, go_error option go) prog" where
  "apply_missing_go E A objectSpec e =
     (if IsNotFound e then
        (case objectSpec of
           None \<Rightarrow> Done Panic
         | Some obj \<Rightarrow>
             bnd (call (apply_object E obj)) (\<lambda>a.
               case a of
                 None \<Rightarrow> Done (Ret None)
               | Some e' \<Rightarrow>
                   bnd (SetDegraded_go A OperatorConfig ''ApplyOperatorConfig''
                          (''Failed to apply operator configuration: '' @ err_text e'))
                     (\<lambda>_. Done (Ret (Some e')))))
      else
        bnd (SetDegraded_go A OperatorConfig ''ApplyObjectsError''
               (''Failed to apply objects: '' @ err_text e))
          (\<lambda>_. Done (Ret (Some e))))"

definition recreateResourceIfNotExist_go :: "('w, 'e) cenv \<Rightarrow> 'w rc_adaptor \<Rightarrow> nsname \<Rightarrow>
    ('w reconciler, go_error option go) prog" where
  "recreateResourceIfNotExist_go E A request =
     locked InfoLock (
       bnd (atom (gets SharedInfo)) (\<lambda>info.
         case AntreaAgentDaemonSetSpec info of
           None \<Rightarrow> Done Panic
         | Some ds \<Rightarrow>
             bnd (read_workload_go E (matches request ds) request) (\<lambda>err.
               case err of
                 None \<Rightarrow> Done (Ret None)
               | Some e \<Rightarrow>
                   apply_missing_go E A
                     (if matches request ds then Some ds else AntreaControllerDeploymentSpec info) e)))"

definition pod_Reconcile_go :: "('w, 'e) cenv \<Rightarrow> 'w rc_adaptor \<Rightarrow> nsname \<Rightarrow> ('w reconciler, outcome) prog" where
  "pod_Reconcile_go E A request =
     bnd (isAntreaResource_go request) (\<lambda>b.
       case b of
         Panic \<Rightarrow> Done Panic
       | Ret known \<Rightarrow>
           if \<not> known then Done (Ret (no_requeue, None))
           else bnd (SetFromPods_go E A) (\<lambda>_.
             bnd (recreateResourceIfNotExist_go E A request) (\<lambda>r.
               case r of
                 Panic \<Rightarrow> Done Panic
               | Ret e \<Rightarrow>
                   (case e of
                      Some err \<Rightarrow> Done (Ret (requeue, Some err))
                    | None \<Rightarrow> Done (Ret (\<lparr>Requeue = False, RequeueAfter = ResyncPeriod\<rparr>, None))))))"

section \<open>Without interference\<close>

lemmas case_congs = option.case_cong sum.case_cong list.case_cong if_cong prod.case_cong go.case_cong

lemma go_status [as_state_simps]:
  "as_state (SetDegraded_go A l r m) = SetDegraded A l r m"
  "as_state (SetNotDegraded_go A l) = SetNotDegraded A l"
  "as_state (SetFromPods_go E A) = SetFromPods E A"
  "as_state (clear_levels_go A) = clear_levels A"
  by (simp_all add: SetDegraded_go_def SetNotDegraded_go_def SetFromPods_go_def clear_levels_go_def
      as_state_simps SetDegraded_def SetNotDegraded_def clear_levels_def)

lemma go_fetch [as_state_simps]: "as_state (fetchAntreaInstall_go E A request) = fetchAntreaInstall E A request"
  by (simp add: fetchAntreaInstall_go_def fetchAntreaInstall_def as_state_simps cong: case_congs)

lemma go_applied [as_state_simps]: "as_state (getAppliedOperConfig_go E) = getAppliedOperConfig E"
  by (simp add: getAppliedOperConfig_go_def getAppliedOperConfig_def as_state_simps Let_def cong: case_congs)

lemma go_manifest [as_state_simps]:
  "as_state (manifest_loop_go E A cc objs sc) = manifest_loop E A cc objs sc"
  by (cases cc; induction objs arbitrary: sc) (simp_all add: as_state_simps cong: case_congs)

lemma go_update [as_state_simps]:
  "as_state (updateStatusManagerAndSharedInfo_go E A objs cc) = updateStatusManagerAndSharedInfo E A objs cc"
  by (rule state.expand)
    (auto simp: updateStatusManagerAndSharedInfo_go_def updateStatusManagerAndSharedInfo_def as_state_simps Let_def
      fun_eq_iff SetDaemonSets_def SetDeployments_def SetRelatedObjects_def split: prod.splits sum.splits cong: case_congs)

lemma go_apply_loop [as_state_simps]: "as_state (apply_loop_go E A objs) = apply_loop E A objs"
  by (induction objs) (simp_all add: as_state_simps cong: case_congs)

lemma go_restart [as_state_simps]: "as_state (restart_pods_go E A k c n i) = restart_pods E A k c n i"
  by (simp add: restart_pods_go_def restart_pods_def as_state_simps cong: case_congs)

lemma go_apply_changes [as_state_simps]:
  "as_state (apply_changes_go E A cc rd a c i) = apply_changes E A cc rd a c i"
  by (simp add: apply_changes_go_def apply_rendered_go_def apply_changes_def as_state_simps cong: case_congs)

lemma go_applyConfig [as_state_simps]:
  "as_state (applyConfig_go E config A cc oc net) = applyConfig E config A cc oc net"
  by (simp add: applyConfig_go_def applyConfig_def as_state_simps cong: case_congs)

lemma go_finish_k8s [as_state_simps]: "as_state (finish_k8s_go A oc) = finish_k8s A oc"
  by (simp add: finish_k8s_go_def finish_k8s_def as_state_simps)

lemma go_finish_oc [as_state_simps]: "as_state (finish_oc_go E L A c oc) = finish_oc E L A c oc"
  by (rule state.expand)
    (auto simp: finish_oc_go_def finish_oc_def as_state_simps Let_def fun_eq_iff
      split: prod.splits option.splits go.splits)

lemma go_Reconcile [as_state_simps]: "as_state (Reconcile_go E L A p request) = Reconcile E L A p request"
proof (cases p)
  case OpenShift
  then show ?thesis
    by (simp add: Reconcile_go_def Reconcile_def Reconcile_oc_go_def Reconcile_oc_def install_go_def install_oc_def
        as_state_simps cong: case_congs)
next
  case Kubernetes
  then show ?thesis
    by (simp add: Reconcile_go_def Reconcile_def Reconcile_k8s_go_def Reconcile_k8s_def install_go_def
        as_state_simps cong: case_congs)
qed

lemma run_matches_go:
  "run_state (as_state (matches_go spec request)) s =
     (Ret (case spec (SharedInfo s) of None \<Rightarrow> False | Some o' \<Rightarrow> matches request o'), s)"
  by (auto simp: matches_go_def same_name_go_def same_namespace_go_def as_state_simps matches_def split: option.splits)

lemma go_isAntreaResource:
  "as_state (isAntreaResource_go request) = do { info \<leftarrow> gets SharedInfo; ret (Ret (isAntreaResource info request)) }"
  by (rule state.expand)
    (auto simp: isAntreaResource_go_def as_state_simps fun_eq_iff run_matches_go isAntreaResource_def split: option.splits)

lemma go_recreate [as_state_simps]:
  "as_state (recreateResourceIfNotExist_go E A request) = recreateResourceIfNotExist E A request"
  by (simp add: recreateResourceIfNotExist_go_def read_workload_go_def apply_missing_go_def recreateResourceIfNotExist_def as_state_simps Let_def cong: case_congs)

lemma go_pod_Reconcile: "as_state (pod_Reconcile_go E A request) = pod_Reconcile E A request"
  by (rule state.expand)
    (auto simp: pod_Reconcile_go_def pod_Reconcile_def as_state_simps go_isAntreaResource fun_eq_iff
      split: prod.splits option.splits go.splits)

end
