(* ===== verification/Machine.thy ===== *)
theory Machine
  imports Threads
begin

text \<open>
  The machine that runs goroutines: a shared state, the owner of each mutex, and for each worker the
  rest of the request it works on. A worker whose next step is a mutex that somebody owns waits; a
  worker that has panicked never steps again. The invariant of a machine whose programs are safe is
  proved once, in the locale \<open>protected\<close>, together with what it gives: no cycle of workers that wait
  for each other, and an end to every request.
\<close>

section \<open>Steps\<close>

record ('s, 't, 'a) conf =
  shared :: 's
  owner :: "lock_id \<Rightarrow> 't option"
  work :: "'t \<Rightarrow> ('s, 'a go) prog option"

inductive thread_step :: "'t \<Rightarrow> ('s, 't, 'a) conf \<Rightarrow> ('s, 't, 'a) conf \<Rightarrow> bool" for t c where
  run: "work c t = Some (Atom f) \<Longrightarrow> f (shared c) = (q, s') \<Longrightarrow>
    thread_step t c (c\<lparr>shared := s', work := (work c)(t := Some q)\<rparr>)"
| acquire: "work c t = Some (Acquire l q) \<Longrightarrow> owner c l = None \<Longrightarrow>
    thread_step t c (c\<lparr>owner := (owner c)(l := Some t), work := (work c)(t := Some q)\<rparr>)"
| release: "work c t = Some (Release l q) \<Longrightarrow> owner c l = Some t \<Longrightarrow>
    thread_step t c (c\<lparr>owner := (owner c)(l := None), work := (work c)(t := Some q)\<rparr>)"
| finish: "work c t = Some (Done (Ret r)) \<Longrightarrow> thread_step t c (c\<lparr>work := (work c)(t := None)\<rparr>)"

inductive_cases thread_stepE: "thread_step t c c'"

definition held :: "('s, 't, 'a) conf \<Rightarrow> 't \<Rightarrow> lock_id set" where
  "held c t = {l. owner c l = Some t}"

definition panicked :: "('s, 't, 'a) conf \<Rightarrow> 't \<Rightarrow> bool" where
  "panicked c t \<longleftrightarrow> work c t = Some (Done Panic)"

lemma held_simps [simp]:
  "held (c\<lparr>shared := s\<rparr>) t = held c t" "held (c\<lparr>work := w\<rparr>) t = held c t"
  "held (c\<lparr>owner := (owner c)(l := Some t)\<rparr>) t = insert l (held c t)"
  "t' \<noteq> t \<Longrightarrow> owner c l = None \<Longrightarrow> held (c\<lparr>owner := (owner c)(l := Some t)\<rparr>) t' = held c t'"
  "held (c\<lparr>owner := (owner c)(l := None)\<rparr>) t = held c t - {l}"
  by (auto simp: held_def)

lemma held_release: "t' \<noteq> t \<Longrightarrow> owner c l = Some t \<Longrightarrow> held (c\<lparr>owner := (owner c)(l := None)\<rparr>) t' = held c t'"
  by (auto simp: held_def)

lemma held_disjoint: "t \<noteq> t' \<Longrightarrow> held c t \<inter> held c t' = {}"
  by (auto simp: held_def)

section \<open>Every request ends\<close>

definition shorter :: "('s, 'a go) prog option \<Rightarrow> ('s, 'a go) prog option \<Rightarrow> bool" where
  "shorter x' x \<longleftrightarrow> (case x of
     None \<Rightarrow> False
   | Some (Done r) \<Rightarrow> x' = None
   | Some (Atom f) \<Rightarrow> (\<exists>s q s'. f s = (q, s') \<and> x' = Some q)
   | Some (Acquire l q) \<Rightarrow> x' = Some q
   | Some (Release l q) \<Rightarrow> x' = Some q)"

lemma shorter_cases:
  "\<not> shorter x None" "shorter x (Some (Done r)) \<longleftrightarrow> x = None"
  "shorter x (Some (Atom f)) \<longleftrightarrow> (\<exists>s q s'. f s = (q, s') \<and> x = Some q)"
  "shorter x (Some (Acquire l q)) \<longleftrightarrow> x = Some q" "shorter x (Some (Release l q)) \<longleftrightarrow> x = Some q"
  by (simp_all add: shorter_def)

lemma wfp_shorter: "wfp shorter"
proof (rule accp_wfpI, rule allI)
  have none: "Wellfounded.accp shorter (None :: ('a, 'b go) prog option)"
    by (rule accpI) (simp add: shorter_cases)
  have "Wellfounded.accp shorter (Some q)" for q :: "('a, 'b go) prog"
  proof (induction q rule: prog_induct)
    case (Atom f)
    show ?case by (rule accpI) (auto simp: shorter_cases intro: Atom.IH)
  qed (rule accpI, simp add: shorter_cases none)+
  with none show "Wellfounded.accp shorter x" for x :: "('a, 'b go) prog option" by (cases x) simp_all
qed

lemma thread_step_shorter:
  "thread_step t c c' \<Longrightarrow> shorter (work c' t) (work c t) \<and> (\<forall>t'. t' \<noteq> t \<longrightarrow> work c' t' = work c t')"
  by (erule thread_step.cases) (auto simp: shorter_def)

section \<open>Machines of safe programs\<close>

text \<open>The last law: only who holds a mutex can break what it protects.\<close>

locale protected = interference R G
  for R G :: "'t \<Rightarrow> lock_id set \<Rightarrow> 's \<Rightarrow> 's \<Rightarrow> bool" +
  fixes I :: "lock_id \<Rightarrow> 's \<Rightarrow> bool"
  assumes guar_inv: "G t h s s' \<Longrightarrow> l \<notin> h \<Longrightarrow> I l s \<Longrightarrow> I l s'"
begin

definition conf_ok :: "('t \<Rightarrow> 'a go \<Rightarrow> bool) \<Rightarrow> ('t \<Rightarrow> 's \<Rightarrow> bool) \<Rightarrow> ('s, 't, 'a) conf \<Rightarrow> bool" where
  "conf_ok P J c \<longleftrightarrow>
     (\<forall>l. owner c l = None \<longrightarrow> I l (shared c)) \<and>
     (\<forall>t. work c t = None \<longrightarrow> held c t = {} \<and> J t (shared c)) \<and>
     (\<forall>t q. work c t = Some q \<longrightarrow> safe (R t) (G t) I q (held c t) (\<lambda>h a s. h = {} \<and> P t a \<and> J t s) (shared c))"

text \<open>\<open>P\<close> is expected of the results of a worker, and \<open>J\<close> of the state while it has no request;
  it may rely on the others then to keep it.\<close>

definition idle_stable :: "('t \<Rightarrow> 's \<Rightarrow> bool) \<Rightarrow> bool" where
  "idle_stable J \<longleftrightarrow> (\<forall>t s s'. J t s \<longrightarrow> R t {} s s' \<longrightarrow> J t s')"

lemma conf_okD:
  assumes "conf_ok P J c"
  shows "owner c l = None \<Longrightarrow> I l (shared c)" and "work c t = None \<Longrightarrow> held c t = {} \<and> J t (shared c)"
    and "work c t = Some q \<Longrightarrow> safe (R t) (G t) I q (held c t) (\<lambda>h a s. h = {} \<and> P t a \<and> J t s) (shared c)"
  using assms by (simp_all add: conf_ok_def)

lemma conf_okI:
  assumes "\<And>l. owner c l = None \<Longrightarrow> I l (shared c)" and "\<And>t. work c t = None \<Longrightarrow> held c t = {} \<and> J t (shared c)"
    and "\<And>t q. work c t = Some q \<Longrightarrow> safe (R t) (G t) I q (held c t) (\<lambda>h a s. h = {} \<and> P t a \<and> J t s) (shared c)"
  shows "conf_ok P J c"
  using assms by (simp add: conf_ok_def)

lemma run_ok:
  assumes stable: "idle_stable J" and ok: "conf_ok P J c" and q: "work c t = Some (Atom f)" "f (shared c) = (q, s')"
  shows "G t (held c t) (shared c) s' \<and> conf_ok P J (c\<lparr>shared := s', work := (work c)(t := Some q)\<rparr>)"
proof -
  from safe_step [OF conf_okD(3) [OF ok q(1)] rely_refl q(2)]
  have g: "G t (held c t) (shared c) s'"
    and s: "safe (R t) (G t) I q (held c t) (\<lambda>h a s. h = {} \<and> P t a \<and> J t s) s'" by simp_all
  have other: "R t' (held c t') (shared c) s'" if "t' \<noteq> t" for t'
    by (rule guar_rely [OF _ held_disjoint g]) (use that in auto)
  have "conf_ok P J (c\<lparr>shared := s', work := (work c)(t := Some q)\<rparr>)"
  proof (rule conf_okI)
    fix l assume "owner (c\<lparr>shared := s', work := (work c)(t := Some q)\<rparr>) l = None"
    then have "owner c l = None" by simp
    with guar_inv [OF g] conf_okD(1) [OF ok] show "I l (shared (c\<lparr>shared := s', work := (work c)(t := Some q)\<rparr>))"
      by (simp add: held_def)
  next
    fix t' assume "work (c\<lparr>shared := s', work := (work c)(t := Some q)\<rparr>) t' = None"
    then have idle: "t' \<noteq> t" "held c t' = {}" "J t' (shared c)"
      using conf_okD(2) [OF ok, of t'] by (simp_all split: if_splits)
    with other [of t'] stable show "held (c\<lparr>shared := s', work := (work c)(t := Some q)\<rparr>) t' = {} \<and>
        J t' (shared (c\<lparr>shared := s', work := (work c)(t := Some q)\<rparr>))"
      by (simp add: idle_stable_def)
  next
    fix t' q' assume "work (c\<lparr>shared := s', work := (work c)(t := Some q)\<rparr>) t' = Some q'"
    then show "safe (R t') (G t') I q' (held (c\<lparr>shared := s', work := (work c)(t := Some q)\<rparr>) t')
        (\<lambda>h a s. h = {} \<and> P t' a \<and> J t' s) (shared (c\<lparr>shared := s', work := (work c)(t := Some q)\<rparr>))"
      using s safe_stable [OF conf_okD(3) [OF ok] other, of t'] by (simp split: if_splits)
  qed
  with g show ?thesis by simp
qed

text \<open>A step of a worker that changes the mutexes only.\<close>

lemma lock_ok:
  assumes ok: "conf_ok P J c" and c': "shared c' = shared c" "work c' = (work c)(t := x)"
    and others: "\<And>t'. t' \<noteq> t \<Longrightarrow> held c' t' = held c t'"
    and free: "\<And>l. owner c' l = None \<Longrightarrow> owner c l \<noteq> None \<Longrightarrow> I l (shared c)"
    and none: "x = None \<Longrightarrow> held c' t = {} \<and> J t (shared c)"
    and rest: "\<And>q. x = Some q \<Longrightarrow> safe (R t) (G t) I q (held c' t) (\<lambda>h a s. h = {} \<and> P t a \<and> J t s) (shared c)"
  shows "conf_ok P J c'"
proof (rule conf_okI)
  fix l assume "owner c' l = None"
  with conf_okD(1) [OF ok] free c'(1) show "I l (shared c')" by metis
next
  fix t' assume "work c' t' = None"
  with conf_okD(2) [OF ok, of t'] others [of t'] none c' show "held c' t' = {} \<and> J t' (shared c')"
    by (cases "t' = t") auto
next
  fix t' q' assume "work c' t' = Some q'"
  with conf_okD(3) [OF ok] others rest c' show "safe (R t') (G t') I q' (held c' t') (\<lambda>h a s. h = {} \<and> P t' a \<and> J t' s) (shared c')"
    by (auto split: if_splits)
qed

lemma conf_ok_step:
  assumes stable: "idle_stable J" and ok: "conf_ok P J c" and "thread_step t c c'"
  shows "conf_ok P J c'"
  using assms(3)
proof (cases rule: thread_step.cases)
  case (run f q s')
  with run_ok [OF stable ok run(2,3)] show ?thesis by simp
next
  case (acquire l q)
  show ?thesis
  proof (rule lock_ok [OF ok, where t = t and x = "Some q"])
    show "held c' t' = held c t'" if "t' \<noteq> t" for t' using acquire that by simp
    show "safe (R t) (G t) I q' (held c' t) (\<lambda>h a s. h = {} \<and> P t a \<and> J t s) (shared c)" if "Some q = Some q'" for q'
      using conf_okD(3) [OF ok acquire(2)] conf_okD(1) [OF ok acquire(3)] acquire(1) that by (simp add: rely_refl)
  qed (use acquire in \<open>auto split: if_splits\<close>)
next
  case (release l q)
  have s: "I l (shared c)" "safe (R t) (G t) I q (held c t - {l}) (\<lambda>h a s. h = {} \<and> P t a \<and> J t s) (shared c)"
    using conf_okD(3) [OF ok release(2)] by (simp_all add: rely_refl)
  show ?thesis
  proof (rule lock_ok [OF ok, where t = t and x = "Some q"])
    show "held c' t' = held c t'" if "t' \<noteq> t" for t' using release that held_release [OF that] by simp
  qed (use release s in \<open>auto split: if_splits\<close>)
next
  case (finish r)
  show ?thesis
    by (rule lock_ok [OF ok, where t = t and x = None])
      (use finish conf_okD(3) [OF ok finish(2)] rely_refl [of t "held c t" "shared c"] in auto)
qed

lemma conf_ok_interfere:
  assumes "conf_ok P J c" and "\<And>t h. R t h (shared c) s'" and "\<And>l. I l (shared c) \<Longrightarrow> I l s'" and "idle_stable J"
  shows "conf_ok P J (c\<lparr>shared := s'\<rparr>)"
proof (rule conf_okI)
  show "safe (R t) (G t) I q (held (c\<lparr>shared := s'\<rparr>) t) (\<lambda>h a s. h = {} \<and> P t a \<and> J t s) (shared (c\<lparr>shared := s'\<rparr>))"
    if "work (c\<lparr>shared := s'\<rparr>) t = Some q" for t q
    using safe_stable [OF conf_okD(3) [OF assms(1)] assms(2), of t q] that by simp
next
  show "held (c\<lparr>shared := s'\<rparr>) t = {} \<and> J t (shared (c\<lparr>shared := s'\<rparr>))" if "work (c\<lparr>shared := s'\<rparr>) t = None" for t
    using conf_okD(2) [OF assms(1), of t] that assms(2) [of t "{}"] assms(4)
    unfolding idle_stable_def by auto
qed (use conf_okD(1) [OF assms(1)] assms(3) in auto)

lemma conf_ok_begin:
  assumes "conf_ok P J c" and "work c t = None"
    and "safe (R t) (G t) I q {} (\<lambda>h a s. h = {} \<and> P t a \<and> J t s) (shared c)"
  shows "conf_ok P J (c\<lparr>work := (work c)(t := Some q)\<rparr>)"
  by (rule lock_ok [OF assms(1), where t = t and x = "Some q"])
    (use assms(2,3) conf_okD(2) [OF assms(1)] in auto)

lemma conf_ok_result:
  assumes "conf_ok P J c" and "work c t = Some (Done a)"
  shows "P t a" and "held c t = {}"
  using conf_okD(3) [OF assms] rely_refl [of t "held c t" "shared c"] by auto

text \<open>A worker whose colleagues are idle can run to the end of its request, with the result of the
  uninterrupted program.\<close>

lemma alone:
  assumes "idle_stable J"
  shows "conf_ok P J c \<Longrightarrow> work c t = Some q \<Longrightarrow> \<forall>t'. t' \<noteq> t \<longrightarrow> work c t' = None \<Longrightarrow>
    run_prog q (shared c) = (Ret r, s') \<Longrightarrow>
    \<exists>c'. (thread_step t)\<^sup>*\<^sup>* c c' \<and> shared c' = s' \<and> (\<forall>t'. work c' t' = None)"
proof (induction q arbitrary: c rule: prog_induct)
  case (Done a)
  then have "thread_step t c (c\<lparr>work := (work c)(t := None)\<rparr>)" by (auto intro: thread_step.finish)
  with Done.prems show ?case by (intro exI [of _ "c\<lparr>work := (work c)(t := None)\<rparr>"]) auto
next
  case (Atom f)
  obtain q s1 where f: "f (shared c) = (q, s1)" by fastforce
  let ?c = "c\<lparr>shared := s1, work := (work c)(t := Some q)\<rparr>"
  have step: "thread_step t c ?c" by (rule thread_step.run [OF Atom.prems(2) f])
  have "\<exists>c'. (thread_step t)\<^sup>*\<^sup>* ?c c' \<and> shared c' = s' \<and> (\<forall>t'. work c' t' = None)"
    by (rule Atom.IH [OF f conf_ok_step [OF assms Atom.prems(1) step]]) (use Atom.prems f in simp_all)
  then show ?case using converse_rtranclp_into_rtranclp [of "thread_step t", OF step] by blast
next
  case (Acquire l q)
  have "owner c l = None"
  proof (rule ccontr)
    assume "owner c l \<noteq> None"
    then obtain t' where t': "l \<in> held c t'" by (auto simp: held_def)
    moreover have "l \<notin> held c t" using conf_okD(3) [OF Acquire.prems(1,2)] by simp
    ultimately show False using conf_okD(2) [OF Acquire.prems(1), of t'] Acquire.prems(3) by (cases "t' = t") auto
  qed
  note step = thread_step.acquire [OF Acquire.prems(2) this]
  have "\<exists>c'. (thread_step t)\<^sup>*\<^sup>* (c\<lparr>owner := (owner c)(l := Some t), work := (work c)(t := Some q)\<rparr>) c' \<and>
      shared c' = s' \<and> (\<forall>t'. work c' t' = None)"
    by (rule Acquire.IH [OF conf_ok_step [OF assms Acquire.prems(1) step]]) (use Acquire.prems in simp_all)
  then show ?case using converse_rtranclp_into_rtranclp [of "thread_step t", OF step] by blast
next
  case (Release l q)
  have "owner c l = Some t" using conf_okD(3) [OF Release.prems(1,2)] by (simp add: held_def)
  note step = thread_step.release [OF Release.prems(2) this]
  have "\<exists>c'. (thread_step t)\<^sup>*\<^sup>* (c\<lparr>owner := (owner c)(l := None), work := (work c)(t := Some q)\<rparr>) c' \<and>
      shared c' = s' \<and> (\<forall>t'. work c' t' = None)"
    by (rule Release.IH [OF conf_ok_step [OF assms Release.prems(1) step]]) (use Release.prems in simp_all)
  then show ?case using converse_rtranclp_into_rtranclp [of "thread_step t", OF step] by blast
qed

text \<open>A worker that cannot step and has not panicked waits for a mutex that another one holds and that
  comes after all it holds itself.\<close>

lemma blocked:
  assumes ok: "conf_ok P J c" and live: "work c t \<noteq> None" "\<not> panicked c t"
    and stuck: "\<And>c'. \<not> thread_step t c c'"
  shows "\<exists>l t'. t' \<noteq> t \<and> l \<in> held c t' \<and> (\<forall>l'\<in>held c t. l' < l)"
proof -
  obtain q where q: "work c t = Some q" using live(1) by auto
  note safe = conf_okD(3) [OF ok q]
  show ?thesis
  proof (cases q)
    case (Done a)
    with q live(2) stuck show ?thesis by (cases a) (auto simp: panicked_def dest: thread_step.finish)
  next
    case (Atom f)
    with q stuck show ?thesis by (metis thread_step.run surj_pair)
  next
    case (Acquire l q')
    with q stuck have "owner c l \<noteq> None" by (auto dest: thread_step.acquire)
    moreover have "l \<notin> held c t" "\<forall>l'\<in>held c t. l' < l" using safe Acquire by simp_all
    ultimately show ?thesis by (auto simp: held_def)
  next
    case (Release l q')
    with safe have "l \<in> held c t" by simp
    with q Release stuck show ?thesis by (auto simp: held_def dest: thread_step.release)
  qed
qed

end

end
