(* ===== verification/Interleaving.thy ===== *)
theory Interleaving
  imports Goroutines Machine Operator
begin

text \<open>
  The operator as two goroutines over a shared state: the worker of the AntreaInstall controller and the
  worker of the pod controller, each taking one request after the other, with the mutexes of the shared
  information and of the status manager. Any step of one may come between two steps of the other, and the
  outside changes at any time.
\<close>

section \<open>Relies, guarantees and the invariant of the mutex\<close>

datatype tid = InstallT | PodT

definition levels_ok :: "'w reconciler \<Rightarrow> bool" where
  "levels_ok s \<longleftrightarrow> failing_are_degraded s \<and> failing s PodDeployment = None \<and> failing s ClusterNode = None"

definition grows :: "'w reconciler \<Rightarrow> 'w reconciler \<Rightarrow> bool" where
  "grows s s' \<longleftrightarrow>
     (AntreaAgentDaemonSetSpec (SharedInfo s) \<noteq> None \<longrightarrow> AntreaAgentDaemonSetSpec (SharedInfo s') \<noteq> None) \<and>
     (AntreaControllerDeploymentSpec (SharedInfo s) \<noteq> None \<longrightarrow> AntreaControllerDeploymentSpec (SharedInfo s') \<noteq> None) \<and>
     (levels_ok s \<longrightarrow> levels_ok s')"

definition same_applied :: "'w reconciler \<Rightarrow> 'w reconciler \<Rightarrow> bool" where
  "same_applied s s' \<longleftrightarrow> AppliedOperConfig s' = AppliedOperConfig s \<and> AppliedClusterConfig s' = AppliedClusterConfig s"

definition rely :: "tid \<Rightarrow> lock_id set \<Rightarrow> 'w reconciler \<Rightarrow> 'w reconciler \<Rightarrow> bool" where
  "rely t h s s' \<longleftrightarrow> grows s s' \<and> (InfoLock \<in> h \<longrightarrow> SharedInfo s' = SharedInfo s) \<and>
     (t = InstallT \<longrightarrow> same_applied s s')"

definition guar :: "tid \<Rightarrow> lock_id set \<Rightarrow> 'w reconciler \<Rightarrow> 'w reconciler \<Rightarrow> bool" where
  "guar t h s s' \<longleftrightarrow> grows s s' \<and> (InfoLock \<notin> h \<longrightarrow> SharedInfo s' = SharedInfo s) \<and>
     (t = PodT \<longrightarrow> same_applied s s')"

definition lock_inv :: "lock_id \<Rightarrow> 'w reconciler \<Rightarrow> bool" where
  "lock_inv l s \<longleftrightarrow> (l = InfoLock \<longrightarrow> paired (SharedInfo s))"

lemma grows_refl [simp]: "grows s s"
  by (simp add: grows_def)

lemma grows_trans: "grows s t \<Longrightarrow> grows t u \<Longrightarrow> grows s u"
  by (simp add: grows_def)

lemma tid_other: "t \<noteq> t' \<Longrightarrow> t' = InstallT \<Longrightarrow> t = PodT"
  by (cases t) simp_all

interpretation threads: protected rely guar lock_inv
proof
  show "rely t h s s" for t h and s :: "'a reconciler"
    by (simp add: rely_def same_applied_def)
  show "rely t h s s1 \<Longrightarrow> rely t h s1 s2 \<Longrightarrow> rely t h s s2" for t h and s s1 s2 :: "'a reconciler"
    by (auto simp: rely_def same_applied_def intro: grows_trans)
  show "t \<noteq> t' \<Longrightarrow> h \<inter> h' = {} \<Longrightarrow> guar t h s s1 \<Longrightarrow> rely t' h' s s1" for t t' h h' and s s1 :: "'a reconciler"
    using tid_other [of t t'] by (auto simp: rely_def guar_def)
  show "guar t h s s' \<Longrightarrow> l \<notin> h \<Longrightarrow> lock_inv l s \<Longrightarrow> lock_inv l s'" for t h l and s s' :: "'a reconciler"
    by (auto simp: guar_def lock_inv_def)
qed

abbreviation tsafe :: "tid \<Rightarrow> ('w reconciler, 'a) prog \<Rightarrow> lock_id set \<Rightarrow> (lock_id set \<Rightarrow> 'a \<Rightarrow> 'w reconciler \<Rightarrow> bool) \<Rightarrow>
    'w reconciler \<Rightarrow> bool" where
  "tsafe t \<equiv> safe (rely t) (guar t) lock_inv"

section \<open>Programs that leave the shared information alone\<close>

named_theorems quiet_intros \<open>rules that derive that a program is quiet\<close>

definition keeps :: "tid \<Rightarrow> lock_id set \<Rightarrow> 'w reconciler \<Rightarrow> 'w reconciler \<Rightarrow> bool" where
  "keeps t h s s' \<longleftrightarrow> grows s s' \<and> (InfoLock \<in> h \<longrightarrow> SharedInfo s' = SharedInfo s) \<and>
     (t = InstallT \<longrightarrow> same_applied s s')"

definition quiet :: "tid \<Rightarrow> lock_id set \<Rightarrow> ('w reconciler, 'a) prog \<Rightarrow> bool" where
  "quiet t h p \<longleftrightarrow> (\<forall>s. tsafe t p h (\<lambda>h' a s'. h' = h \<and> keeps t h s s') s)"

lemma keeps_trans: "keeps t h s s1 \<Longrightarrow> keeps t h s1 s2 \<Longrightarrow> keeps t h s s2"
  by (auto simp: keeps_def same_applied_def intro: grows_trans)

lemma keeps_rely: "rely t h s s' \<Longrightarrow> keeps t h s s'"
  by (simp add: rely_def keeps_def)

lemma quiet_Done [quiet_intros]: "quiet t h (Done a)"
  by (simp add: quiet_def keeps_rely)

lemma quiet_bnd [quiet_intros]:
  assumes "quiet t h p" and "\<And>a. quiet t h (k a)"
  shows "quiet t h (bnd p k)"
  unfolding quiet_def
proof
  fix s
  have "tsafe t p h (\<lambda>h' a s'. h' = h \<and> keeps t h s s') s"
    using assms(1) by (simp add: quiet_def)
  then show "tsafe t (bnd p k) h (\<lambda>h' a s'. h' = h \<and> keeps t h s s') s"
  proof (rule threads.safe_bnd [OF threads.safe_mono])
    fix h' a s' assume "\<forall>s1. rely t h' s' s1 \<longrightarrow> h' = h \<and> keeps t h s s1"
    then have h': "h' = h" "keeps t h s s'" using threads.rely_refl by blast+
    have "tsafe t (k a) h (\<lambda>h' a s2. h' = h \<and> keeps t h s' s2) s'"
      using assms(2) by (simp add: quiet_def)
    then show "tsafe t (k a) h' (\<lambda>h' a s2. h' = h \<and> keeps t h s s2) s'"
      unfolding h'(1) by (rule threads.safe_mono) (use h'(2) keeps_trans threads.rely_refl in blast)
  qed
qed

lemma quiet_cases [quiet_intros]:
  "quiet t h p \<Longrightarrow> quiet t h q \<Longrightarrow> quiet t h (if b then p else q)"
  "quiet t h p \<Longrightarrow> (\<And>a. quiet t h (k a)) \<Longrightarrow> quiet t h (case x of None \<Rightarrow> p | Some a \<Rightarrow> k a)"
  "(\<And>a. quiet t h (g a)) \<Longrightarrow> (\<And>b. quiet t h (j b)) \<Longrightarrow> quiet t h (case y of Inl a \<Rightarrow> g a | Inr b \<Rightarrow> j b)"
  "(\<And>a b. quiet t h (m a b)) \<Longrightarrow> quiet t h (case z of (a, b) \<Rightarrow> m a b)"
  "(\<And>a. quiet t h (n a)) \<Longrightarrow> quiet t h p \<Longrightarrow> quiet t h (case v of Ret a \<Rightarrow> n a | Panic \<Rightarrow> p)"
  "quiet t h p \<Longrightarrow> (\<And>a as. quiet t h (c a as)) \<Longrightarrow> quiet t h (case xs of [] \<Rightarrow> p | a # as \<Rightarrow> c a as)"
  "quiet t h (d w) \<Longrightarrow> quiet t h (let u = w in d u)"
  by (auto split: option.split sum.split prod.split go.split list.split)

text \<open>A step that changes neither the shared information nor the remembered configurations.\<close>

definition calm_step :: "('w reconciler, 'a) state \<Rightarrow> bool" where
  "calm_step m \<longleftrightarrow> (\<forall>s. let s' = snd (run_state m s) in
     SharedInfo s' = SharedInfo s \<and> same_applied s s' \<and> (levels_ok s \<longrightarrow> levels_ok s'))"

lemma quiet_calm:
  assumes "calm_step m"
  shows "quiet t h (atom m)"
  unfolding quiet_def
proof
  fix s
  show "tsafe t (atom m) h (\<lambda>h' a s'. h' = h \<and> keeps t h s s') s"
  proof (rule threads.safe_atom)
    fix s1 a s2 assume s: "rely t h s s1" "run_state m s1 = (a, s2)"
    then have "SharedInfo s2 = SharedInfo s1 \<and> same_applied s1 s2 \<and> (levels_ok s1 \<longrightarrow> levels_ok s2)"
      using assms unfolding calm_step_def Let_def by (metis snd_conv)
    then have "guar t h s1 s2" "keeps t h s1 s2"
      by (auto simp: guar_def keeps_def grows_def)
    with keeps_rely s(1) keeps_trans
    show "guar t h s1 s2 \<and> (\<forall>s3. rely t h s2 s3 \<longrightarrow> h = h \<and> keeps t h s s3)" by blast
  qed
qed

lemma calm_world: "calm_step (on_world m)"
  by (simp add: calm_step_def Let_def same_applied_def levels_ok_def failing_are_degraded_def split: prod.splits)

lemma quiet_call [quiet_intros]: "quiet t h (atom (on_world m))"
  by (rule quiet_calm [OF calm_world])

lemma quiet_gets [quiet_intros]: "quiet t h (atom (gets f))"
  by (rule quiet_calm) (simp add: calm_step_def same_applied_def)

lemma quiet_locked:
  assumes "quiet t (insert StatusLock h) p" and "h \<subseteq> {InfoLock}"
  shows "quiet t h (locked StatusLock p)"
  unfolding quiet_def
proof
  fix s
  have h: "InfoLock \<in> insert StatusLock h \<longleftrightarrow> InfoLock \<in> h" by simp
  show "tsafe t (locked StatusLock p) h (\<lambda>h' a s'. h' = h \<and> keeps t h s s') s"
  proof (rule threads.safe_locked)
    show "StatusLock \<notin> h" "\<forall>l'\<in>h. l' < StatusLock" using assms(2) by auto
    fix s1 assume s1: "rely t h s s1"
    have "tsafe t p (insert StatusLock h) (\<lambda>h' a s'. h' = insert StatusLock h \<and> keeps t (insert StatusLock h) s1 s') s1"
      using assms(1) by (simp add: quiet_def)
    then show "tsafe t p (insert StatusLock h) (\<lambda>h' a s'. h' = insert StatusLock h \<and> lock_inv StatusLock s' \<and>
        (\<forall>s2. rely t h s' s2 \<longrightarrow> h = h \<and> keeps t h s s2)) s1"
    proof (rule threads.safe_mono)
      fix h' a s' assume "\<forall>s2. rely t h' s' s2 \<longrightarrow> h' = insert StatusLock h \<and> keeps t (insert StatusLock h) s1 s2"
      then have "h' = insert StatusLock h" "keeps t h s1 s'"
        using threads.rely_refl by (auto simp: keeps_def)
      with keeps_trans keeps_rely s1
      show "h' = insert StatusLock h \<and> lock_inv StatusLock s' \<and> (\<forall>s2. rely t h s' s2 \<longrightarrow> h = h \<and> keeps t h s s2)"
        by (auto simp: lock_inv_def) blast
    qed
  qed
qed

section \<open>The install reconciler\<close>

lemma calm_setDegraded:
  assumes "retry_lawful E" and "l \<noteq> PodDeployment" "l \<noteq> ClusterNode"
  shows "calm_step (setDegraded (platform_adaptor E p) l r m)"
  unfolding calm_step_def Let_def
proof
  fix s :: "'a reconciler"
  obtain s' where run: "run_state (setDegraded (platform_adaptor E p) l r m) s = ((), s')"
    by (metis old.unit.exhaust surj_pair)
  note b = books_reconciler [OF platform_status.setDegraded_books [OF assms(1) run]]
  have "levels_ok s'" if "levels_ok s"
    using that b assms(2,3) failing_are_degraded_upd [of s "failing s' l" s' l]
    by (auto simp: levels_ok_def)
  with b run show "SharedInfo (snd (run_state (setDegraded (platform_adaptor E p) l r m) s)) = SharedInfo s \<and>
      same_applied s (snd (run_state (setDegraded (platform_adaptor E p) l r m) s)) \<and>
      (levels_ok s \<longrightarrow> levels_ok (snd (run_state (setDegraded (platform_adaptor E p) l r m) s)))"
    by (simp add: same_applied_def)
qed

lemma calm_setNotDegraded:
  assumes "retry_lawful E"
  shows "calm_step (setNotDegraded (platform_adaptor E p) l)"
  unfolding calm_step_def Let_def
proof
  fix s :: "'a reconciler"
  obtain s' where run: "run_state (setNotDegraded (platform_adaptor E p) l) s = ((), s')"
    by (metis old.unit.exhaust surj_pair)
  note b = books_reconciler [OF platform_status.setNotDegraded_books [OF assms run]]
  have "levels_ok s'" if "levels_ok s"
    using that b failing_are_degraded_upd [of s None s' l] by (auto simp: levels_ok_def)
  with b run show "SharedInfo (snd (run_state (setNotDegraded (platform_adaptor E p) l) s)) = SharedInfo s \<and>
      same_applied s (snd (run_state (setNotDegraded (platform_adaptor E p) l) s)) \<and>
      (levels_ok s \<longrightarrow> levels_ok (snd (run_state (setNotDegraded (platform_adaptor E p) l) s)))"
    by (simp add: same_applied_def)
qed

lemma calm_SetFromPods:
  assumes "retry_lawful E"
  shows "calm_step (SetFromPods E (platform_adaptor E p))"
  unfolding calm_step_def Let_def
proof
  fix s :: "'a reconciler"
  obtain s' where run: "run_state (SetFromPods E (platform_adaptor E p)) s = ((), s')"
    by (metis old.unit.exhaust surj_pair)
  obtain acc ds dep s1 where "run_state (scan_pods E (platform_adaptor E p)) s = ((acc, ds, dep), s1)"
    by (metis prod_cases3 surj_pair)
  note b = books_reconciler [OF platform_status.SetFromPods_books [OF assms run this]]
  have "levels_ok s'" if ok: "levels_ok s"
  proof -
    have "failing_are_degraded (s\<lparr>failing := (failing s)(PodDeployment := None)\<rparr>)"
      using ok unfolding levels_ok_def failing_are_degraded_def by (auto simp: ran_def)
    then have "failing_are_degraded s'"
      by (rule failing_are_degraded_upd [where c = "failing s' RolloutHung" and l = RolloutHung]) (use b in auto)
    with ok b show ?thesis by (simp add: levels_ok_def)
  qed
  with b run show "SharedInfo (snd (run_state (SetFromPods E (platform_adaptor E p)) s)) = SharedInfo s \<and>
      same_applied s (snd (run_state (SetFromPods E (platform_adaptor E p)) s)) \<and>
      (levels_ok s \<longrightarrow> levels_ok (snd (run_state (SetFromPods E (platform_adaptor E p)) s)))"
    by (simp add: same_applied_def)
qed

lemma quiet_SetDegraded:
  assumes "retry_lawful E" and "h \<subseteq> {InfoLock}" and "l \<noteq> PodDeployment" "l \<noteq> ClusterNode"
  shows "quiet t h (SetDegraded_go (platform_adaptor E p) l r m)"
  unfolding SetDegraded_go_def by (intro quiet_locked quiet_calm calm_setDegraded assms)

lemma quiet_SetNotDegraded:
  assumes "retry_lawful E" and "h \<subseteq> {InfoLock}"
  shows "quiet t h (SetNotDegraded_go (platform_adaptor E p) l)"
  unfolding SetNotDegraded_go_def by (intro quiet_locked quiet_calm calm_setNotDegraded assms)

lemma calm_lists: "calm_step (SetDaemonSets x)" "calm_step (SetDeployments y)" "calm_step (SetRelatedObjects z)"
  by (simp_all add: calm_step_def SetDaemonSets_def SetDeployments_def SetRelatedObjects_def same_applied_def
      levels_ok_def failing_are_degraded_def)

lemma quiet_fetch:
  "retry_lawful E \<Longrightarrow> quiet t {} (fetchAntreaInstall_go E (platform_adaptor E p) request)"
  unfolding fetchAntreaInstall_go_def by (intro quiet_intros quiet_SetDegraded) simp_all

lemma quiet_applied: "quiet t h (getAppliedOperConfig_go E)"
  unfolding getAppliedOperConfig_go_def by (intro quiet_intros)

lemma quiet_manifest:
  assumes "retry_lawful E" and "h \<subseteq> {InfoLock}"
  shows "quiet t h (manifest_loop_go E (platform_adaptor E p) cc objs sc)"
proof (induction objs arbitrary: sc)
  case (Cons obj objs)
  show ?case
    unfolding manifest_loop_go.simps by (intro quiet_intros Cons.IH quiet_SetDegraded assms) simp_all
qed (simp add: quiet_Done)

lemma quiet_apply_loop:
  assumes "retry_lawful E" and "h \<subseteq> {InfoLock}"
  shows "quiet t h (apply_loop_go E (platform_adaptor E p) objs)"
proof (induction objs)
  case (Cons obj objs)
  show ?case
    unfolding apply_loop_go.simps by (intro quiet_intros Cons.IH quiet_SetDegraded assms) simp_all
qed (simp add: quiet_Done)

lemma quiet_restart:
  assumes "retry_lawful E" and "h \<subseteq> {InfoLock}"
  shows "quiet t h (restart_pods_go E (platform_adaptor E p) k c need img)"
  unfolding restart_pods_go_def deleteExistingPods_def
  by (intro quiet_intros quiet_SetDegraded assms) simp_all

text \<open>Under the mutex of the shared information: what may change it, and leaves it paired.\<close>

definition pairs :: "tid \<Rightarrow> ('w reconciler, 'a) prog \<Rightarrow> bool" where
  "pairs t p \<longleftrightarrow> (\<forall>s. paired (SharedInfo s) \<longrightarrow>
     tsafe t p {InfoLock} (\<lambda>h' a s'. h' = {InfoLock} \<and> paired (SharedInfo s') \<and> keeps t {} s s') s)"

lemma quiet_pairs:
  assumes "quiet t {InfoLock} p"
  shows "pairs t p"
  unfolding pairs_def
proof (intro allI impI)
  fix s :: "'a reconciler"
  assume "paired (SharedInfo s)"
  moreover have "tsafe t p {InfoLock} (\<lambda>h' a s'. h' = {InfoLock} \<and> keeps t {InfoLock} s s') s"
    using assms by (simp add: quiet_def)
  ultimately show "tsafe t p {InfoLock} (\<lambda>h' a s'. h' = {InfoLock} \<and> paired (SharedInfo s') \<and> keeps t {} s s') s"
    by (elim threads.safe_mono) (use threads.rely_refl in \<open>fastforce simp: keeps_def\<close>)
qed

lemma pairs_bnd:
  assumes "pairs t p" and "\<And>a. pairs t (k a)"
  shows "pairs t (bnd p k)"
  unfolding pairs_def
proof (intro allI impI)
  fix s :: "'a reconciler" assume "paired (SharedInfo s)"
  with assms(1) have "tsafe t p {InfoLock} (\<lambda>h' a s'. h' = {InfoLock} \<and> paired (SharedInfo s') \<and> keeps t {} s s') s"
    by (simp add: pairs_def)
  then show "tsafe t (bnd p k) {InfoLock} (\<lambda>h' a s'. h' = {InfoLock} \<and> paired (SharedInfo s') \<and> keeps t {} s s') s"
  proof (rule threads.safe_bnd [OF threads.safe_mono])
    fix h' a and s' :: "'a reconciler" assume "\<forall>s1. rely t h' s' s1 \<longrightarrow> h' = {InfoLock} \<and> paired (SharedInfo s1) \<and> keeps t {} s s1"
    then have h': "h' = {InfoLock}" "paired (SharedInfo s')" "keeps t {} s s'" using threads.rely_refl by blast+
    then have "tsafe t (k a) {InfoLock} (\<lambda>h' a s2. h' = {InfoLock} \<and> paired (SharedInfo s2) \<and> keeps t {} s' s2) s'"
      using assms(2) by (simp add: pairs_def)
    then show "tsafe t (k a) h' (\<lambda>h' a s2. h' = {InfoLock} \<and> paired (SharedInfo s2) \<and> keeps t {} s s2) s'"
      unfolding h'(1) by (rule threads.safe_mono) (use h'(3) keeps_trans threads.rely_refl in blast)
  qed
qed

lemma grows_write:
  "(AntreaAgentDaemonSetSpec (SharedInfo s) \<noteq> None \<Longrightarrow> AntreaAgentDaemonSetSpec i \<noteq> None) \<Longrightarrow>
   (AntreaControllerDeploymentSpec (SharedInfo s) \<noteq> None \<Longrightarrow> AntreaControllerDeploymentSpec i \<noteq> None) \<Longrightarrow>
   grows s (s\<lparr>SharedInfo := i\<rparr>)"
  by (auto simp: grows_def levels_ok_def failing_are_degraded_def)

lemma pairs_write:
  fixes a :: 'a
  shows "pairs InstallT (bnd (atom (modify (\<lambda>s :: 'w reconciler. s\<lparr>SharedInfo := (SharedInfo s)\<lparr>AntreaAgentDaemonSetSpec := Some ds\<rparr>\<rparr>))) (\<lambda>_.
    bnd (atom (modify (\<lambda>s. s\<lparr>SharedInfo := (SharedInfo s)\<lparr>AntreaControllerDeploymentSpec := Some dep\<rparr>\<rparr>))) (\<lambda>_.
      Done a)))"
  unfolding pairs_def
proof (intro allI impI threads.safe_bnd threads.safe_atom conjI)
  fix u and s s1 s2 :: "'w reconciler"
  let ?i = "(SharedInfo s1)\<lparr>AntreaAgentDaemonSetSpec := Some ds\<rparr>"
  assume 1: "rely InstallT {InfoLock} s s1"
    "run_state (modify (\<lambda>s. s\<lparr>SharedInfo := (SharedInfo s)\<lparr>AntreaAgentDaemonSetSpec := Some ds\<rparr>\<rparr>)) s1 = (u, s2)"
  have g1: "grows s1 s2" using 1(2) by (auto intro: grows_write)
  then show "guar InstallT {InfoLock} s1 s2" by (simp add: guar_def)
  fix v and s3 s4 s5 :: "'w reconciler"
  assume 3: "rely InstallT {InfoLock} s2 s3" "rely InstallT {InfoLock} s3 s4"
    "run_state (modify (\<lambda>s. s\<lparr>SharedInfo := (SharedInfo s)\<lparr>AntreaControllerDeploymentSpec := Some dep\<rparr>\<rparr>)) s4 = (v, s5)"
  have g2: "grows s4 s5" using 3(3) by (auto intro: grows_write)
  then show "guar InstallT {InfoLock} s4 s5" by (simp add: guar_def)
  have k: "keeps InstallT {} s1 s2" "keeps InstallT {} s4 s5"
    using g1 g2 1(2) 3(3) by (auto simp: keeps_def same_applied_def)
  have r: "keeps InstallT {} x y" if "rely InstallT {InfoLock} x y" for x y :: "'w reconciler"
    using that by (simp add: rely_def keeps_def)
  have s5: "keeps InstallT {} s s5"
    using r [OF 1(1)] r [OF 3(1)] r [OF 3(2)] k by (blast intro: keeps_trans)
  have p5: "paired (SharedInfo s5)"
    using 1(2) 3 by (auto simp: rely_def paired_def)
  fix s6 :: "'w reconciler" assume s6: "rely InstallT {InfoLock} s5 s6"
  have "paired (SharedInfo s7) \<and> keeps InstallT {} s s7" if s7: "rely InstallT {InfoLock} s6 s7" for s7
    using p5 keeps_trans [OF keeps_trans [OF s5 r [OF s6]] r [OF s7]] s6 s7 by (simp add: rely_def)
  then show "tsafe InstallT (Done a) {InfoLock}
      (\<lambda>h' a s'. h' = {InfoLock} \<and> paired (SharedInfo s') \<and> keeps InstallT {} s s') s6" by simp
qed

lemma pairs_update:
  fixes E :: "('w, 'e) cenv"
  assumes "retry_lawful E"
  shows "pairs InstallT (updateStatusManagerAndSharedInfo_go E (platform_adaptor E p) objs cc)"
proof -
  have lists: "pairs InstallT (locked StatusLock (atom m))" if "calm_step m" for m :: "('w reconciler, unit) state"
    by (intro quiet_pairs quiet_locked quiet_calm that) simp
  have deg: "pairs InstallT (bnd (SetDegraded_go (platform_adaptor E p) OperatorConfig r m) (\<lambda>_. Done x))" for r m x
    by (intro quiet_pairs quiet_intros quiet_SetDegraded assms) simp_all
  have publish: "pairs InstallT (
      bnd (locked StatusLock (atom (SetDaemonSets x :: ('w reconciler, unit) state))) (\<lambda>_.
      bnd (locked StatusLock (atom (SetDeployments y))) (\<lambda>_.
      bnd (locked StatusLock (atom (SetRelatedObjects z))) (\<lambda>_.
      bnd (atom (modify (\<lambda>s. s\<lparr>SharedInfo := (SharedInfo s)\<lparr>AntreaAgentDaemonSetSpec := Some ds\<rparr>\<rparr>))) (\<lambda>_.
      bnd (atom (modify (\<lambda>s. s\<lparr>SharedInfo := (SharedInfo s)\<lparr>AntreaControllerDeploymentSpec := Some dep\<rparr>\<rparr>))) (\<lambda>_.
        Done a))))))" for x y z ds dep and a :: "go_error + unstructured list"
    by (intro pairs_bnd [OF lists] calm_lists pairs_write)
  show ?thesis
    unfolding updateStatusManagerAndSharedInfo_go_def
  proof (rule pairs_bnd)
    show "pairs InstallT (manifest_loop_go E (platform_adaptor E p) cc objs empty_scan)"
      by (intro quiet_pairs quiet_manifest assms) simp
    fix r
    show "pairs InstallT (case r of
       Inl err \<Rightarrow> Done (Inl err)
     | Inr sc \<Rightarrow>
         if sc_daemonSet sc = None \<or> sc_deployment sc = None then
           bnd (SetDegraded_go (platform_adaptor E p) OperatorConfig ''ApplyObjectsError'' (err_text (missing_resources sc)))
             (\<lambda>_. Done (Inl (missing_resources sc)))
         else
           bnd (locked StatusLock (atom (SetDaemonSets (sc_daemonSets sc)))) (\<lambda>_.
           bnd (locked StatusLock (atom (SetDeployments (sc_deployments sc)))) (\<lambda>_.
           bnd (locked StatusLock (atom (SetRelatedObjects (sc_related sc)))) (\<lambda>_.
           bnd (atom (modify (\<lambda>s. s\<lparr>SharedInfo := (SharedInfo s)\<lparr>AntreaAgentDaemonSetSpec := sc_daemonSet sc\<rparr>\<rparr>))) (\<lambda>_.
           bnd (atom (modify (\<lambda>s. s\<lparr>SharedInfo := (SharedInfo s)\<lparr>AntreaControllerDeploymentSpec := sc_deployment sc\<rparr>\<rparr>))) (\<lambda>_.
             Done (Inr (sc_objs sc))))))))"
      by (cases r) (auto simp: quiet_pairs [OF quiet_Done] intro: deg publish)
  qed
qed

lemma pairs_rendered:
  assumes "retry_lawful E"
  shows "pairs InstallT (apply_rendered_go E (platform_adaptor E p) cc objs a c i)"
  unfolding apply_rendered_go_def
  by (rule pairs_bnd [OF pairs_update [OF assms]])
    (intro quiet_pairs quiet_intros quiet_apply_loop quiet_restart assms; simp)

text \<open>Outside, the mutex hides the change.\<close>

lemma quiet_locked_info:
  assumes "pairs t p"
  shows "quiet t {} (locked InfoLock p)"
  unfolding quiet_def
proof
  fix s
  show "tsafe t (locked InfoLock p) {} (\<lambda>h' a s'. h' = {} \<and> keeps t {} s s') s"
  proof (rule threads.safe_locked)
    fix s1 assume s1: "rely t {} s s1" "lock_inv InfoLock s1"
    then have "tsafe t p {InfoLock} (\<lambda>h' a s'. h' = {InfoLock} \<and> paired (SharedInfo s') \<and> keeps t {} s1 s') s1"
      using assms by (simp add: pairs_def lock_inv_def)
    then show "tsafe t p (insert InfoLock {}) (\<lambda>h' a s'. h' = insert InfoLock {} \<and> lock_inv InfoLock s' \<and>
        (\<forall>s2. rely t {} s' s2 \<longrightarrow> {} = {} \<and> keeps t {} s s2)) s1"
    proof (rule threads.safe_mono)
      fix h' a s' assume "\<forall>s2. rely t h' s' s2 \<longrightarrow> h' = {InfoLock} \<and> paired (SharedInfo s2) \<and> keeps t {} s1 s2"
      then have s': "h' = {InfoLock}" "paired (SharedInfo s')" "keeps t {} s1 s'" using threads.rely_refl by blast+
      have "keeps t {} s s2" if "rely t {} s' s2" for s2
        using keeps_trans [OF keeps_trans [OF keeps_rely [OF s1(1)] s'(3)] keeps_rely [OF that]] .
      with s' show "h' = insert InfoLock {} \<and> lock_inv InfoLock s' \<and> (\<forall>s2. rely t {} s' s2 \<longrightarrow> {} = {} \<and> keeps t {} s s2)"
        by (simp add: lock_inv_def)
    qed
  qed simp_all
qed

lemma quiet_applyConfig:
  assumes "retry_lawful E"
  shows "quiet InstallT {} (applyConfig_go E config (platform_adaptor E p) cc oc net)"
  unfolding applyConfig_go_def apply_changes_go_def
  by (intro quiet_intros quiet_SetDegraded quiet_applied quiet_locked_info pairs_rendered assms; simp)

lemma quiet_clear: "retry_lawful E \<Longrightarrow> quiet t {} (clear_levels_go (platform_adaptor E p))"
  unfolding clear_levels_go_def by (intro quiet_intros quiet_SetNotDegraded) simp_all

lemma quiet_network: "quiet t h (atom (updateNetworkStatus E c n))"
  by (rule quiet_calm)
    (simp add: calm_step_def updateNetworkStatus_def same_applied_def levels_ok_def failing_are_degraded_def Let_def
      split: prod.splits)

section \<open>Remembering a configuration\<close>

text \<open>A program of the reconciler that ends, from a valid remembered configuration, with a valid one.\<close>

definition commits :: "cfg_lib \<Rightarrow> platform \<Rightarrow> ('w reconciler, 'a) prog \<Rightarrow> bool" where
  "commits L p q \<longleftrightarrow> (\<forall>s. remembered_ok L p s \<longrightarrow>
     tsafe InstallT q {} (\<lambda>h' a s'. h' = {} \<and> remembered_ok L p s') s)"

lemma remembered_same: "same_applied s s' \<Longrightarrow> remembered_ok L p s \<Longrightarrow> remembered_ok L p s'"
  by (simp add: same_applied_def remembered_ok_def filled_for_def)

lemma commits_quiet_bnd:
  assumes "quiet InstallT {} q" and "\<And>a. a \<in> leaves q \<Longrightarrow> commits L p (k a)"
  shows "commits L p (bnd q k)"
  unfolding commits_def
proof (intro allI impI)
  fix s :: "'a reconciler" assume ok: "remembered_ok L p s"
  have "tsafe InstallT q {} (\<lambda>h' a s'. h' = {} \<and> keeps InstallT {} s s') s"
    using assms(1) by (simp add: quiet_def)
  from threads.safe_leaves [OF this]
  show "tsafe InstallT (bnd q k) {} (\<lambda>h' a s'. h' = {} \<and> remembered_ok L p s') s"
  proof (rule threads.safe_bnd [OF threads.safe_mono])
    fix h' a and s' :: "'a reconciler"
    assume "\<forall>s1. rely InstallT h' s' s1 \<longrightarrow> (h' = {} \<and> keeps InstallT {} s s1) \<and> a \<in> leaves q"
    then have s': "h' = {}" "a \<in> leaves q" "keeps InstallT {} s s'" using threads.rely_refl by blast+
    then have "remembered_ok L p s'" by (auto simp: keeps_def intro: remembered_same [OF _ ok])
    with s' assms(2) show "tsafe InstallT (k a) h' (\<lambda>h' a s'. h' = {} \<and> remembered_ok L p s') s'"
      by (simp add: commits_def)
  qed
qed

lemma commits_Done: "commits L p (Done a)"
  by (auto simp: commits_def rely_def dest: remembered_same)

lemma commits_quiet: "quiet InstallT {} q \<Longrightarrow> commits L p (bnd q (\<lambda>_. Done a))"
  by (rule commits_quiet_bnd) (auto intro: commits_Done)

lemma commits_cases:
  "(b \<Longrightarrow> commits L p q) \<Longrightarrow> (\<not> b \<Longrightarrow> commits L p q') \<Longrightarrow> commits L p (if b then q else q')"
  "(x = None \<Longrightarrow> commits L p q) \<Longrightarrow> (\<And>a. x = Some a \<Longrightarrow> commits L p (k1 a)) \<Longrightarrow>
   commits L p (case x of None \<Rightarrow> q | Some a \<Rightarrow> k1 a)"
  "(\<And>a. y = Inl a \<Longrightarrow> commits L p (g a)) \<Longrightarrow> (\<And>b. y = Inr b \<Longrightarrow> commits L p (j b)) \<Longrightarrow>
   commits L p (case y of Inl a \<Rightarrow> g a | Inr b \<Rightarrow> j b)"
  "(\<And>a b. z = (a, b) \<Longrightarrow> commits L p (m a b)) \<Longrightarrow> commits L p (case z of (a, b) \<Rightarrow> m a b)"
  "(\<And>a. v = Ret a \<Longrightarrow> commits L p (n a)) \<Longrightarrow> (v = Panic \<Longrightarrow> commits L p q) \<Longrightarrow>
   commits L p (case v of Ret a \<Rightarrow> n a | Panic \<Rightarrow> q)"
  by (auto split: option.split sum.split prod.split go.split)

text \<open>The writes of the remembered configurations.\<close>

lemma tsafe_write:
  assumes "\<And>s. SharedInfo (f s) = SharedInfo s \<and> failing (f s) = failing s"
    and "\<And>s1 s2. rely InstallT {} s s1 \<Longrightarrow> rely InstallT {} (f s1) s2 \<Longrightarrow> tsafe InstallT (k ()) {} Q s2"
  shows "tsafe InstallT (bnd (atom (modify f)) k) {} Q s"
proof (intro threads.safe_bnd threads.safe_atom conjI allI impI)
  fix u s1 s2 assume s1: "rely InstallT {} s s1" "run_state (modify f) s1 = (u, s2)"
  then show "guar InstallT {} s1 s2"
    using assms(1) [of s1] by (auto simp: guar_def grows_def levels_ok_def failing_are_degraded_def)
  fix s3 assume "rely InstallT {} s2 s3"
  with s1 assms(2) show "tsafe InstallT (k u) {} Q s3" by auto
qed

lemma rely_applied:
  "rely InstallT h s s' \<Longrightarrow> AppliedOperConfig s' = AppliedOperConfig s \<and> AppliedClusterConfig s' = AppliedClusterConfig s"
  by (simp add: rely_def same_applied_def)

lemma tsafe_end:
  "remembered_ok L p s \<Longrightarrow> tsafe InstallT (Done a) {} (\<lambda>h' a s'. h' = {} \<and> remembered_ok L p s') s"
  using commits_Done by (auto simp: commits_def)

lemma commits_finish_k8s:
  fixes E :: "('w, 'e) cenv"
  assumes "retry_lawful E" and "FillConfigs (ConfigK8s L) None oc0 = (oc, Ret None)"
    and "ValidateConfig (ConfigK8s L) None oc = None"
  shows "commits L Kubernetes (finish_k8s_go (platform_adaptor E q) oc)"
  unfolding finish_k8s_go_def
proof (rule commits_quiet_bnd [OF quiet_clear [OF assms(1)]])
  have fill: "FillConfigs (config_of Kubernetes L) None oc0 = (oc, Ret None)"
    using assms(2) by (simp add: config_of_def)
  have ok: "remembered_ok L Kubernetes s" if "AppliedOperConfig s = Some oc" for s :: "'w reconciler"
    using that fill filled_image [OF fill] assms(3) by (auto simp: remembered_ok_def filled_for_def config_of_def)
  show "commits L Kubernetes (bnd (atom (modify (\<lambda>s :: 'w reconciler. s\<lparr>AppliedOperConfig := Some oc\<rparr>))) (\<lambda>_. Done (Ret (no_requeue, None))))"
    unfolding commits_def by (intro allI impI tsafe_write tsafe_end ok) (auto dest: rely_applied)
qed

lemma commits_finish_oc:
  fixes E :: "('w, 'e) cenv"
  assumes "retry_lawful E" and "FillConfigs (ConfigOc L) (Some c) oc0 = (oc, Ret None)"
    and "ValidateConfig (ConfigOc L) (Some c) oc = None"
  shows "commits L OpenShift (finish_oc_go E L (platform_adaptor E q) c oc)"
proof -
  have fill: "FillConfigs (config_of OpenShift L) (Some c) oc0 = (oc, Ret None)"
    using assms(2) by (simp add: config_of_def)
  have ok: "remembered_ok L OpenShift s"
    if "AppliedOperConfig s = Some oc" "AppliedClusterConfig s = Some c'" "network_spec c' = network_spec c"
    for s :: "'w reconciler" and c'
    using that fill filled_image [OF fill] assms(3) by (auto simp: remembered_ok_def filled_for_def config_of_def)
  have last: "commits L OpenShift (bnd (clear_levels_go (platform_adaptor E q)) (\<lambda>_.
      bnd (atom (modify (\<lambda>s :: 'w reconciler. s\<lparr>AppliedClusterConfig := Some c'\<rparr>))) (\<lambda>_.
      bnd (atom (modify (\<lambda>s :: 'w reconciler. s\<lparr>AppliedOperConfig := Some oc\<rparr>))) (\<lambda>_. Done (Ret (no_requeue, None))))))"
    if "network_spec c' = network_spec c" for c'
  proof (rule commits_quiet_bnd [OF quiet_clear [OF assms(1)]])
    show "commits L OpenShift (bnd (atom (modify (\<lambda>s :: 'w reconciler. s\<lparr>AppliedClusterConfig := Some c'\<rparr>))) (\<lambda>_.
        bnd (atom (modify (\<lambda>s :: 'w reconciler. s\<lparr>AppliedOperConfig := Some oc\<rparr>))) (\<lambda>_. Done (Ret (no_requeue, None)))))"
      unfolding commits_def
      by (intro allI impI tsafe_write tsafe_end ok [where c' = c'] that) (auto dest!: rely_applied)
  qed
  have network: "commits L OpenShift (bnd (if b then atom (updateNetworkStatus E c n) else Done (c, None)) k)"
    if "\<And>ce. network_spec (fst ce) = network_spec c \<Longrightarrow> commits L OpenShift (k ce)" for b n k
  proof (rule commits_quiet_bnd)
    show "quiet InstallT {} (if b then atom (updateNetworkStatus E c n) else Done (c, None))"
      by (intro quiet_intros quiet_network)
    fix ce assume "ce \<in> leaves (if b then atom (updateNetworkStatus E c n) else Done (c, None))"
    then have "network_spec (fst ce) = network_spec c"
      by (auto simp: updateNetworkStatus_def Let_def split: if_splits prod.splits)
    then show "commits L OpenShift (k ce)" by (rule that)
  qed
  note degraded = commits_quiet [OF quiet_SetDegraded [OF assms(1)]]
  show ?thesis
    unfolding finish_oc_go_def
    by (intro commits_quiet_bnd [OF quiet_gets] network commits_cases commits_Done degraded last; auto)
qed

lemma applyConfig_results:
  assumes "(oc, Ret (res, None)) \<in> leaves (applyConfig_go E config A cc oc0 net)"
  shows "FillConfigs config cc oc0 = (oc, Ret None) \<and> ValidateConfig config cc oc = None"
proof -
  have "leaves (applyConfig_go E config A cc oc0 net) \<subseteq> {(oc, r). \<forall>res. r = Ret (res, None) \<longrightarrow>
      FillConfigs config cc oc0 = (oc, Ret None) \<and> ValidateConfig config cc oc = None}"
    unfolding applyConfig_go_def by (intro result_intros) simp_all
  with assms show ?thesis by blast
qed

lemma commits_install:
  assumes "retry_lawful E"
    and "\<And>oc0 oc. FillConfigs config cc oc0 = (oc, Ret None) \<Longrightarrow> ValidateConfig config cc oc = None \<Longrightarrow> commits L p (finish oc)"
  shows "commits L p (install_go E config (platform_adaptor E q) request cc net finish)"
  unfolding install_go_def
  by (intro commits_quiet_bnd [OF quiet_fetch [OF assms(1)]] commits_quiet_bnd [OF quiet_applyConfig [OF assms(1)]]
      commits_cases commits_Done)
    (auto intro: assms(2) dest: applyConfig_results)

lemma commits_Reconcile:
  assumes "retry_lawful E"
  shows "commits L p (Reconcile_go E L (platform_adaptor E q) p request)"
proof (cases p)
  case Kubernetes
  then show ?thesis
    using commits_install [OF assms commits_finish_k8s [OF assms]]
    by (simp add: Reconcile_go_def Reconcile_k8s_go_def commits_Done)
next
  case OpenShift
  note degraded = commits_quiet [OF quiet_SetDegraded [OF assms]]
  show ?thesis
    unfolding OpenShift Reconcile_go_def Reconcile_oc_go_def platform.case
    by (intro commits_quiet_bnd [OF quiet_call] commits_quiet_bnd [OF quiet_gets] commits_cases commits_Done degraded
        commits_install [OF assms commits_finish_oc [OF assms]]; simp)
qed

end
