(* ===== verification/Concurrent_Operator.thy ===== *)
theory Concurrent_Operator
  imports Interleaving
begin

text \<open>
  The two goroutines together: the pod reconciler under interference, the steps of the whole system, its
  invariant, and what follows from it: no panic of the pod reconciler, no deadlock, and a time at which
  both workers are idle again. How many steps a request takes is in \<open>Request_Bounds\<close>.
\<close>

section \<open>The pod reconciler\<close>

lemma guar_refl [simp]: "guar t h s s"
  by (simp add: guar_def same_applied_def)

lemma tsafe_read:
  assumes "\<And>s1. rely t h s s1 \<Longrightarrow> tsafe t (k (f s1)) h Q s1"
  shows "tsafe t (bnd (atom (gets f)) k) h Q s"
proof (intro threads.safe_bnd threads.safe_atom conjI allI impI)
  fix s1 a s2 assume s1: "rely t h s s1" "run_state (gets f) s1 = (a, s2)"
  then show "guar t h s1 s2" by simp
  fix s3 assume "rely t h s2 s3"
  with assms [OF s1(1)] s1(2) show "tsafe t (k a) h Q s3" by (auto intro: threads.safe_stable)
qed

lemma tsafe_after_quiet:
  assumes "quiet t h p" and "\<And>a s'. keeps t h s s' \<Longrightarrow> tsafe t (k a) h Q s'"
  shows "tsafe t (bnd p k) h Q s"
proof (rule threads.safe_bnd [OF threads.safe_mono])
  show "tsafe t p h (\<lambda>h' a s'. h' = h \<and> keeps t h s s') s"
    using assms(1) by (simp add: quiet_def)
  fix h' a s' assume "\<forall>s1. rely t h' s' s1 \<longrightarrow> h' = h \<and> keeps t h s s1"
  then have "h' = h" "keeps t h s s'" using threads.rely_refl by blast+
  with assms(2) show "tsafe t (k a) h' Q s'" by simp
qed

lemma tsafe_Done: "(\<And>s1. rely t h s s1 \<Longrightarrow> Q h a s1) \<Longrightarrow> tsafe t (Done a) h Q s"
  by simp

lemma tsafe_post: "tsafe t p h Q s \<Longrightarrow> (\<And>h a s. Q h a s \<Longrightarrow> Q' h a s) \<Longrightarrow> tsafe t p h Q' s"
  by (erule threads.safe_mono) (use threads.rely_refl in blast)

definition workload_known :: "'w reconciler \<Rightarrow> bool" where
  "workload_known s \<longleftrightarrow> AntreaAgentDaemonSetSpec (SharedInfo s) \<noteq> None \<or> AntreaControllerDeploymentSpec (SharedInfo s) \<noteq> None"

lemma workload_known_grows: "grows s s' \<Longrightarrow> workload_known s \<Longrightarrow> workload_known s'"
  by (auto simp: grows_def workload_known_def)

lemma tsafe_answer:
  "b \<longrightarrow> workload_known s \<Longrightarrow> tsafe t (Done (Ret b)) {} (\<lambda>h' a s'. h' = {} \<and> a \<noteq> Panic \<and> (a = Ret True \<longrightarrow> workload_known s')) s"
  by (auto simp: rely_def intro: workload_known_grows)

lemma tsafe_matches:
  fixes s :: "'w reconciler"
  assumes mono: "\<And>s s' :: 'w reconciler. grows s s' \<Longrightarrow> spec (SharedInfo s) \<noteq> None \<Longrightarrow> spec (SharedInfo s') \<noteq> None"
    and set: "\<And>s :: 'w reconciler. spec (SharedInfo s) \<noteq> None \<Longrightarrow> workload_known s"
  shows "tsafe t (matches_go spec request) {} (\<lambda>h' a s'. h' = {} \<and> a \<noteq> Panic \<and> (a = Ret True \<longrightarrow> workload_known s')) s"
proof -
  let ?Q = "\<lambda>h' a s'. h' = {} \<and> a \<noteq> Panic \<and> (a = Ret True \<longrightarrow> workload_known s')"
  have later: "\<exists>obj. spec (SharedInfo s1) = Some obj" "workload_known s1"
    if "spec (SharedInfo s) \<noteq> None" "rely t {} s s1" for s s1 :: "'w reconciler"
    using that mono [of s s1] set [of s1] by (auto simp: rely_def)
  have ns: "tsafe t (same_namespace_go spec request) {} ?Q s"
    if "spec (SharedInfo s) \<noteq> None" for s :: "'w reconciler"
    unfolding same_namespace_go_def
  proof (rule tsafe_read)
    fix s1 assume r: "rely t {} s s1"
    from later [OF that r] tsafe_answer [of _ s1]
    show "tsafe t (case spec (SharedInfo s1) of None \<Rightarrow> Done Panic
      | Some obj \<Rightarrow> Done (Ret (ns_of request = un_namespace obj))) {} ?Q s1"
      by (auto simp del: safe.simps)
  qed
  have name: "tsafe t (same_name_go spec request) {} ?Q s"
    if "spec (SharedInfo s) \<noteq> None" for s :: "'w reconciler"
    unfolding same_name_go_def
  proof (rule tsafe_read)
    fix s1 assume r: "rely t {} s s1"
    from later [OF that r] ns [of s1] tsafe_answer [of False s1]
    show "tsafe t (case spec (SharedInfo s1) of None \<Rightarrow> Done Panic
      | Some obj \<Rightarrow> if name_of request \<noteq> un_name obj then Done (Ret False) else same_namespace_go spec request) {} ?Q s1"
      by (auto simp del: safe.simps)
  qed
  show ?thesis
    unfolding matches_go_def
    by (rule tsafe_read) (use name tsafe_answer [of False] in \<open>auto simp del: safe.simps\<close>)
qed

lemma tsafe_isAntreaResource:
  "tsafe t (isAntreaResource_go request) {} (\<lambda>h' a s'. h' = {} \<and> a \<noteq> Panic \<and> (a = Ret True \<longrightarrow> workload_known s')) s"
  unfolding isAntreaResource_go_def
proof (rule threads.safe_bnd [OF tsafe_post])
  let ?Q = "\<lambda>h' a s'. h' = {} \<and> a \<noteq> Panic \<and> (a = Ret True \<longrightarrow> workload_known s')"
  show "tsafe t (matches_go AntreaAgentDaemonSetSpec request) {}
      (\<lambda>h' a s'. h' = {} \<and> a \<noteq> Panic \<and> (a = Ret True \<longrightarrow> workload_known s')) s"
    by (rule tsafe_matches) (auto simp: grows_def workload_known_def)
  have dep: "tsafe t (matches_go AntreaControllerDeploymentSpec request) {} ?Q s'" for s'
    by (rule tsafe_matches) (auto simp: grows_def workload_known_def)
  fix h' :: "lock_id set" and a and s' :: "'a reconciler" assume a: "h' = {} \<and> a \<noteq> Panic \<and> (a = Ret True \<longrightarrow> workload_known s')"
  then show "tsafe t (case a of Panic \<Rightarrow> Done Panic
      | Ret b \<Rightarrow> if b then Done (Ret True) else matches_go AntreaControllerDeploymentSpec request) h' ?Q s'"
    using dep tsafe_answer [of True s'] by (cases a) (auto simp del: safe.simps)
qed

text \<open>Under the mutex with both workloads known, nothing panics.\<close>

lemma tsafe_apply_missing:
  assumes "retry_lawful E"
  shows "tsafe t (apply_missing_go E (platform_adaptor E p) (Some obj) e) {InfoLock}
    (\<lambda>h' a s'. h' = {InfoLock} \<and> keeps t {InfoLock} s s' \<and> a \<noteq> Panic) s"
proof -
  let ?Q = "\<lambda>h' a s'. h' = {InfoLock} \<and> keeps t {InfoLock} s s' \<and> a \<noteq> Panic"
  have fin: "tsafe t (Done (Ret e)) {InfoLock} ?Q s'" if "keeps t {InfoLock} s s'" for s' and e :: "go_error option"
    using keeps_trans [OF that keeps_rely] by auto
  have deg: "tsafe t (bnd (SetDegraded_go (platform_adaptor E p) OperatorConfig r m) (\<lambda>_. Done (Ret e))) {InfoLock} ?Q s'"
    if "keeps t {InfoLock} s s'" for r m s' and e :: "go_error option"
    by (rule tsafe_after_quiet [OF quiet_SetDegraded [OF assms]]) (auto intro!: fin keeps_trans [OF that] simp del: safe.simps)
  have start: "keeps t {InfoLock} s s" by (simp add: keeps_def same_applied_def)
  have "tsafe t (bnd (call (apply_object E obj)) (\<lambda>a. case a of None \<Rightarrow> Done (Ret None)
      | Some e' \<Rightarrow> bnd (SetDegraded_go (platform_adaptor E p) OperatorConfig (r e') (m e')) (\<lambda>_. Done (Ret (Some e')))))
      {InfoLock} ?Q s" for r m
    by (rule tsafe_after_quiet [OF quiet_call]) (auto intro: deg fin split: option.split simp del: safe.simps)
  then show ?thesis
    using deg [OF start] by (simp add: apply_missing_go_def del: safe.simps)
qed

lemma tsafe_recreate:
  assumes "retry_lawful E" and "workload_known s"
  shows "tsafe t (recreateResourceIfNotExist_go E (platform_adaptor E p) request) {} (\<lambda>h' a s'. h' = {} \<and> a \<noteq> Panic) s"
  unfolding recreateResourceIfNotExist_go_def
proof (rule threads.safe_locked)
  fix s1 assume s1: "rely t {} s s1" "lock_inv InfoLock s1"
  then have "workload_known s1" and paired: "paired (SharedInfo s1)"
    using assms(2) by (auto simp: rely_def lock_inv_def intro: workload_known_grows)
  then obtain ds dep where info: "AntreaAgentDaemonSetSpec (SharedInfo s1) = Some ds"
      "AntreaControllerDeploymentSpec (SharedInfo s1) = Some dep"
    by (auto simp: workload_known_def paired_def)
  let ?P = "\<lambda>h' a s'. h' = {InfoLock} \<and> keeps t {InfoLock} s1 s' \<and> a \<noteq> Panic"
  have missing: "tsafe t (apply_missing_go E (platform_adaptor E p) (Some obj) e) {InfoLock} ?P s'"
    if "keeps t {InfoLock} s1 s'" for obj e s'
    by (rule tsafe_post [OF tsafe_apply_missing [OF assms(1)]]) (use keeps_trans [OF that] in blast)
  have fin: "tsafe t (Done (Ret e)) {InfoLock} ?P s'" if "keeps t {InfoLock} s1 s'" for s' and e :: "go_error option"
    using keeps_trans [OF that keeps_rely] by auto
  have read: "quiet t {InfoLock} (read_workload_go E b request)" for b
    unfolding read_workload_go_def by (intro quiet_intros)
  have body: "tsafe t (bnd (read_workload_go E (matches request ds) request) (\<lambda>err. case err of None \<Rightarrow> Done (Ret None)
      | Some e \<Rightarrow> apply_missing_go E (platform_adaptor E p) (if matches request ds then Some ds else Some dep) e)) {InfoLock} ?P s2"
    if "keeps t {InfoLock} s1 s2" for s2
    by (rule tsafe_after_quiet [OF read])
      (auto intro: missing fin keeps_trans [OF that] split: option.split simp del: safe.simps)
  have "tsafe t (bnd (atom (gets SharedInfo)) (\<lambda>info. case AntreaAgentDaemonSetSpec info of None \<Rightarrow> Done Panic
      | Some ds \<Rightarrow> bnd (read_workload_go E (matches request ds) request) (\<lambda>err. case err of None \<Rightarrow> Done (Ret None)
          | Some e \<Rightarrow> apply_missing_go E (platform_adaptor E p)
              (if matches request ds then Some ds else AntreaControllerDeploymentSpec info) e))) {InfoLock} ?P s1"
  proof (rule tsafe_read)
    fix s2 assume r: "rely t {InfoLock} s1 s2"
    then have "SharedInfo s2 = SharedInfo s1" by (simp add: rely_def)
    with body [OF keeps_rely [OF r]] info
    show "tsafe t (case AntreaAgentDaemonSetSpec (SharedInfo s2) of None \<Rightarrow> Done Panic
      | Some ds \<Rightarrow> bnd (read_workload_go E (matches request ds) request) (\<lambda>err. case err of None \<Rightarrow> Done (Ret None)
          | Some e \<Rightarrow> apply_missing_go E (platform_adaptor E p)
              (if matches request ds then Some ds else AntreaControllerDeploymentSpec (SharedInfo s2)) e)) {InfoLock} ?P s2"
      by (cases "matches request ds") (simp_all del: safe.simps cong: option.case_cong)
  qed
  then show "tsafe t (bnd (atom (gets SharedInfo)) (\<lambda>info. case AntreaAgentDaemonSetSpec info of None \<Rightarrow> Done Panic
      | Some ds \<Rightarrow> bnd (read_workload_go E (matches request ds) request) (\<lambda>err. case err of None \<Rightarrow> Done (Ret None)
          | Some e \<Rightarrow> apply_missing_go E (platform_adaptor E p)
              (if matches request ds then Some ds else AntreaControllerDeploymentSpec info) e))) (insert InfoLock {})
      (\<lambda>h' a s'. h' = insert InfoLock {} \<and> lock_inv InfoLock s' \<and> (\<forall>s1. rely t {} s' s1 \<longrightarrow> {} = ({} :: lock_id set) \<and> a \<noteq> Panic)) s1"
    by (rule tsafe_post) (use paired in \<open>auto simp: keeps_def lock_inv_def\<close>)
qed simp_all

lemma tsafe_pod_Reconcile:
  assumes "retry_lawful E"
  shows "tsafe PodT (pod_Reconcile_go E (platform_adaptor E p) request) {} (\<lambda>h' a s'. h' = {} \<and> a \<noteq> Panic) s"
  unfolding pod_Reconcile_go_def
proof (rule threads.safe_bnd [OF tsafe_post [OF tsafe_isAntreaResource]])
  let ?Q = "\<lambda>h' a s'. h' = {} \<and> a \<noteq> Panic"
  have status: "quiet PodT {} (SetFromPods_go E (platform_adaptor E p))"
    unfolding SetFromPods_go_def by (intro quiet_locked quiet_calm calm_SetFromPods assms) simp
  have rest: "tsafe PodT (bnd (SetFromPods_go E (platform_adaptor E p)) (\<lambda>_.
      bnd (recreateResourceIfNotExist_go E (platform_adaptor E p) request) (\<lambda>r. case r of Panic \<Rightarrow> Done Panic
        | Ret e \<Rightarrow> (case e of Some err \<Rightarrow> Done (Ret (requeue, Some err))
          | None \<Rightarrow> Done (Ret (\<lparr>Requeue = False, RequeueAfter = ResyncPeriod\<rparr>, None)))))) {} ?Q s'" if "workload_known s'" for s'
    by (rule tsafe_after_quiet [OF status], rule threads.safe_bnd [OF tsafe_post [OF tsafe_recreate [OF assms]]])
      (use that in \<open>auto simp: keeps_def intro: workload_known_grows split: go.split option.split\<close>)
  fix h' :: "lock_id set" and a and s' :: "'a reconciler" assume a: "h' = {} \<and> a \<noteq> Panic \<and> (a = Ret True \<longrightarrow> workload_known s')"
  then obtain b where b: "a = Ret b" by (cases a) auto
  show "tsafe PodT (case a of Panic \<Rightarrow> Done Panic
      | Ret b \<Rightarrow>
          if \<not> b then Done (Ret (no_requeue, None))
          else bnd (SetFromPods_go E (platform_adaptor E p)) (\<lambda>_.
            bnd (recreateResourceIfNotExist_go E (platform_adaptor E p) request) (\<lambda>r. case r of Panic \<Rightarrow> Done Panic
              | Ret e \<Rightarrow> (case e of Some err \<Rightarrow> Done (Ret (requeue, Some err))
                | None \<Rightarrow> Done (Ret (\<lparr>Requeue = False, RequeueAfter = ResyncPeriod\<rparr>, None)))))) h' ?Q s'"
    using a b rest by (cases b) (auto simp del: safe.simps intro: tsafe_Done)
qed

section \<open>The system\<close>

type_synonym 'w sys_conf = "('w reconciler, tid, result \<times> go_error option) conf"

inductive sys_step :: "('w, 'e) cenv \<Rightarrow> cfg_lib \<Rightarrow> platform \<Rightarrow> 'w sys_conf \<Rightarrow> 'w sys_conf \<Rightarrow> bool"
  for E L p c where
  worker: "thread_step t c c' \<Longrightarrow> sys_step E L p c c'"
| outside: "sys_step E L p c (c\<lparr>shared := (shared c)\<lparr>world := w\<rparr>\<rparr>)"
| install_request: "work c InstallT = None \<Longrightarrow>
    sys_step E L p c (c\<lparr>work := (work c)(InstallT := Some (Reconcile_go E L (platform_adaptor E p) p request))\<rparr>)"
| pod_request: "work c PodT = None \<Longrightarrow>
    sys_step E L p c (c\<lparr>work := (work c)(PodT := Some (pod_Reconcile_go E (platform_adaptor E p) request))\<rparr>)"

inductive sys_reachable :: "('w, 'e) cenv \<Rightarrow> cfg_lib \<Rightarrow> platform \<Rightarrow> 'w sys_conf \<Rightarrow> bool" for E L p where
  start: "run_state (operator_start E) w = (Inr (s, p, q), w') \<Longrightarrow>
    sys_reachable E L p \<lparr>shared = s, owner = (\<lambda>_. None), work = (\<lambda>_. None)\<rparr>"
| step: "sys_reachable E L p c \<Longrightarrow> sys_step E L p c c' \<Longrightarrow> sys_reachable E L p c'"

definition expected :: "tid \<Rightarrow> 'a go \<Rightarrow> bool" where
  "expected t r \<longleftrightarrow> (t = PodT \<longrightarrow> r \<noteq> Panic)"

text \<open>While its worker has no request, the remembered configuration is valid.\<close>

definition at_rest :: "cfg_lib \<Rightarrow> platform \<Rightarrow> tid \<Rightarrow> 'w reconciler \<Rightarrow> bool" where
  "at_rest L p t s \<longleftrightarrow> (t = InstallT \<longrightarrow> remembered_ok L p s)"

definition sys_inv :: "cfg_lib \<Rightarrow> platform \<Rightarrow> 'w sys_conf \<Rightarrow> bool" where
  "sys_inv L p c \<longleftrightarrow> levels_ok (shared c) \<and> threads.conf_ok expected (at_rest L p) c"

lemma at_rest_stable: "threads.idle_stable (at_rest L p)"
  by (auto simp: threads.idle_stable_def at_rest_def rely_def intro: remembered_same)

lemma tsafe_install:
  assumes "retry_lawful E" and "remembered_ok L p s"
  shows "tsafe InstallT (Reconcile_go E L (platform_adaptor E p) p request) {}
    (\<lambda>h a s'. h = {} \<and> expected InstallT a \<and> at_rest L p InstallT s') s"
  by (rule tsafe_post) (use commits_Reconcile [OF assms(1)] assms(2) in \<open>auto simp: commits_def expected_def at_rest_def\<close>)

lemma tsafe_pod:
  assumes "retry_lawful E"
  shows "tsafe PodT (pod_Reconcile_go E (platform_adaptor E p) request) {}
    (\<lambda>h a s'. h = {} \<and> expected PodT a \<and> at_rest L p PodT s') s"
  by (rule tsafe_post [OF tsafe_pod_Reconcile [OF assms]]) (simp add: expected_def at_rest_def)

lemma thread_step_levels:
  assumes "threads.idle_stable J" and "threads.conf_ok P J c" and "levels_ok (shared c)" and "thread_step t c c'"
  shows "levels_ok (shared c')"
  using assms(4)
proof (cases rule: thread_step.cases)
  case (run f q s')
  with threads.run_ok [OF assms(1,2) run(2,3)] assms(3) show ?thesis
    by (simp add: guar_def grows_def)
qed (use assms(3) in simp_all)

lemma sys_inv_step:
  fixes c :: "'w sys_conf"
  assumes lawful: "retry_lawful E" and "sys_step E L p c c'" and inv: "sys_inv L p c"
  shows "sys_inv L p c'"
  using assms(2)
proof (cases rule: sys_step.cases)
  case (worker t)
  with inv threads.conf_ok_step [OF at_rest_stable] thread_step_levels [OF at_rest_stable] show ?thesis
    unfolding sys_inv_def by blast
next
  case (outside w)
  have rely: "rely t h (shared c) ((shared c)\<lparr>world := w\<rparr>)" for t h
    by (simp add: rely_def grows_def same_applied_def levels_ok_def failing_are_degraded_def)
  have "threads.conf_ok expected (at_rest L p) (c\<lparr>shared := (shared c)\<lparr>world := w\<rparr>\<rparr>)"
    by (rule threads.conf_ok_interfere [OF _ _ _ at_rest_stable])
      (use inv rely in \<open>auto simp: sys_inv_def lock_inv_def\<close>)
  moreover have "levels_ok ((shared c)\<lparr>world := w\<rparr>)"
    using inv rely [of PodT "{}"] by (simp add: sys_inv_def rely_def grows_def)
  ultimately show ?thesis using outside by (simp add: sys_inv_def)
next
  case (install_request request)
  then have "remembered_ok L p (shared c)"
    using inv threads.conf_okD(2) [of expected "at_rest L p" c InstallT] by (simp add: sys_inv_def at_rest_def)
  with inv install_request tsafe_install [OF lawful] show ?thesis
    by (simp add: sys_inv_def threads.conf_ok_begin)
next
  case (pod_request request)
  with inv tsafe_pod [OF lawful] show ?thesis
    by (simp add: sys_inv_def threads.conf_ok_begin)
qed

lemma sys_inv_reachable:
  assumes "retry_lawful E" and "sys_reachable E L p c"
  shows "sys_inv L p c"
  using assms(2)
proof (induction rule: sys_reachable.induct)
  case (start w s q w')
  then show ?case
    by (auto simp: operator_start_run sys_inv_def threads.conf_ok_def held_def lock_inv_def paired_def levels_ok_def
        failing_are_degraded_def at_rest_def remembered_ok_def split: prod.splits sum.splits option.splits)
next
  case (step c c')
  then show ?case by (blast intro: sys_inv_step [OF assms(1)])
qed

lemma no_panic:
  assumes "retry_lawful E" and "sys_reachable E L p c"
  shows "\<not> panicked c PodT"
  using threads.conf_ok_result(1) [of expected "at_rest L p" c PodT Panic] sys_inv_reachable [OF assms]
  by (auto simp: panicked_def expected_def sys_inv_def)

type_synonym 'w left = "tid \<Rightarrow> ('w reconciler, (result \<times> go_error option) go) prog option"

definition less_work :: "('w left \<times> 'w left) set" where
  "less_work = {(v', v). \<exists>t. shorter (v' t) (v t) \<and> (\<forall>t'. t' \<noteq> t \<longrightarrow> v' t' = v t')}"

lemma wf_less_work: "wf less_work"
proof -
  let ?r = "{(x', x :: ('w reconciler, (result \<times> go_error option) go) prog option). shorter x' x}"
  have "wf (inv_image (?r <*lex*> ?r) (\<lambda>v :: 'w left. (v InstallT, v PodT)))"
    using wfp_shorter unfolding wfp_def by (intro wf_inv_image wf_lex_prod)
  then show ?thesis
  proof (rule wf_subset)
    show "less_work \<subseteq> inv_image (?r <*lex*> ?r) (\<lambda>v :: 'w left. (v InstallT, v PodT))"
    proof (rule subrelI)
      fix v' v :: "'w left"
      assume "(v', v) \<in> less_work"
      then obtain t where t: "shorter (v' t) (v t)" "\<forall>t'. t' \<noteq> t \<longrightarrow> v' t' = v t'"
        by (auto simp: less_work_def)
      then show "(v', v) \<in> inv_image (?r <*lex*> ?r) (\<lambda>v :: 'w left. (v InstallT, v PodT))"
        by (cases t) simp_all
    qed
  qed
qed

lemma thread_step_less: "thread_step t c c' \<Longrightarrow> (work c', work c) \<in> less_work"
  by (auto simp: less_work_def dest: thread_step_shorter)

lemma no_endless_run:
  assumes step: "\<And>i. (v (Suc i), v i) \<in> less_work \<or> v (Suc i) = v i"
    and often: "\<And>i. \<exists>j\<ge>i. (v (Suc j), v j) \<in> less_work"
  shows False
proof -
  have later: "(v (i + d), v i) \<in> less_work\<^sup>*" for i d
  proof (induction d)
    case (Suc d)
    with step [of "i + d"] show ?case by (auto intro: converse_rtrancl_into_rtrancl)
  qed simp
  have "v i \<noteq> x" for i x
    using wf_trancl [OF wf_less_work]
  proof (induction x arbitrary: i)
    case (less x)
    obtain j where "i \<le> j" "(v (Suc j), v j) \<in> less_work" using often by blast
    with later [of i "j - i"] have "(v (Suc j), v i) \<in> less_work\<^sup>+" by simp
    with less show ?case by blast
  qed
  then show False by blast
qed

definition ref_conf :: "cluster \<Rightarrow> cluster sys_conf" where
  "ref_conf w = \<lparr>shared = fresh_reconciler ''kubernetes'' w, owner = (\<lambda>_. None), work = (\<lambda>_. None)\<rparr>"

definition ref_busy :: "cluster \<Rightarrow> cluster sys_conf" where
  "ref_busy w = (ref_conf w)\<lparr>work := (\<lambda>_. None)
     (InstallT := Some (Reconcile_go ref_ctl ref_lib (platform_adaptor ref_ctl Kubernetes) Kubernetes antrea_install_key),
      PodT := Some (pod_Reconcile_go ref_ctl (platform_adaptor ref_ctl Kubernetes) (NSN ''kube-system'' ''antrea-agent'')))\<rparr>"

lemma ref_conf_reachable: "sys_reachable ref_ctl ref_lib Kubernetes (ref_conf w)"
proof -
  let ?w = "sample_cluster\<lparr>cl_install := Some (filled_install\<lparr>install_spec :=
      filled_spec\<lparr>AntreaPlatform := ''kubernetes''\<rparr>\<rparr>)\<rparr>"
  have "sys_reachable ref_ctl ref_lib Kubernetes (ref_conf ?w)"
    unfolding ref_conf_def
    by (rule sys_reachable.start [where w = ?w and q = Kubernetes])
      (simp add: operator_start_run parse_platform_def fresh_reconciler_def)
  from sys_reachable.step [OF this sys_step.outside [where w = w]]
  show ?thesis by (simp add: ref_conf_def fresh_reconciler_def)
qed

lemma ref_busy_reachable: "sys_reachable ref_ctl ref_lib Kubernetes (ref_busy w)"
proof -
  let ?c = "(ref_conf w)\<lparr>work := (work (ref_conf w))(InstallT := Some (Reconcile_go ref_ctl ref_lib
    (platform_adaptor ref_ctl Kubernetes) Kubernetes antrea_install_key))\<rparr>"
  have "sys_reachable ref_ctl ref_lib Kubernetes ?c"
    by (rule sys_reachable.step [OF ref_conf_reachable sys_step.install_request]) (simp add: ref_conf_def)
  moreover have "work ?c PodT = None" by (simp add: ref_conf_def)
  ultimately have "sys_reachable ref_ctl ref_lib Kubernetes (?c\<lparr>work := (work ?c)(PodT :=
      Some (pod_Reconcile_go ref_ctl (platform_adaptor ref_ctl Kubernetes) (NSN ''kube-system'' ''antrea-agent'')))\<rparr>)"
    by (rule sys_reachable.step [OF _ sys_step.pod_request])
  then show ?thesis by (simp add: ref_busy_def ref_conf_def)
qed

lemma no_deadlock:
  assumes lawful: "retry_lawful E" and reach: "sys_reachable E L p c"
    and live: "\<exists>t. work c t \<noteq> None" and alive: "\<not> panicked c InstallT"
  shows "\<exists>t' c'. thread_step t' c c'"
proof (rule ccontr)
  obtain t where live: "work c t \<noteq> None" using live by blast
  assume "\<nexists>t' c'. thread_step t' c c'"
  then have stuck: "\<And>t' c'. \<not> thread_step t' c c'" by blast
  have ok: "threads.conf_ok expected (at_rest L p) c"
    using sys_inv_reachable [OF lawful reach] by (simp add: sys_inv_def)
  have "\<not> panicked c t'" for t'
    using alive no_panic [OF lawful reach] by (cases t') simp_all
  note blocked = threads.blocked [OF ok _ this stuck]
  obtain l t' where t': "t' \<noteq> t" "l \<in> held c t'" "\<forall>l'\<in>held c t. l' < l"
    using blocked [OF live] by blast
  then have "work c t' \<noteq> None" using threads.conf_okD(2) [OF ok, of t'] by auto
  from blocked [OF this] obtain l' t'' where t'': "t'' \<noteq> t'" "l' \<in> held c t''" "\<forall>l\<in>held c t'. l < l'"
    by blast
  with t'(1) have "t'' = t" by (cases t; cases t'; cases t'') simp_all
  with t' t'' have "l' < l" "l < l'" by blast+
  then show False by simp
qed

lemma sequential_run_reachable:
  assumes "retry_lawful E" and "sys_reachable E L p c" and "\<forall>t. work c t = None"
    and "run_state (Reconcile E L (platform_adaptor E p) p request) (shared c) = (Ret r, s') \<or>
      run_state (pod_Reconcile E (platform_adaptor E p) request) (shared c) = (Ret r, s')"
  shows "\<exists>c'. sys_reachable E L p c' \<and> shared c' = s' \<and> (\<forall>t. work c' t = None)"
proof -
  have runs: "\<exists>c'. sys_reachable E L p c' \<and> shared c' = s' \<and> (\<forall>t. work c' t = None)"
    if "sys_step E L p c (c\<lparr>work := (work c)(t := Some g)\<rparr>)" "run_prog g (shared c) = (Ret r, s')" for t g
  proof -
    let ?c = "c\<lparr>work := (work c)(t := Some g)\<rparr>"
    have c: "sys_reachable E L p ?c" by (rule sys_reachable.step [OF assms(2) that(1)])
    then have "threads.conf_ok expected (at_rest L p) ?c"
      using sys_inv_reachable [OF assms(1)] by (simp add: sys_inv_def)
    from threads.alone [OF at_rest_stable this, of t g r s'] assms(3) that(2)
    obtain c' where "(thread_step t)\<^sup>*\<^sup>* ?c c'" "shared c' = s'" "\<forall>t. work c' t = None" by auto
    moreover from this(1) have "sys_reachable E L p c'"
      by (induction rule: rtranclp_induct) (use c in \<open>auto intro: sys_reachable.step sys_step.worker\<close>)
    ultimately show ?thesis by blast
  qed
  have run_as_state: "run_prog g s = run_state (as_state g) s" for g and s :: "'a reconciler"
    by (simp add: as_state_def)
  from assms(4) show ?thesis
    using runs [OF sys_step.install_request] runs [OF sys_step.pod_request] assms(3)
    by (auto simp: run_as_state go_Reconcile go_pod_Reconcile)
qed

lemma ref_apply_run:
  obtains re t where "run_state (Reconcile ref_ctl ref_lib (platform_adaptor ref_ctl Kubernetes) Kubernetes
      antrea_install_key) (shared (ref_conf applied_cluster)) = (Ret re, t)" "AppliedOperConfig t = Some filled_install"
proof -
  obtain r t where run: "run_state (Reconcile ref_ctl ref_lib (platform_adaptor ref_ctl Kubernetes) Kubernetes
      antrea_install_key) (shared (ref_conf applied_cluster)) = (r, t)" by fastforce
  then have t: "AppliedOperConfig t = Some filled_install"
    using ref_restart_remembers by (simp add: ref_conf_def)
  with Reconcile_post [OF ref_ctl_retry_lawful run] obtain re where "r = Ret re"
    by (auto simp: reconcile_post_def committed_def ref_conf_def)
  with run t that show thesis by blast
qed

section \<open>Properties of every interleaving\<close>

text \<open>C1: However the steps of the two workers are interleaved, down to the single reads of the shared
  information that \<open>isAntreaResource\<close> makes without the mutex and the two writes of the other worker,
  and whatever changes outside in between: the pod reconciler never dereferences a missing workload,
  outside the mutex the two workloads are known together or not at all, only ClusterConfig,
  OperatorConfig and RolloutHung are ever degraded, and a worker without a request holds no mutex.\<close>

theorem no_interleaving_panics:
  assumes "retry_lawful E" and "sys_reachable E L p c"
  shows "\<not> panicked c PodT \<and>
    (owner c InfoLock = None \<longrightarrow> paired (SharedInfo (shared c))) \<and>
    failing (shared c) PodDeployment = None \<and> failing (shared c) ClusterNode = None \<and>
    (\<forall>t. work c t = None \<longrightarrow> held c t = {})"
proof -
  have ok: "threads.conf_ok expected (at_rest L p) c" and levels: "levels_ok (shared c)"
    using sys_inv_reachable [OF assms] by (simp_all add: sys_inv_def)
  have "owner c InfoLock = None \<longrightarrow> paired (SharedInfo (shared c))"
    using threads.conf_okD(1) [OF ok, of InfoLock] by (simp add: lock_inv_def)
  then show ?thesis
    using no_panic [OF assms] levels threads.conf_okD(2) [OF ok] by (simp add: levels_ok_def)
qed

lemma no_interleaving_panics_witness:
  "\<not> panicked (ref_busy sample_cluster) PodT \<and> work (ref_busy sample_cluster) PodT \<noteq> None"
  using no_interleaving_panics [OF ref_ctl_retry_lawful ref_busy_reachable [of sample_cluster]]
  by (simp add: ref_busy_def)

text \<open>C15: Whenever the worker of the custom resource has no request, and however the pod reconciler ran in
  between, a remembered configuration names an image and is one that the platform's component filled and
  accepted, on OpenShift for the network specification that is remembered with it; so nothing invalid is
  ever the base of the next comparison.\<close>

theorem remembered_valid_under_interleaving:
  assumes "retry_lawful E" and "sys_reachable E L p c" and "work c InstallT = None"
    and "AppliedOperConfig (shared c) = Some oc"
  shows "AntreaImage (install_spec oc) \<noteq> '''' \<and> filled_for L p (shared c) oc"
proof -
  have "threads.conf_ok expected (at_rest L p) c"
    using sys_inv_reachable [OF assms(1,2)] by (simp add: sys_inv_def)
  from threads.conf_okD(2) [OF this assms(3)] assms(4) show ?thesis
    by (simp add: at_rest_def remembered_ok_def)
qed

lemma remembered_valid_under_interleaving_witness:
  "\<exists>c. sys_reachable ref_ctl ref_lib Kubernetes c \<and> AppliedOperConfig (shared c) = Some filled_install \<and>
     filled_for ref_lib Kubernetes (shared c) filled_install"
proof -
  obtain re t where run: "run_state (Reconcile ref_ctl ref_lib (platform_adaptor ref_ctl Kubernetes) Kubernetes
      antrea_install_key) (shared (ref_conf applied_cluster)) = (Ret re, t)" and t: "AppliedOperConfig t = Some filled_install"
    by (rule ref_apply_run)
  have "\<forall>t. work (ref_conf applied_cluster) t = None" by (simp add: ref_conf_def)
  from sequential_run_reachable [OF ref_ctl_retry_lawful ref_conf_reachable this disjI1, OF run] t
  obtain c where c: "sys_reachable ref_ctl ref_lib Kubernetes c" "work c InstallT = None"
      "AppliedOperConfig (shared c) = Some filled_install" by auto
  from remembered_valid_under_interleaving [OF ref_ctl_retry_lawful c] c show ?thesis by blast
qed

text \<open>No deadlock: in every reachable configuration in which some worker has a request, some worker
  can take its next step, unless the other reconciler has panicked. The mutex of the shared information is
  always taken before that of the status manager, so no cycle of waiting workers can form.\<close>

theorem workers_never_deadlock:
  assumes "retry_lawful E" and "sys_reachable E L p c" and "work c t \<noteq> None" and "\<not> panicked c InstallT"
  shows "\<exists>t' c'. thread_step t' c c'"
  using no_deadlock [OF assms(1,2) _ assms(4)] assms(3) by blast

lemma workers_never_deadlock_witness: "\<exists>t' c'. thread_step t' (ref_busy sample_cluster) c'"
  by (rule workers_never_deadlock [OF ref_ctl_retry_lawful ref_busy_reachable, where t = PodT])
    (simp_all add: ref_busy_def panicked_def Reconcile_go_def Reconcile_k8s_go_def isOperatorRequest_def
      install_go_def fetchAntreaInstall_go_def atom_def)

text \<open>C10: The operator becomes idle again: take any run from a reachable configuration in which no new
  request arrives, the outside changes as it likes, and the scheduler does not stop for ever while some
  worker can step. At some point both workers are without a request, or the reconciler of the custom
  resource has panicked.\<close>

theorem operator_becomes_idle:
  assumes lawful: "retry_lawful E" and reach: "sys_reachable E L p (r 0)"
    and run: "\<forall>i. (\<exists>t. thread_step t (r i) (r (Suc i))) \<or>
      (\<exists>w. r (Suc i) = (r i)\<lparr>shared := (shared (r i))\<lparr>world := w\<rparr>\<rparr>)"
    and scheduled: "\<forall>i. \<exists>j\<ge>i. (\<exists>t. thread_step t (r j) (r (Suc j))) \<or> (\<forall>t c'. \<not> thread_step t (r j) c')"
  shows "\<exists>n. (\<forall>t. work (r n) t = None) \<or> panicked (r n) InstallT"
proof (rule ccontr)
  assume "\<nexists>n. (\<forall>t. work (r n) t = None) \<or> panicked (r n) InstallT"
  then have busy: "\<exists>t. work (r n) t \<noteq> None" "\<not> panicked (r n) InstallT" for n by auto
  have reachable: "sys_reachable E L p (r n)" for n
  proof (induction n)
    case (Suc n)
    then show ?case using run sys_step.worker sys_step.outside sys_reachable.step by metis
  qed (rule reach)
  have "(work (r (Suc i)), work (r i)) \<in> less_work \<or> work (r (Suc i)) = work (r i)" for i
    using run thread_step_less by (metis conf.select_convs(3) conf.surjective conf.update_convs(1))
  moreover have "\<exists>j\<ge>i. (work (r (Suc j)), work (r j)) \<in> less_work" for i
    using scheduled thread_step_less no_deadlock [OF lawful reachable busy] by meson
  ultimately show False by (rule no_endless_run)
qed

text \<open>A pod request that finds no workload known: two reads and the return.\<close>

definition pod_advance :: "'w sys_conf \<Rightarrow> 'w sys_conf" where
  "pod_advance c = (case work c PodT of
     Some (Atom f) \<Rightarrow> (case f (shared c) of (q, s') \<Rightarrow> c\<lparr>shared := s', work := (work c)(PodT := Some q)\<rparr>)
   | Some (Done (Ret r)) \<Rightarrow> c\<lparr>work := (work c)(PodT := None)\<rparr>
   | _ \<Rightarrow> c)"

definition ref_pod_run :: "nat \<Rightarrow> cluster sys_conf" where
  "ref_pod_run i = (pod_advance ^^ i) ((ref_conf sample_cluster)\<lparr>work := (\<lambda>_. None)
     (PodT := Some (pod_Reconcile_go ref_ctl (platform_adaptor ref_ctl Kubernetes) (NSN ''kube-system'' ''antrea-agent'')))\<rparr>)"

lemma pod_advance_step:
  "(\<exists>t. thread_step t c (pod_advance c)) \<or> (\<exists>w. pod_advance c = c\<lparr>shared := (shared c)\<lparr>world := w\<rparr>\<rparr>)"
proof -
  have same: "\<exists>w. c = c\<lparr>shared := (shared c)\<lparr>world := w\<rparr>\<rparr>" by (rule exI [of _ "world (shared c)"]) simp
  show ?thesis
    by (auto simp: pod_advance_def same split: option.splits prog.splits go.splits prod.splits
        intro: thread_step.run thread_step.finish)
qed

lemma ref_pod_run_Suc: "ref_pod_run (Suc i) = pod_advance (ref_pod_run i)"
  by (simp add: ref_pod_run_def)

lemma ref_pod_run_3: "ref_pod_run 3 = ref_conf sample_cluster"
  by (simp add: ref_pod_run_def numeral_3_eq_3 pod_advance_def pod_Reconcile_go_def isAntreaResource_go_def
      matches_go_def atom_def ref_conf_def)

lemma ref_pod_run_later: "ref_pod_run (i + 3) = ref_conf sample_cluster"
proof (induction i)
  case (Suc i)
  moreover have "pod_advance (ref_conf sample_cluster) = ref_conf sample_cluster"
    by (simp add: pod_advance_def ref_conf_def)
  ultimately show ?case unfolding add_Suc ref_pod_run_Suc by simp
qed (simp add: ref_pod_run_3)

lemma operator_becomes_idle_witness:
  "work (ref_pod_run 0) PodT \<noteq> None \<and> (\<exists>n. (\<forall>t. work (ref_pod_run n) t = None) \<or> panicked (ref_pod_run n) InstallT)"
proof
  show "work (ref_pod_run 0) PodT \<noteq> None" by (simp add: ref_pod_run_def)
  show "\<exists>n. (\<forall>t. work (ref_pod_run n) t = None) \<or> panicked (ref_pod_run n) InstallT"
  proof (rule operator_becomes_idle [OF ref_ctl_retry_lawful])
    have "sys_reachable ref_ctl ref_lib Kubernetes ((ref_conf sample_cluster)\<lparr>work := (work (ref_conf sample_cluster))(PodT :=
        Some (pod_Reconcile_go ref_ctl (platform_adaptor ref_ctl Kubernetes) (NSN ''kube-system'' ''antrea-agent'')))\<rparr>)"
      by (rule sys_reachable.step [OF ref_conf_reachable sys_step.pod_request]) (simp add: ref_conf_def)
    then show "sys_reachable ref_ctl ref_lib Kubernetes (ref_pod_run 0)"
      by (simp add: ref_pod_run_def ref_conf_def)
    show "\<forall>i. (\<exists>t. thread_step t (ref_pod_run i) (ref_pod_run (Suc i))) \<or>
        (\<exists>w. ref_pod_run (Suc i) = (ref_pod_run i)\<lparr>shared := (shared (ref_pod_run i))\<lparr>world := w\<rparr>\<rparr>)"
      unfolding ref_pod_run_Suc by (intro allI pod_advance_step)
    have "\<not> thread_step t (ref_conf sample_cluster) c'" for t c'
      by (auto simp: ref_conf_def elim!: thread_stepE)
    then have "\<not> thread_step t (ref_pod_run (i + 3)) c'" for t c' i
      by (simp add: ref_pod_run_later)
    then show "\<forall>i. \<exists>j\<ge>i. (\<exists>t. thread_step t (ref_pod_run j) (ref_pod_run (Suc j))) \<or>
        (\<forall>t c'. \<not> thread_step t (ref_pod_run j) c')"
      by (metis le_add1)
  qed
qed

end
