(* ===== verification/Request_Bounds.thy ===== *)
theory Request_Bounds
  imports Concurrent_Operator
begin

text \<open>
  How many steps a request takes. \<open>within p n\<close> says that a program takes at most \<open>n\<close> steps before its
  result, whatever state it meets at each of them; the bound of a sequence is the sum of the bounds. From the
  bounds of the operations follows one for each reconciler, in the number of objects that the manifests
  render to, and from that one for every run of the concurrent operator.
\<close>

section \<open>Bounded programs\<close>

primrec within :: "('s, 'a) prog \<Rightarrow> nat \<Rightarrow> bool" where
  "within (Done a) = (\<lambda>n. True)"
| "within (Atom f) = (\<lambda>n. 0 < n \<and> (\<forall>s. fst (map_prod within id (f s)) (n - 1)))"
| "within (Acquire l p) = (\<lambda>n. 0 < n \<and> within p (n - 1))"
| "within (Release l p) = (\<lambda>n. 0 < n \<and> within p (n - 1))"

lemma within_Atom: "within (Atom f) n \<longleftrightarrow> 0 < n \<and> (\<forall>s. within (fst (f s)) (n - 1))"
  by simp

lemma within_mono: "within p m \<Longrightarrow> m \<le> n \<Longrightarrow> within p n"
proof (induction p arbitrary: m n rule: prog_induct)
  case (Atom f)
  have "within (fst (f s)) (n - 1)" for s
    by (rule Atom.IH [of s _ "snd (f s)" "m - 1"]) (use Atom.prems in \<open>auto simp: within_Atom\<close>)
  with Atom.prems show ?case unfolding within_Atom by auto
next
  case (Acquire l p)
  from Acquire.IH [of "m - 1" "n - 1"] Acquire.prems show ?case by auto
next
  case (Release l p)
  from Release.IH [of "m - 1" "n - 1"] Release.prems show ?case by auto
qed simp

lemma within_bnd:
  "within p m \<Longrightarrow> (\<And>a. a \<in> leaves p \<Longrightarrow> within (k a) n) \<Longrightarrow> within (bnd p k) (m + n)"
proof (induction p arbitrary: m rule: prog_induct)
  case (Done a)
  then show ?case by (auto intro: within_mono)
next
  case (Atom f)
  have "within (bnd (fst (f s)) k) (m - 1 + n)" for s
  proof (rule Atom.IH [of s _ "snd (f s)"])
    show "within (fst (f s)) (m - 1)" using Atom.prems(1) by (simp add: within_Atom)
    show "within (k a) n" if "a \<in> leaves (fst (f s))" for a
      using Atom.prems(2) that unfolding leaves_Atom by blast
  qed simp
  with Atom.prems(1) show ?case by (simp add: split_beta map_prod_def comp_def)
next
  case (Acquire l p)
  from Acquire.IH [of "m - 1"] Acquire.prems show ?case by auto
next
  case (Release l p)
  from Release.IH [of "m - 1"] Release.prems show ?case by auto
qed

named_theorems within_intros \<open>rules that bound the steps of a program\<close>

lemma within_tail: "within p m \<Longrightarrow> m \<le> n \<Longrightarrow> within p n"
  by (rule within_mono)

lemma within_then:
  assumes "within p m" and "m \<le> n" and "\<And>a. a \<in> leaves p \<Longrightarrow> within (k a) (n - m)"
  shows "within (bnd p k) n"
  using within_bnd [OF assms(1,3)] assms(2) by simp

lemma within_atom: "within (atom m) 1"
  by (simp add: atom_def split_beta)

lemma within_locked: "within p n \<Longrightarrow> within (locked l p) (n + 2)"
  unfolding locked_def using within_bnd [of p n "\<lambda>a. Release l (Done a)" 1] by simp

lemma within_cases [within_intros]:
  "within (Done a) n"
  "(b \<Longrightarrow> within p n) \<Longrightarrow> (\<not> b \<Longrightarrow> within q n) \<Longrightarrow> within (if b then p else q) n"
  "(x = None \<Longrightarrow> within p n) \<Longrightarrow> (\<And>a. x = Some a \<Longrightarrow> within (k a) n) \<Longrightarrow>
   within (case x of None \<Rightarrow> p | Some a \<Rightarrow> k a) n"
  "(\<And>a. y = Inl a \<Longrightarrow> within (g a) n) \<Longrightarrow> (\<And>b. y = Inr b \<Longrightarrow> within (j b) n) \<Longrightarrow>
   within (case y of Inl a \<Rightarrow> g a | Inr b \<Rightarrow> j b) n"
  "(\<And>a b. z = (a, b) \<Longrightarrow> within (m a b) n) \<Longrightarrow> within (case z of (a, b) \<Rightarrow> m a b) n"
  "(\<And>a. v = Ret a \<Longrightarrow> within (r a) n) \<Longrightarrow> (v = Panic \<Longrightarrow> within p n) \<Longrightarrow>
   within (case v of Ret a \<Rightarrow> r a | Panic \<Rightarrow> p) n"
  "(xs = [] \<Longrightarrow> within p n) \<Longrightarrow> (\<And>c cs. xs = c # cs \<Longrightarrow> within (h c cs) n) \<Longrightarrow>
   within (case xs of [] \<Rightarrow> p | c # cs \<Rightarrow> h c cs) n"
  by (auto split: option.split sum.split prod.split go.split list.split)

lemmas within_atom_rules [within_intros] = within_tail [OF within_atom] within_then [OF within_atom]

section \<open>The operations\<close>

lemma within_status:
  "within (SetDegraded_go A l r m) 3" "within (SetNotDegraded_go A l) 3" "within (SetFromPods_go E A) 3"
  "within (locked StatusLock (atom c)) 3"
  using within_locked [OF within_atom] by (simp_all add: SetDegraded_go_def SetNotDegraded_go_def SetFromPods_go_def
      numeral_3_eq_3)

lemmas within_status_rules [within_intros] =
  within_status [THEN within_tail] within_status [THEN within_then]

lemma within_fetch: "within (fetchAntreaInstall_go E A request) 4"
  unfolding fetchAntreaInstall_go_def by (intro within_intros) simp_all

lemma within_applied: "within (getAppliedOperConfig_go E) 3"
  unfolding getAppliedOperConfig_go_def Let_def by (intro within_intros) simp_all

lemma within_manifest: "within (manifest_loop_go E A cc objs sc) (length objs + 3)"
proof (induction objs arbitrary: sc)
  case (Cons obj objs)
  have go: "within (manifest_loop_go E A cc objs sc1) n" if "length objs + 3 \<le> n" for sc1 n
    by (rule within_mono [OF Cons.IH that])
  show ?case
    unfolding manifest_loop_go.simps by (intro within_intros go) simp_all
qed (simp add: within_cases)

definition scan_results :: "manifest_scan \<Rightarrow> unstructured list \<Rightarrow> (go_error + manifest_scan) set" where
  "scan_results sc objs = {r. \<forall>sc'. r = Inr sc' \<longrightarrow> length (sc_objs sc') = length (sc_objs sc) + length objs}"

lemma leaves_manifest: "leaves (manifest_loop_go E A cc objs sc) \<subseteq> scan_results sc objs"
proof (induction objs arbitrary: sc)
  case (Cons obj objs)
  have go: "leaves (manifest_loop_go E A cc objs sc1) \<subseteq> scan_results sc (obj # objs)"
    if "length (sc_objs sc1) = Suc (length (sc_objs sc))" for sc1
    using Cons.IH [of sc1] that by (simp add: scan_results_def)
  have "length (sc_objs (note_object obj o' sc)) = Suc (length (sc_objs sc))"
    "length (sc_objs (note_related obj rs (note_object obj o' sc))) = Suc (length (sc_objs sc))" for o' rs
    by (simp_all add: note_object_def note_related_def)
  then show ?case
    unfolding manifest_loop_go.simps by (intro result_intros go) (simp_all add: scan_results_def)
qed (simp add: scan_results_def)

lemma within_update: "within (updateStatusManagerAndSharedInfo_go E A objs cc) (length objs + 14)"
  unfolding updateStatusManagerAndSharedInfo_go_def
  by (rule within_then [OF within_manifest]) (simp, intro within_intros, simp_all)

lemma leaves_update:
  assumes "Inr objs' \<in> leaves (updateStatusManagerAndSharedInfo_go E A objs cc)"
  shows "length objs' = length objs"
proof -
  have "leaves (updateStatusManagerAndSharedInfo_go E A objs cc) \<subseteq>
      {r. \<forall>objs'. r = Inr objs' \<longrightarrow> length objs' = length objs}"
    unfolding updateStatusManagerAndSharedInfo_go_def leaves_bnd [of "manifest_loop_go E A cc objs empty_scan"]
  proof (rule UN_least)
    fix r assume "r \<in> leaves (manifest_loop_go E A cc objs empty_scan)"
    then have r: "r \<in> scan_results empty_scan objs" using leaves_manifest by blast
    show "leaves (case r of
        Inl err \<Rightarrow> Done (Inl err)
      | Inr sc \<Rightarrow>
          if sc_daemonSet sc = None \<or> sc_deployment sc = None then
            bnd (SetDegraded_go A OperatorConfig ''ApplyObjectsError'' (err_text (missing_resources sc)))
              (\<lambda>_. Done (Inl (missing_resources sc)))
          else
            bnd (locked StatusLock (atom (SetDaemonSets (sc_daemonSets sc)))) (\<lambda>_.
            bnd (locked StatusLock (atom (SetDeployments (sc_deployments sc)))) (\<lambda>_.
            bnd (locked StatusLock (atom (SetRelatedObjects (sc_related sc)))) (\<lambda>_.
            bnd (atom (modify (\<lambda>s. s\<lparr>SharedInfo := (SharedInfo s)\<lparr>AntreaAgentDaemonSetSpec := sc_daemonSet sc\<rparr>\<rparr>))) (\<lambda>_.
            bnd (atom (modify (\<lambda>s. s\<lparr>SharedInfo := (SharedInfo s)\<lparr>AntreaControllerDeploymentSpec := sc_deployment sc\<rparr>\<rparr>))) (\<lambda>_.
              Done (Inr (sc_objs sc)))))))) \<subseteq> {r. \<forall>objs'. r = Inr objs' \<longrightarrow> length objs' = length objs}"
      by (intro result_intros) (use r in \<open>auto simp: scan_results_def empty_scan_def\<close>)
  qed
  with assms show ?thesis by blast
qed

lemma within_apply: "within (apply_loop_go E A objs) (length objs + 3)"
proof (induction objs)
  case (Cons obj objs)
  have go: "within (apply_loop_go E A objs) n" if "length objs + 3 \<le> n" for n
    by (rule within_mono [OF Cons.IH that])
  show ?case
    unfolding apply_loop_go.simps by (intro within_intros go) simp_all
qed (simp add: within_cases)

lemma within_restart: "within (restart_pods_go E A kind c need img) 5"
  unfolding restart_pods_go_def by (intro within_intros) simp_all

lemmas within_restart_rules = within_restart [THEN within_tail] within_restart [THEN within_then]

lemma within_rendered: "within (apply_rendered_go E A cc objs a c i) (2 * length objs + 27)"
  unfolding apply_rendered_go_def
proof (rule within_then [OF within_update])
  fix u assume u: "u \<in> leaves (updateStatusManagerAndSharedInfo_go E A objs cc)"
  show "within (case u of
      Inl err \<Rightarrow> Done (requeue, Some err)
    | Inr objs' \<Rightarrow> bnd (apply_loop_go E A objs') (\<lambda>e.
        case e of
          Some err \<Rightarrow> Done (requeue, Some err)
        | None \<Rightarrow> bnd (restart_pods_go E A ''DaemonSet'' AntreaAgentDaemonSetName a i) (\<lambda>e1.
            case e1 of
              Some err \<Rightarrow> Done (requeue, Some err)
            | None \<Rightarrow> bnd (restart_pods_go E A ''Deployment'' AntreaControllerDeploymentName c i) (\<lambda>e2.
                case e2 of Some err \<Rightarrow> Done (requeue, Some err) | None \<Rightarrow> Done (no_requeue, None)))))
      (2 * length objs + 27 - (length objs + 14))"
    by (intro within_intros within_then [OF within_apply] within_restart_rules) (use u leaves_update in fastforce)+
qed simp

section \<open>The reconcilers\<close>

text \<open>The manifests never render to more than \<open>m\<close> objects.\<close>

definition renders_at_most :: "('w, 'e) cenv \<Rightarrow> nat \<Rightarrow> bool" where
  "renders_at_most E m \<longleftrightarrow>
     (\<forall>d w objs. fst (run_state (render_dir E DefaultManifestDir d) w) = Inr objs \<longrightarrow> length objs \<le> m)"

lemma within_changes:
  assumes "renders_at_most E m"
  shows "within (apply_changes_go E A cc rd a c i) (2 * m + 30)"
  unfolding apply_changes_go_def
proof (intro within_intros)
  fix r objs
  assume "r \<in> leaves (call (render_dir E DefaultManifestDir rd))" "r = Inr objs"
  with assms have "length objs \<le> m"
    by (auto simp: renders_at_most_def split: prod.splits) (metis fst_conv)
  then show "within (locked InfoLock (apply_rendered_go E A cc objs a c i)) (2 * m + 30 - 1)"
    by (intro within_tail [OF within_locked [OF within_rendered]]) simp
qed simp_all

lemma within_applyConfig:
  assumes "renders_at_most E m"
  shows "within (applyConfig_go E config A cc oc net) (2 * m + 33)"
  unfolding applyConfig_go_def
  by (intro within_intros within_then [OF within_applied] within_then [OF within_changes [OF assms]]) simp_all

lemma within_clear: "within (clear_levels_go A) 6"
  unfolding clear_levels_go_def by (intro within_intros) simp_all

lemmas within_clear_rules = within_clear [THEN within_then]

lemma within_finish_k8s: "within (finish_k8s_go A oc) 7"
  unfolding finish_k8s_go_def by (intro within_intros within_clear_rules) simp_all

lemma within_finish_oc: "within (finish_oc_go E L A c oc) 11"
  unfolding finish_oc_go_def Let_def
  by (intro within_intros within_clear_rules within_then [where m = 1 and p = "if _ then _ else _"]) simp_all

lemma within_install:
  assumes "renders_at_most E m" and "\<And>oc. within (finish oc) n"
  shows "within (install_go E config A request cc net finish) (2 * m + 37 + n)"
  unfolding install_go_def
  by (intro within_intros within_then [OF within_fetch] within_then [OF within_applyConfig [OF assms(1)]]
      within_tail [OF assms(2)]) simp_all

lemma within_Reconcile:
  assumes "renders_at_most E m"
  shows "within (Reconcile_go E L A p request) (2 * m + 51)"
proof (cases p)
  case OpenShift
  then show ?thesis
    unfolding Reconcile_go_def platform.case Reconcile_oc_go_def
    by (simp only: platform.case)
      (intro within_intros within_tail [OF within_install [OF assms within_finish_oc]], simp_all)
next
  case Kubernetes
  then show ?thesis
    unfolding Reconcile_go_def Reconcile_k8s_go_def
    by (simp only: platform.case)
      (intro within_intros within_tail [OF within_install [OF assms within_finish_k8s]], simp_all)
qed

lemma within_matches: "within (matches_go spec request) 3"
  unfolding matches_go_def same_name_go_def same_namespace_go_def by (intro within_intros) simp_all

lemma within_recreate: "within (recreateResourceIfNotExist_go E A request) 8"
proof -
  have read: "within (read_workload_go E b request) 1" for b
    unfolding read_workload_go_def by (intro within_intros) simp_all
  have "within (bnd (atom (gets SharedInfo)) (\<lambda>info.
      case AntreaAgentDaemonSetSpec info of
        None \<Rightarrow> Done Panic
      | Some ds \<Rightarrow>
          bnd (read_workload_go E (matches request ds) request) (\<lambda>err.
            case err of
              None \<Rightarrow> Done (Ret None)
            | Some e \<Rightarrow> apply_missing_go E A
                (if matches request ds then Some ds else AntreaControllerDeploymentSpec info) e))) 6"
    unfolding apply_missing_go_def by (intro within_intros within_then [OF read]) simp_all
  from within_locked [OF this] show ?thesis
    by (simp add: recreateResourceIfNotExist_go_def)
qed

lemma within_pod_Reconcile: "within (pod_Reconcile_go E A request) 17"
proof -
  have "within (isAntreaResource_go request) 6"
    unfolding isAntreaResource_go_def by (intro within_intros within_then [OF within_matches] within_tail [OF within_matches]) simp_all
  then show ?thesis
    unfolding pod_Reconcile_go_def
    by (intro within_intros within_then [where m = 6] within_then [OF within_recreate]) simp_all
qed

section \<open>Runs of the concurrent operator\<close>

text \<open>The steps that a worker makes in a run.\<close>

definition steps_of :: "tid \<Rightarrow> (nat \<Rightarrow> 'w sys_conf) \<Rightarrow> nat set" where
  "steps_of t r = {i. thread_step t (r i) (r (Suc i))}"

lemma within_step:
  assumes "thread_step t c c'" and "work c t = Some q" and "within q m"
  shows "work c' t = None \<or> (\<exists>q'. work c' t = Some q' \<and> 0 < m \<and> within q' (m - 1))"
  using assms(1)
proof (cases rule: thread_step.cases)
  case (run f q' s')
  have "within (Atom f) m" using run(2) assms(2,3) by simp
  then have "0 < m \<and> within (fst (f (shared c))) (m - 1)" unfolding within_Atom by blast
  with run(3) have "0 < m \<and> within q' (m - 1)" by simp
  with run(1) show ?thesis by simp
qed (use assms(2,3) in auto)

lemma steps_upto_Suc:
  "{j \<in> steps_of t r. j < Suc i} = (if i \<in> steps_of t r then insert i {j \<in> steps_of t r. j < i} else {j \<in> steps_of t r. j < i})"
  by (auto simp: less_Suc_eq)

lemma steps_upto:
  assumes "work (r 0) t = Some q" and "within q n"
    and "\<forall>i. i \<in> steps_of t r \<or> work (r (Suc i)) t = work (r i) t"
  shows "(\<exists>q m. work (r i) t = Some q \<and> within q m \<and> card {j \<in> steps_of t r. j < i} + m \<le> n) \<or>
    (work (r i) t = None \<and> card {j \<in> steps_of t r. j < i} \<le> n + 1)"
proof (induction i)
  case 0
  with assms(1,2) show ?case by auto
next
  case (Suc i)
  show ?case
  proof (cases "i \<in> steps_of t r")
    case False
    then have "work (r (Suc i)) t = work (r i) t" using assms(3) by blast
    with Suc.IH False show ?thesis by (simp add: steps_upto_Suc)
  next
    case True
    then have step: "thread_step t (r i) (r (Suc i))" by (simp add: steps_of_def)
    have card: "card {j \<in> steps_of t r. j < Suc i} = Suc (card {j \<in> steps_of t r. j < i})"
      unfolding steps_upto_Suc using True by simp
    from step have "work (r i) t \<noteq> None" by (auto elim: thread_step.cases)
    with Suc.IH obtain q m where q: "work (r i) t = Some q" "within q m" "card {j \<in> steps_of t r. j < i} + m \<le> n"
      by auto
    from within_step [OF step q(1,2)] show ?thesis
    proof
      assume "\<exists>q'. work (r (Suc i)) t = Some q' \<and> 0 < m \<and> within q' (m - 1)"
      then obtain q' where "work (r (Suc i)) t = Some q'" "0 < m" "within q' (m - 1)" by blast
      with q(3) card show ?thesis by (intro disjI1 exI [of _ q'] exI [of _ "m - 1"]) simp
    qed (use q(3) card in simp)
  qed
qed

lemma steps_bounded:
  assumes "work (r 0) t = Some q" and "within q n"
    and "\<forall>i. i \<in> steps_of t r \<or> work (r (Suc i)) t = work (r i) t"
  shows "finite (steps_of t r) \<and> card (steps_of t r) \<le> n + 1"
proof -
  have upto: "card {j \<in> steps_of t r. j < i} \<le> n + 1" for i
    using steps_upto [OF assms, of i] by auto
  have part: "card S \<le> n + 1" if S: "finite S" "S \<subseteq> steps_of t r" for S
  proof -
    obtain k where "\<forall>j\<in>S. j < k" using S(1) by (meson finite_nat_set_iff_bounded)
    then have "S \<subseteq> {j \<in> steps_of t r. j < k}" using S(2) by auto
    then have "card S \<le> card {j \<in> steps_of t r. j < k}" by (intro card_mono) auto
    with upto [of k] show ?thesis by simp
  qed
  have "finite (steps_of t r)"
  proof (rule ccontr)
    assume "infinite (steps_of t r)"
    then obtain S where "S \<subseteq> steps_of t r" "finite S" "card S = n + 2"
      using infinite_arbitrarily_large by metis
    with part [of S] show False by simp
  qed
  with part [of "steps_of t r"] show ?thesis by simp
qed

text \<open>C28: Every request ends after a bounded number of steps. Take any run, from any configuration, in which
  the worker makes its steps or anything else happens (the other worker, changes outside, arbitrary changes
  of the shared state), but gets no further request. If the manifests never render to more than m objects, a
  request of the reconciler of the custom resource takes at most 2 m + 52 steps in all, so each object costs
  two calls (its mapping and its application) and everything else a constant; a request of the pod
  reconciler takes at most 18. A step is one call, one access to a shared field or one mutex operation.\<close>

theorem requests_terminate:
  assumes "renders_at_most E m" and "\<forall>i. i \<in> steps_of t r \<or> work (r (Suc i)) t = work (r i) t"
  shows "(work (r 0) t = Some (Reconcile_go E L A p request) \<longrightarrow>
      finite (steps_of t r) \<and> card (steps_of t r) \<le> 2 * m + 52) \<and>
    (work (r 0) t = Some (pod_Reconcile_go E A request) \<longrightarrow>
      finite (steps_of t r) \<and> card (steps_of t r) \<le> 18)"
  using steps_bounded [OF _ within_Reconcile [OF assms(1)] assms(2)] steps_bounded [OF _ within_pod_Reconcile assms(2)]
  by (auto simp del: within.simps) (fastforce simp del: within.simps)+

text \<open>A worker that runs alone.\<close>

definition advance :: "tid \<Rightarrow> 'w sys_conf \<Rightarrow> 'w sys_conf" where
  "advance t c = (case work c t of
     Some (Atom f) \<Rightarrow> (case f (shared c) of (q, s') \<Rightarrow> c\<lparr>shared := s', work := (work c)(t := Some q)\<rparr>)
   | Some (Acquire l q) \<Rightarrow>
       if owner c l = None then c\<lparr>owner := (owner c)(l := Some t), work := (work c)(t := Some q)\<rparr> else c
   | Some (Release l q) \<Rightarrow>
       if owner c l = Some t then c\<lparr>owner := (owner c)(l := None), work := (work c)(t := Some q)\<rparr> else c
   | Some (Done (Ret r)) \<Rightarrow> c\<lparr>work := (work c)(t := None)\<rparr>
   | _ \<Rightarrow> c)"

lemma advance_step: "thread_step t c (advance t c) \<or> advance t c = c"
  by (auto simp: advance_def split: option.splits prog.splits go.splits prod.splits intro: thread_step.intros)

definition ref_run :: "nat \<Rightarrow> cluster sys_conf" where
  "ref_run i = (advance InstallT ^^ i) ((ref_conf sample_cluster)\<lparr>work := (\<lambda>_. None)
     (InstallT := Some (Reconcile_go ref_ctl ref_lib (platform_adaptor ref_ctl Kubernetes) Kubernetes antrea_install_key))\<rparr>)"

lemma ref_run_Suc: "ref_run (Suc i) = advance InstallT (ref_run i)"
  by (simp add: ref_run_def)

lemma ref_renders: "renders_at_most ref_ctl 3"
  by (simp add: renders_at_most_def ref_manifests_def)

lemma requests_terminate_witness:
  "0 \<in> steps_of InstallT ref_run \<and> finite (steps_of InstallT ref_run) \<and> card (steps_of InstallT ref_run) \<le> 58"
proof -
  have work: "work (ref_run 0) InstallT =
      Some (Reconcile_go ref_ctl ref_lib (platform_adaptor ref_ctl Kubernetes) Kubernetes antrea_install_key)"
    by (simp add: ref_run_def)
  then have "\<exists>f. work (ref_run 0) InstallT = Some (Atom f)"
    by (simp add: Reconcile_go_def Reconcile_k8s_go_def isOperatorRequest_def antrea_install_key_def
        install_go_def fetchAntreaInstall_go_def atom_def)
  then have "thread_step InstallT (ref_run 0) (ref_run (Suc 0))"
    unfolding ref_run_Suc by (auto simp: advance_def intro!: thread_step.run split: prod.splits)
  moreover have "\<forall>i. i \<in> steps_of InstallT ref_run \<or> work (ref_run (Suc i)) InstallT = work (ref_run i) InstallT"
    unfolding steps_of_def ref_run_Suc using advance_step by fastforce
  ultimately show ?thesis
    using requests_terminate [OF ref_renders] work by (fastforce simp: steps_of_def)
qed

end
