(* ===== verification/Startup.thy ===== *)
theory Startup
  imports Pod_Controller
begin

text \<open>
  \<open>main.go\<close>: the command line, the order in which the operator is put together, what it registers
  for, and how the program ends; with the registration of the API types (\<open>groupversion_info.go\<close>) and
  the methods \<open>SetupWithManager\<close> of the two controllers. The command line is read by Go's package
  \<open>flag\<close>, which is written out; the packages that the program links may have registered flags of
  their own. The libraries that make the manager, the client and the controllers are parameters.
\<close>

section \<open>The command line\<close>

record main_flags =
  printVersion :: bool
  metricsAddr :: string
  enableLeaderElection :: bool
  library_flags :: "(string \<times> string) list"

definition default_flags :: main_flags where
  "default_flags = \<lparr>printVersion = False, metricsAddr = ''0'', enableLeaderElection = False, library_flags = []\<rparr>"

text \<open>A flag of a library: whether it is a boolean flag, and which values it takes.\<close>

type_synonym lib_flags = "string \<Rightarrow> (bool \<times> (string \<Rightarrow> bool)) option"

definition parse_bool :: "string \<Rightarrow> bool option" where
  "parse_bool s =
     (if s \<in> {''1'', ''t'', ''T'', ''TRUE'', ''true'', ''True''} then Some True
      else if s \<in> {''0'', ''f'', ''F'', ''FALSE'', ''false'', ''False''} then Some False
      else None)"

text \<open>Whether a flag is defined, and is boolean.\<close>

definition flag_lookup :: "lib_flags \<Rightarrow> string \<Rightarrow> bool option" where
  "flag_lookup lib n =
     (if n = ''version'' \<or> n = ''enable-leader-election'' then Some True
      else if n = ''metrics-addr'' then Some False
      else map_option fst (lib n))"

definition flag_set :: "lib_flags \<Rightarrow> string \<Rightarrow> string \<Rightarrow> main_flags \<Rightarrow> main_flags option" where
  "flag_set lib n v fl =
     (if n = ''version'' then map_option (\<lambda>b. fl\<lparr>printVersion := b\<rparr>) (parse_bool v)
      else if n = ''enable-leader-election'' then map_option (\<lambda>b. fl\<lparr>enableLeaderElection := b\<rparr>) (parse_bool v)
      else if n = ''metrics-addr'' then Some (fl\<lparr>metricsAddr := v\<rparr>)
      else (case lib n of
          None \<Rightarrow> None
        | Some (_, takes) \<Rightarrow> if takes v then Some (fl\<lparr>library_flags := (n, v) # library_flags fl\<rparr>) else None))"

text \<open>\<open>-name\<close>, \<open>--name\<close>, \<open>-name=value\<close>: the name and the value of an argument.\<close>

definition flag_body :: "string \<Rightarrow> string" where
  "flag_body s = (if s ! 1 = CHR ''-'' then drop 2 s else drop 1 s)"

definition flag_name :: "string \<Rightarrow> string" where
  "flag_name body = takeWhile (\<lambda>c. c \<noteq> CHR ''='') body"

definition flag_value :: "string \<Rightarrow> string option" where
  "flag_value body = (case dropWhile (\<lambda>c. c \<noteq> CHR ''='') body of [] \<Rightarrow> None | _ # v \<Rightarrow> Some v)"

datatype parsed = Flags main_flags | BadUsage | HelpAsked

fun parse_flags :: "lib_flags \<Rightarrow> main_flags \<Rightarrow> string list \<Rightarrow> parsed" where
  "parse_flags lib fl [] = Flags fl"
| "parse_flags lib fl (s # args) =
     (if length s < 2 \<or> hd s \<noteq> CHR ''-'' \<or> s = ''--'' then Flags fl
      else (let body = flag_body s; n = flag_name body in
        if body = '''' \<or> hd body = CHR ''-'' \<or> hd body = CHR ''='' then BadUsage
        else (case flag_lookup lib n of
            None \<Rightarrow> if n = ''help'' \<or> n = ''h'' then HelpAsked else BadUsage
          | Some True \<Rightarrow>
              (case flag_set lib n (case flag_value body of None \<Rightarrow> ''true'' | Some v \<Rightarrow> v) fl of
                 None \<Rightarrow> BadUsage
               | Some fl' \<Rightarrow> parse_flags lib fl' args)
          | Some False \<Rightarrow>
              (case flag_value body of
                 Some v \<Rightarrow>
                   (case flag_set lib n v fl of None \<Rightarrow> BadUsage | Some fl' \<Rightarrow> parse_flags lib fl' args)
               | None \<Rightarrow>
                   (case args of
                      [] \<Rightarrow> BadUsage
                    | v # args' \<Rightarrow>
                        (case flag_set lib n v fl of
                           None \<Rightarrow> BadUsage
                         | Some fl' \<Rightarrow> parse_flags lib fl' args'))))))"

section \<open>The API types and the registrations\<close>

definition GroupVersion :: "string \<times> string" where
  "GroupVersion = (''operator.antrea.vmware.com'', ''v1'')"

definition api_kinds :: "gvk list" where
  "api_kinds = map (\<lambda>k. \<lparr>gvk_group = fst GroupVersion, gvk_version = snd GroupVersion, gvk_kind = k\<rparr>)
     [''AntreaInstall'', ''AntreaInstallList'']"

text \<open>The packages whose types \<open>init\<close> adds to the scheme; \<open>utilruntime.Must\<close> panics on an error.\<close>

datatype api_package = ClientGo | OpenShiftConfig | OpenShiftOperator | AntreaOperator

fun init_scheme :: "(api_package \<Rightarrow> go_error option) \<Rightarrow> api_package list \<Rightarrow> unit go" where
  "init_scheme add [] = Ret ()"
| "init_scheme add (a # as) = (case add a of Some _ \<Rightarrow> Panic | None \<Rightarrow> init_scheme add as)"

definition init_go :: "(api_package \<Rightarrow> go_error option) \<Rightarrow> unit go" where
  "init_go add = init_scheme add [ClientGo, OpenShiftConfig, OpenShiftOperator, AntreaOperator]"

text \<open>A controller: the kind it is for, the other kinds it watches, and the reconciler that gets a
  request for every object of these kinds.\<close>

datatype worker = InstallReconciler platform | PodReconciler

record registration =
  reg_for :: string
  reg_watches :: "string list"
  reg_worker :: worker

definition install_registration :: "platform \<Rightarrow> registration" where
  "install_registration p =
     \<lparr>reg_for = ''AntreaInstall'',
      reg_watches = (case p of OpenShift \<Rightarrow> [''Network''] | Kubernetes \<Rightarrow> []),
      reg_worker = InstallReconciler p\<rparr>"

definition pod_registration :: registration where
  "pod_registration = \<lparr>reg_for = ''DaemonSet'', reg_watches = [''Deployment''], reg_worker = PodReconciler\<rparr>"

section \<open>The program\<close>

record manager_options =
  MetricsBindAddress :: string
  Port :: int
  LeaderElection :: bool
  LeaderElectionID :: string

text \<open>
  What the program prints and logs; an error is logged with its message and its keys and values.
\<close>

datatype log_line = Printed string | InfoLogged string | ErrorLogged string "(string \<times> string) list" go_error

text \<open>
  The state of the program: what is outside, the output, the controllers that the manager has been given,
  and the objects that \<open>main\<close> has made and that these controllers point to (the status manager, the
  shared information and the reconciler's fields).
\<close>

record 'w program =
  outside :: 'w
  written :: "log_line list"
  controllers :: "registration list"
  parts :: "'w reconciler option"

text \<open>The libraries. \<open>get_config\<close> is \<open>GetConfigOrDie\<close>: it answers whether it returned, and ends the
  program with status 1 otherwise. \<open>complete\<close> ends \<open>SetupWithManager\<close>: it gives the manager a controller.
  \<open>run_manager\<close> is \<open>Start\<close>, which runs the controllers that the manager has until the program is
  told to stop.\<close>

record 'w boot_env =
  linked_flags :: lib_flags
  get_config :: "(string \<times> string) list \<Rightarrow> ('w, bool) state"
  new_manager :: "manager_options \<Rightarrow> ('w, go_error option) state"
  complete :: "registration \<Rightarrow> ('w program, go_error option) state"
  run_manager :: "('w program, go_error option) state"

text \<open>\<open>main\<close> returns, or it is ended by \<open>os.Exit\<close>.\<close>

datatype main_end = Returned | Exited nat

definition on_outside :: "('w, 'a) state \<Rightarrow> ('w program, 'a) state" where
  "on_outside m = State (\<lambda>b. case run_state m (outside b) of (a, w) \<Rightarrow> (a, b\<lparr>outside := w\<rparr>))"

definition emit :: "log_line \<Rightarrow> ('w program, unit) state" where
  "emit x = modify (\<lambda>b. b\<lparr>written := written b @ [x]\<rparr>)"

definition exit_with :: "string \<Rightarrow> (string \<times> string) list \<Rightarrow> go_error \<Rightarrow> ('w program, main_end) state" where
  "exit_with msg values err = do { _ \<leftarrow> emit (ErrorLogged msg values err); ret (Exited 1) }"

text \<open>From the registration of the two controllers on. Both errors are logged under the same name.\<close>

definition main_register :: "'w boot_env \<Rightarrow> platform \<Rightarrow> ('w program, main_end) state" where
  "main_register B p =
     do {
       e \<leftarrow> complete B (install_registration p);
       case e of
         Some err \<Rightarrow> exit_with ''unable to create controller'' [(''controller'', ''AntreaInstall'')] err
       | None \<Rightarrow> do {
           e \<leftarrow> complete B pod_registration;
           case e of
             Some err \<Rightarrow> exit_with ''unable to create controller'' [(''controller'', ''AntreaInstall'')] err
           | None \<Rightarrow> do {
               _ \<leftarrow> emit (InfoLogged ''starting manager'');
               e \<leftarrow> run_manager B;
               case e of
                 Some err \<Rightarrow> exit_with ''problem running manager'' [] err
               | None \<Rightarrow> ret Returned
             }
         }
     }"

text \<open>The objects are made by \<open>operator_start\<close>, each error of which ends the program.\<close>

definition main_parts :: "('w, 'e) cenv \<Rightarrow> 'w boot_env \<Rightarrow> ('w program, main_end) state" where
  "main_parts E B =
     do {
       r \<leftarrow> on_outside (operator_start E);
       case r of
         Inl (msg, err) \<Rightarrow> exit_with msg [] err
       | Inr (s, status_platform, p) \<Rightarrow> do {
           _ \<leftarrow> modify (\<lambda>b. b\<lparr>parts := Some s\<rparr>);
           main_register B p
         }
     }"

definition main_options :: "main_flags \<Rightarrow> manager_options" where
  "main_options fl =
     \<lparr>MetricsBindAddress = metricsAddr fl, Port = 9443, LeaderElection = enableLeaderElection fl,
      LeaderElectionID = ''antrea-operator.antrea.vmware.com''\<rparr>"

text \<open>\<open>flag.Parse\<close> ends the program itself, with status 2, or 0 when help was asked for. A new manager
  has no controllers.\<close>

definition main_go :: "('w, 'e) cenv \<Rightarrow> 'w boot_env \<Rightarrow> string \<Rightarrow> string list \<Rightarrow> ('w program, main_end) state" where
  "main_go E B version args =
     (case parse_flags (linked_flags B) default_flags args of
        BadUsage \<Rightarrow> ret (Exited 2)
      | HelpAsked \<Rightarrow> ret (Exited 0)
      | Flags fl \<Rightarrow>
          if printVersion fl then do { _ \<leftarrow> emit (Printed (GetVersion version)); ret (Exited 0) }
          else do {
            found \<leftarrow> on_outside (get_config B (library_flags fl));
            if \<not> found then ret (Exited 1)
            else do {
              e \<leftarrow> on_outside (new_manager B (main_options fl));
              case e of
                Some err \<Rightarrow> exit_with ''unable to start manager'' [] err
              | None \<Rightarrow> do {
                  _ \<leftarrow> modify (\<lambda>b. b\<lparr>controllers := []\<rparr>);
                  main_parts E B
                }
            }
          })"

end
