(* ===== verification/Startup_Properties.thy ===== *)
theory Startup_Properties
  imports Startup Concurrent_Operator
begin

text \<open>
  Properties of the program's start: the command line can express every setting; with which status and
  error the program ends; and that the manager is started with both controllers registered and on a start
  of the concurrent operator only, so that the properties of \<open>Concurrent_Operator\<close> hold of the running
  program.
\<close>

section \<open>The command line\<close>

definition show_bool :: "bool \<Rightarrow> string" where
  "show_bool b = (if b then ''true'' else ''false'')"

definition args_of :: "main_flags \<Rightarrow> string list" where
  "args_of fl =
     [''-version='' @ show_bool (printVersion fl), ''-metrics-addr'', metricsAddr fl,
      ''--enable-leader-election='' @ show_bool (enableLeaderElection fl)]"

lemma parse_show_bool [simp]: "parse_bool (show_bool b) = Some b"
  by (simp add: parse_bool_def show_bool_def)

text \<open>Every setting of the program's own flags can be given on the command line and is read back as it
  was given, whatever the metrics address and whatever flags the linked packages define.\<close>

theorem flags_roundtrip:
  "parse_flags lib default_flags (args_of (fl\<lparr>library_flags := []\<rparr>) @ rest) =
     parse_flags lib (fl\<lparr>library_flags := []\<rparr>) rest"
  by (cases fl) (simp add: args_of_def default_flags_def flag_body_def flag_name_def flag_value_def flag_lookup_def flag_set_def
      Let_def)

section \<open>Running the parts\<close>

text \<open>
  The documented behaviour of the manager's library: completing a controller leaves the program's own
  objects and output alone, and when it succeeds the manager has one more controller. Running the manager
  does not write to the program's output.
\<close>

definition boot_lawful :: "'w boot_env \<Rightarrow> bool" where
  "boot_lawful B \<longleftrightarrow>
     (\<forall>reg b e b'. run_state (complete B reg) b = (e, b') \<longrightarrow> parts b' = parts b \<and> written b' = written b \<and>
        (e = None \<longrightarrow> controllers b' = controllers b @ [reg])) \<and>
     (\<forall>b e b'. run_state (run_manager B) b = (e, b') \<longrightarrow> written b' = written b)"

lemma boot_lawfulD:
  assumes "boot_lawful B"
  shows "run_state (complete B reg) b = (e, b') \<Longrightarrow> parts b' = parts b"
    and "run_state (complete B reg) b = (e, b') \<Longrightarrow> written b' = written b"
    and "run_state (complete B reg) b = (None, b') \<Longrightarrow> controllers b' = controllers b @ [reg]"
    and "run_state (run_manager B) b = (e, b') \<Longrightarrow> written b' = written b"
  using assms unfolding boot_lawful_def by blast+

lemma run_on_outside [simp]:
  "run_state (on_outside m) b = (case run_state m (outside b) of (a, w) \<Rightarrow> (a, b\<lparr>outside := w\<rparr>))"
  by (simp add: on_outside_def)

lemma run_exit_with [simp]:
  "run_state (exit_with msg v err) b = (Exited 1, b\<lparr>written := written b @ [ErrorLogged msg v err]\<rparr>)"
  by (simp add: exit_with_def emit_def)

text \<open>Which error a message stands for.\<close>

definition call_fails :: "('w, 'e) cenv \<Rightarrow> 'w boot_env \<Rightarrow> main_flags \<Rightarrow> string \<Rightarrow> go_error \<Rightarrow> bool" where
  "call_fails E B fl msg err \<longleftrightarrow>
     msg = ''unable to start manager'' \<and> (\<exists>w. fst (run_state (new_manager B (main_options fl)) w) = Some err) \<or>
     msg = ''unable to get shareinfo'' \<and> (\<exists>w. fst (run_state (sharedinfo_New E) w) = Inl err) \<or>
     msg = ''fail to create client'' \<and> (\<exists>w. fst (run_state (new_cno_client E) w) = Some err) \<or>
     msg = ''unable to create controller'' \<and>
       (\<exists>reg b. reg_worker reg \<in> {InstallReconciler OpenShift, InstallReconciler Kubernetes, PodReconciler} \<and>
         fst (run_state (complete B reg) b) = Some err)"

text \<open>Every call on the way to the manager's end can succeed.\<close>

definition parts_succeed :: "('w, 'e) cenv \<Rightarrow> 'w boot_env \<Rightarrow> bool" where
  "parts_succeed E B \<longleftrightarrow>
     (\<exists>w info p. fst (run_state (sharedinfo_New E) w) = Inr info \<and> parse_platform (info_platform info) = Inr p \<and>
        (\<exists>b. fst (run_state (complete B (install_registration p)) b) = None)) \<and>
     (\<exists>w. fst (run_state (new_cno_client E) w) = None) \<and>
     (\<exists>b. fst (run_state (complete B pod_registration) b) = None) \<and>
     (\<exists>b. fst (run_state (run_manager B) b) = None)"

definition calls_succeed :: "('w, 'e) cenv \<Rightarrow> 'w boot_env \<Rightarrow> main_flags \<Rightarrow> bool" where
  "calls_succeed E B fl \<longleftrightarrow>
     (\<exists>w. fst (run_state (get_config B (library_flags fl)) w)) \<and>
     (\<exists>w. fst (run_state (new_manager B (main_options fl)) w) = None) \<and> parts_succeed E B"

text \<open>The end of a run from the registrations on, with the output \<open>out\<close> of that run.\<close>

lemma main_register_run:
  assumes "boot_lawful B" and "run_state (main_register B p) b = (r, b')"
  obtains (install) e where "fst (run_state (complete B (install_registration p)) b) = Some e" "r = Exited 1"
      "written b' = written b @ [ErrorLogged ''unable to create controller'' [(''controller'', ''AntreaInstall'')] e]"
  | (pod) b1 e where "fst (run_state (complete B pod_registration) b1) = Some e" "r = Exited 1"
      "written b' = written b @ [ErrorLogged ''unable to create controller'' [(''controller'', ''AntreaInstall'')] e]"
  | (ran) b1 m e b2 where "run_state (complete B (install_registration p)) b = (None, b1)"
      "fst (run_state (complete B pod_registration) b1) = None"
      "controllers m = controllers b @ [install_registration p, pod_registration]" "parts m = parts b"
      "run_state (run_manager B) m = (e, b2)"
      "written b2 = written b @ [InfoLogged ''starting manager'']"
      "(r, b') = (case e of None \<Rightarrow> (Returned, b2)
         | Some err \<Rightarrow> (Exited 1, b2\<lparr>written := written b2 @ [ErrorLogged ''problem running manager'' [] err]\<rparr>))"
proof -
  obtain e1 b1 where 1: "run_state (complete B (install_registration p)) b = (e1, b1)" by fastforce
  obtain e2 b2 where 2: "run_state (complete B pod_registration) b1 = (e2, b2)" by fastforce
  let ?m = "b2\<lparr>written := written b2 @ [InfoLogged ''starting manager'']\<rparr>"
  obtain e3 b3 where 3: "run_state (run_manager B) ?m = (e3, b3)" by fastforce
  note laws = boot_lawfulD [OF assms(1)]
  show thesis
  proof (cases e1)
    case (Some e)
    with 1 assms(2) laws(2) [OF 1] show thesis by (intro install [of e]) (auto simp: main_register_def)
  next
    case None
    show thesis
    proof (cases e2)
      case (Some e)
      with None 1 2 assms(2) laws(2) [OF 1] laws(2) [OF 2] show thesis
        by (intro pod [of b1 e]) (auto simp: main_register_def)
    next
      case none2: None
      from 1 2 3 assms(2) None none2 have "(r, b') = (case e3 of None \<Rightarrow> (Returned, b3)
         | Some err \<Rightarrow> (Exited 1, b3\<lparr>written := written b3 @ [ErrorLogged ''problem running manager'' [] err]\<rparr>))"
        by (simp add: main_register_def emit_def split: option.splits)
      with ran [of b1 ?m e3 b3] 1 2 3 None none2 laws(1-3) [of _ b] laws(1-3) [of _ b1] laws(4) [OF 3]
      show thesis by auto
    qed
  qed
qed

text \<open>The objects are made, or the program ends with the error of the call that failed.\<close>

lemma operator_start_cases:
  obtains (failed) msg err w' where "run_state (operator_start E) w = (Inl (msg, err), w')" "call_fails E B fl msg err"
  | (made) s p w' where "run_state (operator_start E) w = (Inr (s, p, p), w')" "world s = w'"
      "parse_platform (info_platform (SharedInfo s)) = Inr p"
      "\<exists>w info. fst (run_state (sharedinfo_New E) w) = Inr info \<and> parse_platform (info_platform info) = Inr p"
      "\<exists>w. fst (run_state (new_cno_client E) w) = None"
proof -
  obtain i w1 where 1: "run_state (sharedinfo_New E) w = (i, w1)" by fastforce
  obtain c w2 where 2: "run_state (new_cno_client E) w1 = (c, w2)" by fastforce
  show thesis
  proof (cases i)
    case (Inl err)
    with 1 show thesis
      by (intro failed [of "''unable to get shareinfo''" err w1])
        (auto simp: operator_start_def call_fails_def intro!: exI [of _ w])
  next
    case (Inr info)
    with 1 obtain p where p: "parse_platform (info_platform info) = Inr p"
      by (auto simp: sharedinfo_New_def parse_platform_def Let_def split: prod.splits sum.splits if_splits)
    show thesis
    proof (cases c)
      case (Some err)
      with 1 2 Inr p show thesis
        by (intro failed [of "''fail to create client''" err w2])
          (auto simp: operator_start_def status_New_def call_fails_def intro!: exI [of _ w1])
    next
      case None
      let ?s = "\<lparr>world = w2, sm_name = AntreaClusterOperatorName, failing = (\<lambda>_. None), daemonSets = [],
        deployments = [], relatedObjects = None, SharedInfo = info, AppliedClusterConfig = None, AppliedOperConfig = None\<rparr>"
      from 1 2 Inr p None have "run_state (operator_start E) w = (Inr (?s, p, p), w2)"
        by (simp add: operator_start_def status_New_def controllers_New_def status_manager.defs reconciler.defs)
      moreover have "\<exists>w info. fst (run_state (sharedinfo_New E) w) = Inr info \<and> parse_platform (info_platform info) = Inr p"
        using 1 Inr p by (intro exI [of _ w]) simp
      moreover have "\<exists>w. fst (run_state (new_cno_client E) w) = None"
        using 2 None by (intro exI [of _ w1]) simp
      ultimately show thesis
        using p by (intro made [of ?s p w2]) simp_all
    qed
  qed
qed

text \<open>From the objects on: an error was logged, or the manager ran.\<close>

lemma main_parts_run:
  assumes "boot_lawful B" and "run_state (main_parts E B) b = (r, b')"
  obtains (failed) msg vs err where "call_fails E B fl msg err" "r = Exited 1"
      "written b' = written b @ [ErrorLogged msg vs err]"
  | (ran) m e b2 s p w0 w1 where "run_state (run_manager B) m = (e, b2)"
      "(r, b') = (case e of None \<Rightarrow> (Returned, b2)
         | Some err \<Rightarrow> (Exited 1, b2\<lparr>written := written b2 @ [ErrorLogged ''problem running manager'' [] err]\<rparr>))"
      "written b2 = written b @ [InfoLogged ''starting manager'']"
      "controllers m = controllers b @ [install_registration p, pod_registration]" "parts m = Some s"
      "run_state (operator_start E) w0 = (Inr (s, p, p), w1)" "parse_platform (info_platform (SharedInfo s)) = Inr p"
      "e = None \<longrightarrow> parts_succeed E B"
proof (rule operator_start_cases [where E = E and w = "outside b" and fl = fl and B = B])
  fix msg err w'
  assume "run_state (operator_start E) (outside b) = (Inl (msg, err), w')" "call_fails E B fl msg err"
  with assms(2) show thesis by (intro that(1) [of msg err "[]"]) (auto simp: main_parts_def)
next
  fix s p w'
  assume made: "run_state (operator_start E) (outside b) = (Inr (s, p, p), w')" "world s = w'"
    "parse_platform (info_platform (SharedInfo s)) = Inr p"
    "\<exists>w info. fst (run_state (sharedinfo_New E) w) = Inr info \<and> parse_platform (info_platform info) = Inr p"
    "\<exists>w. fst (run_state (new_cno_client E) w) = None"
  with assms(2) have "run_state (main_register B p) (b\<lparr>outside := w', parts := Some s\<rparr>) = (r, b')"
    by (simp add: main_parts_def)
  from assms(1) this show thesis
  proof (cases rule: main_register_run)
    case (install e)
    then show thesis
      by (intro that(1) [of "''unable to create controller''" e]) (cases p, auto simp: call_fails_def
          install_registration_def intro!: exI [of _ "install_registration p"])
  next
    case (pod b1 e)
    then show thesis
      by (intro that(1) [of "''unable to create controller''" e]) (auto simp: call_fails_def pod_registration_def
          intro!: exI [of _ pod_registration])
  next
    case (ran b1 m e b2)
    have "parts_succeed E B" if "e = None"
      unfolding parts_succeed_def using made ran(1,2,5) that by (metis fst_conv)
    with ran made show thesis by (intro that(2) [of m e b2 p s "outside b" w']) auto
  qed
qed

text \<open>What remains when the flags ask for the cluster.\<close>

lemma main_go_run:
  assumes "boot_lawful B" and "parse_flags (linked_flags B) default_flags args = Flags fl" "\<not> printVersion fl"
    and "run_state (main_go E B version args) b = (r, b')"
  obtains (no_config) "\<exists>w. \<not> fst (run_state (get_config B (library_flags fl)) w)" "r = Exited 1" "written b' = written b"
  | (failed) msg vs err where "call_fails E B fl msg err" "r = Exited 1"
      "written b' = written b @ [ErrorLogged msg vs err]"
  | (ran) m e b2 s p w0 w1 where "run_state (run_manager B) m = (e, b2)"
      "(r, b') = (case e of None \<Rightarrow> (Returned, b2)
         | Some err \<Rightarrow> (Exited 1, b2\<lparr>written := written b2 @ [ErrorLogged ''problem running manager'' [] err]\<rparr>))"
      "written b2 = written b @ [InfoLogged ''starting manager'']"
      "controllers m = [install_registration p, pod_registration]" "parts m = Some s"
      "run_state (operator_start E) w0 = (Inr (s, p, p), w1)" "parse_platform (info_platform (SharedInfo s)) = Inr p"
      "e = None \<longrightarrow> calls_succeed E B fl"
proof -
  obtain found w1 where 1: "run_state (get_config B (library_flags fl)) (outside b) = (found, w1)" by fastforce
  obtain e2 w2 where 2: "run_state (new_manager B (main_options fl)) w1 = (e2, w2)" by fastforce
  consider "\<not> found" | err where "found" "e2 = Some err" | "found" "e2 = None" by (cases e2) auto
  then show thesis
  proof cases
    case 1
    with \<open>run_state (get_config B _) _ = _\<close> assms(2-4) show thesis
      by (auto simp: main_go_def intro!: no_config exI [of _ "outside b"])
  next
    case (2 err)
    with \<open>run_state (new_manager B _) _ = _\<close> have "call_fails E B fl ''unable to start manager'' err"
      by (auto simp: call_fails_def intro!: exI [of _ w1])
    with 1 2 \<open>run_state (new_manager B _) _ = _\<close> assms(2-4) show thesis
      by (intro failed [of "''unable to start manager''" err "[]"]) (auto simp: main_go_def)
  next
    case 3
    with 1 2 assms(2-4) have main: "run_state (main_parts E B) (b\<lparr>outside := w2, controllers := []\<rparr>) = (r, b')"
      by (simp add: main_go_def)
    have config: "\<exists>w. fst (run_state (get_config B (library_flags fl)) w)"
      "\<exists>w. fst (run_state (new_manager B (main_options fl)) w) = None"
      using 1 2 3 by (metis fst_conv)+
    from assms(1) main show thesis
    proof (cases rule: main_parts_run [where fl = fl])
      case (failed msg vs err)
      then show thesis by (intro that(2) [of msg err vs]) auto
    next
      case (ran m e b2 s p w0 w1)
      then show thesis using config by (intro that(3) [of m e b2 p s w0 w1]) (auto simp: calls_succeed_def)
    qed
  qed
qed

section \<open>A concrete start\<close>

definition ref_boot :: "cluster boot_env" where
  "ref_boot = \<lparr>linked_flags = Map.empty, get_config = (\<lambda>_. ret True), new_manager = (\<lambda>_. ret None),
     complete = (\<lambda>reg. State (\<lambda>b. (None, b\<lparr>controllers := controllers b @ [reg]\<rparr>))),
     run_manager = State (\<lambda>b. (None, b\<lparr>outside := (outside b)\<lparr>cl_clock := cl_clock (outside b) + 1\<rparr>\<rparr>))\<rparr>"

definition ref_process :: "cluster program" where
  "ref_process = \<lparr>outside = sample_cluster\<lparr>cl_install := Some (filled_install\<lparr>install_spec :=
     filled_spec\<lparr>AntreaPlatform := ''kubernetes''\<rparr>\<rparr>)\<rparr>, written = [], controllers = [], parts = None\<rparr>"

lemma ref_boot_lawful: "boot_lawful ref_boot"
  by (simp add: boot_lawful_def ref_boot_def)

lemma ref_flags:
  "parse_flags (linked_flags ref_boot) default_flags [''-metrics-addr=:8080''] = Flags (default_flags\<lparr>metricsAddr := '':8080''\<rparr>)"
  by (simp add: ref_boot_def flag_body_def flag_name_def flag_value_def flag_lookup_def flag_set_def
      default_flags_def Let_def)

lemma ref_main_run:
  obtains b' where "run_state (main_go ref_ctl ref_boot ''v1'' [''-metrics-addr=:8080'']) ref_process = (Returned, b')"
    "written b' = [InfoLogged ''starting manager'']"
  unfolding main_go_def ref_flags
  by (simp add: ref_boot_def default_flags_def main_parts_def operator_start_run ref_process_def parse_platform_def
      main_register_def emit_def)

section \<open>Properties of a start\<close>



text \<open>C16: The manager is started on a complete operator only. If the program says that it starts the manager,
  then it does start it, and at that moment the manager has exactly two controllers, both successfully
  registered: the one of the custom resource, for the platform that the resource names (with the network
  configuration watched on OpenShift only), and the one of the workloads; and the objects that both were
  given are a start of the concurrent operator for that platform, so all that is proved of its reachable
  configurations holds of the running program.\<close>

theorem manager_runs_a_complete_operator:
  assumes "boot_lawful B" and "run_state (main_go E B version args) b = (r, b')"
    and "written b = []" and "InfoLogged ''starting manager'' \<in> set (written b')"
  shows "\<exists>m s p. controllers m = [install_registration p, pod_registration] \<and> parts m = Some s \<and>
    parse_platform (info_platform (SharedInfo s)) = Inr p \<and>
    outside b' = outside (snd (run_state (run_manager B) m)) \<and>
    (\<forall>w. sys_reachable E L p \<lparr>shared = s\<lparr>world := w\<rparr>, owner = (\<lambda>_. None), work = (\<lambda>_. None)\<rparr>)"
proof -
  from assms(2-4) obtain fl where fl: "parse_flags (linked_flags B) default_flags args = Flags fl" "\<not> printVersion fl"
    by (auto simp: main_go_def emit_def split: parsed.splits if_splits)
  from assms(1) fl assms(2) show ?thesis
  proof (cases rule: main_go_run)
    case (ran m e b2 s p w0 w1)
    have "sys_reachable E L p \<lparr>shared = s\<lparr>world := w\<rparr>, owner = (\<lambda>_. None), work = (\<lambda>_. None)\<rparr>" for w
      using sys_reachable.step [OF sys_reachable.start [OF ran(6)] sys_step.outside [where w = w]] by simp
    moreover have "outside b' = outside (snd (run_state (run_manager B) m))"
      using ran(1,2) by (auto split: option.splits)
    ultimately show ?thesis using ran(4,5,7) by blast
  qed (use assms(3,4) in auto)
qed

lemma manager_runs_a_complete_operator_witness:
  "\<exists>(m :: cluster program) s p. controllers m = [install_registration p, pod_registration] \<and> parts m = Some s \<and>
    sys_reachable ref_ctl ref_lib p \<lparr>shared = s, owner = (\<lambda>_. None), work = (\<lambda>_. None)\<rparr>"
proof -
  obtain b' where run: "run_state (main_go ref_ctl ref_boot ''v1'' [''-metrics-addr=:8080'']) ref_process = (Returned, b')"
      "written b' = [InfoLogged ''starting manager'']"
    by (rule ref_main_run)
  have "written ref_process = []" "InfoLogged ''starting manager'' \<in> set (written b')"
    by (simp_all add: ref_process_def run(2))
  from manager_runs_a_complete_operator [OF ref_boot_lawful run(1) this, where L = ref_lib] obtain m :: "cluster program" and s p where
    m: "controllers m = [install_registration p, pod_registration]" "parts m = Some s"
      "\<forall>w. sys_reachable ref_ctl ref_lib p \<lparr>shared = s\<lparr>world := w\<rparr>, owner = (\<lambda>_. None), work = (\<lambda>_. None)\<rparr>"
    by blast
  then have "sys_reachable ref_ctl ref_lib p \<lparr>shared = s\<lparr>world := world s\<rparr>, owner = (\<lambda>_. None), work = (\<lambda>_. None)\<rparr>"
    by blast
  with m(1,2) show ?thesis by auto
qed

end
