(* ===== verification/Deep_Copy.thy ===== *)
theory Deep_Copy
  imports Operator_Types
begin

text \<open>
  The generated deep copies of the API types (\<open>api/v1/zz_generated.deepcopy.go\<close>), over a memory in
  which slices are references: a slice names an array, an offset and a length, and copying a struct
  copies the reference. The copies of the metadata and of a condition belong to other packages and
  are parameters. A method on a nil receiver is a call on None.
\<close>

section \<open>Memory\<close>

datatype slice = NilSlice | Slice nat nat nat

record install_status =
  Conditions :: slice

record 'meta install_struct =
  TypeMeta :: "string \<times> string"
  ObjectMeta :: 'meta
  Spec :: install_spec
  Status :: install_status

record 'lm list_struct =
  ListTypeMeta :: "string \<times> string"
  ListMeta :: 'lm
  Items :: slice

text \<open>The arrays, and the cells that the metadata refers to, share one space of addresses; those from
  \<open>fresh\<close> on are not in use.\<close>

record ('meta, 'x) mem =
  fresh :: nat
  cond_arrays :: "nat \<Rightarrow> cond list"
  install_arrays :: "nat \<Rightarrow> 'meta install_struct list"
  meta_cells :: "nat \<Rightarrow> 'x"

text \<open>The copies of other packages, and the zero values of \<open>make\<close>.\<close>

record ('meta, 'lm, 'x) copy_env =
  copy_condition :: "cond \<Rightarrow> (('meta, 'x) mem, cond) state"
  copy_object_meta :: "'meta \<Rightarrow> (('meta, 'x) mem, 'meta) state"
  copy_list_meta :: "'lm \<Rightarrow> (('meta, 'x) mem, 'lm) state"
  zero_meta :: 'meta

definition zero_condition :: cond where
  "zero_condition = \<lparr>ctype = '''', cstatus = '''', creason = '''', cmessage = '''', ctransition = zero_time\<rparr>"

definition zero_install :: "'meta \<Rightarrow> 'meta install_struct" where
  "zero_install z = \<lparr>TypeMeta = ('''', ''''), ObjectMeta = z, Spec = empty_install_spec, Status = \<lparr>Conditions = NilSlice\<rparr>\<rparr>"

definition put_conds :: "nat \<Rightarrow> cond list \<Rightarrow> ('meta, 'x) mem \<Rightarrow> ('meta, 'x) mem" where
  "put_conds a xs m = m\<lparr>cond_arrays := (cond_arrays m)(a := xs)\<rparr>"

definition put_installs :: "nat \<Rightarrow> 'meta install_struct list \<Rightarrow> ('meta, 'x) mem \<Rightarrow> ('meta, 'x) mem" where
  "put_installs a xs m = m\<lparr>install_arrays := (install_arrays m)(a := xs)\<rparr>"

section \<open>Copying a slice\<close>

text \<open>The loop \<open>for i := range *in { (*in)[i].DeepCopyInto(&(*out)[i]) }\<close> from \<open>i\<close> on, over any kind of array.\<close>

fun copy_range :: "(('meta, 'x) mem \<Rightarrow> nat \<Rightarrow> 'c list) \<Rightarrow> (nat \<Rightarrow> 'c list \<Rightarrow> ('meta, 'x) mem \<Rightarrow> ('meta, 'x) mem) \<Rightarrow>
    ('c \<Rightarrow> (('meta, 'x) mem, 'c) state) \<Rightarrow> nat \<Rightarrow> nat \<Rightarrow> nat \<Rightarrow> nat \<Rightarrow> nat \<Rightarrow> (('meta, 'x) mem, unit) state" where
  "copy_range arrays put elem a off b i 0 = ret ()"
| "copy_range arrays put elem a off b i (Suc k) =
     do {
       x \<leftarrow> gets (\<lambda>m. arrays m a ! (off + i));
       y \<leftarrow> elem x;
       _ \<leftarrow> modify (\<lambda>m. put b ((arrays m b)[i := y]) m);
       copy_range arrays put elem a off b (Suc i) k
     }"

definition make_array :: "(nat \<Rightarrow> 'c list \<Rightarrow> ('meta, 'x) mem \<Rightarrow> ('meta, 'x) mem) \<Rightarrow> 'c \<Rightarrow> nat \<Rightarrow> (('meta, 'x) mem, nat) state" where
  "make_array put zero n =
     do {
       b \<leftarrow> gets fresh;
       _ \<leftarrow> modify (\<lambda>m. put b (replicate n zero) (m\<lparr>fresh := Suc (fresh m)\<rparr>));
       ret b
     }"

definition copy_slice :: "(('meta, 'x) mem \<Rightarrow> nat \<Rightarrow> 'c list) \<Rightarrow> (nat \<Rightarrow> 'c list \<Rightarrow> ('meta, 'x) mem \<Rightarrow> ('meta, 'x) mem) \<Rightarrow>
    'c \<Rightarrow> ('c \<Rightarrow> (('meta, 'x) mem, 'c) state) \<Rightarrow> slice \<Rightarrow> (('meta, 'x) mem, slice) state" where
  "copy_slice arrays put zero elem sl =
     (case sl of
        NilSlice \<Rightarrow> ret NilSlice
      | Slice a off n \<Rightarrow>
          do {
            b \<leftarrow> make_array put zero n;
            _ \<leftarrow> copy_range arrays put elem a off b 0 n;
            ret (Slice b 0 n)
          })"

section \<open>The generated methods\<close>

definition AntreaInstallSpec_DeepCopyInto :: "install_spec \<Rightarrow> install_spec" where
  "AntreaInstallSpec_DeepCopyInto inp = inp"

definition AntreaInstallSpec_DeepCopy :: "install_spec option \<Rightarrow> install_spec option" where
  "AntreaInstallSpec_DeepCopy p =
     (case p of None \<Rightarrow> None | Some inp \<Rightarrow> Some (AntreaInstallSpec_DeepCopyInto inp))"

definition AntreaInstallStatus_DeepCopyInto :: "('meta, 'lm, 'x) copy_env \<Rightarrow> install_status \<Rightarrow>
    (('meta, 'x) mem, install_status) state" where
  "AntreaInstallStatus_DeepCopyInto E inp =
     do {
       conditions \<leftarrow> copy_slice cond_arrays put_conds zero_condition (copy_condition E) (Conditions inp);
       ret (inp\<lparr>Conditions := conditions\<rparr>)
     }"

definition AntreaInstallStatus_DeepCopy :: "('meta, 'lm, 'x) copy_env \<Rightarrow> install_status option \<Rightarrow>
    (('meta, 'x) mem, install_status option) state" where
  "AntreaInstallStatus_DeepCopy E p =
     (case p of
        None \<Rightarrow> ret None
      | Some inp \<Rightarrow> do { out \<leftarrow> AntreaInstallStatus_DeepCopyInto E inp; ret (Some out) })"

definition AntreaInstall_DeepCopyInto :: "('meta, 'lm, 'x) copy_env \<Rightarrow> 'meta install_struct \<Rightarrow>
    (('meta, 'x) mem, 'meta install_struct) state" where
  "AntreaInstall_DeepCopyInto E inp =
     do {
       meta \<leftarrow> copy_object_meta E (ObjectMeta inp);
       status \<leftarrow> AntreaInstallStatus_DeepCopyInto E (Status inp);
       ret (inp\<lparr>TypeMeta := TypeMeta inp, ObjectMeta := meta, Spec := Spec inp, Status := status\<rparr>)
     }"

definition AntreaInstall_DeepCopy :: "('meta, 'lm, 'x) copy_env \<Rightarrow> 'meta install_struct option \<Rightarrow>
    (('meta, 'x) mem, 'meta install_struct option) state" where
  "AntreaInstall_DeepCopy E p =
     (case p of
        None \<Rightarrow> ret None
      | Some inp \<Rightarrow> do { out \<leftarrow> AntreaInstall_DeepCopyInto E inp; ret (Some out) })"

definition AntreaInstallList_DeepCopyInto :: "('meta, 'lm, 'x) copy_env \<Rightarrow> 'lm list_struct \<Rightarrow>
    (('meta, 'x) mem, 'lm list_struct) state" where
  "AntreaInstallList_DeepCopyInto E inp =
     do {
       meta \<leftarrow> copy_list_meta E (ListMeta inp);
       items \<leftarrow> copy_slice install_arrays put_installs (zero_install (zero_meta E))
                 (AntreaInstall_DeepCopyInto E) (Items inp);
       ret (inp\<lparr>ListTypeMeta := ListTypeMeta inp, ListMeta := meta, Items := items\<rparr>)
     }"

definition AntreaInstallList_DeepCopy :: "('meta, 'lm, 'x) copy_env \<Rightarrow> 'lm list_struct option \<Rightarrow>
    (('meta, 'x) mem, 'lm list_struct option) state" where
  "AntreaInstallList_DeepCopy E p =
     (case p of
        None \<Rightarrow> ret None
      | Some inp \<Rightarrow> do { out \<leftarrow> AntreaInstallList_DeepCopyInto E inp; ret (Some out) })"

text \<open>An object of the scheme; None is the nil interface.\<close>

datatype ('meta, 'lm) runtime_object = InstallObject "'meta install_struct" | ListObject "'lm list_struct"

definition AntreaInstall_DeepCopyObject :: "('meta, 'lm, 'x) copy_env \<Rightarrow> 'meta install_struct option \<Rightarrow>
    (('meta, 'x) mem, ('meta, 'lm) runtime_object option) state" where
  "AntreaInstall_DeepCopyObject E p =
     do {
       c \<leftarrow> AntreaInstall_DeepCopy E p;
       ret (case c of Some x \<Rightarrow> Some (InstallObject x) | None \<Rightarrow> None)
     }"

definition AntreaInstallList_DeepCopyObject :: "('meta, 'lm, 'x) copy_env \<Rightarrow> 'lm list_struct option \<Rightarrow>
    (('meta, 'x) mem, ('meta, 'lm) runtime_object option) state" where
  "AntreaInstallList_DeepCopyObject E p =
     do {
       c \<leftarrow> AntreaInstallList_DeepCopy E p;
       ret (case c of Some x \<Rightarrow> Some (ListObject x) | None \<Rightarrow> None)
     }"

section \<open>Deep values and what they rest on\<close>

definition agree :: "nat set \<Rightarrow> ('meta, 'x) mem \<Rightarrow> ('meta, 'x) mem \<Rightarrow> bool" where
  "agree X m m' \<longleftrightarrow> (\<forall>a\<in>X. cond_arrays m' a = cond_arrays m a \<and> install_arrays m' a = install_arrays m a \<and>
     meta_cells m' a = meta_cells m a)"

definition extends :: "('meta, 'x) mem \<Rightarrow> ('meta, 'x) mem \<Rightarrow> bool" where
  "extends m m' \<longleftrightarrow> fresh m \<le> fresh m' \<and> agree {..<fresh m} m m'"

text \<open>
  What a type's values are made of: the deep value that is read through the references, and the
  addresses it rests on; a deep value changes only if one of these cells does.
\<close>

record ('meta, 'x, 'a, 'v) deep =
  deep_value :: "('meta, 'x) mem \<Rightarrow> 'a \<Rightarrow> 'v"
  rests_on :: "('meta, 'x) mem \<Rightarrow> 'a \<Rightarrow> nat set"

definition local_deep :: "('meta, 'x, 'a, 'v) deep \<Rightarrow> bool" where
  "local_deep D \<longleftrightarrow> (\<forall>x m m'. agree (rests_on D m x) m m' \<longrightarrow>
     deep_value D m' x = deep_value D m x \<and> rests_on D m' x = rests_on D m x)"

definition in_use :: "('meta, 'x, 'a, 'v) deep \<Rightarrow> ('meta, 'x) mem \<Rightarrow> 'a \<Rightarrow> bool" where
  "in_use D m x \<longleftrightarrow> rests_on D m x \<subseteq> {..<fresh m}"

text \<open>A deep copy: it changes no cell in use, its value is the same, and it rests on new cells only.\<close>

definition copied :: "('meta, 'x, 'a, 'v) deep \<Rightarrow> ('meta, 'x) mem \<Rightarrow> 'a \<Rightarrow> 'a \<Rightarrow> ('meta, 'x) mem \<Rightarrow> bool" where
  "copied D m x y m' \<longleftrightarrow> extends m m' \<and> deep_value D m' y = deep_value D m x \<and>
     rests_on D m' y \<subseteq> {fresh m..<fresh m'}"

definition deep_copies :: "('meta, 'x, 'a, 'v) deep \<Rightarrow> ('a \<Rightarrow> (('meta, 'x) mem, 'a) state) \<Rightarrow> bool" where
  "deep_copies D copy \<longleftrightarrow>
     (\<forall>x m y m'. in_use D m x \<longrightarrow> run_state (copy x) m = (y, m') \<longrightarrow> copied D m x y m')"

end
