(* ===== verification/Deep_Copy_Correct.thy ===== *)
theory Deep_Copy_Correct
  imports Deep_Copy
begin

text \<open>
  The generated copies are deep: same value, nothing in use is changed, nothing is shared. Copying a
  slice is treated once, for any kind of array, in the locale \<open>array_space\<close>.
\<close>

section \<open>Memories that agree\<close>

lemma agree_refl [simp]: "agree X m m"
  by (simp add: agree_def)

lemma agree_sub: "agree X m m' \<Longrightarrow> Y \<subseteq> X \<Longrightarrow> agree Y m m'"
  by (auto simp: agree_def)

lemma agree_trans: "agree X m m' \<Longrightarrow> agree X m' m'' \<Longrightarrow> agree X m m''"
  by (simp add: agree_def)

lemma agree_fresh [simp]: "agree X m (m\<lparr>fresh := n\<rparr>)"
  by (simp add: agree_def)

lemma extends_refl [simp]: "extends m m"
  by (simp add: extends_def)

lemma extends_agree: "extends m m' \<Longrightarrow> X \<subseteq> {..<fresh m} \<Longrightarrow> agree X m m'"
  by (auto simp: extends_def intro: agree_sub)

lemma extends_trans:
  assumes "extends m m'" "extends m' m''" shows "extends m m''"
proof -
  have "agree {..<fresh m} m' m''"
    using assms by (intro extends_agree [OF assms(2)]) (auto simp: extends_def)
  with assms show ?thesis by (auto simp: extends_def intro: agree_trans)
qed

lemma local_deepD:
  assumes "local_deep D" and "agree (rests_on D m x) m m'"
  shows "deep_value D m' x = deep_value D m x" and "rests_on D m' x = rests_on D m x"
  using assms by (auto simp: local_deep_def)

lemma in_use_extends:
  assumes "local_deep D" "extends m m'" "in_use D m x"
  shows "deep_value D m' x = deep_value D m x" and "rests_on D m' x = rests_on D m x" and "in_use D m' x"
proof -
  have a: "agree (rests_on D m x) m m'"
    using assms(2,3) by (intro extends_agree) (simp_all add: in_use_def)
  show "deep_value D m' x = deep_value D m x" "rests_on D m' x = rests_on D m x"
    using local_deepD [OF assms(1) a] .
  then show "in_use D m' x" using assms(2,3) by (auto simp: in_use_def extends_def)
qed

lemma copied_extends:
  assumes "local_deep D" "copied D m x y m'" "extends m' m''"
  shows "copied D m x y m''"
proof -
  have y: "in_use D m' y" using assms(2) by (auto simp: copied_def in_use_def)
  have f: "fresh m' \<le> fresh m''" using assms(3) by (simp add: extends_def)
  from assms(2) have "extends m m''" using extends_trans [OF _ assms(3)] by (simp add: copied_def)
  moreover have "rests_on D m' y \<subseteq> {fresh m..<fresh m''}"
    using assms(2) f by (auto simp: copied_def)
  ultimately show ?thesis
    using assms(2) in_use_extends [OF assms(1,3) y] by (simp add: copied_def)
qed

lemma deep_copiesD:
  "deep_copies D copy \<Longrightarrow> in_use D m x \<Longrightarrow> run_state (copy x) m = (y, m') \<Longrightarrow> copied D m x y m'"
  by (simp add: deep_copies_def)

text \<open>The copy of a value that was in use before the copy of another one.\<close>

lemma copied_later:
  assumes "local_deep D" "extends m0 m" "in_use D m0 x" "copied D m x y m'"
  shows "copied D m0 x y m'"
proof -
  note u = in_use_extends [OF assms(1-3)]
  have "fresh m0 \<le> fresh m" using assms(2) by (simp add: extends_def)
  with assms(2,4) u show ?thesis
    by (auto simp: copied_def intro: extends_trans)
qed

section \<open>Slices\<close>

definition slice_deep :: "(('meta, 'x) mem \<Rightarrow> nat \<Rightarrow> 'c list) \<Rightarrow> ('meta, 'x, 'c, 'v) deep \<Rightarrow>
    ('meta, 'x, slice, 'v list option) deep" where
  "slice_deep arrays D =
     \<lparr>deep_value = (\<lambda>m sl. case sl of NilSlice \<Rightarrow> None
        | Slice a off n \<Rightarrow> Some (map (\<lambda>i. deep_value D m (arrays m a ! (off + i))) [0..<n])),
      rests_on = (\<lambda>m sl. case sl of NilSlice \<Rightarrow> {}
        | Slice a off n \<Rightarrow> insert a (\<Union>i<n. rests_on D m (arrays m a ! (off + i))))\<rparr>"

locale array_space =
  fixes arrays :: "('meta, 'x) mem \<Rightarrow> nat \<Rightarrow> 'c list" and put :: "nat \<Rightarrow> 'c list \<Rightarrow> ('meta, 'x) mem \<Rightarrow> ('meta, 'x) mem"
  assumes arrays_put: "arrays (put a xs m) a' = (if a' = a then xs else arrays m a')"
    and put_agree: "a \<notin> X \<Longrightarrow> agree X m (put a xs m)"
    and put_fresh: "fresh (put a xs m) = fresh m"
    and arrays_agree: "agree X m m' \<Longrightarrow> a' \<in> X \<Longrightarrow> arrays m' a' = arrays m a'"
    and arrays_fresh: "arrays (m\<lparr>fresh := n\<rparr>) = arrays m"
begin

lemma slice_local:
  assumes "local_deep D"
  shows "local_deep (slice_deep arrays D)"
  unfolding local_deep_def
proof (intro allI impI)
  fix sl m m' assume ag: "agree (rests_on (slice_deep arrays D) m sl) m m'"
  show "deep_value (slice_deep arrays D) m' sl = deep_value (slice_deep arrays D) m sl \<and>
      rests_on (slice_deep arrays D) m' sl = rests_on (slice_deep arrays D) m sl"
  proof (cases sl)
    case (Slice a off n)
    have arr: "arrays m' a = arrays m a"
      by (rule arrays_agree [OF ag]) (simp add: slice_deep_def Slice)
    have "deep_value D m' (arrays m a ! (off + i)) = deep_value D m (arrays m a ! (off + i)) \<and>
        rests_on D m' (arrays m a ! (off + i)) = rests_on D m (arrays m a ! (off + i))" if "i < n" for i
    proof -
      have "agree (rests_on D m (arrays m a ! (off + i))) m m'"
        by (rule agree_sub [OF ag]) (use that in \<open>auto simp: slice_deep_def Slice\<close>)
      from local_deepD [OF assms this] show ?thesis by simp
    qed
    with arr Slice show ?thesis by (simp add: slice_deep_def)
  qed (simp add: slice_deep_def)
qed

definition filled :: "('meta, 'x, 'c, 'v) deep \<Rightarrow> ('meta, 'x) mem \<Rightarrow> (nat \<Rightarrow> 'c) \<Rightarrow> nat \<Rightarrow> nat \<Rightarrow> ('meta, 'x) mem \<Rightarrow> bool" where
  "filled D m0 xs n i m \<longleftrightarrow>
     extends m0 m \<and> fresh m0 < fresh m \<and> length (arrays m (fresh m0)) = n \<and>
     (\<forall>j<i. deep_value D m (arrays m (fresh m0) ! j) = deep_value D m0 (xs j) \<and>
        rests_on D m (arrays m (fresh m0) ! j) \<subseteq> {Suc (fresh m0)..<fresh m})"

lemma filled_step:
  assumes D: "local_deep D" "deep_copies D elem" and x: "in_use D m0 (xs i)" "i < n"
    and inv: "filled D m0 xs n i m" and run: "run_state (elem (xs i)) m = (y, m1)"
  shows "filled D m0 xs n (Suc i) (put (fresh m0) ((arrays m1 (fresh m0))[i := y]) m1)"
proof -
  let ?b = "fresh m0" and ?m2 = "put (fresh m0) ((arrays m1 (fresh m0))[i := y]) m1"
  have m: "extends m0 m" "?b < fresh m" "length (arrays m ?b) = n" using inv by (simp_all add: filled_def)
  note u = in_use_extends [OF D(1) m(1) x(1)]
  note c = deep_copiesD [OF D(2) u(3) run]
  then have e1: "extends m m1" and f: "fresh m \<le> fresh m1" by (simp_all add: copied_def extends_def)
  have arr1: "arrays m1 ?b = arrays m ?b"
    by (rule arrays_agree [of "{..<fresh m}"]) (use e1 m(2) in \<open>auto simp: extends_def\<close>)
  have "extends m0 ?m2"
    using extends_trans [OF m(1) e1] agree_trans [OF _ put_agree [of ?b "{..<fresh m0}"]]
    by (auto simp: extends_def put_fresh)
  moreover have later: "deep_value D ?m2 z = deep_value D m1 z \<and> rests_on D ?m2 z = rests_on D m1 z"
    if "rests_on D m1 z \<subseteq> {Suc ?b..<fresh m1}" for z
    using local_deepD [OF D(1) put_agree [of ?b "rests_on D m1 z" m1]] that by force
  have "deep_value D ?m2 (arrays ?m2 ?b ! j) = deep_value D m0 (xs j) \<and>
      rests_on D ?m2 (arrays ?m2 ?b ! j) \<subseteq> {Suc ?b..<fresh ?m2}" if "j < Suc i" for j
  proof (cases "j = i")
    case True
    have "{fresh m..<fresh m1} \<subseteq> {Suc ?b..<fresh m1}" using m(2) by auto
    with c have y: "rests_on D m1 y \<subseteq> {Suc ?b..<fresh m1}" "deep_value D m1 y = deep_value D m (xs i)"
      by (auto simp: copied_def)
    with True later [OF y(1)] u(1) m(3) x(2) arr1 show ?thesis
      by (simp add: arrays_put put_fresh)
  next
    case False
    with that have j: "j < i" by simp
    let ?z = "arrays m ?b ! j"
    have z: "deep_value D m ?z = deep_value D m0 (xs j)" "rests_on D m ?z \<subseteq> {Suc ?b..<fresh m}"
      using inv j by (simp_all add: filled_def)
    then have "in_use D m ?z" by (auto simp: in_use_def)
    note zu = in_use_extends [OF D(1) e1 this]
    have "rests_on D m1 ?z \<subseteq> {Suc ?b..<fresh m1}" using z(2) zu(2) f by auto
    with later [of ?z] zu(1) z(1) False arr1 show ?thesis
      by (simp add: arrays_put put_fresh)
  qed
  ultimately show ?thesis
    using m f arr1 by (simp add: filled_def arrays_put put_fresh)
qed

lemma copy_range_filled:
  assumes D: "local_deep D" "deep_copies D elem" and a: "a < fresh m0"
    and xs: "\<And>i. i < n \<Longrightarrow> in_use D m0 (arrays m0 a ! (off + i))"
  shows "filled D m0 (\<lambda>i. arrays m0 a ! (off + i)) n i m \<Longrightarrow> i + k = n \<Longrightarrow>
    run_state (copy_range arrays put elem a off (fresh m0) i k) m = (u, m') \<Longrightarrow>
    filled D m0 (\<lambda>i. arrays m0 a ! (off + i)) n n m'"
proof (induction k arbitrary: i m)
  case (Suc k)
  let ?x = "arrays m0 a ! (off + i)"
  have "arrays m a = arrays m0 a"
    by (rule arrays_agree [of "{..<fresh m0}"]) (use Suc.prems(1) a in \<open>auto simp: filled_def extends_def\<close>)
  moreover obtain y m1 where y: "run_state (elem ?x) m = (y, m1)" by fastforce
  ultimately have "run_state (copy_range arrays put elem a off (fresh m0) (Suc i) k)
      (put (fresh m0) ((arrays m1 (fresh m0))[i := y]) m1) = (u, m')"
    using Suc.prems(3) by simp
  moreover have "filled D m0 (\<lambda>i. arrays m0 a ! (off + i)) n (Suc i) (put (fresh m0) ((arrays m1 (fresh m0))[i := y]) m1)"
    by (rule filled_step [OF D xs _ Suc.prems(1) y]) (use Suc.prems(2) in simp_all)
  ultimately show ?case using Suc.IH Suc.prems(2) by simp
qed simp

lemma copy_slice_deep:
  assumes D: "local_deep D" "deep_copies D elem"
  shows "deep_copies (slice_deep arrays D) (copy_slice arrays put zero elem)"
  unfolding deep_copies_def
proof (intro allI impI)
  fix sl m0 y m' assume use: "in_use (slice_deep arrays D) m0 sl"
    and run: "run_state (copy_slice arrays put zero elem sl) m0 = (y, m')"
  show "copied (slice_deep arrays D) m0 sl y m'"
  proof (cases sl)
    case NilSlice
    with run show ?thesis by (simp add: copy_slice_def copied_def slice_deep_def)
  next
    case (Slice a off n)
    let ?xs = "\<lambda>i. arrays m0 a ! (off + i)"
    have a: "a < fresh m0" and xs: "\<And>i. i < n \<Longrightarrow> in_use D m0 (?xs i)"
      using use Slice by (auto simp: in_use_def slice_deep_def)
    let ?m = "put (fresh m0) (replicate n zero) (m0\<lparr>fresh := Suc (fresh m0)\<rparr>)"
    have "extends m0 ?m"
      using agree_trans [OF agree_fresh put_agree [of "fresh m0" "{..<fresh m0}"]]
      by (auto simp: extends_def put_fresh)
    then have start: "filled D m0 ?xs n 0 ?m" by (simp add: filled_def put_fresh arrays_put)
    obtain u where "run_state (copy_range arrays put elem a off (fresh m0) 0 n) ?m = (u, m')" and y: "y = Slice (fresh m0) 0 n"
      using run Slice by (auto simp: copy_slice_def make_array_def split: prod.splits)
    from copy_range_filled [OF D a xs start _ this(1)] have "filled D m0 ?xs n n m'" by simp
    moreover have "rests_on D m' z \<subseteq> {fresh m0..<fresh m'}" if "rests_on D m' z \<subseteq> {Suc (fresh m0)..<fresh m'}" for z
      using that by auto
    ultimately show ?thesis
      using y Slice by (simp add: copied_def slice_deep_def filled_def) blast
  qed
qed

end

interpretation cond_space: array_space cond_arrays put_conds
  by unfold_locales (auto simp: put_conds_def agree_def)

interpretation install_space: array_space install_arrays put_installs
  by unfold_locales (auto simp: put_installs_def agree_def)

section \<open>The API types\<close>

definition cond_deep :: "('meta, 'x, cond, cond) deep" where
  "cond_deep = \<lparr>deep_value = (\<lambda>_ c. c), rests_on = (\<lambda>_ _. {})\<rparr>"

definition status_deep :: "('meta, 'x, install_status, cond list option) deep" where
  "status_deep =
     \<lparr>deep_value = (\<lambda>m st. deep_value (slice_deep cond_arrays cond_deep) m (Conditions st)),
      rests_on = (\<lambda>m st. rests_on (slice_deep cond_arrays cond_deep) m (Conditions st))\<rparr>"

type_synonym 'v install_value = "(string \<times> string) \<times> 'v \<times> install_spec \<times> cond list option"

definition install_deep :: "('meta, 'x, 'meta, 'v) deep \<Rightarrow> ('meta, 'x, 'meta install_struct, 'v install_value) deep" where
  "install_deep DM =
     \<lparr>deep_value = (\<lambda>m i. (TypeMeta i, deep_value DM m (ObjectMeta i), Spec i, deep_value status_deep m (Status i))),
      rests_on = (\<lambda>m i. rests_on DM m (ObjectMeta i) \<union> rests_on status_deep m (Status i))\<rparr>"

definition list_deep :: "('meta, 'x, 'lm, 'u) deep \<Rightarrow> ('meta, 'x, 'meta, 'v) deep \<Rightarrow>
    ('meta, 'x, 'lm list_struct, (string \<times> string) \<times> 'u \<times> 'v install_value list option) deep" where
  "list_deep DL DM =
     \<lparr>deep_value = (\<lambda>m l. (ListTypeMeta l, deep_value DL m (ListMeta l),
        deep_value (slice_deep install_arrays (install_deep DM)) m (Items l))),
      rests_on = (\<lambda>m l. rests_on DL m (ListMeta l) \<union> rests_on (slice_deep install_arrays (install_deep DM)) m (Items l))\<rparr>"

text \<open>The documented behaviour of the copies of other packages.\<close>

definition copies_lawful :: "('meta, 'lm, 'x) copy_env \<Rightarrow> ('meta, 'x, 'lm, 'u) deep \<Rightarrow> ('meta, 'x, 'meta, 'v) deep \<Rightarrow> bool" where
  "copies_lawful E DL DM \<longleftrightarrow>
     deep_copies cond_deep (copy_condition E) \<and>
     local_deep DM \<and> deep_copies DM (copy_object_meta E) \<and>
     local_deep DL \<and> deep_copies DL (copy_list_meta E)"

text \<open>A struct of two parts that are copied one after the other.\<close>

lemma copied_pair:
  assumes local: "local_deep D1" "local_deep D2" and copies: "deep_copies D1 c1" "deep_copies D2 c2"
    and use: "in_use D1 m x1" "in_use D2 m x2"
    and run: "run_state (c1 x1) m = (y1, m1)" "run_state (c2 x2) m1 = (y2, m2)"
  shows "copied D1 m x1 y1 m2" and "copied D2 m x2 y2 m2"
proof -
  have 1: "copied D1 m x1 y1 m1" by (rule deep_copiesD [OF copies(1) use(1) run(1)])
  then have e: "extends m m1" by (simp add: copied_def)
  have 2: "copied D2 m1 x2 y2 m2"
    by (rule deep_copiesD [OF copies(2) in_use_extends(3) [OF local(2) e use(2)] run(2)])
  then show "copied D2 m x2 y2 m2" by (rule copied_later [OF local(2) e use(2)])
  show "copied D1 m x1 y1 m2"
    by (rule copied_extends [OF local(1) 1]) (use 2 in \<open>simp add: copied_def\<close>)
qed

lemma local_pair:
  "local_deep D1 \<Longrightarrow> local_deep D2 \<Longrightarrow> agree (rests_on D1 m x1 \<union> rests_on D2 m x2) m m' \<Longrightarrow>
   deep_value D1 m' x1 = deep_value D1 m x1 \<and> rests_on D1 m' x1 = rests_on D1 m x1 \<and>
   deep_value D2 m' x2 = deep_value D2 m x2 \<and> rests_on D2 m' x2 = rests_on D2 m x2"
  using local_deepD [of D1] local_deepD [of D2] agree_sub by (metis sup_ge1 sup_ge2)

lemma local_deepI:
  "(\<And>x m m'. agree (rests_on D m x) m m' \<Longrightarrow>
     deep_value D m' x = deep_value D m x \<and> rests_on D m' x = rests_on D m x) \<Longrightarrow> local_deep D"
  by (simp add: local_deep_def)

lemma cond_local: "local_deep cond_deep"
  by (simp add: local_deep_def cond_deep_def)

lemma status_local: "local_deep status_deep"
  by (rule local_deepI) (simp add: status_deep_def local_deepD [OF cond_space.slice_local [OF cond_local]])

lemma install_local:
  assumes "local_deep DM" shows "local_deep (install_deep DM)"
proof (rule local_deepI)
  fix x m m' assume "agree (rests_on (install_deep DM) m x) m m'"
  then have "agree (rests_on DM m (ObjectMeta x) \<union> rests_on status_deep m (Status x)) m m'"
    by (simp add: install_deep_def)
  from local_pair [OF assms status_local this]
  show "deep_value (install_deep DM) m' x = deep_value (install_deep DM) m x \<and>
      rests_on (install_deep DM) m' x = rests_on (install_deep DM) m x" by (simp add: install_deep_def)
qed

lemma list_local:
  assumes "local_deep DL" and "local_deep DM" shows "local_deep (list_deep DL DM)"
proof (rule local_deepI)
  fix x m m' assume "agree (rests_on (list_deep DL DM) m x) m m'"
  then have "agree (rests_on DL m (ListMeta x) \<union> rests_on (slice_deep install_arrays (install_deep DM)) m (Items x)) m m'"
    by (simp add: list_deep_def)
  from local_pair [OF assms(1) install_space.slice_local [OF install_local [OF assms(2)]] this]
  show "deep_value (list_deep DL DM) m' x = deep_value (list_deep DL DM) m x \<and>
      rests_on (list_deep DL DM) m' x = rests_on (list_deep DL DM) m x" by (simp add: list_deep_def)
qed

lemma status_copies:
  assumes "deep_copies cond_deep (copy_condition E)"
  shows "deep_copies status_deep (AntreaInstallStatus_DeepCopyInto E)"
  using cond_space.copy_slice_deep [OF cond_local assms, of zero_condition]
  by (auto simp: deep_copies_def in_use_def copied_def status_deep_def AntreaInstallStatus_DeepCopyInto_def
      split: prod.splits)

lemma install_copies:
  assumes "copies_lawful E DL DM"
  shows "deep_copies (install_deep DM) (AntreaInstall_DeepCopyInto E)"
  unfolding deep_copies_def
proof (intro allI impI)
  fix i m y m' assume use: "in_use (install_deep DM) m i"
    and run: "run_state (AntreaInstall_DeepCopyInto E i) m = (y, m')"
  have law: "local_deep DM" "deep_copies DM (copy_object_meta E)" "deep_copies cond_deep (copy_condition E)"
    using assms by (simp_all add: copies_lawful_def)
  obtain meta m1 where 1: "run_state (copy_object_meta E (ObjectMeta i)) m = (meta, m1)" by fastforce
  obtain st where 2: "run_state (AntreaInstallStatus_DeepCopyInto E (Status i)) m1 = (st, m')"
    and y: "y = i\<lparr>ObjectMeta := meta, Status := st\<rparr>"
    using run 1 by (auto simp: AntreaInstall_DeepCopyInto_def split: prod.splits)
  have "in_use DM m (ObjectMeta i)" "in_use status_deep m (Status i)"
    using use by (simp_all add: in_use_def install_deep_def)
  from copied_pair [OF law(1) status_local law(2) status_copies [OF law(3)] this 1 2] y
  show "copied (install_deep DM) m i y m'" by (simp add: copied_def install_deep_def)
qed

lemma list_copies:
  assumes "copies_lawful E DL DM"
  shows "deep_copies (list_deep DL DM) (AntreaInstallList_DeepCopyInto E)"
  unfolding deep_copies_def
proof (intro allI impI)
  fix l m y m' assume use: "in_use (list_deep DL DM) m l"
    and run: "run_state (AntreaInstallList_DeepCopyInto E l) m = (y, m')"
  have law: "local_deep DL" "deep_copies DL (copy_list_meta E)" "local_deep (install_deep DM)"
    using assms by (simp_all add: copies_lawful_def install_local)
  obtain meta m1 where 1: "run_state (copy_list_meta E (ListMeta l)) m = (meta, m1)" by fastforce
  obtain its where 2: "run_state (copy_slice install_arrays put_installs (zero_install (zero_meta E))
      (AntreaInstall_DeepCopyInto E) (Items l)) m1 = (its, m')" and y: "y = l\<lparr>ListMeta := meta, Items := its\<rparr>"
    using run 1 by (auto simp: AntreaInstallList_DeepCopyInto_def split: prod.splits)
  have "in_use DL m (ListMeta l)" "in_use (slice_deep install_arrays (install_deep DM)) m (Items l)"
    using use by (simp_all add: in_use_def list_deep_def)
  from copied_pair [OF law(1) install_space.slice_local [OF law(3)] law(2)
      install_space.copy_slice_deep [OF law(3) install_copies [OF assms]] this 1 2] y
  show "copied (list_deep DL DM) m l y m'" by (simp add: copied_def list_deep_def)
qed

text \<open>A deep copy and its original are independent.\<close>

lemma copied_independent:
  assumes "local_deep D" "in_use D m x" "copied D m x y m'"
  shows "deep_value D m' y = deep_value D m x \<and> deep_value D m' x = deep_value D m x \<and>
    (\<forall>m2. agree (- rests_on D m' y) m' m2 \<longrightarrow> deep_value D m2 x = deep_value D m x) \<and>
    (\<forall>m2. agree (- rests_on D m' x) m' m2 \<longrightarrow> deep_value D m2 y = deep_value D m x)"
proof -
  have c: "extends m m'" "deep_value D m' y = deep_value D m x" "rests_on D m' y \<subseteq> {fresh m..<fresh m'}"
    using assms(3) by (simp_all add: copied_def)
  note x = in_use_extends [OF assms(1) c(1) assms(2)]
  have "rests_on D m' x \<inter> rests_on D m' y = {}"
    using c(3) x(2) assms(2) by (force simp: in_use_def)
  then have "rests_on D m' x \<subseteq> - rests_on D m' y" "rests_on D m' y \<subseteq> - rests_on D m' x" by auto
  with c(2) x(1) show ?thesis
    using local_deepD(1) [OF assms(1) agree_sub] by metis
qed

text \<open>C27: The generated copies are deep: \<open>DeepCopyObject\<close> of a list of custom resources returns an object
  with the same value, nil slices staying nil, that shares no array with the original: whatever is later
  written to the cells the copy rests on, the original keeps its value, and the other way round. On a nil
  pointer it returns the nil interface and does nothing.\<close>

theorem deep_copy_independent:
  assumes "copies_lawful E DL DM" and "in_use (list_deep DL DM) m l"
    and "run_state (AntreaInstallList_DeepCopyObject E (Some l)) m = (r, m')"
  shows "(\<exists>y. r = Some (ListObject y) \<and>
      deep_value (list_deep DL DM) m' y = deep_value (list_deep DL DM) m l \<and>
      (\<forall>m2. agree (- rests_on (list_deep DL DM) m' y) m' m2 \<longrightarrow>
        deep_value (list_deep DL DM) m2 l = deep_value (list_deep DL DM) m l) \<and>
      (\<forall>m2. agree (- rests_on (list_deep DL DM) m' l) m' m2 \<longrightarrow>
        deep_value (list_deep DL DM) m2 y = deep_value (list_deep DL DM) m l)) \<and>
    run_state (AntreaInstallList_DeepCopyObject E None) m = (None, m)"
proof -
  have local: "local_deep (list_deep DL DM)"
    using assms(1) by (simp add: copies_lawful_def list_local)
  obtain y where y: "run_state (AntreaInstallList_DeepCopyInto E l) m = (y, m')" and r: "r = Some (ListObject y)"
    using assms(3) by (auto simp: AntreaInstallList_DeepCopyObject_def AntreaInstallList_DeepCopy_def split: prod.splits)
  have "copied (list_deep DL DM) m l y m'"
    by (rule deep_copiesD [OF list_copies [OF assms(1)] assms(2) y])
  from copied_independent [OF local assms(2) this] r show ?thesis
    by (simp add: AntreaInstallList_DeepCopyObject_def AntreaInstallList_DeepCopy_def)
qed

section \<open>A concrete memory\<close>

text \<open>Metadata that is a reference to one cell.\<close>

definition ref_meta_deep :: "(nat, string, nat, string) deep" where
  "ref_meta_deep = \<lparr>deep_value = (\<lambda>m a. meta_cells m a), rests_on = (\<lambda>m a. {a})\<rparr>"

definition ref_list_deep :: "(nat, string, unit, unit) deep" where
  "ref_list_deep = \<lparr>deep_value = (\<lambda>_ _. ()), rests_on = (\<lambda>_ _. {})\<rparr>"

definition ref_copies :: "(nat, unit, string) copy_env" where
  "ref_copies = \<lparr>copy_condition = State_Monad.return,
     copy_object_meta = (\<lambda>a. State (\<lambda>m. (fresh m,
       m\<lparr>fresh := Suc (fresh m), meta_cells := (meta_cells m)(fresh m := meta_cells m a)\<rparr>))),
     copy_list_meta = State_Monad.return, zero_meta = 0\<rparr>"

lemma ref_copies_lawful: "copies_lawful ref_copies ref_list_deep ref_meta_deep"
  by (auto simp: copies_lawful_def deep_copies_def copied_def local_deep_def cond_deep_def ref_copies_def
      ref_list_deep_def ref_meta_deep_def in_use_def agree_def extends_def)

definition ref_memory :: "(nat, string) mem" where
  "ref_memory = \<lparr>fresh = 3, cond_arrays = (\<lambda>_. [])(0 := [zero_condition]),
     install_arrays = (\<lambda>_. [])(1 := [\<lparr>TypeMeta = (''AntreaInstall'', ''v1''), ObjectMeta = 2,
       Spec = empty_install_spec, Status = \<lparr>Conditions = Slice 0 0 1\<rparr>\<rparr>]),
     meta_cells = (\<lambda>_. '''')(2 := ''antrea-install'')\<rparr>"

definition ref_list :: "unit list_struct" where
  "ref_list = \<lparr>ListTypeMeta = (''AntreaInstallList'', ''v1''), ListMeta = (), Items = Slice 1 0 1\<rparr>"

lemma deep_copy_independent_witness:
  "case run_state (AntreaInstallList_DeepCopyObject ref_copies (Some ref_list)) ref_memory of
     (Some (ListObject y), m') \<Rightarrow>
       snd (snd (deep_value (list_deep ref_list_deep ref_meta_deep) m' y)) =
         Some [((''AntreaInstall'', ''v1''), ''antrea-install'', empty_install_spec, Some [zero_condition])]
   | _ \<Rightarrow> False"
proof -
  obtain r m' where run: "run_state (AntreaInstallList_DeepCopyObject ref_copies (Some ref_list)) ref_memory = (r, m')"
    by fastforce
  have "in_use (list_deep ref_list_deep ref_meta_deep) ref_memory ref_list"
    by (auto simp: in_use_def list_deep_def ref_list_deep_def ref_meta_deep_def install_deep_def status_deep_def
        slice_deep_def cond_deep_def ref_list_def ref_memory_def)
  from deep_copy_independent [OF ref_copies_lawful this run] run show ?thesis
    by (auto simp: list_deep_def ref_list_deep_def ref_meta_deep_def install_deep_def status_deep_def
        slice_deep_def cond_deep_def ref_list_def ref_memory_def)
qed

end
