(* ===== verification/Spec2Isabelle.thy ===== *)
theory Spec2Isabelle
  imports Config_Properties Status_Properties Related_Properties Pod_Properties Publication_Bounds Controller_Properties
    Operator Recovery Concurrent_Operator Request_Bounds Startup_Properties Deep_Copy_Correct
begin

text \<open>
  A verification of the Antrea operator for Kubernetes and OpenShift (the Go code under \<open>src/\<close>).

  \<^bold>\<open>The program.\<close> The operator installs the Antrea network plugin from a custom resource,
  AntreaInstall. One reconciler fills defaults into the resource's configuration, validates it,
  renders the manifests and applies them; another one watches Antrea's DaemonSet and Deployment,
  recreates them when they are missing and publishes their condition. A status manager, shared by
  both, keeps the degraded levels and writes conditions to the ClusterOperator (OpenShift) and to
  the custom resource. The two reconcilers also share the two rendered workloads.

  \<^bold>\<open>The theories and the code.\<close>
  \<^item> \<open>Prelude\<close>: Go's errors, panics, maps, strings and times, the state-passing style with its
    two calculi (\<open>preserves\<close> for what a computation leaves alone, \<open>wp\<close> for weakest
    preconditions) and the rules that compare two runs.
  \<^item> \<open>Operator_Types\<close>: \<open>controllers/types\<close>, \<open>api/v1/antreainstall_types.go\<close>,
    \<open>internal/version\<close> and the fields the code uses of the cluster's objects.
  \<^item> \<open>Config\<close>, \<open>Config_Correct\<close>, \<open>Config_Properties\<close>: \<open>controllers/config/config.go\<close>,
    every function under its own name; the interface \<open>Config\<close> is the record \<open>config_impl\<close>
    and its contract the locale \<open>config_interface\<close>, interpreted on both platforms.
  \<^item> \<open>Status_Manager\<close>, \<open>Pod_Status\<close>: \<open>controllers/statusmanager\<close>. The record
    \<open>status_manager\<close> is the struct of that name; the interface \<open>Adaptor\<close> is the record
    \<open>adaptor\<close>, with the two instances \<open>StatusOc\<close> and \<open>StatusK8s\<close>.
  \<^item> \<open>Status_Correct\<close> (the retry helper; the locale \<open>status_adaptor\<close>, interpreted on each
    platform and on both), \<open>Status_Conditions\<close> (conditions as an abstract map),
    \<open>Pod_Correct\<close> (the loops against a specification by workload), and the properties in
    \<open>Status_Properties\<close>, \<open>Related_Properties\<close> and \<open>Pod_Properties\<close>.
  \<^item> \<open>Controller\<close>: \<open>controllers/antreainstall_controller.go\<close> and
    \<open>controllers/sharedinfo\<close>. The record \<open>reconciler\<close> extends the status manager's by
    the shared information and the remembered configurations. \<open>Pod_Controller\<close>:
    \<open>controllers/pod_controller.go\<close>, and the part of \<open>main.go\<close> that makes the components.
    \<open>Controller_Correct\<close> and \<open>Controller_Properties\<close> are their lemmas and properties.
  \<^item> \<open>Recovery\<close>: what a reconcile achieves when the cluster cooperates, from every state: which
    objects it applies, which pods it deletes, what it remembers and clears, and the two early returns
    after which it has done nothing. The writes that the cluster accepted are a history in its state.
  \<^item> \<open>Operator\<close>: the reachable states of the whole operator at a coarse grain, as steps of the
    environment, the AntreaInstall reconciler and the three parts of a pod reconcile.
  \<^item> \<open>Threads\<close>, \<open>Machine\<close>, \<open>Goroutines\<close>, \<open>Interleaving\<close>,
    \<open>Concurrent_Operator\<close>: the operator at the grain of single calls, reads, writes and mutex
    operations. \<open>Threads\<close> has programs of atomic steps and a weakest precondition under interference
    (the locale \<open>interference\<close>), \<open>Machine\<close> the steps of several workers, what holds of every
    machine of safe programs (the locale \<open>protected\<close>) and the end of every request.
    \<open>Goroutines\<close> is the code of both reconcilers again, cut into steps (the names end in
    \<open>_go\<close>), and that, run alone, it is the code of \<open>Controller\<close> and
    \<open>Pod_Controller\<close>. \<open>Interleaving\<close> interprets the locales on the operator's state and proves the
    programs safe, and that they remember valid configurations only; \<open>Concurrent_Operator\<close> has the
    system, its invariant and its properties; \<open>Request_Bounds\<close> bounds the steps of every request.
  \<^item> \<open>Startup\<close>, \<open>Startup_Properties\<close>: \<open>main.go\<close>, the methods \<open>SetupWithManager\<close>
    and \<open>api/v1/groupversion_info.go\<close>. The record \<open>program\<close> has what is outside, what the program
    prints and logs, the controllers that the manager was given and the objects that these point to;
    \<open>mgr.Start\<close> works on this state and has no other argument. \<open>operator_start\<close> (in
    \<open>Pod_Controller\<close>) makes the objects, the client of the cluster network operator included.
  \<^item> \<open>Deep_Copy\<close>, \<open>Deep_Copy_Correct\<close>: \<open>api/v1/zz_generated.deepcopy.go\<close>, over a memory in
    which slices are references; the locale \<open>array_space\<close> treats the copy of a slice once.
  \<^item> \<open>Publication_Bounds\<close>: that publications are well formed and bounded.
  \<^item> \<open>Reference_Lib\<close>, \<open>Reference_Cluster\<close>, \<open>Reference_Operator\<close>: concrete
    instances of what the model is parametric in. They model no code; the witnesses run on them.

  \<^bold>\<open>What is a parameter.\<close> Everything outside the repository: the YAML and JSON libraries, the
  Kubernetes clients, the REST mapper, the renderer and \<open>ApplyObject\<close> of the cluster network
  operator, \<open>SetControllerReference\<close>, the condition helpers of library-go, the retry helper
  of client-go and the clock. They are fields of \<open>cfg_lib\<close>, \<open>sm_env\<close> and
  \<open>ctl_env\<close>; calls with effects act on a state \<open>world\<close> of any type, so that every
  theorem holds for any cluster. What a theorem relies on of them is a named hypothesis:
  \<open>yaml_map_lawful\<close> (a map that is written and read keeps its keys, strings and integers),
  \<open>retry_lawful\<close> (the body runs at least once, again only after a conflict, and the last
  result is returned), \<open>conditions_lawful\<close> and \<open>set_idempotent\<close> (setting a condition
  makes it the one found for its type, and changes nothing if it is there), \<open>install_store\<close>,
  \<open>annotation_store\<close> (what the API server keeps), \<open>json_lawful\<close>, \<open>range_lawful\<close>,
  \<open>snapshot\<close> (the cluster and the clock stand still during one pass), \<open>reads_keep\<close> (reading
  a workload or the clock changes no custom resource), \<open>cooperative\<close> (the calls of a reconcile
  succeed, keep succeeding, and add to the history what they write and nothing else),
  \<open>renders_at_most\<close> (the size of the manifests), \<open>boot_lawful\<close> (a controller that was completed
  without an error is one more controller of the manager) and \<open>copies_lawful\<close> (the copies of other
  packages are deep).

  \<^bold>\<open>What the lemmas show.\<close> The properties, numbered in the texts before them, say of the
  configuration component what filling and validating do, that what is filled is accepted, and what
  the change tests report; of the status manager that it publishes the least degraded level, that
  conditions are combined as an abstract map, that the clean-up deletes only stale objects and
  forgets none, that a pass over the workloads implements its specification by workload and that the
  last seen states survive their annotation; of the reconcilers that they remember a configuration
  only after success, report every error, apply the objects in order, restart pods only for changed
  texts, record the rendered workloads and recreate exactly what is missing, and that one reconcile on a
  cluster that cooperates either finds its resource word for word the remembered one, and does nothing, or
  applies what has to be applied, remembers it and clears both configuration levels; and of the whole
  operator that under every interleaving the pod reconciler never panics, no worker deadlocks and every
  request ends after a bounded number of steps, that the remembered configuration is always valid, that the
  manager is started with both controllers registered and on a start of that operator only, and with which
  status and error the program ends. Some properties state behaviour that departs from the code's intention: panics on certain
  configurations, changes that go unnoticed, conditions that are replaced, and what a restart of the
  operator forgets.

  \<^bold>\<open>Bounds.\<close> All loops of the code run over slices and are structural recursions; no fuel is
  used. Goroutines are well-founded programs of steps; the number of steps of a request is at most a constant
  and two for each rendered object. The number of retries is left open by \<open>retry_lawful\<close>. Counters, generations, prefix
  lengths and the MTU are words of the code's width, compared as signed numbers where the code's
  types are signed; durations saturate as in Go.

  \<^bold>\<open>What is not modelled.\<close> The log output of the controllers (that of \<open>main\<close> is); the inside of the libraries, so also the event delivery, the
  work queues and the leader election of controller-runtime: a worker may get any request at any time,
  one after the other, as with the one worker that the code registers for each controller. The manifests
  and deployment files, which are data. A method under the status manager's mutex is one step, as
  no other holder of the mutex enters it; the steps of the machine change the outside before and after it.
  Changes of the outside between two calls of such a method need no step of their own: the calls are any
  functions on a \<open>world\<close> of any type, so they may themselves carry out changes that the world has in
  store, and the theorems on the machine assume nothing of the calls but \<open>retry_lawful\<close>. The decoding of an updated
  ClusterOperator by the client may reuse the memory of the related objects; the model has values there.
  A panic of a reconciler ends it where it stands; what the process does then is not followed.
\<close>

end
